(* ===== verification/Prelude.thy ===== *)
theory Prelude
  imports Main
begin

text \<open>
  The shared foundation of the IdentityMesh development: Go's \<open>error\<close> values, computations that
  may fail and change a state (the shape of every Go method that returns \<open>(T, error)\<close>), their
  weakest preconditions, and the generic invariant and frame rules that the component theories
  instantiate.
\<close>

named_theorems wp_simps \<open>weakest precondition equations of the computation combinators\<close>
named_theorems keeps_intros \<open>rules that establish that a computation keeps a state relation\<close>

section \<open>Errors\<close>

text \<open>
  A Go \<open>error\<close>. \<open>ErrNoRows\<close> is the sentinel \<open>pgx.ErrNoRows\<close>, \<open>DBError\<close> any other error of
  the database driver with its text, \<open>CtxErr\<close> the error of a cancelled context, and \<open>Errorf\<close>
  an error made by \<open>errors.New\<close> or \<open>fmt.Errorf\<close>.
\<close>

datatype error = ErrNoRows | DBError string | CtxErr | Errorf string

primrec error_text :: "error \<Rightarrow> string" where
  "error_text ErrNoRows = ''no rows in result set''"
| "error_text (DBError s) = s"
| "error_text CtxErr = ''context canceled''"
| "error_text (Errorf s) = s"

section \<open>Computations\<close>

text \<open>
  A method that reads and changes a state and returns \<open>(value, error)\<close>: the state after it is
  part of the result also when it fails, because Go does not undo what happened before an error.
\<close>

type_synonym ('s, 'a) comp = "'s \<Rightarrow> (error + 'a) \<times> 's"

definition ret :: "'a \<Rightarrow> ('s, 'a) comp" where
  "ret x s = (Inr x, s)"

definition fail :: "error \<Rightarrow> ('s, 'a) comp" where
  "fail e s = (Inl e, s)"

text \<open>\<open>x, err := m(); if err != nil { return err }; k(x)\<close>\<close>

definition bnd :: "('s, 'a) comp \<Rightarrow> ('a \<Rightarrow> ('s, 'b) comp) \<Rightarrow> ('s, 'b) comp" where
  "bnd m k s = (case m s of (Inl e, t) \<Rightarrow> (Inl e, t) | (Inr x, t) \<Rightarrow> k x t)"

text \<open>\<open>x, err := m()\<close> with both results inspected by the code that follows.\<close>

definition attempt :: "('s, 'a) comp \<Rightarrow> ('s, error + 'a) comp" where
  "attempt m s = (case m s of (r, t) \<Rightarrow> (Inr r, t))"

text \<open>\<open>_, _ = m()\<close>: the error is discarded.\<close>

definition ignore :: "('s, 'a) comp \<Rightarrow> ('s, unit) comp" where
  "ignore m s = (Inr (), snd (m s))"

text \<open>\<open>for _, x := range xs { acc, err = f(acc, x); if err != nil { return err } }\<close>\<close>

fun fold_comp :: "('b \<Rightarrow> 'a \<Rightarrow> ('s, 'b) comp) \<Rightarrow> 'b \<Rightarrow> 'a list \<Rightarrow> ('s, 'b) comp" where
  "fold_comp f acc [] = ret acc"
| "fold_comp f acc (x # xs) = bnd (f acc x) (\<lambda>acc'. fold_comp f acc' xs)"

definition for_each :: "('a \<Rightarrow> ('s, unit) comp) \<Rightarrow> 'a list \<Rightarrow> ('s, unit) comp" where
  "for_each f xs = fold_comp (\<lambda>_ x. f x) () xs"

definition liftE :: "error + 'a \<Rightarrow> ('s, 'a) comp" where
  "liftE r s = (r, s)"

definition get_state :: "('s, 's) comp" where
  "get_state s = (Inr s, s)"

definition modify :: "('s \<Rightarrow> 's) \<Rightarrow> ('s, unit) comp" where
  "modify f s = (Inr (), f s)"

section \<open>Weakest preconditions\<close>

text \<open>
  \<open>wp m Q E s\<close>: started in \<open>s\<close>, the computation \<open>m\<close> ends in a state that satisfies \<open>Q x\<close>
  if it returns \<open>x\<close>, and \<open>E e\<close> if it returns the error \<open>e\<close>. Every computation ends.
\<close>

definition wp :: "('s, 'a) comp \<Rightarrow> ('a \<Rightarrow> 's \<Rightarrow> bool) \<Rightarrow> (error \<Rightarrow> 's \<Rightarrow> bool) \<Rightarrow> 's \<Rightarrow> bool" where
  "wp m Q E s = (case m s of (Inl e, t) \<Rightarrow> E e t | (Inr x, t) \<Rightarrow> Q x t)"

lemma wp_ret [wp_simps]: "wp (ret x) Q E s = Q x s"
  by (simp add: wp_def ret_def)

lemma wp_fail [wp_simps]: "wp (fail e) Q E s = E e s"
  by (simp add: wp_def fail_def)

lemma wp_bnd [wp_simps]: "wp (bnd m k) Q E s = wp m (\<lambda>x. wp (k x) Q E) E s"
  by (simp add: wp_def bnd_def split: prod.split sum.split)

lemma wp_bndI: "wp m (\<lambda>x. wp (k x) Q E) E s \<Longrightarrow> wp (bnd m k) Q E s"
  by (simp add: wp_bnd)

lemma wp_attempt [wp_simps]:
  "wp (attempt m) Q E s = wp m (\<lambda>x. Q (Inr x)) (\<lambda>e. Q (Inl e)) s"
  by (simp add: wp_def attempt_def split: prod.split sum.split)

lemma wp_ignore [wp_simps]: "wp (ignore m) Q E s = wp m (\<lambda>_. Q ()) (\<lambda>_. Q ()) s"
  by (simp add: wp_def ignore_def split: prod.split sum.split)

lemma wp_liftE [wp_simps]:
  "wp (liftE r) Q E s = (case r of Inl e \<Rightarrow> E e s | Inr x \<Rightarrow> Q x s)"
  by (simp add: wp_def liftE_def)

lemma wp_get_state [wp_simps]: "wp get_state Q E s = Q s s"
  by (simp add: wp_def get_state_def)

lemma wp_modify [wp_simps]: "wp (modify f) Q E s = Q () (f s)"
  by (simp add: wp_def modify_def)

lemma wp_if [wp_simps]:
  "wp (if b then m else n) Q E s = (if b then wp m Q E s else wp n Q E s)"
  by simp

lemma wp_case_option [wp_simps]:
  "wp (case x of None \<Rightarrow> m | Some y \<Rightarrow> k y) Q E s =
     (case x of None \<Rightarrow> wp m Q E s | Some y \<Rightarrow> wp (k y) Q E s)"
  by (cases x) simp_all

lemma wp_case_sum [wp_simps]:
  "wp (case x of Inl a \<Rightarrow> m a | Inr b \<Rightarrow> k b) Q E s =
     (case x of Inl a \<Rightarrow> wp (m a) Q E s | Inr b \<Rightarrow> wp (k b) Q E s)"
  by (cases x) simp_all

lemma wp_case_bool [wp_simps]:
  "wp (case b of True \<Rightarrow> m | False \<Rightarrow> n) Q E s = (if b then wp m Q E s else wp n Q E s)"
  by (cases b) simp_all

lemma wp_case_prod [wp_simps]:
  "wp (case x of (a, b) \<Rightarrow> m a b) Q E s = (case x of (a, b) \<Rightarrow> wp (m a b) Q E s)"
  by (cases x) simp

lemma wp_mono:
  assumes "wp m Q E s"
    and "\<And>x t. Q x t \<Longrightarrow> Q' x t" and "\<And>e t. E e t \<Longrightarrow> E' e t"
  shows "wp m Q' E' s"
  using assms by (simp add: wp_def split: prod.splits sum.splits)

text \<open>Sequential composition over an intermediate assertion.\<close>

lemma wp_seqI:
  assumes "wp m R E s" and "\<And>x t. R x t \<Longrightarrow> wp (k x) Q E t"
  shows "wp (bnd m k) Q E s"
  by (rule wp_bndI, rule wp_mono [OF assms(1)]) (rule assms(2))

lemma wp_conj:
  "wp m Q E s \<Longrightarrow> wp m Q' E' s \<Longrightarrow> wp m (\<lambda>x t. Q x t \<and> Q' x t) (\<lambda>e t. E e t \<and> E' e t) s"
  by (simp add: wp_def split: prod.splits sum.splits)

lemma wp_InrD: "wp m Q E s \<Longrightarrow> m s = (Inr x, t) \<Longrightarrow> Q x t"
  by (simp add: wp_def)

lemma wp_InlD: "wp m Q E s \<Longrightarrow> m s = (Inl e, t) \<Longrightarrow> E e t"
  by (simp add: wp_def)

lemma wpI:
  assumes "\<And>x t. m s = (Inr x, t) \<Longrightarrow> Q x t" and "\<And>e t. m s = (Inl e, t) \<Longrightarrow> E e t"
  shows "wp m Q E s"
  using assms by (auto simp: wp_def split: prod.splits sum.splits)

text \<open>The loop rule: an invariant on the accumulator and the state, indexed by what remains.\<close>

lemma wp_fold_comp:
  assumes start: "I acc s xs"
    and step: "\<And>acc s x ys. I acc s (x # ys) \<Longrightarrow> wp (f acc x) (\<lambda>acc' s'. I acc' s' ys) E s"
  shows "wp (fold_comp f acc xs) (\<lambda>acc' s'. I acc' s' []) E s"
  using start
proof (induction xs arbitrary: acc s)
  case Nil
  then show ?case by (simp add: wp_ret)
next
  case (Cons x xs)
  have "wp (f acc x) (\<lambda>acc' s'. I acc' s' xs) E s"
    by (rule step) (rule Cons.prems)
  then have "wp (f acc x) (\<lambda>acc'. wp (fold_comp f acc' xs) (\<lambda>acc' s'. I acc' s' []) E) E s"
    by (rule wp_mono) (auto intro: Cons.IH)
  then show ?case by (simp add: wp_bnd)
qed

lemma bnd_InrE:
  assumes "bnd m k s = (Inr y, u)"
  obtains x t where "m s = (Inr x, t)" and "k x t = (Inr y, u)"
  using assms by (auto simp: bnd_def split: prod.splits sum.splits)

section \<open>State relations kept by a computation\<close>

text \<open>
  \<open>keeps R m\<close>: whatever \<open>m\<close> returns, the state after it is related by \<open>R\<close> to the state
  before. For a reflexive and transitive relation this is compositional, which the locale
  below proves once; the component theories interpret it for their frame conditions (other
  tenants' rows untouched, links never rewritten, accounts preserved, ...).
\<close>

definition keeps :: "('s \<Rightarrow> 's \<Rightarrow> bool) \<Rightarrow> ('s, 'a) comp \<Rightarrow> bool" where
  "keeps R m \<longleftrightarrow> (\<forall>s. R s (snd (m s)))"

lemma keepsI: "(\<And>s. R s (snd (m s))) \<Longrightarrow> keeps R m"
  by (simp add: keeps_def)

lemma keepsD: "keeps R m \<Longrightarrow> m s = (r, t) \<Longrightarrow> R s t"
  by (metis keeps_def snd_conv)

lemma keeps_wp: "keeps R m \<Longrightarrow> wp m (\<lambda>_. R s) (\<lambda>_. R s) s"
  by (auto simp: wp_def dest: keepsD split: prod.splits sum.splits)

locale state_frame =
  fixes R :: "'s \<Rightarrow> 's \<Rightarrow> bool"
  assumes frame_refl: "R s s"
    and frame_trans: "R s t \<Longrightarrow> R t u \<Longrightarrow> R s u"
begin

lemma keeps_ret: "keeps R (ret x)"
  by (simp add: keeps_def ret_def frame_refl)

lemma keeps_fail: "keeps R (fail e)"
  by (simp add: keeps_def fail_def frame_refl)

lemma keeps_liftE: "keeps R (liftE r)"
  by (simp add: keeps_def liftE_def frame_refl)

lemma keeps_get_state: "keeps R get_state"
  by (simp add: keeps_def get_state_def frame_refl)

lemma keeps_bnd:
  assumes "keeps R m" and "\<And>x. keeps R (k x)"
  shows "keeps R (bnd m k)"
proof (rule keepsI)
  fix s
  obtain r t where m: "m s = (r, t)" by (cases "m s")
  have st: "R s t" using assms(1) m by (rule keepsD)
  show "R s (snd (bnd m k s))"
  proof (cases r)
    case (Inl e)
    with m st show ?thesis by (simp add: bnd_def)
  next
    case (Inr x)
    have "R t (snd (k x t))" using assms(2) by (simp add: keeps_def)
    with st have "R s (snd (k x t))" by (rule frame_trans)
    with m Inr show ?thesis by (simp add: bnd_def)
  qed
qed

lemma keeps_attempt: "keeps R m \<Longrightarrow> keeps R (attempt m)"
  by (simp add: keeps_def attempt_def split: prod.split) (metis snd_conv)

lemma keeps_ignore: "keeps R m \<Longrightarrow> keeps R (ignore m)"
  by (simp add: keeps_def ignore_def)

lemma keeps_fold_comp:
  assumes "\<And>acc x. keeps R (f acc x)"
  shows "keeps R (fold_comp f acc xs)"
proof (induction xs arbitrary: acc)
  case Nil
  show ?case by (simp add: keeps_ret)
next
  case (Cons x xs)
  show ?case unfolding fold_comp.simps
    by (rule keeps_bnd [OF assms Cons.IH])
qed

lemma keeps_fold_mem:
  assumes "\<And>acc x. x \<in> set xs \<Longrightarrow> keeps R (f acc x)"
  shows "keeps R (fold_comp f acc xs)"
  using assms
proof (induction xs arbitrary: acc)
  case Nil
  show ?case by (simp add: keeps_ret)
next
  case (Cons x xs)
  then show ?case unfolding fold_comp.simps by (intro keeps_bnd) auto
qed

lemma keeps_for_each: "(\<And>x. keeps R (f x)) \<Longrightarrow> keeps R (for_each f xs)"
  unfolding for_each_def by (rule keeps_fold_comp)

lemma keeps_modify: "(\<And>s. R s (f s)) \<Longrightarrow> keeps R (modify f)"
  by (simp add: keeps_def modify_def)

lemma keeps_if: "(b \<Longrightarrow> keeps R m) \<Longrightarrow> (\<not> b \<Longrightarrow> keeps R n) \<Longrightarrow> keeps R (if b then m else n)"
  by simp

lemma keeps_case_option:
  "keeps R m \<Longrightarrow> (\<And>y. keeps R (k y)) \<Longrightarrow> keeps R (case x of None \<Rightarrow> m | Some y \<Rightarrow> k y)"
  by (cases x) simp_all

lemma keeps_case_sum:
  "(\<And>a. keeps R (m a)) \<Longrightarrow> (\<And>b. keeps R (k b)) \<Longrightarrow>
     keeps R (case x of Inl a \<Rightarrow> m a | Inr b \<Rightarrow> k b)"
  by (cases x) simp_all

lemma keeps_case_bool:
  "keeps R m \<Longrightarrow> keeps R n \<Longrightarrow> keeps R (case b of True \<Rightarrow> m | False \<Rightarrow> n)"
  by (cases b) simp_all

lemma keeps_case_prod:
  "(\<And>a b. keeps R (m a b)) \<Longrightarrow> keeps R (case x of (a, b) \<Rightarrow> m a b)"
  by (cases x) simp

lemma keeps_case_list:
  "keeps R m \<Longrightarrow> (\<And>y ys. keeps R (k y ys)) \<Longrightarrow> keeps R (case xs of [] \<Rightarrow> m | y # ys \<Rightarrow> k y ys)"
  by (cases xs) simp_all

lemmas keeps_combinators =
  keeps_ret keeps_fail keeps_liftE keeps_get_state keeps_bnd keeps_attempt keeps_ignore
  keeps_fold_comp keeps_for_each keeps_if keeps_case_option keeps_case_sum keeps_case_prod
  keeps_case_bool keeps_case_list

end

section \<open>Step relations\<close>

text \<open>
  An invariant of a step relation, and the facts of one state that every later state keeps. The
  components with interleaved steps (the job queue, the worker pool, the lifecycle) interpret it.
\<close>

locale step_invariant =
  fixes step :: "'s \<Rightarrow> 's \<Rightarrow> bool" and inv :: "'s \<Rightarrow> bool"
  assumes inv_step: "inv s \<Longrightarrow> step s t \<Longrightarrow> inv t"
begin

lemma inv_steps: "step\<^sup>*\<^sup>* s t \<Longrightarrow> inv s \<Longrightarrow> inv t"
  by (induction rule: rtranclp_induct) (auto intro: inv_step)

lemma stable_steps:
  assumes "step\<^sup>*\<^sup>* s t" and "inv s" and "P s"
    and "\<And>u v. inv u \<Longrightarrow> P u \<Longrightarrow> step u v \<Longrightarrow> P v"
  shows "P t"
proof -
  from assms(1) have "inv t \<and> P t"
  proof (induction rule: rtranclp_induct)
    case base
    then show ?case using assms(2,3) by simp
  next
    case (step u v)
    then show ?case using assms(4) inv_step by blast
  qed
  then show ?thesis by simp
qed

end

section \<open>List lemmas\<close>

lemma filter_map_same:
  "(\<And>x. x \<in> set xs \<Longrightarrow> P (f x) = P x) \<Longrightarrow> (\<And>x. x \<in> set xs \<Longrightarrow> P x \<Longrightarrow> f x = x) \<Longrightarrow>
     filter P (map f xs) = filter P xs"
  by (induction xs) auto

lemma find_append:
  "List.find P (xs @ ys) = (case List.find P xs of None \<Rightarrow> List.find P ys | Some x \<Rightarrow> Some x)"
  by (induction xs) auto

lemma find_map: "List.find P (map g xs) = map_option g (List.find (\<lambda>x. P (g x)) xs)"
  by (induction xs) auto

lemma find_NoneI: "(\<And>x. x \<in> set xs \<Longrightarrow> \<not> P x) \<Longrightarrow> List.find P xs = None"
  by (simp add: find_None_iff)

lemma find_SomeD: "List.find P xs = Some x \<Longrightarrow> x \<in> set xs \<and> P x"
  by (auto simp: find_Some_iff)

lemma find_cong_filter: "filter P xs = filter P ys \<Longrightarrow> List.find P xs = List.find P ys"
proof -
  have "List.find P zs = (case filter P zs of [] \<Rightarrow> None | z # _ \<Rightarrow> Some z)" for zs
    by (induction zs) auto
  moreover assume "filter P xs = filter P ys"
  ultimately show ?thesis by simp
qed

end
