(* ===== verification/GoStrings.thy ===== *)
theory GoStrings
  imports Prelude
begin

text \<open>
  The parts of Go's \<open>strings\<close> and \<open>strconv\<close> packages that IdentityMesh uses. A Go string is a
  byte sequence, here a \<open>string\<close> (a \<open>char list\<close>). The case and white space operations are
  modelled on ASCII: on bytes above 127, which Go decodes as UTF-8, they are the identity here.
\<close>

section \<open>Characters\<close>

definition lower_char :: "char \<Rightarrow> char" where
  "lower_char c = (if 65 \<le> (of_char c :: nat) \<and> (of_char c :: nat) \<le> 90
     then char_of ((of_char c :: nat) + 32) else c)"

definition upper_char :: "char \<Rightarrow> char" where
  "upper_char c = (if 97 \<le> (of_char c :: nat) \<and> (of_char c :: nat) \<le> 122
     then char_of ((of_char c :: nat) - 32) else c)"

definition is_space :: "char \<Rightarrow> bool" where
  "is_space c = (let n = (of_char c :: nat) in 9 \<le> n \<and> n \<le> 13 \<or> n = 32)"

lemma of_char_less_256 [simp]: "(of_char c :: nat) < 256"
  by (metis of_char_mod_256 mod_less_divisor zero_less_numeral)

lemma of_char_char_of [simp]: "n < 256 \<Longrightarrow> of_char (char_of (n :: nat)) = n"
  by simp

lemma of_char_lower_char:
  "(of_char (lower_char c) :: nat) =
     (if 65 \<le> (of_char c :: nat) \<and> (of_char c :: nat) \<le> 90 then of_char c + 32 else of_char c)"
  by (simp add: lower_char_def)

lemma of_char_upper_char:
  "(of_char (upper_char c) :: nat) =
     (if 97 \<le> (of_char c :: nat) \<and> (of_char c :: nat) \<le> 122 then of_char c - 32 else of_char c)"
  by (auto simp: upper_char_def)

lemma lower_char_idem [simp]: "lower_char (lower_char c) = lower_char c"
  using of_char_lower_char [of c] by (auto simp: lower_char_def [of "lower_char c"])

lemma is_space_lower_char [simp]: "is_space (lower_char c) = is_space c"
  by (auto simp: is_space_def of_char_lower_char Let_def)

lemma lower_char_eq_at [simp]: "lower_char c = CHR ''@'' \<longleftrightarrow> c = CHR ''@''"
proof -
  have "lower_char c = CHR ''@'' \<longleftrightarrow> (of_char (lower_char c) :: nat) = of_char CHR ''@''"
    by (rule of_char_eq_iff [symmetric])
  also have "\<dots> \<longleftrightarrow> (of_char c :: nat) = of_char CHR ''@''"
    by (simp add: of_char_lower_char)
  also have "\<dots> \<longleftrightarrow> c = CHR ''@''" by (rule of_char_eq_iff)
  finally show ?thesis .
qed

section \<open>Package strings\<close>

definition ToLower :: "string \<Rightarrow> string" where
  "ToLower s = map lower_char s"

definition ToUpper :: "string \<Rightarrow> string" where
  "ToUpper s = map upper_char s"

definition EqualFold :: "string \<Rightarrow> string \<Rightarrow> bool" where
  "EqualFold s t \<longleftrightarrow> ToLower s = ToLower t"

definition TrimLeftFunc :: "(char \<Rightarrow> bool) \<Rightarrow> string \<Rightarrow> string" where
  "TrimLeftFunc p s = dropWhile p s"

definition TrimRightFunc :: "(char \<Rightarrow> bool) \<Rightarrow> string \<Rightarrow> string" where
  "TrimRightFunc p s = rev (dropWhile p (rev s))"

definition TrimSpace :: "string \<Rightarrow> string" where
  "TrimSpace s = TrimRightFunc is_space (TrimLeftFunc is_space s)"

definition TrimLeft :: "string \<Rightarrow> string \<Rightarrow> string" where
  "TrimLeft s cutset = TrimLeftFunc (\<lambda>c. c \<in> set cutset) s"

definition TrimRight :: "string \<Rightarrow> string \<Rightarrow> string" where
  "TrimRight s cutset = TrimRightFunc (\<lambda>c. c \<in> set cutset) s"

definition Trim :: "string \<Rightarrow> string \<Rightarrow> string" where
  "Trim s cutset = TrimRight (TrimLeft s cutset) cutset"

definition HasPrefix :: "string \<Rightarrow> string \<Rightarrow> bool" where
  "HasPrefix s p \<longleftrightarrow> take (length p) s = p"

definition HasSuffix :: "string \<Rightarrow> string \<Rightarrow> bool" where
  "HasSuffix s p \<longleftrightarrow> length p \<le> length s \<and> drop (length s - length p) s = p"

definition TrimPrefix :: "string \<Rightarrow> string \<Rightarrow> string" where
  "TrimPrefix s p = (if HasPrefix s p then drop (length p) s else s)"

definition TrimSuffix :: "string \<Rightarrow> string \<Rightarrow> string" where
  "TrimSuffix s p = (if HasSuffix s p then take (length s - length p) s else s)"

fun Contains :: "string \<Rightarrow> string \<Rightarrow> bool" where
  "Contains [] sub = (sub = [])"
| "Contains (c # s) sub = (HasPrefix (c # s) sub \<or> Contains s sub)"

definition ContainsAny :: "string \<Rightarrow> string \<Rightarrow> bool" where
  "ContainsAny s chars = list_ex (\<lambda>c. c \<in> set chars) s"

text \<open>\<open>strings.Count\<close>, \<open>strings.SplitN(s, sep, 2)\<close> and \<open>strings.Split\<close> for a one-character separator.\<close>

definition Count :: "string \<Rightarrow> char \<Rightarrow> nat" where
  "Count s c = count_list s c"

definition SplitN2 :: "string \<Rightarrow> char \<Rightarrow> string list" where
  "SplitN2 s c = (if c \<in> set s
     then [takeWhile (\<lambda>x. x \<noteq> c) s, tl (dropWhile (\<lambda>x. x \<noteq> c) s)] else [s])"

fun Split :: "string \<Rightarrow> char \<Rightarrow> string list" where
  "Split [] c = [[]]"
| "Split (x # s) c = (if x = c then [] # Split s c
     else (case Split s c of [] \<Rightarrow> [[x]] | w # ws \<Rightarrow> (x # w) # ws))"

fun Join :: "string list \<Rightarrow> string \<Rightarrow> string" where
  "Join [] sep = []"
| "Join [s] sep = s"
| "Join (s # t # ss) sep = s @ sep @ Join (t # ss) sep"

section \<open>Laws\<close>

lemma ToLower_idem [simp]: "ToLower (ToLower s) = ToLower s"
  by (simp add: ToLower_def)

lemma ToLower_Nil_iff [simp]: "ToLower s = [] \<longleftrightarrow> s = []"
  by (simp add: ToLower_def)

lemma EqualFold_refl [simp]: "EqualFold s s"
  by (simp add: EqualFold_def)

lemma EqualFold_sym: "EqualFold s t \<longleftrightarrow> EqualFold t s"
  by (auto simp: EqualFold_def)

lemma EqualFold_trans: "EqualFold s t \<Longrightarrow> EqualFold t u \<Longrightarrow> EqualFold s u"
  by (simp add: EqualFold_def)

lemma TrimRightFunc_append:
  "TrimRightFunc p (s @ [c]) = (if p c then TrimRightFunc p s else s @ [c])"
  by (simp add: TrimRightFunc_def)

lemma set_TrimRightFunc: "set (TrimRightFunc p s) \<subseteq> set s"
  by (auto simp: TrimRightFunc_def dest: set_dropWhileD)

lemma set_TrimSpace: "set (TrimSpace s) \<subseteq> set s"
  by (auto simp: TrimSpace_def TrimRightFunc_def TrimLeftFunc_def dest!: set_dropWhileD)

lemma hd_TrimLeftFunc: "TrimLeftFunc p s \<noteq> [] \<Longrightarrow> \<not> p (hd (TrimLeftFunc p s))"
  by (simp add: TrimLeftFunc_def hd_dropWhile)

lemma last_TrimRightFunc: "TrimRightFunc p s \<noteq> [] \<Longrightarrow> \<not> p (last (TrimRightFunc p s))"
  by (simp add: TrimRightFunc_def last_rev hd_dropWhile)

lemma hd_TrimRightFunc: "TrimRightFunc p s \<noteq> [] \<Longrightarrow> hd (TrimRightFunc p s) = hd s"
proof -
  assume ne: "TrimRightFunc p s \<noteq> []"
  have "s = TrimRightFunc p s @ rev (takeWhile p (rev s))"
    unfolding TrimRightFunc_def
    by (metis rev_append rev_rev_ident takeWhile_dropWhile_id)
  with ne show ?thesis by (metis hd_append2)
qed

lemma TrimLeftFunc_fix: "s = [] \<or> \<not> p (hd s) \<Longrightarrow> TrimLeftFunc p s = s"
  by (cases s) (auto simp: TrimLeftFunc_def)

lemma TrimRightFunc_fix: "s = [] \<or> \<not> p (last s) \<Longrightarrow> TrimRightFunc p s = s"
  by (cases s rule: rev_cases) (auto simp: TrimRightFunc_def)

lemma TrimSpace_fix: "s = [] \<or> \<not> is_space (hd s) \<and> \<not> is_space (last s) \<Longrightarrow> TrimSpace s = s"
  by (auto simp: TrimSpace_def TrimLeftFunc_fix TrimRightFunc_fix)

lemma TrimSpace_ends:
  assumes "TrimSpace s \<noteq> []"
  shows "\<not> is_space (hd (TrimSpace s))" and "\<not> is_space (last (TrimSpace s))"
proof -
  let ?l = "TrimLeftFunc is_space s"
  from assms have ne: "TrimRightFunc is_space ?l \<noteq> []" by (simp add: TrimSpace_def)
  then have "?l \<noteq> []" by (auto simp: TrimRightFunc_def)
  with ne show "\<not> is_space (hd (TrimSpace s))"
    by (simp add: TrimSpace_def hd_TrimRightFunc hd_TrimLeftFunc)
  from ne show "\<not> is_space (last (TrimSpace s))"
    by (simp add: TrimSpace_def last_TrimRightFunc)
qed

lemma TrimSpace_idem [simp]: "TrimSpace (TrimSpace s) = TrimSpace s"
  by (rule TrimSpace_fix) (auto dest: TrimSpace_ends)

lemma ToLower_TrimSpace: "ToLower (TrimSpace s) = TrimSpace (ToLower s)"
proof -
  have dw: "dropWhile is_space (map lower_char t) = map lower_char (dropWhile is_space t)" for t
    by (induction t) auto
  show ?thesis
    by (simp add: TrimSpace_def TrimRightFunc_def TrimLeftFunc_def ToLower_def dw rev_map)
qed

lemma HasPrefix_iff: "HasPrefix s p \<longleftrightarrow> (\<exists>t. s = p @ t)"
  by (auto simp: HasPrefix_def) (metis append_take_drop_id)

lemma HasSuffix_iff: "HasSuffix s p \<longleftrightarrow> (\<exists>t. s = t @ p)"
  by (auto simp: HasSuffix_def) (metis append_take_drop_id)

lemma Contains_iff: "Contains s sub \<longleftrightarrow> (\<exists>u v. s = u @ sub @ v)"
proof (induction s)
  case Nil
  then show ?case by auto
next
  case (Cons c s)
  show ?case
  proof
    assume "Contains (c # s) sub"
    then consider "HasPrefix (c # s) sub" | "Contains s sub" by auto
    then show "\<exists>u v. c # s = u @ sub @ v"
    proof cases
      case 1
      then show ?thesis by (metis HasPrefix_iff append_Nil)
    next
      case 2
      then show ?thesis using Cons.IH by (metis append_Cons)
    qed
  next
    assume "\<exists>u v. c # s = u @ sub @ v"
    then obtain u v where uv: "c # s = u @ sub @ v" by blast
    show "Contains (c # s) sub"
    proof (cases u)
      case Nil
      with uv have "HasPrefix (c # s) sub" by (auto simp: HasPrefix_iff)
      then show ?thesis by simp
    next
      case (Cons d u')
      with uv have "s = u' @ sub @ v" by simp
      then have "Contains s sub" using Cons.IH by blast
      then show ?thesis by simp
    qed
  qed
qed

lemma SplitN2_parts:
  assumes "c \<in> set s"
  obtains a b where "SplitN2 s c = [a, b]" and "s = a @ c # b" and "c \<notin> set a"
proof -
  let ?a = "takeWhile (\<lambda>x. x \<noteq> c) s" and ?d = "dropWhile (\<lambda>x. x \<noteq> c) s"
  have "?d \<noteq> []" using assms by (auto simp: dropWhile_eq_Nil_conv)
  then have "?d = c # tl ?d" using hd_dropWhile [of "\<lambda>x. x \<noteq> c" s] by (metis list.collapse)
  then have "s = ?a @ c # tl ?d" by (metis takeWhile_dropWhile_id)
  moreover have "c \<notin> set ?a" by (auto dest: set_takeWhileD)
  moreover have "SplitN2 s c = [?a, tl ?d]" using assms by (simp add: SplitN2_def)
  ultimately show thesis using that by blast
qed

section \<open>Integers and package strconv\<close>

text \<open>Go's integer division truncates towards zero.\<close>

definition quot :: "int \<Rightarrow> int \<Rightarrow> int" where
  "quot a b = sgn a * sgn b * (\<bar>a\<bar> div \<bar>b\<bar>)"

lemma quot_nonneg [simp]: "0 \<le> a \<Longrightarrow> 0 < b \<Longrightarrow> quot a b = a div b"
  by (cases "a = 0") (simp_all add: quot_def)

definition digit_char :: "nat \<Rightarrow> char" where
  "digit_char d = char_of (48 + d)"

definition is_digit :: "char \<Rightarrow> bool" where
  "is_digit c \<longleftrightarrow> 48 \<le> (of_char c :: nat) \<and> (of_char c :: nat) \<le> 57"

definition digit_value :: "char \<Rightarrow> nat" where
  "digit_value c = of_char c - 48"

fun nat_text :: "nat \<Rightarrow> string" where
  "nat_text n = (if n < 10 then [digit_char n] else nat_text (n div 10) @ [digit_char (n mod 10)])"

declare nat_text.simps [simp del]

definition Itoa :: "int \<Rightarrow> string" where
  "Itoa i = (if i < 0 then CHR ''-'' # nat_text (nat (- i)) else nat_text (nat i))"

definition digits_value :: "string \<Rightarrow> nat" where
  "digits_value s = foldl (\<lambda>n c. 10 * n + digit_value c) 0 s"

definition in_int64 :: "int \<Rightarrow> bool" where
  "in_int64 i \<longleftrightarrow> - (2 ^ 63) \<le> i \<and> i < 2 ^ 63"

text \<open>
  \<open>strconv.Atoi\<close> (and \<open>ParseInt(s, 10, 64)\<close>) on a 64-bit platform: an optional sign, then at least
  one decimal digit and nothing else; a value outside 64 bits is an error.
\<close>

definition unsigned_text :: "string \<Rightarrow> nat option" where
  "unsigned_text s = (if s \<noteq> [] \<and> list_all is_digit s then Some (digits_value s) else None)"

definition Atoi :: "string \<Rightarrow> int option" where
  "Atoi s = (let r = (case s of [] \<Rightarrow> None
       | c # t \<Rightarrow> if c = CHR ''-'' then map_option (\<lambda>n. - int n) (unsigned_text t)
           else if c = CHR ''+'' then map_option int (unsigned_text t)
           else map_option int (unsigned_text s))
     in case r of None \<Rightarrow> None | Some i \<Rightarrow> if in_int64 i then Some i else None)"

lemma digit_char_digit [simp]: "d < 10 \<Longrightarrow> is_digit (digit_char d)"
  by (simp add: is_digit_def digit_char_def)

lemma digit_value_char [simp]: "d < 10 \<Longrightarrow> digit_value (digit_char d) = d"
  by (simp add: digit_value_def digit_char_def)

lemma nat_text_nonempty [simp]: "nat_text n \<noteq> []"
  by (subst nat_text.simps) simp

lemma nat_text_digits: "list_all is_digit (nat_text n)"
proof (induction n rule: nat_text.induct)
  case (1 n)
  then show ?case by (subst nat_text.simps) simp
qed

lemma digits_value_nat_text: "digits_value (nat_text n) = n"
proof (induction n rule: nat_text.induct)
  case (1 n)
  show ?case
  proof (cases "n < 10")
    case True
    then show ?thesis by (subst nat_text.simps) (simp add: digits_value_def)
  next
    case False
    with "1" have "digits_value (nat_text (n div 10)) = n div 10" by simp
    with False show ?thesis by (subst nat_text.simps) (simp add: digits_value_def)
  qed
qed

lemma unsigned_text_nat_text: "unsigned_text (nat_text n) = Some n"
  by (simp add: unsigned_text_def nat_text_digits digits_value_nat_text)

lemma hd_nat_text_digit: "is_digit (hd (nat_text n))"
  using nat_text_digits [of n] by (cases "nat_text n") auto

theorem Atoi_Itoa: "in_int64 i \<Longrightarrow> Atoi (Itoa i) = Some i"
proof (cases "i < 0")
  case True
  moreover assume "in_int64 i"
  ultimately show ?thesis by (simp add: Itoa_def Atoi_def unsigned_text_nat_text)
next
  case False
  assume range: "in_int64 i"
  obtain c t where ct: "nat_text (nat i) = c # t" by (cases "nat_text (nat i)") auto
  then have "is_digit c" using hd_nat_text_digit [of "nat i"] by simp
  then have "c \<noteq> CHR ''-''" and "c \<noteq> CHR ''+''" by (auto simp: is_digit_def)
  then have "Atoi (nat_text (nat i)) = Some i"
    using range False unsigned_text_nat_text [of "nat i"] ct by (simp add: Atoi_def)
  with False show ?thesis by (simp add: Itoa_def)
qed

end
