(* ===== verification/Domain.thy ===== *)
theory Domain
  imports GoStrings
begin

text \<open>
  \<open>backend/internal/domain/domain.go\<close>: the domain types, the verification verdict
  \<open>EvaluateVerification\<close> and the case state machine \<open>CanTransitionCase\<close>.
  Times are integers (an abstract time line).
\<close>

section \<open>Types\<close>

type_synonym tstamp = int

datatype VerificationStatus = Verified | PartiallyVerified | Failed | Inconclusive

primrec verification_text :: "VerificationStatus \<Rightarrow> string" where
  "verification_text Verified = ''VERIFIED''"
| "verification_text PartiallyVerified = ''PARTIALLY_VERIFIED''"
| "verification_text Failed = ''FAILED''"
| "verification_text Inconclusive = ''INCONCLUSIVE''"

record Person =
  PersonID :: string
  PersonOrganizationID :: string
  ExternalPersonID :: string
  PersonDisplayName :: string
  PersonPrimaryEmail :: string
  PersonEmployeeNumber :: string
  PersonDepartment :: string
  PersonStatus :: string
  PersonCreatedAt :: tstamp
  PersonUpdatedAt :: tstamp

record IdentityAccount =
  AccountID :: string
  AccountOrganizationID :: string
  AccountConnectorID :: string
  ExternalAccountID :: string
  AccountUsername :: string
  AccountDisplayName :: string
  AccountPrimaryEmail :: string
  AccountEmployeeNumber :: string
  AccountActiveStatus :: string
  AccountType :: string
  AccountPrivileged :: bool
  AccountFirstSeenAt :: tstamp
  AccountLastSeenAt :: tstamp

record VerificationInput =
  Managed :: int
  Disabled :: int
  ActiveN :: int
  Unresolved :: int
  Manual :: int
  SystemsFailed :: int
  RequiredSystemsResponded :: bool

section \<open>The verdict\<close>

definition EvaluateVerification :: "VerificationInput \<Rightarrow> VerificationStatus" where
  "EvaluateVerification v =
     (if SystemsFailed v > 0 \<or> \<not> RequiredSystemsResponded v then Inconclusive
      else if ActiveN v > 0 then Failed
      else if Unresolved v > 0 \<or> Manual v > 0 \<or> Disabled v < Managed v then PartiallyVerified
      else Verified)"

lemma verification_text_inj: "verification_text a = verification_text b \<longleftrightarrow> a = b"
  by (cases a; cases b) simp_all

lemma EvaluateVerification_Verified:
  "EvaluateVerification v = Verified \<longleftrightarrow>
     SystemsFailed v \<le> 0 \<and> RequiredSystemsResponded v \<and> ActiveN v \<le> 0 \<and>
     Unresolved v \<le> 0 \<and> Manual v \<le> 0 \<and> Managed v \<le> Disabled v"
  by (auto simp: EvaluateVerification_def)

lemma EvaluateVerification_Failed:
  "EvaluateVerification v = Failed \<longleftrightarrow>
     SystemsFailed v \<le> 0 \<and> RequiredSystemsResponded v \<and> 0 < ActiveN v"
  by (auto simp: EvaluateVerification_def)

section \<open>The case state machine\<close>

definition case_transitions :: "(string \<times> string list) list" where
  "case_transitions =
    [(''DRAFT'', [''PLANNED'', ''CANCELLED'']),
     (''PLANNED'', [''AWAITING_APPROVAL'', ''CANCELLED'']),
     (''AWAITING_APPROVAL'', [''APPROVED'', ''CANCELLED'']),
     (''APPROVED'', [''RUNNING'', ''CANCELLED'']),
     (''RUNNING'', [''VERIFYING'', ''FAILED'', ''PARTIAL'']),
     (''VERIFYING'', [''COMPLETED'', ''FAILED'', ''PARTIAL''])]"

definition CanTransitionCase :: "string \<Rightarrow> string \<Rightarrow> bool" where
  "CanTransitionCase from to =
     (case map_of case_transitions from of None \<Rightarrow> False | Some tos \<Rightarrow> to \<in> set tos)"

lemma CanTransitionCase_iff:
  "CanTransitionCase from to \<longleftrightarrow>
     from = ''DRAFT'' \<and> (to = ''PLANNED'' \<or> to = ''CANCELLED'') \<or>
     from = ''PLANNED'' \<and> (to = ''AWAITING_APPROVAL'' \<or> to = ''CANCELLED'') \<or>
     from = ''AWAITING_APPROVAL'' \<and> (to = ''APPROVED'' \<or> to = ''CANCELLED'') \<or>
     from = ''APPROVED'' \<and> (to = ''RUNNING'' \<or> to = ''CANCELLED'') \<or>
     from = ''RUNNING'' \<and> (to = ''VERIFYING'' \<or> to = ''FAILED'' \<or> to = ''PARTIAL'') \<or>
     from = ''VERIFYING'' \<and> (to = ''COMPLETED'' \<or> to = ''FAILED'' \<or> to = ''PARTIAL'')"
  by (auto simp: CanTransitionCase_def case_transitions_def)

text \<open>A run of the machine: consecutive statuses are allowed transitions.\<close>

fun case_run :: "string list \<Rightarrow> bool" where
  "case_run (a # b # xs) = (CanTransitionCase a b \<and> case_run (b # xs))"
| "case_run _ = True"

text \<open>The number of transitions that can still follow a status.\<close>

definition case_rank :: "string \<Rightarrow> nat" where
  "case_rank s =
    (if s = ''DRAFT'' then 6 else if s = ''PLANNED'' then 5
     else if s = ''AWAITING_APPROVAL'' then 4 else if s = ''APPROVED'' then 3
     else if s = ''RUNNING'' then 2 else if s = ''VERIFYING'' then 1 else 0)"

lemma CanTransitionCase_rank: "CanTransitionCase a b \<Longrightarrow> case_rank b < case_rank a"
  unfolding CanTransitionCase_iff by (elim disjE conjE; simp add: case_rank_def)

lemma case_run_length: "case_run (a # xs) \<Longrightarrow> length xs \<le> case_rank a"
proof (induction xs arbitrary: a)
  case Nil
  then show ?case by simp
next
  case (Cons b xs)
  then have "length xs \<le> case_rank b" and "case_rank b < case_rank a"
    by (auto dest: CanTransitionCase_rank)
  then show ?case by simp
qed

lemma case_run_approved:
  "case_run (a # xs) \<Longrightarrow> a \<in> {''DRAFT'', ''PLANNED'', ''AWAITING_APPROVAL'', ''APPROVED''} \<Longrightarrow>
     s \<in> set (a # xs) \<Longrightarrow> s \<in> {''RUNNING'', ''VERIFYING'', ''COMPLETED'', ''FAILED'', ''PARTIAL''} \<Longrightarrow>
     ''APPROVED'' \<in> set (a # xs) \<and> ''RUNNING'' \<in> set (a # xs)"
proof (induction xs arbitrary: a)
  case Nil
  then show ?case by auto
next
  case (Cons b xs)
  have ab: "CanTransitionCase a b" and run: "case_run (b # xs)" using Cons.prems(1) by auto
  have s: "s \<in> set (b # xs)" using Cons.prems by auto
  show ?case
  proof (cases "b \<in> {''DRAFT'', ''PLANNED'', ''AWAITING_APPROVAL'', ''APPROVED''}")
    case True
    then have "''APPROVED'' \<in> set (b # xs) \<and> ''RUNNING'' \<in> set (b # xs)"
      using Cons.IH [OF run _ s Cons.prems(4)] by blast
    then show ?thesis by (meson list.set_intros(2))
  next
    case False
    then have "b = ''CANCELLED'' \<or> a = ''APPROVED'' \<and> b = ''RUNNING''"
      using ab Cons.prems(2) unfolding CanTransitionCase_iff by (elim disjE conjE; simp)
    then show ?thesis
    proof
      assume "b = ''CANCELLED''"
      moreover from this run have "xs = []"
        using case_run_length [of b xs] by (simp add: case_rank_def)
      ultimately show ?thesis using s Cons.prems(4) by auto
    qed simp
  qed
qed

section \<open>Properties\<close>

text \<open>
  The case machine ends, and only through approval. A run of the case state machine makes at
  most six transitions from DRAFT; and a run from a status before execution reaches RUNNING,
  VERIFYING or an outcome only by passing APPROVED and RUNNING.
\<close>

theorem case_machine_bounded_and_approved:
  assumes "case_run (a # xs)"
  shows "length xs \<le> 6 \<and>
    (a \<in> {''DRAFT'', ''PLANNED'', ''AWAITING_APPROVAL'', ''APPROVED''} \<longrightarrow>
     (\<forall>s \<in> set (a # xs). s \<in> {''RUNNING'', ''VERIFYING'', ''COMPLETED'', ''FAILED'', ''PARTIAL''} \<longrightarrow>
        ''APPROVED'' \<in> set (a # xs) \<and> ''RUNNING'' \<in> set (a # xs)))"
proof -
  have "case_rank a \<le> 6" by (simp add: case_rank_def)
  then show ?thesis using case_run_length [OF assms] case_run_approved [OF assms] by (meson le_trans)
qed

theorem case_machine_bounded_and_approved_witness:
  "length [''PLANNED'', ''AWAITING_APPROVAL'', ''APPROVED'', ''RUNNING'', ''VERIFYING'', ''COMPLETED''] \<le> 6"
  using case_machine_bounded_and_approved [of "''DRAFT''"
    "[''PLANNED'', ''AWAITING_APPROVAL'', ''APPROVED'', ''RUNNING'', ''VERIFYING'', ''COMPLETED'']"]
  by (simp add: CanTransitionCase_iff)

text \<open>
  The verdict function. VERIFIED is returned exactly when every required system responded,
  none failed, no identity is active, none is unresolved, none needs a human, and all managed
  identities are disabled; a failed or silent system always makes the verdict INCONCLUSIVE, even
  when an active identity was seen.
\<close>

theorem verdict_characterised:
  "(EvaluateVerification v = Verified \<longleftrightarrow>
      SystemsFailed v \<le> 0 \<and> RequiredSystemsResponded v \<and> ActiveN v \<le> 0 \<and>
      Unresolved v \<le> 0 \<and> Manual v \<le> 0 \<and> Managed v \<le> Disabled v) \<and>
   (EvaluateVerification v = Inconclusive \<longleftrightarrow> 0 < SystemsFailed v \<or> \<not> RequiredSystemsResponded v) \<and>
   (EvaluateVerification v = Failed \<longleftrightarrow>
      SystemsFailed v \<le> 0 \<and> RequiredSystemsResponded v \<and> 0 < ActiveN v)"
  by (auto simp: EvaluateVerification_def)

theorem verdict_characterised_witness:
  "EvaluateVerification \<lparr>Managed = 2, Disabled = 2, ActiveN = 0, Unresolved = 0, Manual = 0, SystemsFailed = 0,
     RequiredSystemsResponded = True\<rparr> = Verified"
  using verdict_characterised [of "\<lparr>Managed = 2, Disabled = 2, ActiveN = 0, Unresolved = 0, Manual = 0,
     SystemsFailed = 0, RequiredSystemsResponded = True\<rparr>"] by simp

end
