(* ===== verification/Correlation.thy ===== *)
theory Correlation
  imports Domain
begin

text \<open>
  \<open>backend/internal/correlation/correlation.go\<close>: the deterministic match of one person with one
  account. \<open>None\<close> is the run-time panic an out-of-range index would be.
\<close>

record Result =
  Automatic :: bool
  Confidence :: string
  Reasons :: "string list"

definition normalizeEmail :: "string \<Rightarrow> string" where
  "normalizeEmail v0 =
    (let v = TrimSpace (ToLower v0) in
     if Count v CHR ''@'' \<noteq> 1 then []
     else (let parts = SplitN2 v CHR ''@'' in
       if parts ! 0 = [] \<or> parts ! 1 = [] then [] else v))"

definition Evaluate :: "Person \<Rightarrow> IdentityAccount \<Rightarrow> (string \<Rightarrow> bool) \<Rightarrow> bool \<Rightarrow> Result option" where
  "Evaluate person account trustedDomains emailUnique =
    (if PersonEmployeeNumber person \<noteq> [] \<and> AccountEmployeeNumber account \<noteq> [] \<and>
        EqualFold (TrimSpace (PersonEmployeeNumber person)) (TrimSpace (AccountEmployeeNumber account))
     then Some \<lparr>Automatic = True, Confidence = ''HIGH'', Reasons = [''exact immutable employee identifier'']\<rparr>
     else (let personEmail = normalizeEmail (PersonPrimaryEmail person);
               accountEmail = normalizeEmail (AccountPrimaryEmail account) in
       if personEmail \<noteq> [] \<and> personEmail = accountEmail \<and> emailUnique
       then (case SplitN2 personEmail CHR ''@'' of
           _ # domainPart # _ \<Rightarrow>
             if trustedDomains domainPart
             then Some \<lparr>Automatic = True, Confidence = ''HIGH'', Reasons = [''exact unique email in trusted domain'']\<rparr>
             else Some \<lparr>Automatic = False, Confidence = ''MEDIUM'', Reasons = [''exact email outside trusted domain requires review'']\<rparr>
         | _ \<Rightarrow> None)
       else if PersonDisplayName person \<noteq> [] \<and>
               EqualFold (TrimSpace (PersonDisplayName person)) (TrimSpace (AccountDisplayName account))
       then Some \<lparr>Automatic = False, Confidence = ''LOW'', Reasons = [''name-only similarity is never auto-linked'']\<rparr>
       else Some \<lparr>Automatic = False, Confidence = ''LOW'', Reasons = [''no deterministic identity signal'']\<rparr>))"

section \<open>Normalized emails\<close>

lemma Count_at_mem: "Count v c = 1 \<Longrightarrow> c \<in> set v"
  by (metis Count_def count_list_0_iff zero_neq_one)

lemma normalizeEmail_parts:
  assumes "normalizeEmail v \<noteq> []"
  obtains loc dom where "normalizeEmail v = loc @ CHR ''@'' # dom"
    and "SplitN2 (normalizeEmail v) CHR ''@'' = [loc, dom]"
    and "loc \<noteq> []" and "dom \<noteq> []" and "CHR ''@'' \<notin> set loc" and "CHR ''@'' \<notin> set dom"
proof -
  define w where "w = TrimSpace (ToLower v)"
  from assms have w: "normalizeEmail v = w" and one: "Count w CHR ''@'' = 1"
    and parts: "SplitN2 w CHR ''@'' ! 0 \<noteq> []" "SplitN2 w CHR ''@'' ! 1 \<noteq> []"
    by (auto simp: normalizeEmail_def w_def Let_def split: if_splits)
  from Count_at_mem [OF one] obtain a b
    where ab: "SplitN2 w CHR ''@'' = [a, b]" "w = a @ CHR ''@'' # b" "CHR ''@'' \<notin> set a"
    by (rule SplitN2_parts)
  have "CHR ''@'' \<notin> set b" using one ab(2,3) by (auto simp: Count_def count_list_0_iff)
  with ab parts w show thesis by (intro that [of a b]) auto
qed

lemma normalizeEmail_fixed: "normalizeEmail v \<noteq> [] \<Longrightarrow> normalizeEmail v = TrimSpace (ToLower v)"
  by (auto simp: normalizeEmail_def Let_def split: if_splits)

lemma normalizeEmail_cong: "TrimSpace (ToLower u) = TrimSpace (ToLower v) \<Longrightarrow> normalizeEmail u = normalizeEmail v"
  by (simp add: normalizeEmail_def)

lemma normalizeEmail_idem: "normalizeEmail (normalizeEmail v) = normalizeEmail v"
proof (cases "normalizeEmail v = []")
  case True
  then show ?thesis by (simp add: normalizeEmail_def ToLower_def TrimSpace_def TrimRightFunc_def
        TrimLeftFunc_def Count_def)
next
  case False
  then have eq: "normalizeEmail v = TrimSpace (ToLower v)" by (rule normalizeEmail_fixed)
  show ?thesis
    by (rule normalizeEmail_cong) (unfold eq, simp add: ToLower_TrimSpace)
qed

section \<open>The match\<close>

abbreviation employee_match :: "Person \<Rightarrow> IdentityAccount \<Rightarrow> bool" where
  "employee_match p a \<equiv> PersonEmployeeNumber p \<noteq> [] \<and> AccountEmployeeNumber a \<noteq> [] \<and>
     EqualFold (TrimSpace (PersonEmployeeNumber p)) (TrimSpace (AccountEmployeeNumber a))"

abbreviation email_match :: "Person \<Rightarrow> IdentityAccount \<Rightarrow> bool" where
  "email_match p a \<equiv> normalizeEmail (PersonPrimaryEmail p) \<noteq> [] \<and>
     normalizeEmail (PersonPrimaryEmail p) = normalizeEmail (AccountPrimaryEmail a)"

definition email_domain :: "string \<Rightarrow> string" where
  "email_domain v = (case SplitN2 (normalizeEmail v) CHR ''@'' of [_, d] \<Rightarrow> d | _ \<Rightarrow> [])"

lemma Evaluate_cases:
  obtains
    (employee) "employee_match p a"
      "Evaluate p a td u = Some \<lparr>Automatic = True, Confidence = ''HIGH'', Reasons = [''exact immutable employee identifier'']\<rparr>"
  | (trusted) "\<not> employee_match p a" "email_match p a" "u" "td (email_domain (PersonPrimaryEmail p))"
      "Evaluate p a td u = Some \<lparr>Automatic = True, Confidence = ''HIGH'', Reasons = [''exact unique email in trusted domain'']\<rparr>"
  | (untrusted) "\<not> employee_match p a" "email_match p a" "u" "\<not> td (email_domain (PersonPrimaryEmail p))"
      "Evaluate p a td u = Some \<lparr>Automatic = False, Confidence = ''MEDIUM'', Reasons = [''exact email outside trusted domain requires review'']\<rparr>"
  | (name) "\<not> employee_match p a" "\<not> (email_match p a \<and> u)" "PersonDisplayName p \<noteq> []"
      "EqualFold (TrimSpace (PersonDisplayName p)) (TrimSpace (AccountDisplayName a))"
      "Evaluate p a td u = Some \<lparr>Automatic = False, Confidence = ''LOW'', Reasons = [''name-only similarity is never auto-linked'']\<rparr>"
  | (nothing) "\<not> employee_match p a" "\<not> (email_match p a \<and> u)"
      "Evaluate p a td u = Some \<lparr>Automatic = False, Confidence = ''LOW'', Reasons = [''no deterministic identity signal'']\<rparr>"
proof (cases "employee_match p a")
  case True
  then show thesis by (intro employee) (auto simp: Evaluate_def)
next
  case noemp: False
  show thesis
  proof (cases "email_match p a \<and> u")
    case True
    then obtain loc dom where sp: "SplitN2 (normalizeEmail (PersonPrimaryEmail p)) CHR ''@'' = [loc, dom]"
      using normalizeEmail_parts by blast
    then have dom: "email_domain (PersonPrimaryEmail p) = dom" by (simp add: email_domain_def)
    have ev: "Evaluate p a td u = (if td dom
        then Some \<lparr>Automatic = True, Confidence = ''HIGH'', Reasons = [''exact unique email in trusted domain'']\<rparr>
        else Some \<lparr>Automatic = False, Confidence = ''MEDIUM'', Reasons = [''exact email outside trusted domain requires review'']\<rparr>)"
      unfolding Evaluate_def Let_def using noemp True sp by auto
    show thesis
    proof (cases "td dom")
      case True
      with noemp \<open>email_match p a \<and> u\<close> dom ev show thesis by (intro trusted) auto
    next
      case False
      with noemp \<open>email_match p a \<and> u\<close> dom ev show thesis by (intro untrusted) auto
    qed
  next
    case noemail: False
    then have nm: "Evaluate p a td u = (if PersonDisplayName p \<noteq> [] \<and>
               EqualFold (TrimSpace (PersonDisplayName p)) (TrimSpace (AccountDisplayName a))
       then Some \<lparr>Automatic = False, Confidence = ''LOW'', Reasons = [''name-only similarity is never auto-linked'']\<rparr>
       else Some \<lparr>Automatic = False, Confidence = ''LOW'', Reasons = [''no deterministic identity signal'']\<rparr>)"
      unfolding Evaluate_def Let_def using noemp by auto
    show thesis
    proof (cases "PersonDisplayName p \<noteq> [] \<and>
        EqualFold (TrimSpace (PersonDisplayName p)) (TrimSpace (AccountDisplayName a))")
      case True
      with noemp noemail nm show thesis by (intro name) auto
    next
      case False
      with nm have "Evaluate p a td u = Some \<lparr>Automatic = False, Confidence = ''LOW'',
          Reasons = [''no deterministic identity signal'']\<rparr>" by simp
      with noemp noemail show thesis by (rule nothing)
    qed
  qed
qed

lemma Evaluate_no_panic: "\<exists>r. Evaluate p a td u = Some r \<and> Reasons r \<noteq> []"
  by (rule Evaluate_cases [of p a td u]) auto

lemma Evaluate_automatic_iff:
  "(\<exists>r. Evaluate p a td u = Some r \<and> Automatic r) \<longleftrightarrow>
     employee_match p a \<or> email_match p a \<and> u \<and> td (email_domain (PersonPrimaryEmail p))"
  by (rule Evaluate_cases [of p a td u]) auto

section \<open>Properties\<close>

text \<open>
  C35: When an account is linked automatically. \<open>Evaluate\<close> never panics and always gives a reason;
  it links automatically exactly when the employee numbers are present and equal up to case and
  surrounding space, or the normalized emails are equal, unique and in a trusted domain; a link is
  always of confidence HIGH, and a result that is not a link never is.
\<close>

theorem automatic_link_iff:
  "\<exists>r. Evaluate p a td u = Some r \<and> Reasons r \<noteq> [] \<and>
     (Automatic r \<longleftrightarrow> employee_match p a \<or>
        email_match p a \<and> u \<and> td (email_domain (PersonPrimaryEmail p))) \<and>
     (Automatic r \<longleftrightarrow> Confidence r = ''HIGH'')"
  by (rule Evaluate_cases [of p a td u]) auto

text \<open>
  A name never decides. Changing the display names of the person and of the account in any way
  changes neither whether an automatic link is made nor its confidence and reason.
\<close>

theorem names_never_decide:
  "\<exists>r r'. Evaluate p a td u = Some r \<and>
     Evaluate (p\<lparr>PersonDisplayName := n\<rparr>) (a\<lparr>AccountDisplayName := m\<rparr>) td u = Some r' \<and>
     Automatic r = Automatic r' \<and> (Automatic r \<longrightarrow> r = r') \<and> (Confidence r = ''MEDIUM'' \<longrightarrow> r = r')"
  by (rule Evaluate_cases [of p a td u];
      rule Evaluate_cases [of "p\<lparr>PersonDisplayName := n\<rparr>" "a\<lparr>AccountDisplayName := m\<rparr>" td u]) auto

definition sample_person :: Person where
  "sample_person = \<lparr>PersonID = ''p1'', PersonOrganizationID = ''o'', ExternalPersonID = ''E-1'',
     PersonDisplayName = ''Ana'', PersonPrimaryEmail = '' Ana@Example.test'', PersonEmployeeNumber = [],
     PersonDepartment = [], PersonStatus = ''ACTIVE'', PersonCreatedAt = 0, PersonUpdatedAt = 0\<rparr>"

definition sample_identity :: IdentityAccount where
  "sample_identity = \<lparr>AccountID = ''a1'', AccountOrganizationID = ''o'', AccountConnectorID = ''c'',
     ExternalAccountID = ''x'', AccountUsername = ''ana'', AccountDisplayName = ''Ana'',
     AccountPrimaryEmail = ''ana@example.test'', AccountEmployeeNumber = [], AccountActiveStatus = ''ACTIVE'',
     AccountType = ''HUMAN'', AccountPrivileged = False, AccountFirstSeenAt = 0, AccountLastSeenAt = 0\<rparr>"

theorem names_never_decide_witness:
  "\<exists>r r'. Evaluate sample_person sample_identity (\<lambda>d. d = ''example.test'') True = Some r \<and>
     Evaluate (sample_person\<lparr>PersonDisplayName := ''Bo''\<rparr>) (sample_identity\<lparr>AccountDisplayName := ''Cy''\<rparr>)
       (\<lambda>d. d = ''example.test'') True = Some r' \<and> Automatic r = Automatic r'"
  using names_never_decide [of sample_person sample_identity "\<lambda>d. d = ''example.test''" True "''Bo''" "''Cy''"]
  by blast

text \<open>
  Normalized emails. \<open>normalizeEmail\<close> is idempotent, and a non-empty result is the lower-case,
  trimmed address with exactly one at sign and a non-empty part on either side of it.
\<close>

theorem normalized_email_shape:
  "normalizeEmail (normalizeEmail v) = normalizeEmail v \<and>
   (normalizeEmail v = [] \<or>
    (\<exists>loc dom. normalizeEmail v = loc @ CHR ''@'' # dom \<and> normalizeEmail v = TrimSpace (ToLower v) \<and>
       loc \<noteq> [] \<and> dom \<noteq> [] \<and> CHR ''@'' \<notin> set loc \<and> CHR ''@'' \<notin> set dom))"
  using normalizeEmail_idem [of v] normalizeEmail_fixed [of v] normalizeEmail_parts [of v] by metis

end
