(* ===== verification/CsvSource.thy ===== *)
theory CsvSource
  imports GoStrings
begin

text \<open>
  \<open>backend/internal/csvsource/import.go\<close>: the bounded preview of a person CSV file and the
  escaping of spreadsheet cells. The source reads records through Go's \<open>encoding/csv\<close>
  (comma-separated, no comments, strict quotes, any number of fields), which is modelled here as
  far as the source uses it, over an \<open>io.Reader\<close> given by its bytes and by what it returns when
  they are used up.
\<close>

section \<open>The reader\<close>

datatype read_end = AtEOF | ReadFails string

text \<open>\<open>io.LimitReader(input, n)\<close>: after \<open>n\<close> bytes the reader reports EOF.\<close>

definition LimitReader :: "string \<times> read_end \<Rightarrow> int \<Rightarrow> string \<times> read_end" where
  "LimitReader input n = (case input of (bytes, e) \<Rightarrow>
     if n \<le> int (length bytes) then (take (nat n) bytes, AtEOF) else (bytes, e))"

definition wrap64 :: "int \<Rightarrow> int" where
  "wrap64 x = (x + 2 ^ 63) mod 2 ^ 64 - 2 ^ 63"

abbreviation nl :: char where "nl \<equiv> CHR 0x0A"
abbreviation cr :: char where "cr \<equiv> CHR 0x0D"
abbreviation dq :: char where "dq \<equiv> CHR 0x22"
abbreviation comma :: char where "comma \<equiv> CHR '',''"

text \<open>\<open>csv.Reader.readLine\<close>: the next line, its read error, and what remains.\<close>

definition readLine :: "string \<Rightarrow> read_end \<Rightarrow> string \<times> read_end option \<times> string" where
  "readLine inp e =
    (if nl \<in> set inp then
       (let line = takeWhile (\<lambda>c. c \<noteq> nl) inp; rest = tl (dropWhile (\<lambda>c. c \<noteq> nl) inp) in
        ((if line \<noteq> [] \<and> last line = cr then butlast line else line) @ [nl], None, rest))
     else if inp \<noteq> [] \<and> e = AtEOF then
       (if last inp = cr then butlast inp else inp, None, [])
     else (inp, Some e, []))"

datatype csv_error = ErrBareQuote | ErrQuote | ReadErr read_end

text \<open>
  The field loop of \<open>csv.Reader.readRecord\<close>. The flag says whether the loop is inside a quoted
  field; \<open>cur\<close> is what that field holds so far; \<open>er\<close> is the pending read error.
\<close>

definition csv_finish :: "read_end option \<Rightarrow> string list \<Rightarrow> string \<Rightarrow> (csv_error + string list) \<times> string" where
  "csv_finish er fields rest = (case er of None \<Rightarrow> Inr fields | Some e \<Rightarrow> Inl (ReadErr e), rest)"

function csv_fields ::
  "bool \<Rightarrow> string list \<Rightarrow> string \<Rightarrow> string \<Rightarrow> read_end option \<Rightarrow> string \<Rightarrow> read_end \<Rightarrow>
     (csv_error + string list) \<times> string" where
  "csv_fields False fields cur line er rest e =
    (if line = [] \<or> hd line \<noteq> dq then
       (if comma \<in> set line then
          (let field = takeWhile (\<lambda>c. c \<noteq> comma) line in
           if dq \<in> set field then (Inl ErrBareQuote, rest)
           else csv_fields False (fields @ [field]) [] (tl (dropWhile (\<lambda>c. c \<noteq> comma) line)) er rest e)
        else
          (let field = (if line \<noteq> [] \<and> last line = nl then butlast line else line) in
           if dq \<in> set field then (Inl ErrBareQuote, rest)
           else csv_finish er (fields @ [field]) rest))
     else csv_fields True fields [] (tl line) er rest e)"
| "csv_fields True fields cur line er rest e =
    (if dq \<in> set line then
       (let cur' = cur @ takeWhile (\<lambda>c. c \<noteq> dq) line; l = tl (dropWhile (\<lambda>c. c \<noteq> dq) line) in
        if l \<noteq> [] \<and> hd l = dq then csv_fields True fields (cur' @ [dq]) (tl l) er rest e
        else if l \<noteq> [] \<and> hd l = comma then csv_fields False (fields @ [cur']) [] (tl l) er rest e
        else if l = [] \<or> l = [nl] then csv_finish er (fields @ [cur']) rest
        else (Inl ErrQuote, rest))
     else if line \<noteq> [] then
       (if er \<noteq> None then csv_finish er fields rest
        else (case readLine rest e of (l, er', rest') \<Rightarrow>
          csv_fields True fields (cur @ line) l (if er' = Some AtEOF then None else er') rest' e))
     else if er = None then (Inl ErrQuote, rest)
     else csv_finish er (fields @ [cur]) rest)"
  by pat_completeness auto

lemma length_span_at:
  "c \<in> set xs \<Longrightarrow>
     length (takeWhile (\<lambda>x. x \<noteq> c) xs) + length (tl (dropWhile (\<lambda>x. x \<noteq> c) xs)) + 1 = length xs"
  by (induction xs) auto

lemma length_tl_dropWhile: "c \<in> set xs \<Longrightarrow> length (tl (dropWhile (\<lambda>x. x \<noteq> c) xs)) < length xs"
  using length_span_at [of c xs] by linarith

lemma readLine_length:
  "readLine inp e = (line, er, rest) \<Longrightarrow> length line + length rest \<le> length inp"
  using length_span_at [of nl inp]
  by (auto simp: readLine_def Let_def dest: length_pos_if_in_set split: if_splits)

lemma readLine_progress: "readLine inp e = (line, None, rest) \<Longrightarrow> length rest < length inp"
  using length_tl_dropWhile [of nl inp] by (auto simp: readLine_def Let_def split: if_splits)

termination csv_fields
proof (relation "measure (\<lambda>(q, fs, cur, line, er, rest, e). length line + length rest)", goal_cases)
  case (2 fields cur line er rest e x)
  then show ?case using length_tl_dropWhile [of comma line] by simp
next
  case (4 fields cur line er rest e x xa)
  then show ?case using length_tl_dropWhile [of dq line] by (cases xa) auto
next
  case (5 fields cur line er rest e x xa)
  then show ?case using length_tl_dropWhile [of dq line] by (cases xa) auto
next
  case (6 fields cur line er rest e l p er' rest')
  then show ?case using readLine_length [of rest e l er' rest'] by (cases line) auto
qed auto

text \<open>\<open>csv.Reader.Read\<close>: empty lines are skipped.\<close>

function (sequential) readRecord :: "string \<Rightarrow> read_end \<Rightarrow> (csv_error + string list) \<times> string" where
  "readRecord inp e =
    (case readLine inp e of (line, er, rest) \<Rightarrow>
       if er = None \<and> (line = [] \<or> line = [nl]) then readRecord rest e
       else if er = Some AtEOF then (Inl (ReadErr AtEOF), rest)
       else csv_fields False [] [] line er rest e)"
  by pat_completeness auto

termination readRecord
  by (relation "measure (\<lambda>(inp, e). length inp)") (auto dest: readLine_progress [OF sym])

declare readRecord.simps [simp del] csv_fields.simps [simp del]

section \<open>The preview\<close>

record Mapping =
  MapEmployeeID :: string
  MapDisplayName :: string
  MapEmail :: string
  MapDepartment :: string
  MapManagerID :: string
  MapStatus :: string

record Row =
  RowNumber :: int
  RowEmployeeID :: string
  RowDisplayName :: string
  RowEmail :: string
  RowDepartment :: string
  RowManagerID :: string
  RowStatus :: string

text \<open>The entries of \<open>Preview.Errors\<close>: the row number and which of the three messages it is.\<close>

datatype row_error = RowUnreadable int csv_error | RowFieldsRequired int | RowInvalidStatus int

record Preview =
  Rows :: "Row list"
  Errors :: "row_error list"
  Truncated :: bool

definition validStatus :: "string \<Rightarrow> bool" where
  "validStatus v = (v \<in> set [''PRE_HIRE'', ''ACTIVE'', ''LEAVE'', ''SUSPENDED'', ''TERMINATED'', ''UNKNOWN''])"

definition header_index :: "string list \<Rightarrow> string \<rightharpoonup> nat" where
  "header_index head = foldl (\<lambda>m (i, h). m(TrimSpace h \<mapsto> i)) (\<lambda>_. None) (enumerate 0 head)"

definition csv_get :: "(string \<rightharpoonup> nat) \<Rightarrow> string list \<Rightarrow> string \<Rightarrow> string" where
  "csv_get index rcd name = (case index name of
     Some i \<Rightarrow> if i < length rcd then TrimSpace (rcd ! i) else []
   | None \<Rightarrow> [])"

definition csv_row :: "(string \<rightharpoonup> nat) \<Rightarrow> Mapping \<Rightarrow> int \<Rightarrow> string list \<Rightarrow> Row" where
  "csv_row index m n rcd = \<lparr>RowNumber = n,
     RowEmployeeID = csv_get index rcd (MapEmployeeID m),
     RowDisplayName = csv_get index rcd (MapDisplayName m),
     RowEmail = csv_get index rcd (MapEmail m),
     RowDepartment = csv_get index rcd (MapDepartment m),
     RowManagerID = csv_get index rcd (MapManagerID m),
     RowStatus = ToUpper (csv_get index rcd (MapStatus m))\<rparr>"

text \<open>
  The row loop. It has no bound in the source: with a reader that keeps failing it does not end,
  so the model carries fuel and returns \<open>None\<close> when the fuel is used up.
\<close>

fun preview_rows ::
  "nat \<Rightarrow> (string \<rightharpoonup> nat) \<Rightarrow> Mapping \<Rightarrow> int \<Rightarrow> int \<Rightarrow> Preview \<Rightarrow> string \<Rightarrow> read_end \<Rightarrow> Preview option" where
  "preview_rows 0 index m maxRows n preview inp e = None"
| "preview_rows (Suc fuel) index m maxRows n preview inp e =
    (case readRecord inp e of
       (Inl err, rest) \<Rightarrow>
         if err = ReadErr AtEOF then Some preview
         else preview_rows fuel index m maxRows (n + 1)
                (preview\<lparr>Errors := Errors preview @ [RowUnreadable n err]\<rparr>) rest e
     | (Inr rcd, rest) \<Rightarrow>
         if int (length (Rows preview)) \<ge> maxRows then Some (preview\<lparr>Truncated := True\<rparr>)
         else (let row = csv_row index m n rcd in
           if RowEmployeeID row = [] \<or> RowDisplayName row = [] then
             preview_rows fuel index m maxRows (n + 1)
               (preview\<lparr>Errors := Errors preview @ [RowFieldsRequired n]\<rparr>) rest e
           else if \<not> validStatus (RowStatus row) then
             preview_rows fuel index m maxRows (n + 1)
               (preview\<lparr>Errors := Errors preview @ [RowInvalidStatus n]\<rparr>) rest e
           else preview_rows fuel index m maxRows (n + 1)
                  (preview\<lparr>Rows := Rows preview @ [row]\<rparr>) rest e))"

datatype preview_error = PositiveLimitsRequired | HeaderUnreadable csv_error | RequiredColumnMissing string

definition ParsePreview ::
  "nat \<Rightarrow> string \<times> read_end \<Rightarrow> Mapping \<Rightarrow> int \<Rightarrow> int \<Rightarrow> (preview_error + Preview) option" where
  "ParsePreview fuel input mapping maxBytes maxRows =
    (if maxBytes \<le> 0 \<or> maxRows \<le> 0 then Some (Inl PositiveLimitsRequired)
     else (case LimitReader input (wrap64 (maxBytes + 1)) of (bytes, e) \<Rightarrow>
       (case readRecord bytes e of
          (Inl err, _) \<Rightarrow> Some (Inl (HeaderUnreadable err))
        | (Inr head, rest) \<Rightarrow>
            (let index = header_index head in
             case List.find (\<lambda>required. index required = None)
                    [MapEmployeeID mapping, MapDisplayName mapping, MapStatus mapping] of
               Some required \<Rightarrow> Some (Inl (RequiredColumnMissing required))
             | None \<Rightarrow> map_option Inr (preview_rows fuel index mapping maxRows 2
                 \<lparr>Rows = [], Errors = [], Truncated = False\<rparr> rest e)))))"

definition EscapeSpreadsheetCell :: "string \<Rightarrow> string" where
  "EscapeSpreadsheetCell v =
    (if v \<noteq> [] \<and> v ! 0 \<in> set ''=+-@'' then CHR 0x27 # v else v)"

section \<open>Progress of the reader\<close>

lemma csv_fields_rest:
  "length (snd (csv_fields q fs cur line er rest e)) \<le> length rest"
proof (induction q fs cur line er rest e rule: csv_fields.induct)
  case (1 fs cur line er rest e)
  then show ?case
    by (subst csv_fields.simps) (simp add: Let_def csv_finish_def split: if_splits)
next
  case (2 fs cur line er rest e)
  obtain l er' rest' where rl: "readLine rest e = (l, er', rest')" by (cases "readLine rest e")
  then have le: "length rest' \<le> length rest" using readLine_length by fastforce
  show ?case
  proof (cases "dq \<notin> set line \<and> line \<noteq> [] \<and> er = None")
    case True
    then have "length (snd (csv_fields True fs (cur @ line) l (if er' = Some AtEOF then None else er') rest' e))
        \<le> length rest'"
      using 2(3) [OF _ _ _ rl [symmetric] refl] by simp
    with True rl le show ?thesis by (subst csv_fields.simps) simp
  next
    case False
    with 2(1,2) show ?thesis
      by (subst csv_fields.simps) (auto simp: Let_def csv_finish_def)
  qed
qed

definition is_read_error :: "csv_error + 'a \<Rightarrow> bool" where
  "is_read_error r = (case r of Inl (ReadErr _) \<Rightarrow> True | _ \<Rightarrow> False)"

lemma readRecord_progress:
  "readRecord inp e = (r, rest) \<Longrightarrow> length rest \<le> length inp \<and> (\<not> is_read_error r \<longrightarrow> length rest < length inp)"
proof (induction inp e rule: readRecord.induct)
  case (1 inp e)
  obtain line er rst where rl: "readLine inp e = (line, er, rst)" by (cases "readLine inp e")
  consider (skip) "er = None" "line = [] \<or> line = [nl]"
    | (eof) "er = Some AtEOF"
    | (full) "er = None" "\<not> (line = [] \<or> line = [nl])"
    | (err) s where "er = Some (ReadFails s)"
    by (metis option.exhaust read_end.exhaust)
  then show ?case
  proof cases
    case skip
    then have "length rst < length inp" using rl readLine_progress by blast
    with 1 rl skip show ?thesis by (fastforce simp: readRecord.simps [of inp e])
  next
    case eof
    then show ?thesis using 1(2) rl readLine_length [OF rl]
      by (auto simp: readRecord.simps [of inp e] is_read_error_def)
  next
    case full
    then have "length rst < length inp" using rl readLine_progress by blast
    moreover have "length rest \<le> length rst"
      using 1(2) rl full csv_fields_rest [of False "[]" "[]" line er rst e]
      by (simp add: readRecord.simps [of inp e])
    ultimately show ?thesis by simp
  next
    case err
    then have no: "\<not> (nl \<in> set inp)" "rst = []" "line = inp" "e = ReadFails s"
      using rl by (auto simp: readLine_def Let_def split: if_splits)
    have "length rest \<le> length rst"
      using 1(2) rl err csv_fields_rest [of False "[]" "[]" line er rst e]
      by (simp add: readRecord.simps [of inp e])
    with no 1(2) rl err show ?thesis
      by (cases inp) (auto simp: readRecord.simps [of "[]"] csv_fields.simps(1) [of "[]"] csv_finish_def is_read_error_def)
  qed
qed

text \<open>At the end of a plain input the only read error is EOF.\<close>

lemma readLine_AtEOF: "readLine inp AtEOF = (line, Some r, rest) \<Longrightarrow> r = AtEOF"
  by (auto simp: readLine_def Let_def split: if_splits)

lemma csv_fields_AtEOF: "fst (csv_fields q fs cur line None rest AtEOF) \<noteq> Inl (ReadErr r)"
proof -
  have "er = None \<Longrightarrow> e = AtEOF \<Longrightarrow> fst (csv_fields q fs cur line er rest e) \<noteq> Inl (ReadErr r)" for er e
  proof (induction q fs cur line er rest e rule: csv_fields.induct)
    case (1 fs cur line er rest e)
    then show ?case
      by (subst csv_fields.simps) (simp add: Let_def csv_finish_def split: if_splits)
  next
    case (2 fs cur line er rest e)
    obtain l er' rest' where rl: "readLine rest e = (l, er', rest')" by (cases "readLine rest e")
    then have cl: "(if er' = Some AtEOF then None else er') = None" using 2 readLine_AtEOF by (cases er') auto
    show ?case
    proof (cases "dq \<notin> set line \<and> line \<noteq> []")
      case True
      then have "fst (csv_fields True fs (cur @ line) l None rest' e) \<noteq> Inl (ReadErr r)"
        using 2(3) [OF _ _ _ rl [symmetric] refl] cl 2(4,5) by auto
      with True rl cl 2(4) show ?thesis by (subst csv_fields.simps) simp
    next
      case False
      with 2(1,2,4,5) show ?thesis
        by (subst csv_fields.simps) (auto simp: Let_def csv_finish_def)
    qed
  qed
  then show ?thesis by simp
qed

lemma readRecord_AtEOF: "fst (readRecord inp AtEOF) \<noteq> Inl (ReadErr (ReadFails s))"
proof -
  have "e = AtEOF \<Longrightarrow> fst (readRecord inp e) \<noteq> Inl (ReadErr (ReadFails s))" for e
  proof (induction inp e rule: readRecord.induct)
    case (1 inp e)
    obtain line er rst where rl: "readLine inp e = (line, er, rst)" by (cases "readLine inp e")
    with 1 show ?case using csv_fields_AtEOF [of False "[]" "[]" line rst] readLine_AtEOF [of inp line]
      by (cases er) (auto simp: readRecord.simps [of inp AtEOF])
  qed
  then show ?thesis by simp
qed

section \<open>The preview loop\<close>

lemma preview_rows_returns:
  "length inp < fuel \<Longrightarrow> \<exists>p. preview_rows fuel index m maxRows n preview inp AtEOF = Some p"
proof (induction fuel arbitrary: n preview inp)
  case 0
  then show ?case by simp
next
  case (Suc fuel)
  obtain r rest where rr: "readRecord inp AtEOF = (r, rest)" by (cases "readRecord inp AtEOF")
  show ?case
  proof (cases "r = Inl (ReadErr AtEOF)")
    case True
    with rr show ?thesis by simp
  next
    case False
    then have "\<not> is_read_error r" using readRecord_AtEOF [of inp] rr
      by (auto simp: is_read_error_def split: sum.splits csv_error.splits) (metis read_end.exhaust)
    then have "length rest < fuel" using readRecord_progress [OF rr] Suc.prems by linarith
    note IH = Suc.IH [OF this]
    show ?thesis using rr False IH by (cases r) (simp_all add: Let_def)
  qed
qed

text \<open>A reader that keeps failing keeps the loop going: no amount of fuel is enough.\<close>

lemma readRecord_failing: "readRecord [] (ReadFails s) = (Inl (ReadErr (ReadFails s)), [])"
  by (simp add: readRecord.simps [of "[]"] readLine_def csv_fields.simps csv_finish_def)

lemma preview_rows_diverges: "preview_rows fuel index m maxRows n preview [] (ReadFails s) = None"
  by (induction fuel arbitrary: n preview) (simp_all add: readRecord_failing)

primrec row_error_number :: "row_error \<Rightarrow> int" where
  "row_error_number (RowUnreadable n _) = n"
| "row_error_number (RowFieldsRequired n) = n"
| "row_error_number (RowInvalidStatus n) = n"

definition row_ok :: "Row \<Rightarrow> bool" where
  "row_ok r \<longleftrightarrow> RowEmployeeID r \<noteq> [] \<and> RowDisplayName r \<noteq> [] \<and> validStatus (RowStatus r)"

text \<open>
  The loop invariant at record number \<open>n\<close>: the accepted rows are valid and within the limit, and
  the records \<open>2, \<dots>, n - 1\<close> are split between the rows and the errors, each in file order.
\<close>

definition preview_inv :: "int \<Rightarrow> int \<Rightarrow> Preview \<Rightarrow> bool" where
  "preview_inv maxRows n p \<longleftrightarrow> 2 \<le> n \<and>
     list_all row_ok (Rows p) \<and> int (length (Rows p)) \<le> maxRows \<and>
     sorted_wrt (<) (map RowNumber (Rows p)) \<and> sorted_wrt (<) (map row_error_number (Errors p)) \<and>
     set (map RowNumber (Rows p)) \<union> set (map row_error_number (Errors p)) = {2..<n} \<and>
     set (map RowNumber (Rows p)) \<inter> set (map row_error_number (Errors p)) = {} \<and>
     (Truncated p \<longrightarrow> int (length (Rows p)) = maxRows)"

lemma preview_inv_start: "0 < maxRows \<Longrightarrow> preview_inv maxRows 2 \<lparr>Rows = [], Errors = [], Truncated = False\<rparr>"
  by (simp add: preview_inv_def)

lemma preview_inv_error:
  assumes "preview_inv maxRows n p" and "row_error_number x = n"
  shows "preview_inv maxRows (n + 1) (p\<lparr>Errors := Errors p @ [x]\<rparr>)"
proof -
  have U: "set (map RowNumber (Rows p)) \<union> set (map row_error_number (Errors p)) = {2..<n}" and "2 \<le> n"
    using assms(1) by (simp_all add: preview_inv_def)
  then have "\<forall>i \<in> set (map RowNumber (Rows p)) \<union> set (map row_error_number (Errors p)). i < n"
    and "{2..<n + 1} = insert n {2..<n}" by auto
  with assms U show ?thesis by (auto simp: preview_inv_def sorted_wrt_append)
qed

lemma preview_inv_row:
  assumes "preview_inv maxRows n p" and "RowNumber r = n" and "row_ok r"
    and "int (length (Rows p)) < maxRows"
  shows "preview_inv maxRows (n + 1) (p\<lparr>Rows := Rows p @ [r]\<rparr>)"
proof -
  have U: "set (map RowNumber (Rows p)) \<union> set (map row_error_number (Errors p)) = {2..<n}" and "2 \<le> n"
    using assms(1) by (simp_all add: preview_inv_def)
  then have "\<forall>i \<in> set (map RowNumber (Rows p)) \<union> set (map row_error_number (Errors p)). i < n"
    and "{2..<n + 1} = insert n {2..<n}" by auto
  with assms U show ?thesis by (auto simp: preview_inv_def sorted_wrt_append)
qed

lemma preview_rows_inv:
  "preview_rows fuel index m maxRows n preview inp e = Some p \<Longrightarrow> preview_inv maxRows n preview \<Longrightarrow>
     \<exists>k. preview_inv maxRows k p"
proof (induction fuel arbitrary: n preview inp)
  case 0
  then show ?case by simp
next
  case (Suc fuel)
  obtain r rest where rr: "readRecord inp e = (r, rest)" by (cases "readRecord inp e")
  note step = Suc.IH [of "n + 1"]
  note err = preview_inv_error [OF Suc.prems(2)]
  show ?case
  proof (cases r)
    case (Inl x)
    show ?thesis using Suc.prems rr Inl step err [of "RowUnreadable n x"]
      by (auto split: if_splits)
  next
    case (Inr rcd)
    show ?thesis
    proof (cases "int (length (Rows preview)) \<ge> maxRows")
      case True
      then show ?thesis using Suc.prems rr Inr by (auto simp: preview_inv_def)
    next
      case False
      then have "row_ok (csv_row index m n rcd) \<Longrightarrow>
          preview_inv maxRows (n + 1) (preview\<lparr>Rows := Rows preview @ [csv_row index m n rcd]\<rparr>)"
        by (intro preview_inv_row [OF Suc.prems(2)]) (simp_all add: csv_row_def)
      then show ?thesis
        using Suc.prems rr Inr False step err [of "RowFieldsRequired n"] err [of "RowInvalidStatus n"]
        by (auto simp: Let_def row_ok_def split: if_splits)
    qed
  qed
qed

section \<open>The header\<close>

lemma header_index_append:
  "header_index (head @ [h]) = (header_index head)(TrimSpace h \<mapsto> length head)"
  by (simp add: header_index_def enumerate_append_eq)

lemma header_index_Some:
  "header_index head name = Some i \<longleftrightarrow>
     i < length head \<and> TrimSpace (head ! i) = name \<and>
     (\<forall>j < length head. i < j \<longrightarrow> TrimSpace (head ! j) \<noteq> name)"
proof (induction head rule: rev_induct)
  case Nil
  then show ?case by (simp add: header_index_def)
next
  case (snoc h head)
  then show ?case
    by (auto simp: header_index_append nth_append less_Suc_eq dest: less_imp_neq)
qed

section \<open>Properties\<close>


definition sample_mapping :: Mapping where
  "sample_mapping = \<lparr>MapEmployeeID = ''id'', MapDisplayName = ''name'', MapEmail = ''email'', MapDepartment = [],
     MapManagerID = [], MapStatus = ''status''\<rparr>"

definition sample_csv :: string where
  "sample_csv = ''id,name,status'' @ [nl] @ ''1,Ana,active'' @ [nl] @ ''2,Bo,gone'' @ [nl]"

lemma sample_preview: "\<exists>p. ParsePreview 100 (sample_csv, AtEOF) sample_mapping 1000 1 = Some (Inr p)"
proof -
  have "map_option (\<lambda>r. case r of Inl _ \<Rightarrow> False | Inr p \<Rightarrow> length (Rows p) = 1)
      (ParsePreview 100 (sample_csv, AtEOF) sample_mapping 1000 1) = Some True"
    by code_simp
  then obtain r where r: "ParsePreview 100 (sample_csv, AtEOF) sample_mapping 1000 1 = Some r"
    and "case r of Inl _ \<Rightarrow> False | Inr p \<Rightarrow> length (Rows p) = 1" by auto
  then show ?thesis by (cases r) auto
qed


text \<open>
  C38: The preview ends on every file. For a reader that ends with EOF, as an uploaded file does,
  \<open>ParsePreview\<close> returns, with fuel one more than the length of the file.
\<close>

theorem preview_terminates:
  "length bytes < fuel \<Longrightarrow> \<exists>r. ParsePreview fuel (bytes, AtEOF) mapping maxBytes maxRows = Some r"
proof -
  assume fuel: "length bytes < fuel"
  obtain bs e where l: "LimitReader (bytes, AtEOF) (wrap64 (maxBytes + 1)) = (bs, e)" by fastforce
  then have e: "e = AtEOF" and len: "length bs \<le> length bytes"
    by (auto simp: LimitReader_def split: if_splits)
  obtain h rest where h: "readRecord bs AtEOF = (h, rest)" by fastforce
  with readRecord_progress have "length rest < fuel" using fuel len by (metis le_trans not_le)
  then have "\<exists>p. preview_rows fuel index mapping maxRows 2 \<lparr>Rows = [], Errors = [], Truncated = False\<rparr> rest AtEOF = Some p" for index
    by (rule preview_rows_returns)
  with l e h show ?thesis
    by (auto simp: ParsePreview_def Let_def split: sum.splits option.splits)
qed

theorem preview_terminates_witness:
  "\<exists>r. ParsePreview 40 (sample_csv, AtEOF) sample_mapping 1000 1 = Some r"
  by (rule preview_terminates) (simp add: sample_csv_def)


text \<open>
  Exported cells are not formulas. The escaped cell never starts with a formula character; a
  cell that does not start with one is unchanged, and the original is always recovered by dropping
  the one quote that was added.
\<close>

theorem escaped_cell_is_no_formula:
  "(case EscapeSpreadsheetCell v of [] \<Rightarrow> v = [] | c # _ \<Rightarrow> c \<notin> set ''=+-@'') \<and>
   (EscapeSpreadsheetCell v = v \<or> EscapeSpreadsheetCell v = CHR 0x27 # v)"
  by (cases v) (auto simp: EscapeSpreadsheetCell_def)

end
