(* ===== verification/Database.thy ===== *)
theory Database
  imports Domain
begin

text \<open>
  The database as the Go code sees it through \<open>pgx\<close>: statements on a database state \<open>'d\<close> that are
  atomic, may fail, and may fail after they took effect; queries that stream rows and may break
  off; transactions. What the environment contributes (failures, the clock, fresh uuids) is part
  of the world and arbitrary, so that every theorem over a world covers every behaviour of it.
  Statements of other sessions are not interleaved with those of the operation that runs.
\<close>

section \<open>The world\<close>

text \<open>
  What can happen to the n-th database call: nothing; an error and no effect; the effect and an
  error (the acknowledgement is lost); or, for a streaming query, only the first rows arrive.
\<close>

datatype fault = NoFault | NotApplied string | AckLost string | CutRows nat string

text \<open>
  \<open>clock n\<close> is the time of the n-th call and \<open>fresh n i\<close> the i-th uuid generated there.
  \<open>txnow\<close> is the start time of the open transaction, which is what \<open>now()\<close> returns in it.
\<close>

record 'd world =
  db :: 'd
  ticks :: nat
  faults :: "nat \<Rightarrow> fault"
  clock :: "nat \<Rightarrow> tstamp"
  fresh :: "nat \<Rightarrow> nat \<Rightarrow> string"
  txnow :: "tstamp option"

text \<open>A statement computes its result and the new database from \<open>now()\<close>, fresh uuids and the
  database; it may fail by itself (a constraint violation, a NULL that cannot be scanned).\<close>

type_synonym ('d, 'a) stmt = "tstamp \<Rightarrow> (nat \<Rightarrow> string) \<Rightarrow> 'd \<Rightarrow> error + 'a \<times> 'd"

definition now_of :: "('d, 'z) world_scheme \<Rightarrow> tstamp" where
  "now_of w = (case txnow w of Some t \<Rightarrow> t | None \<Rightarrow> clock w (ticks w))"

definition exec :: "('d, 'a) stmt \<Rightarrow> (('d, 'z) world_scheme, 'a) comp" where
  "exec st w =
    (let w' = w\<lparr>ticks := Suc (ticks w)\<rparr>; r = st (now_of w) (fresh w (ticks w)) (db w) in
     case faults w (ticks w) of
       NotApplied s \<Rightarrow> (Inl (DBError s), w')
     | AckLost s \<Rightarrow> (case r of Inl e \<Rightarrow> (Inl e, w') | Inr (x, d) \<Rightarrow> (Inl (DBError s), w'\<lparr>db := d\<rparr>))
     | _ \<Rightarrow> (case r of Inl e \<Rightarrow> (Inl e, w') | Inr (x, d) \<Rightarrow> (Inr x, w'\<lparr>db := d\<rparr>)))"

text \<open>\<open>Pool.Query\<close>: the rows that arrive and what \<open>rows.Err()\<close> reports after the loop.\<close>

definition query_rows :: "('d \<Rightarrow> 'a list) \<Rightarrow> (('d, 'z) world_scheme, 'a list \<times> error option) comp" where
  "query_rows q w =
    (let w' = w\<lparr>ticks := Suc (ticks w)\<rparr>; rows = q (db w) in
     case faults w (ticks w) of
       NotApplied s \<Rightarrow> (Inl (DBError s), w')
     | AckLost s \<Rightarrow> (Inl (DBError s), w')
     | CutRows n s \<Rightarrow> (Inr (take n rows, Some (DBError s)), w')
     | NoFault \<Rightarrow> (Inr (rows, None), w'))"

text \<open>A read that returns one row: \<open>None\<close> is \<open>pgx.ErrNoRows\<close>.\<close>

definition query_row :: "('d \<Rightarrow> 'a option) \<Rightarrow> (('d, 'z) world_scheme, 'a) comp" where
  "query_row q = exec (\<lambda>_ _ d. case q d of None \<Rightarrow> Inl ErrNoRows | Some x \<Rightarrow> Inr (x, d))"

text \<open>\<open>Begin\<close>, the body, and \<open>Commit\<close> or the deferred \<open>Rollback\<close>.\<close>

definition tx :: "(('d, 'z) world_scheme, 'a) comp \<Rightarrow> (('d, 'z) world_scheme, 'a) comp" where
  "tx m w =
    (let w0 = w\<lparr>ticks := Suc (ticks w)\<rparr> in
     case faults w (ticks w) of
       NotApplied s \<Rightarrow> (Inl (DBError s), w0)
     | AckLost s \<Rightarrow> (Inl (DBError s), w0)
     | _ \<Rightarrow>
       (case m (w0\<lparr>txnow := Some (clock w (ticks w))\<rparr>) of
          (Inl e, t) \<Rightarrow> (Inl e, t\<lparr>db := db w, txnow := None\<rparr>)
        | (Inr x, t) \<Rightarrow>
            (let t' = t\<lparr>ticks := Suc (ticks t), txnow := None\<rparr> in
             case faults t (ticks t) of
               NotApplied s \<Rightarrow> (Inl (DBError s), t'\<lparr>db := db w\<rparr>)
             | AckLost s \<Rightarrow> (Inl (DBError s), t')
             | _ \<Rightarrow> (Inr x, t'))))"

text \<open>\<open>time.Now()\<close> and \<open>uuid.NewString()\<close>.\<close>

definition time_now :: "(('d, 'z) world_scheme, tstamp) comp" where
  "time_now w = (Inr (clock w (ticks w)), w\<lparr>ticks := Suc (ticks w)\<rparr>)"

definition new_uuid :: "(('d, 'z) world_scheme, string) comp" where
  "new_uuid w = (Inr (fresh w (ticks w) 0), w\<lparr>ticks := Suc (ticks w)\<rparr>)"

text \<open>An update statement that cannot fail by itself.\<close>

definition upd :: "(tstamp \<Rightarrow> (nat \<Rightarrow> string) \<Rightarrow> 'd \<Rightarrow> 'a \<times> 'd) \<Rightarrow> ('d, 'a) stmt" where
  "upd f now gen d = Inr (f now gen d)"

section \<open>Weakest preconditions\<close>

text \<open>
  The rules forget the bookkeeping of the world: a postcondition that only reads the database is
  implied by what the statement does to it, for every fault.
\<close>

lemma exec_cases:
  obtains (failed) e where "exec st w = (Inl e, w\<lparr>ticks := Suc (ticks w)\<rparr>)"
  | (lost) e x d where "st (now_of w) (fresh w (ticks w)) (db w) = Inr (x, d)"
      "exec st w = (Inl e, w\<lparr>ticks := Suc (ticks w), db := d\<rparr>)"
  | (ok) x d where "st (now_of w) (fresh w (ticks w)) (db w) = Inr (x, d)"
      "exec st w = (Inr x, w\<lparr>ticks := Suc (ticks w), db := d\<rparr>)"
proof (cases "st (now_of w) (fresh w (ticks w)) (db w)")
  case (Inl e)
  then show thesis by (cases "faults w (ticks w)") (auto simp: exec_def intro: failed)
next
  case (Inr p)
  then show thesis
    by (cases p; cases "faults w (ticks w)") (auto simp: exec_def intro: failed lost ok)
qed

lemma wp_exec:
  assumes "\<And>x d. st (now_of w) (fresh w (ticks w)) (db w) = Inr (x, d) \<Longrightarrow>
      Q x (w\<lparr>ticks := Suc (ticks w), db := d\<rparr>) \<and> (\<forall>e. E e (w\<lparr>ticks := Suc (ticks w), db := d\<rparr>))"
    and "\<And>e. E e (w\<lparr>ticks := Suc (ticks w)\<rparr>)"
  shows "wp (exec st) Q E w"
  by (rule exec_cases [of st w]) (use assms in \<open>auto simp: wp_def\<close>)

text \<open>Partial forms, for what holds when the computation returns normally.\<close>

lemma wp_exec_ok:
  assumes "\<And>now gen x d. st now gen (db w) = Inr (x, d) \<Longrightarrow> Q x (w\<lparr>ticks := Suc (ticks w), db := d\<rparr>)"
  shows "wp (exec st) Q (\<lambda>_ _. True) w"
  by (rule wp_exec) (use assms in auto)

lemma wp_upd_ok:
  assumes "\<And>now gen w'. db w' = snd (f now gen (db w)) \<Longrightarrow> Q (fst (f now gen (db w))) w'"
  shows "wp (exec (upd f)) Q (\<lambda>_ _. True) w"
proof (rule wp_exec_ok)
  fix now gen x d assume "upd f now gen (db w) = Inr (x, d)"
  then show "Q x (w\<lparr>ticks := Suc (ticks w), db := d\<rparr>)"
    using assms [of "w\<lparr>ticks := Suc (ticks w), db := d\<rparr>" now gen] by (simp add: upd_def)
qed

lemma wp_exec_db:
  assumes "\<And>now gen x d w' e. st now gen (db w) = Inr (x, d) \<Longrightarrow> db w' = d \<Longrightarrow> Q x w' \<and> E e w'"
    and "\<And>e w'. db w' = db w \<Longrightarrow> E e w'"
  shows "wp (exec st) Q E w"
proof (rule wp_exec)
  fix x d assume "st (now_of w) (fresh w (ticks w)) (db w) = Inr (x, d)"
  from assms(1) [OF this, of "w\<lparr>ticks := Suc (ticks w), db := d\<rparr>"]
  show "Q x (w\<lparr>ticks := Suc (ticks w), db := d\<rparr>) \<and> (\<forall>e. E e (w\<lparr>ticks := Suc (ticks w), db := d\<rparr>))" by simp
qed (simp add: assms(2))

lemma wp_upd_db:
  fixes w :: "('d, 'z) world_scheme"
  assumes step: "\<And>now gen e (w' :: ('d, 'z) world_scheme).
      db w' = snd (f now gen (db w)) \<Longrightarrow> Q (fst (f now gen (db w))) w' \<and> E e w'"
    and "\<And>e (w' :: ('d, 'z) world_scheme). db w' = db w \<Longrightarrow> E e w'"
  shows "wp (exec (upd f)) Q E w"
proof (rule wp_exec_db)
  fix now gen x d e and w' :: "('d, 'z) world_scheme"
  assume "upd f now gen (db w) = Inr (x, d)" "db w' = d"
  with step [of w' now gen e] show "Q x w' \<and> E e w'" by (simp add: upd_def)
qed (rule assms(2))

lemma wp_time_now: "wp time_now Q E w = Q (clock w (ticks w)) (w\<lparr>ticks := Suc (ticks w)\<rparr>)"
  by (simp add: wp_def time_now_def)

lemma wp_new_uuid: "wp new_uuid Q E w = Q (fresh w (ticks w) 0) (w\<lparr>ticks := Suc (ticks w)\<rparr>)"
  by (simp add: wp_def new_uuid_def)

lemma query_row_cases:
  obtains (failed) e where "query_row q w = (Inl e, w\<lparr>ticks := Suc (ticks w)\<rparr>)"
  | (ok) x where "q (db w) = Some x" "query_row q w = (Inr x, w\<lparr>ticks := Suc (ticks w)\<rparr>)"
  unfolding query_row_def
  by (rule exec_cases [of "\<lambda>_ _ d. case q d of None \<Rightarrow> Inl ErrNoRows | Some x \<Rightarrow> Inr (x, d)" w])
    (auto split: option.splits)

lemma query_rows_cases:
  obtains (failed) e where "query_rows q w = (Inl e, w\<lparr>ticks := Suc (ticks w)\<rparr>)"
  | (rows) n err where "query_rows q w = (Inr (take n (q (db w)), err), w\<lparr>ticks := Suc (ticks w)\<rparr>)"
proof (cases "faults w (ticks w)")
  case NoFault
  then show ?thesis by (intro rows [of "length (q (db w))"]) (simp add: query_rows_def)
qed (auto simp: query_rows_def intro: failed rows)

lemma wp_query_row:
  assumes "\<And>x. q (db w) = Some x \<Longrightarrow> Q x (w\<lparr>ticks := Suc (ticks w)\<rparr>)"
    and "\<And>e. E e (w\<lparr>ticks := Suc (ticks w)\<rparr>)"
  shows "wp (query_row q) Q E w"
  by (rule query_row_cases [of q w]) (use assms in \<open>auto simp: wp_def\<close>)

lemma wp_query_row_ok:
  assumes "\<And>x w'. q (db w) = Some x \<Longrightarrow> db w' = db w \<Longrightarrow> Q x w'"
  shows "wp (query_row q) Q (\<lambda>_ _. True) w"
  by (rule wp_query_row) (use assms in auto)

lemma wp_query_rows:
  assumes "\<And>n s. Q (take n (q (db w)), Some (DBError s)) (w\<lparr>ticks := Suc (ticks w)\<rparr>)"
    and "Q (q (db w), None) (w\<lparr>ticks := Suc (ticks w)\<rparr>)"
    and "\<And>e. E e (w\<lparr>ticks := Suc (ticks w)\<rparr>)"
  shows "wp (query_rows q) Q E w"
  using assms by (auto simp: wp_def query_rows_def Let_def split: fault.splits)

text \<open>A transaction that fails leaves the database as it was, unless its commit was not acknowledged.\<close>

lemma tx_cases:
  obtains (failed) e t where "tx m w = (Inl e, t)" "db t = db w"
  | (lost) e x t where "m (w\<lparr>ticks := Suc (ticks w), txnow := Some (clock w (ticks w))\<rparr>) = (Inr x, t)"
      "tx m w = (Inl e, t\<lparr>ticks := Suc (ticks t), txnow := None\<rparr>)"
  | (ok) x t where "m (w\<lparr>ticks := Suc (ticks w), txnow := Some (clock w (ticks w))\<rparr>) = (Inr x, t)"
      "tx m w = (Inr x, t\<lparr>ticks := Suc (ticks t), txnow := None\<rparr>)"
proof (cases "\<exists>s. faults w (ticks w) = NotApplied s \<or> faults w (ticks w) = AckLost s")
  case True
  then show thesis by (auto simp: tx_def intro: failed)
next
  case False
  obtain r t where m: "m (w\<lparr>ticks := Suc (ticks w), txnow := Some (clock w (ticks w))\<rparr>) = (r, t)"
    by (metis surj_pair)
  show thesis
  proof (cases r)
    case (Inl e)
    with m False show thesis
      by (intro failed [of e "t\<lparr>db := db w, txnow := None\<rparr>"]) (auto simp: tx_def Let_def split: fault.split)
  next
    case (Inr x)
    then have tx: "tx m w = (let t' = t\<lparr>ticks := Suc (ticks t), txnow := None\<rparr> in
             case faults t (ticks t) of
               NotApplied s \<Rightarrow> (Inl (DBError s), t'\<lparr>db := db w\<rparr>)
             | AckLost s \<Rightarrow> (Inl (DBError s), t')
             | _ \<Rightarrow> (Inr x, t'))"
      using m False by (auto simp: tx_def Let_def split: fault.split)
    from m Inr tx show thesis
      by (cases "faults t (ticks t)") (auto simp: Let_def intro: failed lost ok)
  qed
qed

lemma wp_tx:
  assumes body: "wp m (\<lambda>x t. Q x (t\<lparr>ticks := Suc (ticks t), txnow := None\<rparr>) \<and>
        (\<forall>e. E e (t\<lparr>ticks := Suc (ticks t), txnow := None\<rparr>))) (\<lambda>_ _. True)
        (w\<lparr>ticks := Suc (ticks w), txnow := Some (clock w (ticks w))\<rparr>)"
    and undone: "\<And>e t. db t = db w \<Longrightarrow> E e t"
  shows "wp (tx m) Q E w"
proof (rule tx_cases [of m w])
  fix e t assume "tx m w = (Inl e, t)" "db t = db w"
  then show ?thesis using undone by (simp add: wp_def)
next
  fix e x t assume "m (w\<lparr>ticks := Suc (ticks w), txnow := Some (clock w (ticks w))\<rparr>) = (Inr x, t)"
      "tx m w = (Inl e, t\<lparr>ticks := Suc (ticks t), txnow := None\<rparr>)"
  then show ?thesis using wp_InrD [OF body] by (simp add: wp_def)
next
  fix x t assume "m (w\<lparr>ticks := Suc (ticks w), txnow := Some (clock w (ticks w))\<rparr>) = (Inr x, t)"
      "tx m w = (Inr x, t\<lparr>ticks := Suc (ticks t), txnow := None\<rparr>)"
  then show ?thesis using wp_InrD [OF body] by (simp add: wp_def)
qed

text \<open>The rule for postconditions that only read the database.\<close>

lemma wp_tx_db:
  assumes "\<And>t. db t = db w \<Longrightarrow> wp m (\<lambda>x t'. Q x (db t')) (\<lambda>_ _. True) t"
  shows "wp (tx m) (\<lambda>x w'. Q x (db w')) (\<lambda>_ w'. db w' = db w \<or> (\<exists>x. Q x (db w'))) w"
proof (rule wp_tx)
  have "wp m (\<lambda>x t'. Q x (db t')) (\<lambda>_ _. True) (w\<lparr>ticks := Suc (ticks w), txnow := Some (clock w (ticks w))\<rparr>)"
    by (rule assms) simp
  then show "wp m (\<lambda>x t. Q x (db (t\<lparr>ticks := Suc (ticks t), txnow := None\<rparr>)) \<and>
        (\<forall>e. db (t\<lparr>ticks := Suc (ticks t), txnow := None\<rparr>) = db w \<or>
           (\<exists>x. Q x (db (t\<lparr>ticks := Suc (ticks t), txnow := None\<rparr>))))) (\<lambda>_ _. True)
        (w\<lparr>ticks := Suc (ticks w), txnow := Some (clock w (ticks w))\<rparr>)"
    by (rule wp_mono) auto
qed simp

section \<open>Frames over the database\<close>

text \<open>
  A reflexive and transitive relation on database states, such as ``the rows of other tenants are
  the same'', is kept by a computation when every statement in it keeps it.
\<close>

definition on_db :: "('d \<Rightarrow> 'd \<Rightarrow> bool) \<Rightarrow> ('d, 'z) world_scheme \<Rightarrow> ('d, 'z) world_scheme \<Rightarrow> bool" where
  "on_db R w w' \<longleftrightarrow> R (db w) (db w')"

definition stmt_keeps :: "('d \<Rightarrow> 'd \<Rightarrow> bool) \<Rightarrow> ('d, 'a) stmt \<Rightarrow> bool" where
  "stmt_keeps R st \<longleftrightarrow> (\<forall>now gen d x d'. st now gen d = Inr (x, d') \<longrightarrow> R d d')"

locale db_frame =
  fixes R :: "'d \<Rightarrow> 'd \<Rightarrow> bool"
  assumes db_refl: "R d d"
    and db_trans: "R d d' \<Longrightarrow> R d' d'' \<Longrightarrow> R d d''"
begin

lemma stmt_keeps_upd: "(\<And>now gen d. R d (snd (f now gen d))) \<Longrightarrow> stmt_keeps R (upd f)"
  by (auto simp: stmt_keeps_def upd_def) (metis snd_conv)

lemma keeps_exec:
  assumes "stmt_keeps R st"
  shows "keeps (on_db R) (exec st)"
proof (rule keepsI)
  fix w :: "('d, 'z) world_scheme"
  show "on_db R w (snd (exec st w))"
    by (rule exec_cases [of st w]) (use assms in \<open>auto simp: on_db_def stmt_keeps_def db_refl\<close>)
qed

lemma keeps_query_row: "keeps (on_db R) (query_row q)"
  unfolding query_row_def by (rule keeps_exec) (auto simp: stmt_keeps_def db_refl split: option.splits)

lemma keeps_query_rows: "keeps (on_db R) (query_rows q)"
  by (auto simp: keeps_def query_rows_def Let_def on_db_def db_refl split: fault.split)

lemma keeps_tx:
  assumes "keeps (on_db R) m"
  shows "keeps (on_db R) (tx m)"
proof (rule keepsI)
  fix w
  show "on_db R w (snd (tx m w))"
    by (rule tx_cases [of m w]) (use keepsD [OF assms] in \<open>fastforce simp: on_db_def db_refl\<close>)+
qed

lemma keeps_time_now: "keeps (on_db R) time_now"
  by (simp add: keeps_def time_now_def on_db_def db_refl)

lemma keeps_new_uuid: "keeps (on_db R) new_uuid"
  by (simp add: keeps_def new_uuid_def on_db_def db_refl)

lemmas keeps_database = keeps_time_now keeps_new_uuid keeps_query_row keeps_query_rows keeps_tx

end

sublocale db_frame \<subseteq> world: state_frame "on_db R"
  by unfold_locales (auto simp: on_db_def db_refl intro: db_trans)

text \<open>A method that keeps a frame keeps every assertion on the database that the frame carries.\<close>

lemma wp_carried:
  assumes "keeps (on_db R) m" and "\<And>d d'. R d d' \<Longrightarrow> P d \<Longrightarrow> P d'" and "P (db w)"
  shows "wp m (\<lambda>_ w'. P (db w')) (\<lambda>_ w'. P (db w')) w"
  by (rule wp_mono [OF keeps_wp [OF assms(1)]]) (use assms(2,3) in \<open>auto simp: on_db_def\<close>)

end
