(* ===== verification/Queue.thy ===== *)
theory Queue
  imports Database "HOL-Library.Product_Lexorder"
begin

text \<open>
  \<open>backend/internal/workers/distributed.go\<close>: the lease-based job queue in the table
  \<open>distributed_jobs\<close>. The first part models the methods of \<open>DistributedQueue\<close>; the second the
  interleaving of many workers, each step of which is one of the statements. Times are
  nanoseconds.
\<close>

section \<open>The table\<close>

record job_row =
  j_id :: string
  j_org :: string
  j_kind :: string
  j_payload :: string
  j_status :: string
  j_priority :: int
  j_idem :: string
  j_attempts :: int
  j_max_attempts :: int
  j_available_at :: tstamp
  j_lease_owner :: "string option"
  j_lease_until :: "tstamp option"
  j_error_code :: "string option"
  j_error_summary :: "string option"
  j_created_at :: tstamp
  j_started_at :: "tstamp option"
  j_completed_at :: "tstamp option"

type_synonym jobs = "job_row list"

record DistributedJob =
  JobID :: string
  JobOrganizationID :: string
  JobKind :: string
  JobPayload :: string
  JobAttempts :: int
  JobMaxAttempts :: int

record 'w DistributedQueue =
  WorkerID :: string
  Lease :: int
  PollInterval :: int
  handlers :: "string \<Rightarrow> (DistributedJob \<Rightarrow> ('w, unit) comp) option"

abbreviation Second :: int where "Second \<equiv> 1000000000"
abbreviation Millisecond :: int where "Millisecond \<equiv> 1000000"

section \<open>The statements\<close>

text \<open>
  \<open>INSERT \<dots> ON CONFLICT(organization_id,idempotency_key) DO UPDATE SET idempotency_key=\<dots>
  RETURNING id\<close>: the CHECK constraints of the table come first, and an id that is already taken
  violates the primary key.
\<close>

definition new_job :: "string \<Rightarrow> string \<Rightarrow> string \<Rightarrow> string \<Rightarrow> string \<Rightarrow> int \<Rightarrow> tstamp \<Rightarrow> job_row" where
  "new_job jid org kind raw key priority now =
    \<lparr>j_id = jid, j_org = org, j_kind = kind, j_payload = raw, j_status = ''QUEUED'',
     j_priority = priority, j_idem = key, j_attempts = 0, j_max_attempts = 5, j_available_at = now,
     j_lease_owner = None, j_lease_until = None, j_error_code = None, j_error_summary = None,
     j_created_at = now, j_started_at = None, j_completed_at = None\<rparr>"

definition enqueue_stmt :: "string \<Rightarrow> string \<Rightarrow> string \<Rightarrow> string \<Rightarrow> string \<Rightarrow> int \<Rightarrow> (jobs, string) stmt" where
  "enqueue_stmt jid org kind raw key priority now gen d =
    (if kind \<notin> set [''CONNECTOR_SYNC'', ''LIFECYCLE_EXECUTE''] \<or> priority < 0 \<or> 1000 < priority
     then Inl (DBError ''check constraint'')
     else (case List.find (\<lambda>j. j_org j = org \<and> j_idem j = key) d of
         Some j \<Rightarrow> Inr (j_id j, d)
       | None \<Rightarrow>
           if \<exists>j \<in> set d. j_id j = jid then Inl (DBError ''duplicate key'')
           else Inr (jid, d @ [new_job jid org kind raw key priority now])))"

definition claimable :: "tstamp \<Rightarrow> job_row \<Rightarrow> bool" where
  "claimable now j \<longleftrightarrow>
     j_status j = ''QUEUED'' \<and> j_available_at j \<le> now \<or>
     j_status j = ''RUNNING'' \<and> (case j_lease_until j of None \<Rightarrow> False | Some t \<Rightarrow> t < now)"

text \<open>
  The row that \<open>claim\<close> selects: \<open>ORDER BY priority DESC, created_at FOR UPDATE SKIP LOCKED LIMIT 1\<close>,
  where \<open>locked\<close> are the ids other sessions hold a row lock on.
\<close>

definition candidate :: "string list \<Rightarrow> tstamp \<Rightarrow> jobs \<Rightarrow> job_row option" where
  "candidate locked now d =
    (case sort_key (\<lambda>j. (- j_priority j, j_created_at j))
            (filter (\<lambda>j. claimable now j \<and> j_id j \<notin> set locked) d) of
       [] \<Rightarrow> None | j # _ \<Rightarrow> Some j)"

definition update_jobs :: "(job_row \<Rightarrow> bool) \<Rightarrow> (job_row \<Rightarrow> job_row) \<Rightarrow> jobs \<Rightarrow> jobs" where
  "update_jobs P f d = map (\<lambda>j. if P j then f j else j) d"

definition lease_row :: "string \<Rightarrow> int \<Rightarrow> tstamp \<Rightarrow> job_row \<Rightarrow> job_row" where
  "lease_row owner secs now j = j\<lparr>j_status := ''RUNNING'', j_lease_owner := Some owner,
     j_lease_until := Some (now + secs * Second), j_attempts := j_attempts j + 1,
     j_started_at := (case j_started_at j of None \<Rightarrow> Some now | Some t \<Rightarrow> Some t)\<rparr>"

definition claimed_job :: "job_row \<Rightarrow> DistributedJob" where
  "claimed_job j = \<lparr>JobID = j_id j, JobOrganizationID = j_org j, JobKind = j_kind j, JobPayload = j_payload j,
     JobAttempts = j_attempts j, JobMaxAttempts = j_max_attempts j\<rparr>"

definition claim_stmt :: "string list \<Rightarrow> string \<Rightarrow> int \<Rightarrow> (jobs, DistributedJob) stmt" where
  "claim_stmt locked owner secs now gen d = (case candidate locked now d of
     None \<Rightarrow> Inl ErrNoRows
   | Some j \<Rightarrow> Inr (claimed_job (lease_row owner secs now j),
       update_jobs (\<lambda>r. j_id r = j_id j) (lease_row owner secs now) d))"

definition renew_stmt :: "int \<Rightarrow> string \<Rightarrow> string \<Rightarrow> (jobs, unit) stmt" where
  "renew_stmt secs jid owner = upd (\<lambda>now gen d. ((),
     update_jobs (\<lambda>j. j_id j = jid \<and> j_status j = ''RUNNING'' \<and> j_lease_owner j = Some owner)
       (\<lambda>j. j\<lparr>j_lease_until := Some (now + secs * Second)\<rparr>) d))"

definition succeed_stmt :: "string \<Rightarrow> string \<Rightarrow> (jobs, unit) stmt" where
  "succeed_stmt jid owner = upd (\<lambda>now gen d. ((),
     update_jobs (\<lambda>j. j_id j = jid \<and> j_lease_owner j = Some owner)
       (\<lambda>j. j\<lparr>j_status := ''SUCCEEDED'', j_completed_at := Some now, j_lease_owner := None,
         j_lease_until := None, j_error_code := None, j_error_summary := None\<rparr>) d))"

definition retry_stmt :: "string \<Rightarrow> int \<Rightarrow> string \<Rightarrow> string \<Rightarrow> string \<Rightarrow> (jobs, unit) stmt" where
  "retry_stmt status backoff msg jid owner = upd (\<lambda>now gen d. ((),
     update_jobs (\<lambda>j. j_id j = jid \<and> j_lease_owner j = Some owner)
       (\<lambda>j. j\<lparr>j_status := status, j_available_at := now + backoff * Second, j_lease_owner := None,
         j_lease_until := None, j_error_code := Some ''JOB_HANDLER_FAILED'',
         j_error_summary := Some (take 500 msg),
         j_completed_at := (if status = ''DEAD'' then Some now else None)\<rparr>) d))"

section \<open>The methods\<close>

definition NewDistributedQueue ::
  "bool \<Rightarrow> string \<Rightarrow> int \<Rightarrow> int \<Rightarrow> (('d, 'z) world_scheme, 'w DistributedQueue) comp" where
  "NewDistributedQueue db_nil workerID lease poll =
    (if db_nil then fail (Errorf ''distributed worker database is required'')
     else bnd (if workerID = [] then new_uuid else ret workerID) (\<lambda>worker.
       ret \<lparr>WorkerID = worker,
            Lease = (if lease < 10 * Second then 120 * Second else lease),
            PollInterval = (if poll < 50 * Millisecond then 500 * Millisecond else poll),
            handlers = (\<lambda>_. None)\<rparr>))"

definition Register ::
  "'w DistributedQueue \<Rightarrow> string \<Rightarrow> (DistributedJob \<Rightarrow> ('w, unit) comp) option \<Rightarrow> error + 'w DistributedQueue" where
  "Register q kind handler = (case handler of
     None \<Rightarrow> Inl (Errorf ''distributed job kind and handler are required'')
   | Some h \<Rightarrow>
       if kind = [] then Inl (Errorf ''distributed job kind and handler are required'')
       else if handlers q kind \<noteq> None then Inl (Errorf (''handler already registered for '' @ kind))
       else Inr (q\<lparr>handlers := (handlers q)(kind \<mapsto> h)\<rparr>))"

text \<open>The payload is given by what \<open>json.Marshal\<close> makes of it.\<close>

definition Enqueue ::
  "'w DistributedQueue \<Rightarrow> string \<Rightarrow> string \<Rightarrow> error + string \<Rightarrow> string \<Rightarrow> int \<Rightarrow>
     ((jobs, 'z) world_scheme, string \<times> bool) comp" where
  "Enqueue q organizationID kind payload idempotencyKey priority =
    (if organizationID = [] \<or> handlers q kind = None \<or> idempotencyKey = []
     then fail (Errorf ''invalid distributed job'')
     else bnd (liftE payload) (\<lambda>raw.
          bnd new_uuid (\<lambda>jid.
          bnd (exec (enqueue_stmt jid organizationID kind raw idempotencyKey priority)) (\<lambda>returned.
          ret (returned, returned = jid)))))"

definition claim :: "'w DistributedQueue \<Rightarrow> string list \<Rightarrow> ((jobs, 'z) world_scheme, DistributedJob) comp" where
  "claim q locked = exec (claim_stmt locked (WorkerID q) (quot (Lease q) Second))"

definition retry_status :: "DistributedJob \<Rightarrow> string" where
  "retry_status job = (if JobMaxAttempts job \<le> JobAttempts job then ''DEAD'' else ''QUEUED'')"

definition backoff_seconds :: "DistributedJob \<Rightarrow> int" where
  "backoff_seconds job = 2 ^ nat (min (JobAttempts job) 8)"

definition execute ::
  "((jobs, 'z) world_scheme) DistributedQueue \<Rightarrow> DistributedJob \<Rightarrow> ((jobs, 'z) world_scheme, unit) comp" where
  "execute q job =
    bnd (attempt (case handlers q (JobKind job) of
        None \<Rightarrow> fail (Errorf (''no handler registered for '' @ JobKind job))
      | Some handler \<Rightarrow> handler job))
     (\<lambda>r. case r of
        Inr _ \<Rightarrow> ignore (exec (succeed_stmt (JobID job) (WorkerID q)))
      | Inl err \<Rightarrow> ignore (exec (retry_stmt (retry_status job) (backoff_seconds job) (error_text err)
                     (JobID job) (WorkerID q))))"

text \<open>One iteration of \<open>run\<close>: whether a job was executed (the loop continues at once) or the loop
  waits for the ticker or the end of the context.\<close>

definition run_once ::
  "((jobs, 'z) world_scheme) DistributedQueue \<Rightarrow> string list \<Rightarrow> ((jobs, 'z) world_scheme, bool) comp" where
  "run_once q locked = bnd (attempt (claim q locked)) (\<lambda>r. case r of
     Inr job \<Rightarrow> bnd (execute q job) (\<lambda>_. ret True)
   | Inl _ \<Rightarrow> ret False)"

section \<open>Laws of the statements\<close>

lemma update_jobs_ids: "(\<And>j. j_id (f j) = j_id j) \<Longrightarrow> map j_id (update_jobs P f d) = map j_id d"
  by (auto simp: update_jobs_def)

lemma update_jobs_keys:
  "(\<And>j. j_org (f j) = j_org j \<and> j_idem (f j) = j_idem j) \<Longrightarrow>
     map (\<lambda>j. (j_org j, j_idem j)) (update_jobs P f d) = map (\<lambda>j. (j_org j, j_idem j)) d"
  by (auto simp: update_jobs_def)

lemma set_update_jobs: "set (update_jobs P f d) = (\<lambda>j. if P j then f j else j) ` set d"
  by (simp add: update_jobs_def)

lemma update_jobs_other: "(\<And>j. j \<in> set d \<Longrightarrow> \<not> P j) \<Longrightarrow> update_jobs P f d = d"
  by (simp add: update_jobs_def map_idI)

lemma candidate_Some:
  assumes "candidate locked now d = Some j"
  shows "j \<in> set d" and "claimable now j" and "j_id j \<notin> set locked"
    and "\<And>i. i \<in> set d \<Longrightarrow> claimable now i \<Longrightarrow> j_id i \<notin> set locked \<Longrightarrow>
      j_priority i < j_priority j \<or> j_priority i = j_priority j \<and> j_created_at j \<le> j_created_at i"
proof -
  let ?c = "filter (\<lambda>j. claimable now j \<and> j_id j \<notin> set locked) d"
  let ?k = "\<lambda>j. (- j_priority j, j_created_at j)"
  obtain xs where xs: "sort_key ?k ?c = j # xs"
    using assms by (auto simp: candidate_def split: list.splits)
  have cs: "set ?c = set (j # xs)" by (simp only: xs [symmetric] set_sort)
  then have "j \<in> set ?c" by simp
  then show "j \<in> set d" "claimable now j" "j_id j \<notin> set locked" by auto
  have "\<forall>i \<in> set xs. ?k j \<le> ?k i"
    using sorted_sort_key [of ?k ?c] unfolding xs by simp
  then have le: "i \<in> set ?c \<Longrightarrow> ?k j \<le> ?k i" for i unfolding cs by auto
  show "i \<in> set d \<Longrightarrow> claimable now i \<Longrightarrow> j_id i \<notin> set locked \<Longrightarrow>
      j_priority i < j_priority j \<or> j_priority i = j_priority j \<and> j_created_at j \<le> j_created_at i" for i
    using le [of i] by (auto simp: less_eq_prod_def)
qed

lemma sort_key_Nil_iff: "sort_key f xs = [] \<longleftrightarrow> xs = []"
  by (metis set_empty set_sort)

lemma candidate_None: "candidate locked now d = None \<longleftrightarrow> (\<forall>j \<in> set d. claimable now j \<longrightarrow> j_id j \<in> set locked)"
proof -
  have "candidate locked now d = None \<longleftrightarrow> filter (\<lambda>j. claimable now j \<and> j_id j \<notin> set locked) d = []"
    by (simp add: candidate_def sort_key_Nil_iff split: list.split)
       (metis list.distinct(1) sort_key_Nil_iff)
  then show ?thesis by (auto simp: filter_empty_conv)
qed

section \<open>Many workers\<close>

text \<open>
  The table together with what each worker holds. A worker is one goroutine; \<open>own w\<close> is the
  \<open>WorkerID\<close> it leases under and \<open>secs\<close> the lease in seconds. The time of each step is arbitrary.
\<close>

record qstate =
  q_jobs :: jobs
  q_held :: "nat \<Rightarrow> DistributedJob option"

inductive qstep :: "(nat \<Rightarrow> string) \<Rightarrow> int \<Rightarrow> qstate \<Rightarrow> qstate \<Rightarrow> bool" for own secs where
  enqueue: "enqueue_stmt jid org kind raw key priority now gen (q_jobs s) = Inr (x, d) \<Longrightarrow>
    qstep own secs s (s\<lparr>q_jobs := d\<rparr>)"
| claim: "q_held s w = None \<Longrightarrow> claim_stmt locked (own w) secs now gen (q_jobs s) = Inr (job, d) \<Longrightarrow>
    qstep own secs s (s\<lparr>q_jobs := d, q_held := (q_held s)(w := Some job)\<rparr>)"
| claim_lost: "q_held s w = None \<Longrightarrow> claim_stmt locked (own w) secs now gen (q_jobs s) = Inr (job, d) \<Longrightarrow>
    qstep own secs s (s\<lparr>q_jobs := d\<rparr>)"
| renew: "q_held s w = Some job \<Longrightarrow> renew_stmt secs (JobID job) (own w) now gen (q_jobs s) = Inr (x, d) \<Longrightarrow>
    qstep own secs s (s\<lparr>q_jobs := d\<rparr>)"
| succeed: "q_held s w = Some job \<Longrightarrow> succeed_stmt (JobID job) (own w) now gen (q_jobs s) = Inr (x, d) \<Longrightarrow>
    qstep own secs s (s\<lparr>q_jobs := d, q_held := (q_held s)(w := None)\<rparr>)"
| retry: "q_held s w = Some job \<Longrightarrow>
    retry_stmt (retry_status job) (backoff_seconds job) msg (JobID job) (own w) now gen (q_jobs s) = Inr (x, d) \<Longrightarrow>
    qstep own secs s (s\<lparr>q_jobs := d, q_held := (q_held s)(w := None)\<rparr>)"
| drop: "q_held s w = Some job \<Longrightarrow> qstep own secs s (s\<lparr>q_held := (q_held s)(w := None)\<rparr>)"

inductive_cases qstep_elim: "qstep own secs s t"

definition q_init :: qstate where
  "q_init = \<lparr>q_jobs = [], q_held = (\<lambda>_. None)\<rparr>"

definition terminal :: "job_row \<Rightarrow> bool" where
  "terminal j \<longleftrightarrow> j_status j = ''SUCCEEDED'' \<or> j_status j = ''DEAD''"

definition job_ok :: "job_row \<Rightarrow> bool" where
  "job_ok j \<longleftrightarrow>
     (j_status j = ''QUEUED'' \<or> j_status j = ''RUNNING'' \<or> terminal j) \<and>
     (j_status j = ''RUNNING'' \<longleftrightarrow> j_lease_owner j \<noteq> None) \<and>
     (j_lease_owner j = None \<longleftrightarrow> j_lease_until j = None) \<and>
     (terminal j \<longleftrightarrow> j_completed_at j \<noteq> None) \<and>
     0 \<le> j_attempts j \<and> 1 \<le> j_max_attempts j \<and>
     (j_status j = ''RUNNING'' \<longrightarrow> 1 \<le> j_attempts j) \<and>
     (j_status j = ''DEAD'' \<longrightarrow> j_max_attempts j \<le> j_attempts j)"

definition holds :: "DistributedJob \<Rightarrow> job_row \<Rightarrow> bool" where
  "holds job j \<longleftrightarrow> j_id j = JobID job \<and> j_max_attempts j = JobMaxAttempts job \<and>
     1 \<le> JobAttempts job \<and> JobAttempts job \<le> j_attempts j"

definition qinv :: "qstate \<Rightarrow> bool" where
  "qinv s \<longleftrightarrow>
     distinct (map j_id (q_jobs s)) \<and> distinct (map (\<lambda>j. (j_org j, j_idem j)) (q_jobs s)) \<and>
     (\<forall>j \<in> set (q_jobs s). job_ok j) \<and>
     (\<forall>w job. q_held s w = Some job \<longrightarrow> (\<exists>j \<in> set (q_jobs s). holds job j)) \<and>
     (\<forall>w v job job'. q_held s w = Some job \<longrightarrow> q_held s v = Some job' \<longrightarrow> w \<noteq> v \<longrightarrow>
        JobID job = JobID job' \<longrightarrow> JobAttempts job \<noteq> JobAttempts job')"

lemma qinvI:
  assumes "distinct (map j_id (q_jobs s))" and "distinct (map (\<lambda>j. (j_org j, j_idem j)) (q_jobs s))"
    and "\<And>j. j \<in> set (q_jobs s) \<Longrightarrow> job_ok j"
    and "\<And>w job. q_held s w = Some job \<Longrightarrow> \<exists>j \<in> set (q_jobs s). holds job j"
    and "\<And>w v job job'. q_held s w = Some job \<Longrightarrow> q_held s v = Some job' \<Longrightarrow> w \<noteq> v \<Longrightarrow>
        JobID job = JobID job' \<Longrightarrow> JobAttempts job \<noteq> JobAttempts job'"
  shows "qinv s"
  using assms unfolding qinv_def by blast

lemma qinvD:
  assumes "qinv s"
  shows "distinct (map j_id (q_jobs s))" and "distinct (map (\<lambda>j. (j_org j, j_idem j)) (q_jobs s))"
    and "j \<in> set (q_jobs s) \<Longrightarrow> job_ok j"
    and "q_held s w = Some job \<Longrightarrow> \<exists>j \<in> set (q_jobs s). holds job j"
    and "q_held s w = Some job \<Longrightarrow> q_held s v = Some job' \<Longrightarrow> w \<noteq> v \<Longrightarrow>
        JobID job = JobID job' \<Longrightarrow> JobAttempts job \<noteq> JobAttempts job'"
  using assms unfolding qinv_def by blast+

lemma qinv_init: "qinv q_init"
  by (simp add: qinv_def q_init_def)

text \<open>The updates under a lease keep ids, keys and limits, never lower the attempts, and only
  release held jobs.\<close>

lemma qinv_update:
  assumes inv: "qinv s"
    and keep: "\<And>j. j_id (f j) = j_id j \<and> j_org (f j) = j_org j \<and> j_idem (f j) = j_idem j \<and>
      j_max_attempts (f j) = j_max_attempts j \<and> j_attempts (f j) = j_attempts j"
    and ok: "\<And>j. j \<in> set (q_jobs s) \<Longrightarrow> job_ok j \<Longrightarrow> P j \<Longrightarrow> job_ok (f j)"
    and held: "\<And>w job. held w = Some job \<Longrightarrow> q_held s w = Some job"
  shows "qinv (s\<lparr>q_jobs := update_jobs P f (q_jobs s), q_held := held\<rparr>)"
proof -
  have ids: "map j_id (update_jobs P f (q_jobs s)) = map j_id (q_jobs s)"
    by (rule update_jobs_ids) (use keep in simp)
  have keys: "map (\<lambda>j. (j_org j, j_idem j)) (update_jobs P f (q_jobs s)) = map (\<lambda>j. (j_org j, j_idem j)) (q_jobs s)"
    by (rule update_jobs_keys) (use keep in simp)
  have "holds job j \<Longrightarrow> holds job (if P j then f j else j)" for job j
    using keep by (simp add: holds_def)
  then have "\<exists>j \<in> set (q_jobs s). holds job j \<Longrightarrow> \<exists>j \<in> set (update_jobs P f (q_jobs s)). holds job j" for job
    unfolding set_update_jobs by blast
  moreover have "j \<in> set (update_jobs P f (q_jobs s)) \<Longrightarrow> job_ok j" for j
    using qinvD(3) [OF inv] ok by (auto simp: set_update_jobs)
  ultimately show ?thesis using qinvD [OF inv] held ids keys by (intro qinvI) (simp_all, blast+)
qed

lemma qinv_update_jobs:
  assumes "qinv s"
    and "\<And>j. j_id (f j) = j_id j \<and> j_org (f j) = j_org j \<and> j_idem (f j) = j_idem j \<and>
      j_max_attempts (f j) = j_max_attempts j \<and> j_attempts (f j) = j_attempts j"
    and "\<And>j. j \<in> set (q_jobs s) \<Longrightarrow> job_ok j \<Longrightarrow> P j \<Longrightarrow> job_ok (f j)"
  shows "qinv (s\<lparr>q_jobs := update_jobs P f (q_jobs s)\<rparr>)"
  using qinv_update [where held = "q_held s", OF assms] by simp

lemma lease_row_keep [simp]:
  "j_id (lease_row owner secs now j) = j_id j" "j_org (lease_row owner secs now j) = j_org j"
  "j_idem (lease_row owner secs now j) = j_idem j"
  "j_max_attempts (lease_row owner secs now j) = j_max_attempts j"
  "j_attempts (lease_row owner secs now j) = j_attempts j + 1"
  "j_lease_owner (lease_row owner secs now j) = Some owner"
  "j_status (lease_row owner secs now j) = ''RUNNING''"
  by (simp_all add: lease_row_def)

lemma claimable_open: "claimable now j \<Longrightarrow> \<not> terminal j"
  by (auto simp: claimable_def terminal_def)

lemma job_ok_lease: "job_ok j \<Longrightarrow> claimable now j \<Longrightarrow> job_ok (lease_row owner secs now j)"
  by (auto simp: job_ok_def lease_row_def terminal_def dest: claimable_open)

lemma claim_stmt_Inr:
  assumes "claim_stmt locked owner secs now gen d = Inr (job, d')"
  obtains j where "candidate locked now d = Some j" "job = claimed_job (lease_row owner secs now j)"
    "d' = update_jobs (\<lambda>r. j_id r = j_id j) (lease_row owner secs now) d"
  using assms by (auto simp: claim_stmt_def split: option.splits)

lemma distinct_ids_eq: "distinct (map j_id d) \<Longrightarrow> i \<in> set d \<Longrightarrow> j \<in> set d \<Longrightarrow> j_id i = j_id j \<Longrightarrow> i = j"
  by (metis distinct_map inj_onD)

lemma qinv_claim:
  assumes inv: "qinv s" and cl: "claim_stmt locked owner secs now gen (q_jobs s) = Inr (job, d)"
    and held: "held = q_held s \<or> held = (q_held s)(w := Some job)" and free: "q_held s w = None"
  shows "qinv (s\<lparr>q_jobs := d, q_held := held\<rparr>)"
proof -
  obtain j where c: "candidate locked now (q_jobs s) = Some j" "job = claimed_job (lease_row owner secs now j)"
    and d: "d = update_jobs (\<lambda>r. j_id r = j_id j) (lease_row owner secs now) (q_jobs s)"
    using cl by (rule claim_stmt_Inr)
  have j: "j \<in> set (q_jobs s)" "claimable now j" using candidate_Some c by blast+
  have dist: "distinct (map j_id (q_jobs s))" using inv by (simp add: qinv_def)
  have same: "r \<in> set (q_jobs s) \<Longrightarrow> j_id r = j_id j \<Longrightarrow> r = j" for r
    using distinct_ids_eq [OF dist] j by blast
  have mem: "lease_row owner secs now j \<in> set d" "r \<in> set (q_jobs s) \<Longrightarrow> r \<noteq> j \<Longrightarrow> r \<in> set d" for r
    using j same by (auto simp: d set_update_jobs image_iff)
  have sets: "set d \<subseteq> insert (lease_row owner secs now j) (set (q_jobs s))"
    using same by (auto simp: d set_update_jobs)
  have ids: "map j_id d = map j_id (q_jobs s)" and keys: "map (\<lambda>j. (j_org j, j_idem j)) d = map (\<lambda>j. (j_org j, j_idem j)) (q_jobs s)"
    unfolding d by (simp_all add: update_jobs_ids update_jobs_keys)
  have "\<forall>r \<in> set d. job_ok r"
    using sets qinvD(3) [OF inv] j job_ok_lease by blast
  moreover have hold_old: "q_held s v = Some k \<Longrightarrow> \<exists>r \<in> set d. holds k r" for v k
  proof -
    assume "q_held s v = Some k"
    then obtain r where r: "r \<in> set (q_jobs s)" "holds k r" using qinvD(4) [OF inv] by blast
    show ?thesis
    proof (cases "r = j")
      case True
      with r mem show ?thesis by (intro bexI [of _ "lease_row owner secs now j"]) (auto simp: holds_def)
    next
      case False
      with r mem show ?thesis by blast
    qed
  qed
  moreover have new: "\<exists>r \<in> set d. holds job r"
    using mem qinvD(3) [OF inv] j c by (intro bexI [of _ "lease_row owner secs now j"])
      (auto simp: holds_def claimed_job_def job_ok_def)
  moreover have less: "q_held s v = Some k \<Longrightarrow> JobID k = JobID job \<Longrightarrow> JobAttempts k < JobAttempts job" for v k
  proof -
    assume "q_held s v = Some k" "JobID k = JobID job"
    then obtain r where r: "r \<in> set (q_jobs s)" "holds k r" using qinvD(4) [OF inv] by blast
    then have "r = j" using same \<open>JobID k = JobID job\<close> c by (auto simp: holds_def claimed_job_def)
    with r c show ?thesis by (auto simp: holds_def claimed_job_def)
  qed
  moreover have "held a = Some x \<Longrightarrow> held b = Some y \<Longrightarrow> a \<noteq> b \<Longrightarrow> JobID x = JobID y \<Longrightarrow>
      JobAttempts x \<noteq> JobAttempts y" for a b x y
    using held qinvD(5) [OF inv] less [of a x] less [of b y] by (auto split: if_splits)
  ultimately show ?thesis
    using qinvD(1,2) [OF inv] ids keys held by (intro qinvI) (auto split: if_splits)
qed

lemma enqueue_stmt_Inr:
  assumes "enqueue_stmt jid org kind raw key priority now gen d = Inr (x, d')"
  obtains (known) j where "List.find (\<lambda>j. j_org j = org \<and> j_idem j = key) d = Some j" "x = j_id j" "d' = d"
  | (new) j where "\<forall>i \<in> set d. \<not> (j_org i = org \<and> j_idem i = key)" "jid \<notin> j_id ` set d" "x = jid" "d' = d @ [j]"
      "j_id j = jid" "j_org j = org" "j_idem j = key" "job_ok j"
proof (cases "List.find (\<lambda>j. j_org j = org \<and> j_idem j = key) d")
  case None
  then have "\<not> (\<exists>j \<in> set d. j_id j = jid)" "x = jid" "d' = d @ [new_job jid org kind raw key priority now]"
    using assms by (auto simp: enqueue_stmt_def split: if_splits)
  moreover have "job_ok (new_job jid org kind raw key priority now)"
    by (simp add: new_job_def job_ok_def terminal_def)
  ultimately show thesis using None
    by (intro new [of "new_job jid org kind raw key priority now"])
      (auto simp: find_None_iff new_job_def)
next
  case (Some j)
  with assms show thesis by (intro known [of j]) (auto simp: enqueue_stmt_def split: if_splits)
qed

lemma qinv_enqueue:
  assumes inv: "qinv s" and e: "enqueue_stmt jid org kind raw key priority now gen (q_jobs s) = Inr (x, d)"
  shows "qinv (s\<lparr>q_jobs := d\<rparr>)"
  using e
proof (cases rule: enqueue_stmt_Inr)
  case known
  with inv show ?thesis by simp
next
  case (new j)
  show ?thesis
  proof (rule qinvI)
    show "distinct (map j_id (q_jobs (s\<lparr>q_jobs := d\<rparr>)))" using new qinvD(1) [OF inv] by simp
    show "distinct (map (\<lambda>j. (j_org j, j_idem j)) (q_jobs (s\<lparr>q_jobs := d\<rparr>)))"
      using new qinvD(2) [OF inv] by auto
    show "job_ok i" if "i \<in> set (q_jobs (s\<lparr>q_jobs := d\<rparr>))" for i
      using that new qinvD(3) [OF inv] by auto
    show "\<exists>j \<in> set (q_jobs (s\<lparr>q_jobs := d\<rparr>)). holds job j" if "q_held (s\<lparr>q_jobs := d\<rparr>) w = Some job" for w job
      using that new qinvD(4) [OF inv, of w job] by auto
  qed (use qinvD(5) [OF inv] in simp)
qed

lemma qinv_step: "qinv s \<Longrightarrow> qstep own secs s t \<Longrightarrow> qinv t"
proof (erule qstep_elim)
  fix jid org kind raw key priority now gen x d
  assume "qinv s" "t = s\<lparr>q_jobs := d\<rparr>" "enqueue_stmt jid org kind raw key priority now gen (q_jobs s) = Inr (x, d)"
  then show "qinv t" using qinv_enqueue by simp
next
  fix w locked now gen job d
  assume "qinv s" "t = s\<lparr>q_jobs := d, q_held := (q_held s)(w \<mapsto> job)\<rparr>" "q_held s w = None"
    "claim_stmt locked (own w) secs now gen (q_jobs s) = Inr (job, d)"
  then show "qinv t" using qinv_claim by blast
next
  fix w locked now gen job d
  assume "qinv s" "t = s\<lparr>q_jobs := d\<rparr>" "q_held s w = None"
    "claim_stmt locked (own w) secs now gen (q_jobs s) = Inr (job, d)"
  then show "qinv t" using qinv_claim [of s locked "own w" secs now gen job d "q_held s" w] by simp
next
  fix w job now gen and x :: unit and d
  assume "qinv s" "t = s\<lparr>q_jobs := d\<rparr>" "renew_stmt secs (JobID job) (own w) now gen (q_jobs s) = Inr (x, d)"
  then show "qinv t" unfolding renew_stmt_def upd_def
    by (auto intro!: qinv_update_jobs simp: job_ok_def terminal_def)
next
  fix w job now gen and x :: unit and d
  assume "qinv s" "t = s\<lparr>q_jobs := d, q_held := (q_held s)(w := None)\<rparr>"
    "succeed_stmt (JobID job) (own w) now gen (q_jobs s) = Inr (x, d)"
  then show "qinv t" unfolding succeed_stmt_def upd_def
    by (auto intro!: qinv_update simp: job_ok_def terminal_def split: if_splits)
next
  fix w job msg now gen and x :: unit and d
  assume inv: "qinv s" and t: "t = s\<lparr>q_jobs := d, q_held := (q_held s)(w := None)\<rparr>" and h: "q_held s w = Some job"
    and r: "retry_stmt (retry_status job) (backoff_seconds job) msg (JobID job) (own w) now gen (q_jobs s) = Inr (x, d)"
  have "j \<in> set (q_jobs s) \<Longrightarrow> j_id j = JobID job \<Longrightarrow> holds job j" for j
    using qinvD(4) [OF inv h] distinct_ids_eq [OF qinvD(1) [OF inv]] by (metis holds_def)
  then have "j \<in> set (q_jobs s) \<Longrightarrow> j_id j = JobID job \<Longrightarrow> JobMaxAttempts job \<le> JobAttempts job \<Longrightarrow>
      JobMaxAttempts job \<le> j_attempts j \<and> j_max_attempts j = JobMaxAttempts job" for j
    by (fastforce simp: holds_def)
  with inv t r show "qinv t" unfolding retry_stmt_def upd_def
    by (auto intro!: qinv_update simp: job_ok_def terminal_def retry_status_def split: if_splits)
next
  fix w job
  assume "qinv s" "t = s\<lparr>q_held := (q_held s)(w := None)\<rparr>"
  then show "qinv t" using qinvD [of s] by (intro qinvI) (auto split: if_splits)
qed

interpretation queue_inv: step_invariant "qstep own secs" qinv for own secs
  by unfold_locales (rule qinv_step)

section \<open>What the steps keep\<close>

text \<open>A finished job stays as it is, and the job of an idempotency key stays the same job.\<close>

lemma terminal_kept:
  assumes inv: "qinv s" and j: "j \<in> set (q_jobs s)" "terminal j" and st: "qstep own secs s t"
  shows "j \<in> set (q_jobs t)"
proof -
  have unowned: "j_lease_owner j = None" using qinvD(3) [OF inv j(1)] j(2) by (auto simp: job_ok_def terminal_def)
  have upd: "\<not> P j \<Longrightarrow> j \<in> set (update_jobs P f (q_jobs s))" for P f
    using j(1) by (force simp: set_update_jobs)
  have cl: "claim_stmt locked (own w) secs now gen (q_jobs s) = Inr (job, d) \<Longrightarrow> j \<in> set d" for locked w now gen job d
  proof (erule claim_stmt_Inr)
    fix i assume c: "candidate locked now (q_jobs s) = Some i"
      and d: "d = update_jobs (\<lambda>r. j_id r = j_id i) (lease_row (own w) secs now) (q_jobs s)"
    have "j \<noteq> i" using candidate_Some(2) [OF c] claimable_open j(2) by blast
    then have "j_id j \<noteq> j_id i"
      using distinct_ids_eq [OF qinvD(1) [OF inv] j(1) candidate_Some(1) [OF c]] by blast
    then show "j \<in> set d" unfolding d by (rule upd)
  qed
  from st show ?thesis
  proof (cases rule: qstep.cases)
    case (enqueue jid org kind raw key priority now gen x d)
    from enqueue(2) show ?thesis by (cases rule: enqueue_stmt_Inr) (use enqueue(1) j in auto)
  next
    case (claim w locked now gen job d)
    then show ?thesis using cl by simp
  next
    case (claim_lost w locked now gen job d)
    then show ?thesis using cl by simp
  qed (use upd unowned j in \<open>auto simp: renew_stmt_def succeed_stmt_def retry_stmt_def upd_def\<close>)
qed

definition key_job :: "jobs \<Rightarrow> string \<Rightarrow> string \<Rightarrow> string option" where
  "key_job d org key = map_option j_id (List.find (\<lambda>j. j_org j = org \<and> j_idem j = key) d)"

lemma key_job_update:
  "(\<And>j. j_id (f j) = j_id j \<and> j_org (f j) = j_org j \<and> j_idem (f j) = j_idem j) \<Longrightarrow>
     key_job (update_jobs P f d) org key = key_job d org key"
  by (induction d) (auto simp: key_job_def update_jobs_def)

lemma key_job_append: "key_job d org key = Some i \<Longrightarrow> key_job (d @ e) org key = Some i"
  by (induction d) (auto simp: key_job_def split: if_splits)

lemma key_job_kept:
  assumes "key_job (q_jobs s) org key = Some i" and "qstep own secs s t"
  shows "key_job (q_jobs t) org key = Some i"
  using assms(2)
proof (cases rule: qstep.cases)
  case (enqueue jid org' kind raw key' priority now gen x d)
  from enqueue(2) show ?thesis
    by (cases rule: enqueue_stmt_Inr) (use enqueue(1) assms(1) key_job_append in auto)
next
  case (claim w locked now gen job d)
  with assms(1) show ?thesis by (auto elim!: claim_stmt_Inr simp: key_job_update)
next
  case (claim_lost w locked now gen job d)
  with assms(1) show ?thesis by (auto elim!: claim_stmt_Inr simp: key_job_update)
qed (use assms(1) in \<open>auto simp: renew_stmt_def succeed_stmt_def retry_stmt_def upd_def key_job_update\<close>)

section \<open>Fencing\<close>

text \<open>A worker's lease is current when the row still carries its name: then it is the latest claim.\<close>

definition fenced :: "(nat \<Rightarrow> string) \<Rightarrow> qstate \<Rightarrow> bool" where
  "fenced own s \<longleftrightarrow> (\<forall>w job j. q_held s w = Some job \<longrightarrow> j \<in> set (q_jobs s) \<longrightarrow> j_id j = JobID job \<longrightarrow>
     j_lease_owner j = Some (own w) \<longrightarrow> j_attempts j = JobAttempts job)"

lemma fencedD: "fenced own s \<Longrightarrow> q_held s w = Some job \<Longrightarrow> j \<in> set (q_jobs s) \<Longrightarrow> j_id j = JobID job \<Longrightarrow>
     j_lease_owner j = Some (own w) \<Longrightarrow> j_attempts j = JobAttempts job"
  by (simp add: fenced_def)

lemma fenced_update:
  assumes "fenced own s"
    and "\<And>j. j_id (f j) = j_id j \<and> j_attempts (f j) = j_attempts j"
    and "\<And>j. P j \<Longrightarrow> j_lease_owner (f j) = j_lease_owner j \<or> j_lease_owner (f j) = None"
    and "\<And>w job. held w = Some job \<Longrightarrow> q_held s w = Some job"
  shows "fenced own (s\<lparr>q_jobs := update_jobs P f (q_jobs s), q_held := held\<rparr>)"
  unfolding fenced_def
proof (intro allI impI)
  fix w job j
  assume h: "q_held (s\<lparr>q_jobs := update_jobs P f (q_jobs s), q_held := held\<rparr>) w = Some job"
    and j: "j \<in> set (q_jobs (s\<lparr>q_jobs := update_jobs P f (q_jobs s), q_held := held\<rparr>))"
    and id: "j_id j = JobID job" and own: "j_lease_owner j = Some (own w)"
  from j obtain i where i: "i \<in> set (q_jobs s)" "j = (if P i then f i else i)" by (auto simp: set_update_jobs)
  then have "j_lease_owner i = Some (own w)" using own assms(3) [of i] by (auto split: if_splits)
  then have "j_attempts i = JobAttempts job"
    using i id assms(2,4) h by (intro fencedD [OF assms(1)]) (auto split: if_splits)
  with i assms(2) show "j_attempts j = JobAttempts job" by auto
qed

lemma fenced_claim:
  assumes inj: "inj own" and f: "fenced own s" and inv: "qinv s" and free: "q_held s w = None"
    and cl: "claim_stmt locked (own w) secs now gen (q_jobs s) = Inr (job, d)"
    and held: "held = q_held s \<or> held = (q_held s)(w := Some job)"
  shows "fenced own (s\<lparr>q_jobs := d, q_held := held\<rparr>)"
  unfolding fenced_def
proof (intro allI impI)
  obtain j where c: "candidate locked now (q_jobs s) = Some j" and job: "job = claimed_job (lease_row (own w) secs now j)"
    and d: "d = update_jobs (\<lambda>r. j_id r = j_id j) (lease_row (own w) secs now) (q_jobs s)"
    using cl by (rule claim_stmt_Inr)
  fix v k i
  assume h: "q_held (s\<lparr>q_jobs := d, q_held := held\<rparr>) v = Some k"
    and i: "i \<in> set (q_jobs (s\<lparr>q_jobs := d, q_held := held\<rparr>))" and id: "j_id i = JobID k"
    and own: "j_lease_owner i = Some (own v)"
  from i obtain r where r: "r \<in> set (q_jobs s)" and ir: "i = (if j_id r = j_id j then lease_row (own w) secs now r else r)"
    by (auto simp: d set_update_jobs)
  show "j_attempts i = JobAttempts k"
  proof (cases "j_id r = j_id j")
    case True
    then have "v = w" using ir own inj by (auto simp: inj_eq)
    then have "k = job" using h held free by (auto split: if_splits)
    moreover have "r = j" using distinct_ids_eq [OF qinvD(1) [OF inv] r candidate_Some(1) [OF c]] True by simp
    ultimately show ?thesis using ir True job by (simp add: claimed_job_def)
  next
    case False
    then have ir': "i = r" using ir by simp
    have "q_held s v = Some k"
    proof (cases "v = w")
      case True
      with h held free have "k = job" by (auto split: if_splits)
      with id ir' False job show ?thesis by (simp add: claimed_job_def)
    qed (use h held in \<open>auto split: if_splits\<close>)
    then show ?thesis using fencedD [OF f] r ir' id own by simp
  qed
qed

lemma fenced_step:
  assumes "inj own" and inv: "qinv s" and f: "fenced own s" and "qstep own secs s t"
  shows "fenced own t"
  using assms(4)
proof (cases rule: qstep.cases)
  case (enqueue jid org kind raw key priority now gen x d)
  from enqueue(2) show ?thesis
  proof (cases rule: enqueue_stmt_Inr)
    case known
    then show ?thesis using enqueue(1) f by simp
  next
    case (new j)
    have "q_held s w = Some job \<Longrightarrow> JobID job \<noteq> jid" for w job
      using qinvD(4) [OF inv, of w job] new by (metis holds_def imageI)
    then show ?thesis using enqueue(1) f new by (fastforce simp: fenced_def)
  qed
next
  case (claim w locked now gen job d)
  then show ?thesis using fenced_claim [OF assms(1) f inv] by blast
next
  case (claim_lost w locked now gen job d)
  then show ?thesis using fenced_claim [OF assms(1) f inv, of w locked secs now gen job d "q_held s"] by simp
next
  case (renew w job now gen x d)
  then show ?thesis
    using fenced_update [OF f, where held = "q_held s"] by (auto simp: renew_stmt_def upd_def)
next
  case (drop w job)
  then show ?thesis using f by (auto simp: fenced_def split: if_splits)
qed (auto simp: succeed_stmt_def retry_stmt_def upd_def intro!: fenced_update [OF f] split: if_splits)

interpretation queue_fenced: step_invariant "qstep own secs" "\<lambda>s. qinv s \<and> (inj own \<longrightarrow> fenced own s)" for own secs
  by unfold_locales (auto intro: qinv_step fenced_step)

lemma fenced_init: "fenced own q_init"
  by (simp add: fenced_def q_init_def)

section \<open>Properties\<close>

text \<open>
  C31: The job table is always consistent. Whatever workers, lease expiries, crashes and lost
  acknowledgements interleave: ids and idempotency keys are unique, a job is RUNNING exactly while
  it has a lease owner and a lease time, it is finished exactly when it has a completion time, a
  DEAD job has used up its attempts, and two workers never hold the same attempt of a job.
\<close>

theorem queue_consistent:
  assumes "(qstep own secs)\<^sup>*\<^sup>* q_init s"
  shows "distinct (map j_id (q_jobs s)) \<and> distinct (map (\<lambda>j. (j_org j, j_idem j)) (q_jobs s)) \<and>
    (\<forall>j \<in> set (q_jobs s).
       (j_status j = ''RUNNING'' \<longleftrightarrow> j_lease_owner j \<noteq> None) \<and> (j_lease_owner j = None \<longleftrightarrow> j_lease_until j = None) \<and>
       (j_status j = ''SUCCEEDED'' \<or> j_status j = ''DEAD'' \<longleftrightarrow> j_completed_at j \<noteq> None) \<and>
       (j_status j = ''DEAD'' \<longrightarrow> j_max_attempts j \<le> j_attempts j)) \<and>
    (\<forall>w v job job'. q_held s w = Some job \<longrightarrow> q_held s v = Some job' \<longrightarrow> w \<noteq> v \<longrightarrow>
        JobID job = JobID job' \<longrightarrow> JobAttempts job \<noteq> JobAttempts job')"
proof -
  have inv: "qinv s" using queue_inv.inv_steps [OF assms qinv_init] .
  have "job_ok j" if "j \<in> set (q_jobs s)" for j using qinvD(3) [OF inv that] .
  then show ?thesis using qinvD [OF inv] unfolding job_ok_def terminal_def by blast
qed

lemma enqueue_step:
  "enqueue_stmt jid org kind raw key priority now gen (q_jobs s) = Inr (x, d) \<Longrightarrow>
     (qstep own secs)\<^sup>*\<^sup>* s (s\<lparr>q_jobs := d\<rparr>)"
  by (blast intro: qstep.enqueue)

definition sample_job :: job_row where
  "sample_job = new_job ''j1'' ''org'' ''CONNECTOR_SYNC'' ''{}'' ''sync:1'' 50 7"

lemma sample_enqueue: "(qstep own secs)\<^sup>*\<^sup>* q_init (q_init\<lparr>q_jobs := [sample_job]\<rparr>)"
  by (rule enqueue_step [of "''j1''" "''org''" "''CONNECTOR_SYNC''" "''{}''" "''sync:1''" 50 7 "\<lambda>_. []" q_init "''j1''"])
    (simp add: enqueue_stmt_def q_init_def sample_job_def)

theorem queue_consistent_witness:
  "distinct (map j_id (q_jobs (q_init\<lparr>q_jobs := [sample_job]\<rparr>))) \<and>
   (j_status sample_job = ''RUNNING'' \<longleftrightarrow> j_lease_owner sample_job \<noteq> None)"
proof -
  note c = queue_consistent [OF sample_enqueue]
  have "sample_job \<in> set (q_jobs (q_init\<lparr>q_jobs := [sample_job]\<rparr>))" by simp
  with c show ?thesis by blast
qed


definition sample_claimed :: qstate where
  "sample_claimed = \<lparr>q_jobs = [lease_row ''worker-0'' 120 9 sample_job],
     q_held = (\<lambda>_. None)(0 := Some (claimed_job (lease_row ''worker-0'' 120 9 sample_job)))\<rparr>"

definition sample_own :: "nat \<Rightarrow> string" where
  "sample_own w = ''worker-'' @ nat_text w"

lemma inj_sample_own: "inj sample_own"
  by (rule injI) (metis digits_value_nat_text same_append_eq sample_own_def)

lemma sample_own_0: "sample_own 0 = ''worker-0''"
  by code_simp

lemma sample_claim: "(qstep sample_own 120)\<^sup>*\<^sup>* q_init sample_claimed"
proof -
  have cand: "candidate [] 9 [sample_job] = Some sample_job"
    by (simp add: candidate_def claimable_def sample_job_def new_job_def)
  have "qstep sample_own 120 (q_init\<lparr>q_jobs := [sample_job]\<rparr>) ((q_init\<lparr>q_jobs := [sample_job]\<rparr>)
      \<lparr>q_jobs := [lease_row ''worker-0'' 120 9 sample_job],
       q_held := (q_held (q_init\<lparr>q_jobs := [sample_job]\<rparr>))(0 := Some (claimed_job (lease_row ''worker-0'' 120 9 sample_job)))\<rparr>)"
    by (rule qstep.claim [where locked = "[]" and now = 9 and gen = "\<lambda>_. []"])
      (simp_all add: q_init_def claim_stmt_def cand sample_own_0 update_jobs_def)
  then have "qstep sample_own 120 (q_init\<lparr>q_jobs := [sample_job]\<rparr>) sample_claimed"
    by (simp add: sample_claimed_def q_init_def)
  with sample_enqueue show ?thesis by (rule rtranclp.rtrancl_into_rtrancl)
qed


text \<open>
  A finished job stays finished. Once a row is SUCCEEDED or DEAD, no later step of any worker
  changes it: late heartbeats, late results of stale workers and repeated enqueues leave it alone.
\<close>

theorem finished_jobs_stay:
  assumes "(qstep own secs)\<^sup>*\<^sup>* q_init s" and "(qstep own secs)\<^sup>*\<^sup>* s t"
    and "j \<in> set (q_jobs s)" and "j_status j = ''SUCCEEDED'' \<or> j_status j = ''DEAD''"
  shows "j \<in> set (q_jobs t)"
  by (rule queue_inv.stable_steps [OF assms(2), where P = "\<lambda>u. j \<in> set (q_jobs u)"])
    (use assms queue_inv.inv_steps [OF assms(1) qinv_init] terminal_kept in \<open>auto simp: terminal_def\<close>)

definition sample_done :: qstate where
  "sample_done = \<lparr>q_jobs = update_jobs (\<lambda>j. j_id j = ''j1'' \<and> j_lease_owner j = Some ''worker-0'')
       (\<lambda>j. j\<lparr>j_status := ''SUCCEEDED'', j_completed_at := Some 10, j_lease_owner := None,
         j_lease_until := None, j_error_code := None, j_error_summary := None\<rparr>) (q_jobs sample_claimed),
     q_held = (q_held sample_claimed)(0 := None)\<rparr>"

lemma sample_finish: "(qstep sample_own 120)\<^sup>*\<^sup>* q_init sample_done"
proof -
  have "qstep sample_own 120 sample_claimed (sample_claimed\<lparr>q_jobs := q_jobs sample_done,
      q_held := (q_held sample_claimed)(0 := None)\<rparr>)"
    by (rule qstep.succeed [where job = "claimed_job (lease_row ''worker-0'' 120 9 sample_job)" and now = 10
          and gen = "\<lambda>_. []" and x = "()"])
      (simp_all add: sample_claimed_def sample_done_def succeed_stmt_def upd_def sample_own_0 claimed_job_def
        sample_job_def new_job_def)
  moreover have "sample_claimed\<lparr>q_jobs := q_jobs sample_done, q_held := (q_held sample_claimed)(0 := None)\<rparr> = sample_done"
    by (simp add: sample_done_def sample_claimed_def)
  ultimately have "qstep sample_own 120 sample_claimed sample_done" by simp
  with sample_claim show ?thesis by (rule rtranclp.rtrancl_into_rtrancl)
qed

theorem finished_jobs_stay_witness:
  "hd (q_jobs sample_done) \<in> set (q_jobs sample_done) \<and> j_status (hd (q_jobs sample_done)) = ''SUCCEEDED''"
proof
  have ne: "q_jobs sample_done \<noteq> []" "j_status (hd (q_jobs sample_done)) = ''SUCCEEDED''"
    by (simp_all add: sample_done_def sample_claimed_def update_jobs_def sample_job_def new_job_def lease_row_def)
  show "hd (q_jobs sample_done) \<in> set (q_jobs sample_done)"
    by (rule finished_jobs_stay [OF sample_finish rtranclp.rtrancl_refl]) (use ne in auto)
  show "j_status (hd (q_jobs sample_done)) = ''SUCCEEDED''" by (rule ne)
qed

text \<open>
  C34: Enqueueing is idempotent. Once a key has a job, every later enqueue under that key, whatever
  happened to the job in between, returns the same job and leaves the table as it is: the job of a
  key runs again only through its own lease, never through a second row.
\<close>

theorem enqueue_idempotent:
  assumes "enqueue_stmt jid org kind raw key priority now gen (q_jobs s) = Inr (x, d)"
    and "(qstep own secs)\<^sup>*\<^sup>* (s\<lparr>q_jobs := d\<rparr>) t"
    and "enqueue_stmt jid' org kind' raw' key priority' now' gen' (q_jobs t) = Inr (x', d')"
  shows "x' = x \<and> d' = q_jobs t"
proof -
  have "key_job d org key = Some x"
    using assms(1)
  proof (cases rule: enqueue_stmt_Inr)
    case (known j)
    then show ?thesis by (simp add: key_job_def)
  next
    case (new j)
    then have "List.find (\<lambda>i. j_org i = org \<and> j_idem i = key) (q_jobs s @ [j]) = Some j"
      by (simp add: find_append find_NoneI)
    with new show ?thesis by (simp add: key_job_def)
  qed
  then have "key_job (q_jobs (s\<lparr>q_jobs := d\<rparr>)) org key = Some x" by simp
  with assms(2) have "key_job (q_jobs t) org key = Some x"
    by (induction rule: rtranclp_induct) (auto intro: key_job_kept)
  with assms(3) show ?thesis
    by (auto simp: key_job_def find_None_iff elim!: enqueue_stmt_Inr dest: find_SomeD)
qed

theorem enqueue_idempotent_witness:
  "fst (projr (enqueue_stmt ''j2'' ''org'' ''CONNECTOR_SYNC'' ''{}'' ''sync:1'' 900 99 (\<lambda>_. []) [sample_job])) = ''j1'' \<and>
   snd (projr (enqueue_stmt ''j2'' ''org'' ''CONNECTOR_SYNC'' ''{}'' ''sync:1'' 900 99 (\<lambda>_. []) [sample_job])) = [sample_job]"
proof -
  let ?e = "enqueue_stmt ''j2'' ''org'' ''CONNECTOR_SYNC'' ''{}'' ''sync:1'' 900 99 (\<lambda>_. []) [sample_job]"
  have first: "enqueue_stmt ''j1'' ''org'' ''CONNECTOR_SYNC'' ''{}'' ''sync:1'' 50 7 (\<lambda>_. []) (q_jobs q_init) = Inr (''j1'', [sample_job])"
    by (simp add: enqueue_stmt_def q_init_def sample_job_def)
  have second: "?e = Inr (fst (projr ?e), snd (projr ?e))"
    by (simp add: enqueue_stmt_def sample_job_def new_job_def)
  have "fst (projr ?e) = ''j1'' \<and> snd (projr ?e) = q_jobs (q_init\<lparr>q_jobs := [sample_job]\<rparr>)"
    by (rule enqueue_idempotent [OF first rtranclp.rtrancl_refl [of "qstep sample_own 120"]]) (use second in simp)
  then show ?thesis by simp
qed

text \<open>
  Claiming takes the most urgent job. \<open>claim\<close> leases a job that is due (queued and available,
  or with an expired lease) and not locked by another session, and no other such job has a higher
  priority, or the same priority and an earlier creation time; it finds no job only when none is due.
\<close>

theorem claim_most_urgent:
  "case claim_stmt locked owner secs now gen d of
     Inl e \<Rightarrow> e = ErrNoRows \<and> (\<forall>j \<in> set d. claimable now j \<longrightarrow> j_id j \<in> set locked)
   | Inr (job, d') \<Rightarrow> (\<exists>j \<in> set d. claimable now j \<and> j_id j \<notin> set locked \<and> j_id j = JobID job \<and>
       JobAttempts job = j_attempts j + 1 \<and>
       (\<forall>i \<in> set d. claimable now i \<longrightarrow> j_id i \<notin> set locked \<longrightarrow>
          j_priority i < j_priority j \<or> j_priority i = j_priority j \<and> j_created_at j \<le> j_created_at i) \<and>
       (\<forall>i \<in> set d'. j_id i = JobID job \<longrightarrow> j_status i = ''RUNNING'' \<and> j_lease_owner i = Some owner))"
proof (cases "candidate locked now d")
  case None
  then show ?thesis using candidate_None [of locked now d] by (simp add: claim_stmt_def)
next
  case (Some j)
  note c = candidate_Some [OF Some]
  have "\<forall>i \<in> set (update_jobs (\<lambda>r. j_id r = j_id j) (lease_row owner secs now) d).
      j_id i = j_id j \<longrightarrow> j_status i = ''RUNNING'' \<and> j_lease_owner i = Some owner"
    by (auto simp: set_update_jobs)
  with Some c show ?thesis
    by (auto simp: claim_stmt_def claimed_job_def intro!: bexI [of _ j])
qed

theorem claim_most_urgent_witness:
  "\<exists>j \<in> set [sample_job, sample_job\<lparr>j_id := ''j9'', j_priority := 90\<rparr>].
     j_id j = JobID (fst (projr (claim_stmt [] ''w'' 120 9 (\<lambda>_. [])
       [sample_job, sample_job\<lparr>j_id := ''j9'', j_priority := 90\<rparr>]))) \<and> j_priority j = 90"
proof -
  let ?d = "[sample_job, sample_job\<lparr>j_id := ''j9'', j_priority := 90\<rparr>]"
  have "claim_stmt [] ''w'' 120 9 (\<lambda>_. []) ?d \<noteq> Inl e" for e
    by (simp add: claim_stmt_def candidate_def claimable_def sample_job_def new_job_def)
  then obtain job d' where r: "claim_stmt [] ''w'' 120 9 (\<lambda>_. []) ?d = Inr (job, d')"
    by (cases "claim_stmt [] ''w'' 120 9 (\<lambda>_. []) ?d") auto
  have "\<forall>i \<in> set ?d. claimable 9 i" by (simp add: claimable_def sample_job_def new_job_def)
  with claim_most_urgent [where locked = "[]" and owner = "''w''" and secs = 120 and now = 9 and gen = "\<lambda>_. []" and d = ?d] r show ?thesis
    by (auto simp: sample_job_def new_job_def)
qed

text \<open>
  Attempts are not bounded by the limit. An expired lease is claimed again whatever the number
  of attempts: for every n there is a run of the queue, of workers that crash after each claim, in
  which a job that is allowed five attempts has been started at least n times.
\<close>

theorem attempts_unbounded:
  "\<exists>s. (qstep own secs)\<^sup>*\<^sup>* q_init s \<and> (\<exists>j \<in> set (q_jobs s). j_max_attempts j = 5 \<and> int n \<le> j_attempts j)"
proof -
  define good where "good = (\<lambda>(s :: qstate) n j. q_jobs s = [j] \<and> q_held s = (\<lambda>_. None) \<and> j_max_attempts j = 5 \<and>
      j_attempts j = int n \<and> (\<exists>now. claimable now j))"
  have "\<exists>s j. (qstep own secs)\<^sup>*\<^sup>* q_init s \<and> good s n j"
  proof (induction n)
    case 0
    have "good (q_init\<lparr>q_jobs := [sample_job]\<rparr>) 0 sample_job"
      by (auto simp: good_def q_init_def sample_job_def new_job_def claimable_def)
    with sample_enqueue show ?case by blast
  next
    case (Suc n)
    then obtain s j now where run: "(qstep own secs)\<^sup>*\<^sup>* q_init s" and g: "good s n j" and cl: "claimable now j"
      by (auto simp: good_def)
    let ?j = "lease_row (own 0) secs now j"
    have "claim_stmt [] (own 0) secs now (\<lambda>_. []) (q_jobs s) = Inr (claimed_job ?j, [?j])"
      using g cl by (simp add: good_def claim_stmt_def candidate_def update_jobs_def)
    then have "qstep own secs s (s\<lparr>q_jobs := [?j]\<rparr>)"
      using g by (intro qstep.claim_lost [where w = 0]) (auto simp: good_def)
    with run have "(qstep own secs)\<^sup>*\<^sup>* q_init (s\<lparr>q_jobs := [?j]\<rparr>)" by (rule rtranclp.rtrancl_into_rtrancl)
    moreover have "claimable (now + secs * Second + 1) ?j" by (simp add: claimable_def lease_row_def)
    then have "good (s\<lparr>q_jobs := [?j]\<rparr>) (Suc n) ?j"
      using g unfolding good_def by auto
    ultimately show ?case by blast
  qed
  then show ?thesis by (auto simp: good_def)
qed

text \<open>
  Retries back off within bounds. After a failed attempt of a claimed job the next one is
  delayed by a power of two of at least two and at most 256 seconds, and the job is dead exactly
  when the attempt was the last one allowed.
\<close>

theorem retry_backoff_bounds:
  assumes "1 \<le> JobAttempts job"
  shows "2 \<le> backoff_seconds job \<and> backoff_seconds job \<le> 256 \<and>
    (JobAttempts job \<le> 8 \<longrightarrow> backoff_seconds job = 2 ^ nat (JobAttempts job)) \<and>
    (retry_status job = ''DEAD'' \<longleftrightarrow> JobMaxAttempts job \<le> JobAttempts job)"
proof -
  let ?e = "nat (min (JobAttempts job) 8)"
  have "1 \<le> ?e" "?e \<le> 8" using assms by auto
  then have "(2 :: int) ^ 1 \<le> 2 ^ ?e" "(2 :: int) ^ ?e \<le> 2 ^ 8"
    by (intro power_increasing; simp)+
  then show ?thesis using assms by (simp add: backoff_seconds_def retry_status_def min_def)
qed

theorem retry_backoff_bounds_witness:
  "backoff_seconds \<lparr>JobID = ''j'', JobOrganizationID = ''o'', JobKind = ''k'', JobPayload = [],
     JobAttempts = 12, JobMaxAttempts = 5\<rparr> \<le> 256"
  using retry_backoff_bounds [of "\<lparr>JobID = ''j'', JobOrganizationID = ''o'', JobKind = ''k'', JobPayload = [],
     JobAttempts = 12, JobMaxAttempts = 5\<rparr>"] by simp

end
