(* ===== verification/QueueProgress.thy ===== *)
theory QueueProgress
  imports Queue
begin

text \<open>
  Progress of the job queue: what the loop of one worker achieves when its handlers and the database work.
\<close>

section \<open>Progress of a working worker\<close>

text \<open>The loop of \<open>run\<close>, \<open>n\<close> iterations of it.\<close>

fun run_rounds :: "((jobs, 'z) world_scheme) DistributedQueue \<Rightarrow> nat \<Rightarrow> (jobs, 'z) world_scheme \<Rightarrow> (jobs, 'z) world_scheme" where
  "run_rounds q 0 w = w"
| "run_rounds q (Suc n) w = run_rounds q n (snd (run_once q [] w))"

text \<open>A world without faults, whose clock does not run backwards, outside a transaction.\<close>

definition calm :: "(jobs, 'z) world_scheme \<Rightarrow> bool" where
  "calm w \<longleftrightarrow> (\<forall>n. faults w n = NoFault) \<and> mono (clock w) \<and> txnow w = None"

definition same_environment :: "(jobs, 'z) world_scheme \<Rightarrow> (jobs, 'z) world_scheme \<Rightarrow> bool" where
  "same_environment w w' \<longleftrightarrow> faults w' = faults w \<and> clock w' = clock w \<and> txnow w' = txnow w \<and> ticks w \<le> ticks w'"

text \<open>Handlers that are registered, return without an error and leave the job table to the queue.\<close>

definition handlers_work :: "((jobs, 'z) world_scheme) DistributedQueue \<Rightarrow> bool" where
  "handlers_work q \<longleftrightarrow> (\<forall>kind. \<exists>h. handlers q kind = Some h \<and>
     (\<forall>job w. fst (h job w) = Inr () \<and> db (snd (h job w)) = db w \<and> same_environment w (snd (h job w))))"

lemma calm_same: "calm w \<Longrightarrow> same_environment w w' \<Longrightarrow> calm w'"
  by (simp add: calm_def same_environment_def)

lemma exec_calm:
  assumes "calm w" and "st (clock w (ticks w)) (fresh w (ticks w)) (db w) = Inr (x, d)"
  shows "exec st w = (Inr x, w\<lparr>ticks := Suc (ticks w), db := d\<rparr>)"
  using assms by (simp add: exec_def calm_def now_of_def)

definition succeeded_row :: "string \<Rightarrow> int \<Rightarrow> tstamp \<Rightarrow> tstamp \<Rightarrow> job_row \<Rightarrow> job_row" where
  "succeeded_row owner secs now fin j = (lease_row owner secs now j)\<lparr>j_status := ''SUCCEEDED'', j_completed_at := Some fin, j_lease_owner := None,
     j_lease_until := None, j_error_code := None, j_error_summary := None\<rparr>"

lemma succeed_leased:
  "succeed_stmt jid owner fin gen (update_jobs (\<lambda>r. j_id r = jid) (lease_row owner secs now) d) =
     Inr ((), update_jobs (\<lambda>r. j_id r = jid) (succeeded_row owner secs now fin) d)"
  by (simp add: succeed_stmt_def upd_def update_jobs_def succeeded_row_def)

text \<open>One round finishes the most urgent due job and touches no other, or finds nothing due.\<close>

lemma run_once_calm:
  assumes c: "calm w" and h: "handlers_work q"
  obtains (job) j fin where "candidate [] (clock w (ticks w)) (db w) = Some j" "same_environment w (snd (run_once q [] w))"
      "db (snd (run_once q [] w)) = update_jobs (\<lambda>r. j_id r = j_id j)
         (succeeded_row (WorkerID q) (quot (Lease q) Second) (clock w (ticks w)) fin) (db w)"
  | (idle) "candidate [] (clock w (ticks w)) (db w) = None" "same_environment w (snd (run_once q [] w))"
      "db (snd (run_once q [] w)) = db w"
proof (cases "candidate [] (clock w (ticks w)) (db w)")
  case None
  then have "claim q [] w = (Inl ErrNoRows, w\<lparr>ticks := Suc (ticks w)\<rparr>)"
    using c by (simp add: claim_def exec_def claim_stmt_def calm_def now_of_def)
  then show thesis using None by (intro idle) (simp_all add: run_once_def attempt_def bnd_def ret_def same_environment_def)
next
  case (Some j)
  let ?secs = "quot (Lease q) Second" and ?now = "clock w (ticks w)"
  let ?w1 = "w\<lparr>ticks := Suc (ticks w), db := update_jobs (\<lambda>r. j_id r = j_id j) (lease_row (WorkerID q) ?secs ?now) (db w)\<rparr>"
  let ?job = "claimed_job (lease_row (WorkerID q) ?secs ?now j)"
  have claim: "claim q [] w = (Inr ?job, ?w1)"
    unfolding claim_def by (rule exec_calm [OF c]) (simp add: claim_stmt_def Some)
  obtain hd where hd: "handlers q (JobKind ?job) = Some hd" "fst (hd ?job ?w1) = Inr ()" "db (snd (hd ?job ?w1)) = db ?w1"
      "same_environment ?w1 (snd (hd ?job ?w1))"
    using h unfolding handlers_work_def by blast
  then obtain w2 where w2: "hd ?job ?w1 = (Inr (), w2)" "db w2 = db ?w1" "same_environment ?w1 w2" by (metis prod.collapse)
  have env: "same_environment w w2" using w2(3) by (simp add: same_environment_def)
  let ?d = "update_jobs (\<lambda>r. j_id r = j_id j) (succeeded_row (WorkerID q) ?secs ?now (clock w2 (ticks w2))) (db w)"
  have "exec (succeed_stmt (JobID ?job) (WorkerID q)) w2 = (Inr (), w2\<lparr>ticks := Suc (ticks w2), db := ?d\<rparr>)"
    by (rule exec_calm [OF calm_same [OF c env]]) (simp add: w2(2) succeed_leased claimed_job_def)
  then have "run_once q [] w = (Inr True, w2\<lparr>ticks := Suc (ticks w2), db := ?d\<rparr>)"
    using claim hd(1) w2(1) by (simp add: run_once_def execute_def attempt_def bnd_def ignore_def ret_def)
  then show thesis using Some env by (intro job) (auto simp: same_environment_def)
qed

definition open_count :: "jobs \<Rightarrow> nat" where
  "open_count d = length (filter (\<lambda>j. \<not> terminal j) d)"

lemma succeeded_row_simps [simp]:
  "j_id (succeeded_row owner secs now fin j) = j_id j" "j_status (succeeded_row owner secs now fin j) = ''SUCCEEDED''"
  by (simp_all add: succeeded_row_def)

lemma open_count_update:
  assumes "j \<in> set d" and "\<not> terminal j" and "\<And>r. terminal (f r)"
  shows "open_count (update_jobs (\<lambda>r. j_id r = j_id j) f d) < open_count d"
  using assms(1,2)
proof (induction d)
  case (Cons r d)
  have "open_count (update_jobs P f ds) \<le> open_count ds" for P ds
    using assms(3) by (induction ds) (auto simp: open_count_def update_jobs_def)
  from this [of "\<lambda>r. j_id r = j_id j" d] show ?case using Cons assms(3) by (auto simp: open_count_def update_jobs_def)
qed simp

text \<open>A job that is due stays due, and a job that has succeeded stays as it is.\<close>

lemma claimable_mono: "claimable now j \<Longrightarrow> now \<le> later \<Longrightarrow> claimable later j"
  by (auto simp: claimable_def split: option.splits)

lemma run_once_succeeded:
  assumes "handlers_work q" and "calm w" and "distinct (map j_id (db w))" and "j \<in> set (db w)" and "j_status j = ''SUCCEEDED''"
  shows "j \<in> set (db (snd (run_once q [] w)))"
  using assms(2,1)
proof (cases rule: run_once_calm)
  case (job k fin)
  have "k \<in> set (db w)" "claimable (clock w (ticks w)) k" using candidate_Some [OF job(1)] by blast+
  then have "j_id j \<noteq> j_id k" using distinct_ids_eq [OF assms(3,4)] assms(5) by (auto simp: claimable_def)
  then show ?thesis using assms(4) unfolding job(3) set_update_jobs by force
qed (use assms in simp)

lemma run_once_ids:
  assumes "handlers_work q" and "calm w"
  shows "map j_id (db (snd (run_once q [] w))) = map j_id (db w)" "calm (snd (run_once q [] w))"
  using assms(2,1) by (rule run_once_calm, simp add: update_jobs_ids, simp)
    (use assms(2,1) in \<open>rule run_once_calm, auto intro: calm_same\<close>)

lemma run_rounds_succeeded:
  assumes "handlers_work q" and "calm w" and "distinct (map j_id (db w))" and "j \<in> set (db w)" and "j_status j = ''SUCCEEDED''"
  shows "j \<in> set (db (run_rounds q n w))"
  using assms(2-)
proof (induction n arbitrary: w)
  case (Suc n)
  then show ?case using run_once_succeeded [OF assms(1)] run_once_ids [OF assms(1)] by simp
qed simp

lemma run_rounds_finish:
  assumes "handlers_work q" and "calm w" and "distinct (map j_id (db w))" and "open_count (db w) \<le> n"
    and "j \<in> set (db w)" and "claimable (clock w (ticks w)) j"
  shows "\<exists>j' \<in> set (db (run_rounds q n w)). j_id j' = j_id j \<and> j_status j' = ''SUCCEEDED''"
  using assms(2-)
proof (induction n arbitrary: w)
  case 0
  then have "terminal j" by (auto simp: open_count_def filter_empty_conv)
  then show ?case using 0 claimable_open by auto
next
  case (Suc n)
  let ?w' = "snd (run_once q [] w)"
  note next_world = run_once_ids [OF assms(1) Suc.prems(1)]
  show ?case using Suc.prems(1) assms(1)
  proof (cases rule: run_once_calm)
    case (job k fin)
    let ?f = "succeeded_row (WorkerID q) (quot (Lease q) Second) (clock w (ticks w)) fin"
    have kin: "k \<in> set (db w)" "\<not> terminal k" using candidate_Some [OF job(1)] claimable_open by blast+
    show ?thesis
    proof (cases "j_id j = j_id k")
      case True
      then have "?f j \<in> set (db ?w')" unfolding job(3) set_update_jobs
        by (intro image_eqI [of _ _ j]) (use True Suc.prems(4) in simp_all)
      then have "?f j \<in> set (db (run_rounds q n ?w'))"
        using run_rounds_succeeded [OF assms(1), of ?w' "?f j" n] next_world Suc.prems(2) by simp
      then show ?thesis by (intro bexI [of _ "?f j"]) simp_all
    next
      case False
      then have "j \<in> set (db ?w')" using Suc.prems(4) unfolding job(3) set_update_jobs by force
      moreover have "open_count (db ?w') \<le> n"
        using open_count_update [OF kin, of ?f] Suc.prems(3) job(3) by (simp add: terminal_def)
      moreover have "clock w (ticks w) \<le> clock ?w' (ticks ?w')"
        using job(2) Suc.prems(1) by (simp add: same_environment_def calm_def monoD)
      ultimately show ?thesis
        using Suc.IH [of ?w'] Suc.prems(2,5) next_world claimable_mono by simp
    qed
  next
    case idle
    then show ?thesis using Suc.prems(4,5) by (auto simp: candidate_None)
  qed
qed


definition sample_queue_world :: "jobs world" where
  "sample_queue_world = \<lparr>db = [sample_job], ticks = 9, faults = (\<lambda>_. NoFault), clock = int, fresh = (\<lambda>_ _. []), txnow = None\<rparr>"

definition sample_queue :: "(jobs world) DistributedQueue" where
  "sample_queue = \<lparr>WorkerID = ''w'', Lease = 120 * Second, PollInterval = 500 * Millisecond, handlers = (\<lambda>_. Some (\<lambda>_. ret ()))\<rparr>"


end
