(* ===== verification/Pool.thy ===== *)
theory Pool
  imports Prelude
begin

text \<open>
  \<open>backend/internal/workers/pool.go\<close>: the bounded in-process worker pool. \<open>Submit\<close> is a
  non-blocking send on a buffered channel; the goroutines that \<open>Start\<close> launches, and \<open>Stop\<close>, are
  the steps of a transition system. A job is an opaque value; \<open>None\<close> is a nil function.
\<close>

section \<open>The pool and its operations\<close>

text \<open>
  \<open>capacity\<close> and \<open>queue\<close> are the channel. \<open>workers\<close> are the running goroutines (the count of the
  wait group), \<open>busy w\<close> the job goroutine \<open>w\<close> executes, \<open>cancelled\<close> the state of the context. The
  last two fields record history: the jobs accepted by the channel and those received from it.
\<close>

record 'j Pool =
  capacity :: int
  queue :: "'j option list"
  workers :: "nat list"
  busy :: "nat \<Rightarrow> 'j option"
  cancelled :: bool
  accepted :: "'j option list"
  received :: "'j option list"

definition New :: "int \<Rightarrow> int \<Rightarrow> 'j Pool" where
  "New n queueSize =
    (let n1 = (if n < 1 then 1 else n);
         q1 = (if queueSize < n1 then n1 else queueSize)
     in \<lparr>capacity = q1, queue = [], workers = [], busy = (\<lambda>_. None), cancelled = False,
         accepted = [], received = []\<rparr>)"

definition Start :: "int \<Rightarrow> 'j Pool \<Rightarrow> 'j Pool" where
  "Start n p = p\<lparr>workers := [0..<nat n]\<rparr>"

definition Submit :: "'j option \<Rightarrow> 'j Pool \<Rightarrow> (error + unit) \<times> 'j Pool" where
  "Submit job p =
    (if int (length (queue p)) < capacity p
     then (Inr (), p\<lparr>queue := queue p @ [job], accepted := accepted p @ [job]\<rparr>)
     else (Inl (Errorf ''worker queue is full''), p))"

text \<open>
  The goroutines. A worker that waits in \<open>select\<close> either sees the cancelled context and ends, or
  receives a job; a nil job is dropped; \<open>Stop\<close> cancels and waits until no worker is left.
\<close>

inductive pstep :: "'j Pool \<Rightarrow> 'j Pool \<Rightarrow> bool" where
  submit: "Submit job p = (Inr (), p') \<Longrightarrow> pstep p p'"
| receive: "w \<in> set (workers p) \<Longrightarrow> busy p w = None \<Longrightarrow> queue p = job # rest \<Longrightarrow>
    pstep p (p\<lparr>queue := rest, busy := (busy p)(w := job), received := received p @ [job]\<rparr>)"
| finish: "busy p w = Some job \<Longrightarrow> pstep p (p\<lparr>busy := (busy p)(w := None)\<rparr>)"
| cancel: "pstep p (p\<lparr>cancelled := True\<rparr>)"
| exit: "w \<in> set (workers p) \<Longrightarrow> busy p w = None \<Longrightarrow> cancelled p \<Longrightarrow>
    pstep p (p\<lparr>workers := filter (\<lambda>v. v \<noteq> w) (workers p)\<rparr>)"

inductive_cases pstep_elim: "pstep p q"

text \<open>\<open>Stop\<close> has returned: the context is cancelled and the wait group is empty.\<close>

definition stopped :: "'j Pool \<Rightarrow> bool" where
  "stopped p \<longleftrightarrow> cancelled p \<and> workers p = []"

section \<open>Invariant\<close>

definition pool_inv :: "int \<Rightarrow> nat \<Rightarrow> 'j Pool \<Rightarrow> bool" where
  "pool_inv cap n p \<longleftrightarrow> capacity p = cap \<and> int (length (queue p)) \<le> cap \<and>
     accepted p = received p @ queue p \<and>
     distinct (workers p) \<and> length (workers p) \<le> n \<and>
     (\<forall>w. busy p w \<noteq> None \<longrightarrow> w \<in> set (workers p))"

lemma pool_inv_start: "0 \<le> capacity (New n queueSize) \<and> pool_inv (capacity (New n queueSize)) (nat k) (Start k (New n queueSize))"
  by (auto simp: pool_inv_def Start_def New_def Let_def)

lemma pool_inv_step: "pool_inv cap n p \<Longrightarrow> pstep p q \<Longrightarrow> pool_inv cap n q"
  by (erule pstep_elim)
    (auto simp: pool_inv_def Submit_def distinct_filter split: if_splits
      intro: order_trans [OF length_filter_le])

interpretation pool_steps: step_invariant pstep "pool_inv cap n" for cap n
  by unfold_locales (rule pool_inv_step)

section \<open>Properties\<close>



text \<open>
  \<open>Submit\<close> never blocks and reports overflow. A full channel rejects the job and changes
  nothing; otherwise the job is appended; a new pool accepts at least one job, and at least as many
  as it has workers, before any worker runs.
\<close>

theorem submit_total:
  "(case Submit job p of
      (Inl e, p') \<Rightarrow> e = Errorf ''worker queue is full'' \<and> p' = p \<and> capacity p \<le> int (length (queue p))
    | (Inr _, p') \<Rightarrow> queue p' = queue p @ [job] \<and> int (length (queue p')) \<le> capacity p) \<and>
   1 \<le> capacity (New n queueSize) \<and> n \<le> capacity (New n queueSize)"
  by (auto simp: Submit_def New_def Let_def)

end
