(* ===== verification/Json.thy ===== *)
theory Json
  imports GoStrings "HOL-Library.Monad_Syntax"
begin

text \<open>
  JSON values as the program exchanges them with PostgreSQL (\<open>jsonb\<close>) and with Go's
  \<open>encoding/json\<close>: the text a \<open>jsonb\<close> column is read as, \<open>json.Marshal\<close>, and the decoding of an
  object into a struct of strings. \<open>JNum\<close> is an integer, which is all the program stores; any other
  number of a provider's answer is \<open>JReal\<close> with its text.
\<close>

datatype json = JNull | JBool bool | JNum int | JReal string | JStr string | JArr "json list" | JObj "(string \<times> json) list"

section \<open>Text\<close>

definition hex_digit :: "nat \<Rightarrow> char" where
  "hex_digit d = (if d < 10 then char_of (48 + d) else char_of (87 + d))"

definition u_escape :: "char \<Rightarrow> string" where
  "u_escape c = [CHR 0x5C] @ ''u00'' @ [hex_digit (of_char c div 16), hex_digit (of_char c mod 16)]"

definition escape_char :: "bool \<Rightarrow> char \<Rightarrow> string" where
  "escape_char html c =
    (if c = CHR 0x22 \<or> c = CHR 0x5C then [CHR 0x5C, c]
     else if c = CHR 0x0A then [CHR 0x5C, CHR ''n''] else if c = CHR 0x0D then [CHR 0x5C, CHR ''r''] else if c = CHR 0x09 then [CHR 0x5C, CHR ''t'']
     else if (of_char c :: nat) < 32 \<or> html \<and> c \<in> set ''<>&'' then u_escape c
     else [c])"

definition quote_text :: "bool \<Rightarrow> string \<Rightarrow> string" where
  "quote_text html s = [CHR 0x22] @ concat (map (escape_char html) s) @ [CHR 0x22]"

text \<open>
  The two printers differ in their separators and in the escaping of \<open><\<close>, \<open>>\<close> and \<open>&\<close>, which only
  Go does. A Go map is printed with its keys in order; the model's objects are given in that order.
\<close>

fun json_text :: "bool \<Rightarrow> string \<Rightarrow> string \<Rightarrow> json \<Rightarrow> string" where
  "json_text html colon sep JNull = ''null''"
| "json_text html colon sep (JBool b) = (if b then ''true'' else ''false'')"
| "json_text html colon sep (JNum i) = Itoa i"
| "json_text html colon sep (JReal t) = t"
| "json_text html colon sep (JStr s) = quote_text html s"
| "json_text html colon sep (JArr xs) = ''['' @ Join (map (json_text html colon sep) xs) sep @ '']''"
| "json_text html colon sep (JObj kvs) =
     ''{'' @ Join (map (\<lambda>(k, v). quote_text html k @ colon @ json_text html colon sep v) kvs) sep @ ''}''"

definition jsonb_text :: "json \<Rightarrow> string" where
  "jsonb_text = json_text False '': '' '', ''"

definition Marshal :: "json \<Rightarrow> string" where
  "Marshal = json_text True '':'' '',''"

section \<open>Decoding\<close>

text \<open>
  \<open>json.Unmarshal\<close> into a struct: an object sets the fields whose name equals the key up to case,
  later keys winning; \<open>null\<close> changes nothing; any other value is an error, and so is a value of the
  wrong type for a field that is present.
\<close>

definition decode_field :: "(json \<Rightarrow> 'a option) \<Rightarrow> string \<Rightarrow> 'a \<Rightarrow> (string \<times> json) list \<Rightarrow> 'a option" where
  "decode_field conv name dflt kvs =
    foldl (\<lambda>r (k, v). case r of None \<Rightarrow> None
      | Some x \<Rightarrow> if EqualFold k name then (if v = JNull then Some x else conv v) else Some x) (Some dflt) kvs"

definition as_string :: "json \<Rightarrow> string option" where
  "as_string j = (case j of JStr s \<Rightarrow> Some s | _ \<Rightarrow> None)"

definition as_bool :: "json \<Rightarrow> bool option" where
  "as_bool j = (case j of JBool b \<Rightarrow> Some b | _ \<Rightarrow> None)"

definition as_uint32 :: "json \<Rightarrow> int option" where
  "as_uint32 j = (case j of JNum i \<Rightarrow> if 0 \<le> i \<and> i < 2 ^ 32 then Some i else None | _ \<Rightarrow> None)"

definition as_int :: "json \<Rightarrow> int option" where
  "as_int j = (case j of JNum i \<Rightarrow> if in_int64 i then Some i else None | _ \<Rightarrow> None)"

definition object_fields :: "json \<Rightarrow> (string \<times> json) list option" where
  "object_fields j = (case j of JObj kvs \<Rightarrow> Some kvs | JNull \<Rightarrow> Some [] | _ \<Rightarrow> None)"

definition string_field :: "json \<Rightarrow> string \<Rightarrow> string option" where
  "string_field j name = Option.bind (object_fields j) (decode_field as_string name [])"

text \<open>A slice: \<open>null\<close> is the nil slice, and every element is converted, where \<open>null\<close> gives the zero value.\<close>

definition as_list :: "(json \<Rightarrow> 'a option) \<Rightarrow> json \<Rightarrow> 'a list option" where
  "as_list conv j = (case j of JArr xs \<Rightarrow> those (map conv xs) | JNull \<Rightarrow> Some [] | _ \<Rightarrow> None)"

text \<open>A struct: its fields are decoded from the object, and the first that fails makes the whole fail.\<close>

definition as_struct :: "((string \<times> json) list \<Rightarrow> 'a option) \<Rightarrow> json \<Rightarrow> 'a option" where
  "as_struct dec j = Option.bind (object_fields j) dec"

abbreviation str_field :: "string \<Rightarrow> (string \<times> json) list \<Rightarrow> string option" where
  "str_field name \<equiv> decode_field as_string name []"

abbreviation bool_field :: "string \<Rightarrow> (string \<times> json) list \<Rightarrow> bool option" where
  "bool_field name \<equiv> decode_field as_bool name False"

abbreviation int_field :: "string \<Rightarrow> (string \<times> json) list \<Rightarrow> int option" where
  "int_field name \<equiv> decode_field as_int name 0"

text \<open>PostgreSQL's \<open>value ->> 'key'\<close>: \<open>None\<close> is NULL.\<close>

definition jsonb_get_text :: "json \<Rightarrow> string \<Rightarrow> string option" where
  "jsonb_get_text j key = (case j of
     JObj kvs \<Rightarrow> (case map_of kvs key of
         None \<Rightarrow> None | Some JNull \<Rightarrow> None | Some (JStr s) \<Rightarrow> Some s | Some v \<Rightarrow> Some (jsonb_text v))
   | _ \<Rightarrow> None)"

end
