(* ===== verification/Store.thy ===== *)
theory Store
  imports Database Json "HOL-Library.Product_Lexorder" "HOL-Library.List_Lexorder" "HOL-Library.Char_ord"
begin

text \<open>
  The tables of \<open>migrations/*.sql\<close> that the assurance service reads and writes, with the columns it
  uses, as lists of rows in insertion order; a nullable column is an option. The statements of the
  service are defined where they are used, on top of the generic row operations below.
\<close>

section \<open>Rows\<close>

record connector_row =
  c_id :: string
  c_org :: string
  c_name :: string
  c_type :: string
  c_base_url :: "string option"
  c_enabled :: bool
  c_read_enabled :: bool
  c_write_enabled :: bool
  c_capabilities :: json
  c_configuration :: json
  c_last_sync_at :: "tstamp option"
  c_last_sync_status :: string
  c_updated_at :: tstamp
  c_environment :: string
  c_sync_interval :: string

record credential_row =
  cc_org :: string
  cc_connector :: string
  cc_ciphertext :: string
  cc_provider :: string
  cc_key_version :: int

record person_row =
  p_id :: string
  p_org :: string
  p_source :: "string option"
  p_external :: string
  p_name :: string
  p_email :: "string option"
  p_employee :: "string option"
  p_department :: "string option"
  p_status :: string
  p_created :: tstamp
  p_updated :: tstamp

record account_row =
  a_id :: string
  a_org :: string
  a_connector :: string
  a_external :: string
  a_username :: string
  a_name :: "string option"
  a_email :: "string option"
  a_employee :: "string option"
  a_status :: string
  a_type :: string
  a_privileged :: bool
  a_last_seen :: tstamp
  a_provider_updated :: "tstamp option"
  a_raw :: json
  a_missing :: "tstamp option"
  a_updated :: tstamp
  a_first_seen :: tstamp

record link_row =
  l_id :: string
  l_org :: string
  l_person :: string
  l_account :: string
  l_type :: string
  l_confidence :: string
  l_reason :: string
  l_created_by :: "string option"

record candidate_row =
  k_id :: string
  k_org :: string
  k_person :: string
  k_account :: string
  k_confidence :: string
  k_reasons :: json
  k_status :: string
  k_reviewed_at :: "tstamp option"
  k_reviewed_by :: "string option"
  k_created :: tstamp

record entitlement_row =
  e_id :: string
  e_org :: string
  e_connector :: string
  e_external :: string
  e_name :: string
  e_type :: string
  e_last_seen :: tstamp
  e_description :: "string option"
  e_privileged :: bool
  e_first_seen :: tstamp

record grant_row =
  g_id :: string
  g_org :: string
  g_account :: string
  g_entitlement :: string
  g_source :: string
  g_active :: bool
  g_last_seen :: tstamp
  g_first_seen :: tstamp

record sync_row =
  y_id :: string
  y_org :: string
  y_connector :: string
  y_trigger :: string
  y_status :: string
  y_request :: string
  y_completed :: "tstamp option"
  y_accounts :: int
  y_groups :: int
  y_error :: "string option"
  y_summary :: json
  y_started :: tstamp

record run_row =
  r_id :: string
  r_org :: string
  r_connector :: string
  r_trigger :: string
  r_status :: string
  r_completed :: "tstamp option"
  r_accounts :: int
  r_groups :: int
  r_findings :: int
  r_summary :: json
  r_started :: tstamp
  r_changed :: int
  r_memberships :: int

record finding_row =
  f_id :: string
  f_org :: string
  f_person :: "string option"
  f_account :: "string option"
  f_connector :: "string option"
  f_type :: string
  f_severity :: string
  f_status :: string
  f_reason :: string
  f_last_observed :: tstamp
  f_resolved :: "tstamp option"
  f_first_observed :: tstamp

record case_row =
  lc_id :: string
  lc_org :: string
  lc_person :: string
  lc_requested_by :: string
  lc_status :: string
  lc_created :: tstamp
  lc_approved :: "tstamp option"
  lc_started :: "tstamp option"
  lc_completed :: "tstamp option"
  lc_verification :: "string option"
  lc_summary :: json
  lc_type :: string
  lc_effective :: "tstamp option"

record action_row =
  la_id :: string
  la_org :: string
  la_case :: string
  la_connector :: "string option"
  la_account :: "string option"
  la_type :: string
  la_status :: string
  la_desired :: json
  la_idem :: string
  la_approved_by :: "string option"
  la_started :: "tstamp option"
  la_completed :: "tstamp option"
  la_attempts :: int
  la_error :: "string option"
  la_summary :: json
  la_created :: tstamp

record event_row =
  ev_org :: string
  ev_case :: string
  ev_type :: string
  ev_summary :: string
  ev_metadata :: json
  ev_created :: tstamp

record snapshot_row =
  vs_org :: string
  vs_case :: string
  vs_connected :: int
  vs_succeeded :: int
  vs_failed :: int
  vs_managed :: int
  vs_disabled :: int
  vs_active :: int
  vs_unresolved :: int
  vs_status :: string
  vs_summary :: json
  vs_observed :: tstamp

record evidence_row =
  le_org :: string
  le_connector :: string
  le_account :: string
  le_case :: string
  le_action :: string
  le_type :: string
  le_summary :: string
  le_observed :: json
  le_hash :: string
  le_source_time :: tstamp
  le_id :: string
  le_person :: "string option"
  le_created :: tstamp

record campaign_row =
  ac_id :: string
  ac_org :: string
  ac_reviewer :: string
  ac_status :: string
  ac_completed :: "tstamp option"
  ac_title :: string
  ac_desc :: "string option"
  ac_scope :: string
  ac_starts :: "tstamp option"
  ac_due :: "tstamp option"
  ac_created_by :: string
  ac_scope_config :: json
  ac_created :: tstamp

record item_row =
  ai_id :: string
  ai_org :: string
  ai_campaign :: string
  ai_status :: string
  ai_person :: "string option"
  ai_account :: "string option"
  ai_entitlement :: "string option"
  ai_observed :: tstamp

record decision_row =
  ad_org :: string
  ad_item :: string
  ad_reviewer :: string
  ad_decision :: string
  ad_comment :: string
  ad_created :: tstamp

record outbox_row =
  ob_org :: string
  ob_type :: string
  ob_payload :: json

record audit_row =
  au_org :: string
  au_actor :: string
  au_event :: string
  au_resource_type :: string
  au_resource :: string
  au_metadata :: json
  au_request :: string
  au_id :: string
  au_time :: tstamp

record notification_row =
  n_org :: string
  n_type :: string
  n_channel :: string
  n_payload :: json
  n_status :: string
  n_delivered :: "tstamp option"

record store =
  connectors :: "connector_row list"
  credentials :: "credential_row list"
  people :: "person_row list"
  accounts :: "account_row list"
  links :: "link_row list"
  candidates :: "candidate_row list"
  entitlements :: "entitlement_row list"
  grants :: "grant_row list"
  syncs :: "sync_row list"
  runs :: "run_row list"
  findings :: "finding_row list"
  cases :: "case_row list"
  actions :: "action_row list"
  events :: "event_row list"
  snapshots :: "snapshot_row list"
  evidence :: "evidence_row list"
  campaigns :: "campaign_row list"
  items :: "item_row list"
  decisions :: "decision_row list"
  outbox :: "outbox_row list"
  audit :: "audit_row list"
  notifications :: "notification_row list"

definition empty_store :: store where
  "empty_store = \<lparr>connectors = [], credentials = [], people = [], accounts = [], links = [], candidates = [],
     entitlements = [], grants = [], syncs = [], runs = [], findings = [], cases = [], actions = [],
     events = [], snapshots = [], evidence = [], campaigns = [], items = [], decisions = [], outbox = [],
     audit = [], notifications = []\<rparr>"

section \<open>Row operations\<close>

text \<open>\<open>UPDATE \<dots> SET f WHERE P\<close>, and the number of rows it reports.\<close>

definition update_where :: "('r \<Rightarrow> bool) \<Rightarrow> ('r \<Rightarrow> 'r) \<Rightarrow> 'r list \<Rightarrow> 'r list" where
  "update_where P f rows = map (\<lambda>r. if P r then f r else r) rows"

definition count_where :: "('r \<Rightarrow> bool) \<Rightarrow> 'r list \<Rightarrow> int" where
  "count_where P rows = int (length (filter P rows))"

text \<open>\<open>nullif(s, '')\<close> and \<open>coalesce(x, '')\<close>.\<close>

definition nullif_empty :: "string \<Rightarrow> string option" where
  "nullif_empty s = (if s = [] then None else Some s)"

definition coalesce_empty :: "string option \<Rightarrow> string" where
  "coalesce_empty x = (case x of None \<Rightarrow> [] | Some s \<Rightarrow> s)"

lemma set_update_where: "set (update_where P f rows) = (\<lambda>r. if P r then f r else r) ` set rows"
  by (simp add: update_where_def)

lemma update_whereE:
  assumes "r \<in> set (update_where P f rows)"
  obtains (hit) s where "s \<in> set rows" "P s" "r = f s"
  | (miss) "r \<in> set rows" "\<not> P r"
  using assms by (auto simp: update_where_def split: if_splits)

lemma length_update_where [simp]: "length (update_where P f rows) = length rows"
  by (simp add: update_where_def)

lemma map_update_where: "(\<And>r. P r \<Longrightarrow> g (f r) = g r) \<Longrightarrow> map g (update_where P f rows) = map g rows"
  by (simp add: update_where_def)

lemma filter_update_where:
  "(\<And>r. P r \<Longrightarrow> \<not> R r \<and> \<not> R (f r)) \<Longrightarrow> filter R (update_where P f rows) = filter R rows"
  unfolding update_where_def by (induction rows) auto

lemma filter_update_where_keep:
  "(\<And>r. P r \<Longrightarrow> R (f r) = R r) \<Longrightarrow> filter R (update_where P f rows) = update_where P f (filter R rows)"
  unfolding update_where_def by (induction rows) auto

lemma count_where_0: "count_where P rows = 0 \<longleftrightarrow> (\<forall>r \<in> set rows. \<not> P r)"
  by (simp add: count_where_def filter_empty_conv)

lemma count_where_nonneg [simp]: "0 \<le> count_where P rows"
  by (simp add: count_where_def)

lemma count_where_le: "(\<And>r. r \<in> set rows \<Longrightarrow> P r \<Longrightarrow> Q r) \<Longrightarrow> count_where P rows \<le> count_where Q rows"
  unfolding count_where_def
  by (induction rows) (auto simp: le_Suc_eq)

lemma count_where_all:
  assumes "count_where Q rows \<le> count_where P rows" and "\<And>r. r \<in> set rows \<Longrightarrow> P r \<Longrightarrow> Q r"
    and "r \<in> set rows" and "Q r"
  shows "P r"
proof (rule ccontr)
  assume "\<not> P r"
  with assms(3,4) obtain xs ys where "rows = xs @ r # ys" by (meson split_list)
  then have "length (filter P rows) < length (filter Q rows)"
    using \<open>\<not> P r\<close> \<open>Q r\<close> count_where_le [of xs P Q] count_where_le [of ys P Q] assms(2)
    by (fastforce simp: count_where_def)
  with assms(1) show False by (simp add: count_where_def)
qed

end
