(* ===== verification/Reconcile.thy ===== *)
theory Reconcile
  imports Store Correlation CsvSource
begin

text \<open>
  The correlation pass of \<open>backend/internal/assurance/service.go\<close> (\<open>correlate\<close>), which every
  synchronization runs in its transaction, and \<open>ImportPeople\<close>. As in \<open>Lifecycle\<close>, each SQL statement
  is one definition with the prefix \<open>sql_\<close>.
\<close>

section \<open>What is read\<close>

record acc =
  ac_id' :: string
  ac_external :: string
  ac_username :: string
  ac_name :: string
  ac_email :: string
  ac_employee :: string
  ac_providerExternal :: string

definition acc_of :: "account_row \<Rightarrow> acc" where
  "acc_of a = \<lparr>ac_id' = a_id a, ac_external = a_external a, ac_username = a_username a,
     ac_name = coalesce_empty (a_name a), ac_email = coalesce_empty (a_email a),
     ac_employee = (case a_employee a of Some s \<Rightarrow> s | None \<Rightarrow> coalesce_empty (jsonb_get_text (a_raw a) ''employeeNumber'')),
     ac_providerExternal = coalesce_empty (jsonb_get_text (a_raw a) ''externalId'')\<rparr>"

definition sql_accounts :: "string \<Rightarrow> string \<Rightarrow> store \<Rightarrow> acc list" where
  "sql_accounts org con d = map acc_of (filter (\<lambda>a. a_org a = org \<and> a_connector a = con) (accounts d))"

definition person_of :: "string \<Rightarrow> person_row \<Rightarrow> Person" where
  "person_of org p = \<lparr>PersonID = p_id p, PersonOrganizationID = org, ExternalPersonID = p_external p,
     PersonDisplayName = p_name p, PersonPrimaryEmail = coalesce_empty (p_email p),
     PersonEmployeeNumber = coalesce_empty (p_employee p), PersonDepartment = coalesce_empty (p_department p),
     PersonStatus = p_status p, PersonCreatedAt = p_created p, PersonUpdatedAt = p_updated p\<rparr>"

definition sql_people :: "string \<Rightarrow> store \<Rightarrow> Person list" where
  "sql_people org d = map (person_of org) (filter (\<lambda>p. p_org p = org) (people d))"

definition emailCounts :: "Person list \<Rightarrow> string \<Rightarrow> int" where
  "emailCounts persons email =
     (if email = [] then 0
      else int (length (filter (\<lambda>p. ToLower (TrimSpace (PersonPrimaryEmail p)) = email) persons)))"

section \<open>What is written\<close>

definition sql_insert_link :: "string \<Rightarrow> string \<Rightarrow> string \<Rightarrow> string \<Rightarrow> string \<Rightarrow> (store, unit) stmt" where
  "sql_insert_link org person acct confidence reason now gen d =
    (if \<exists>l \<in> set (links d). l_org l = org \<and> l_account l = acct then Inr ((), d)
     else if \<exists>l \<in> set (links d). l_id l = gen 0 then Inl (DBError ''duplicate key'')
     else Inr ((), d\<lparr>links := links d @ [\<lparr>l_id = gen 0, l_org = org, l_person = person, l_account = acct,
       l_type = ''AUTOMATIC'', l_confidence = confidence, l_reason = reason, l_created_by = None\<rparr>]\<rparr>))"

definition sql_insert_candidate :: "string \<Rightarrow> string \<Rightarrow> string \<Rightarrow> string \<Rightarrow> json \<Rightarrow> (store, unit) stmt" where
  "sql_insert_candidate org person acct confidence reasons now gen d =
    (if \<exists>k \<in> set (candidates d). k_org k = org \<and> k_person k = person \<and> k_account k = acct then Inr ((), d)
     else if \<exists>k \<in> set (candidates d). k_id k = gen 0 then Inl (DBError ''duplicate key'')
     else Inr ((), d\<lparr>candidates := candidates d @ [\<lparr>k_id = gen 0, k_org = org, k_person = person, k_account = acct,
       k_confidence = confidence, k_reasons = reasons, k_status = ''PENDING'',
       k_reviewed_at = None, k_reviewed_by = None, k_created = now\<rparr>]\<rparr>))"

definition is_orphan_finding :: "string \<Rightarrow> string \<Rightarrow> finding_row \<Rightarrow> bool" where
  "is_orphan_finding org acct f \<longleftrightarrow>
     f_org f = org \<and> f_account f = Some acct \<and> f_type f = ''ORPHAN_ACCOUNT'' \<and> f_status f = ''OPEN''"

definition sql_insert_orphan :: "string \<Rightarrow> string \<Rightarrow> string \<Rightarrow> string \<Rightarrow> (store, int) stmt" where
  "sql_insert_orphan org acct con reason now gen d =
    (if \<exists>f \<in> set (findings d). is_orphan_finding org acct f then Inr (0, d)
     else if \<exists>f \<in> set (findings d). f_id f = gen 0 then Inl (DBError ''duplicate key'')
     else Inr (1, d\<lparr>findings := findings d @ [\<lparr>f_id = gen 0, f_org = org, f_person = None, f_account = Some acct,
       f_connector = Some con, f_type = ''ORPHAN_ACCOUNT'', f_severity = ''ATTENTION'', f_status = ''OPEN'',
       f_reason = reason, f_last_observed = now, f_resolved = None, f_first_observed = now\<rparr>]\<rparr>))"

text \<open>The groups of \<open>GROUP BY l.person_id, a.connector_id HAVING count(*) > 1\<close> over the active linked
  accounts, and the row each inserts. The table has no unique key but its id, so that only a clash of
  ids would be a conflict, and then nothing is inserted for that group.\<close>

definition active_pairs :: "string \<Rightarrow> store \<Rightarrow> (string \<times> string) list" where
  "active_pairs org d =
    [(l_person l, a_connector a). l \<leftarrow> links d, l_org l = org, a \<leftarrow> accounts d,
       a_id a = l_account l \<and> a_org a = org \<and> a_status a = ''ACTIVE'']"

definition duplicate_groups :: "string \<Rightarrow> store \<Rightarrow> (string \<times> string) list" where
  "duplicate_groups org d = (let ps = active_pairs org d in filter (\<lambda>p. count_list ps p > 1) (remdups ps))"

definition duplicate_finding :: "tstamp \<Rightarrow> string \<Rightarrow> string \<Rightarrow> string \<times> string \<Rightarrow> finding_row" where
  "duplicate_finding now fid org g = \<lparr>f_id = fid, f_org = org, f_person = Some (fst g), f_account = None,
     f_connector = Some (snd g), f_type = ''DUPLICATE_ACTIVE_ACCOUNT'', f_severity = ''ATTENTION'', f_status = ''OPEN'',
     f_reason = ''Person has multiple active accounts in the same connector'', f_last_observed = now, f_resolved = None,
     f_first_observed = now\<rparr>"

fun insert_duplicates :: "tstamp \<Rightarrow> string \<Rightarrow> (nat \<Rightarrow> string) \<Rightarrow> nat \<Rightarrow> (string \<times> string) list \<Rightarrow> finding_row list \<Rightarrow> finding_row list" where
  "insert_duplicates now org gen i [] fs = fs"
| "insert_duplicates now org gen i (g # gs) fs =
    insert_duplicates now org gen (Suc i) gs
      (if \<exists>f \<in> set fs. f_id f = gen i then fs else fs @ [duplicate_finding now (gen i) org g])"

definition sql_insert_duplicates :: "string \<Rightarrow> (store, unit) stmt" where
  "sql_insert_duplicates org = upd (\<lambda>now gen d.
     ((), d\<lparr>findings := insert_duplicates now org gen 0 (duplicate_groups org d) (findings d)\<rparr>))"

section \<open>correlate\<close>

definition trustedDomains :: "string \<Rightarrow> bool" where
  "trustedDomains name \<longleftrightarrow> name = ''identitymesh.test'' \<or> name = ''example.test''"

definition account_view :: "acc \<Rightarrow> IdentityAccount" where
  "account_view a = \<lparr>AccountID = [], AccountOrganizationID = [], AccountConnectorID = [], ExternalAccountID = [],
     AccountUsername = [], AccountDisplayName = ac_name a, AccountPrimaryEmail = ac_email a,
     AccountEmployeeNumber = ac_employee a, AccountActiveStatus = [], AccountType = [], AccountPrivileged = False,
     AccountFirstSeenAt = 0, AccountLastSeenAt = 0\<rparr>"

definition external_match :: "acc \<Rightarrow> Person \<Rightarrow> bool" where
  "external_match a p \<longleftrightarrow> ac_providerExternal a \<noteq> [] \<and>
     EqualFold (TrimSpace (ac_providerExternal a)) (TrimSpace (ExternalPersonID p))"

definition evaluate_pair :: "(string \<Rightarrow> int) \<Rightarrow> acc \<Rightarrow> Person \<Rightarrow> Result option" where
  "evaluate_pair counts a p =
    (let email = ToLower (TrimSpace (ac_email a)) in
     Evaluate p (account_view a) trustedDomains (email \<noteq> [] \<and> counts email = 1))"

text \<open>
  The loop over the persons for one account: it ends at the first link, and reports whether the
  account was linked and whether it got a candidate. The panic that an empty list of reasons would be
  is an error here.
\<close>

fun match_people ::
  "string \<Rightarrow> (string \<Rightarrow> int) \<Rightarrow> acc \<Rightarrow> Person list \<Rightarrow> bool \<Rightarrow> ((store, 'z) world_scheme, bool \<times> bool) comp" where
  "match_people org counts a [] candidate = ret (False, candidate)"
| "match_people org counts a (p # ps) candidate =
    (if external_match a p then
       bnd (exec (sql_insert_link org (PersonID p) (ac_id' a) ''HIGH'' ''exact authoritative external identifier'')) (\<lambda>_.
       ret (True, candidate))
     else (case evaluate_pair counts a p of
        None \<Rightarrow> fail (Errorf ''index out of range'')
      | Some r \<Rightarrow>
        if Automatic r then
          bnd (exec (sql_insert_link org (PersonID p) (ac_id' a) (Confidence r) (Join (Reasons r) ''; ''))) (\<lambda>_.
          ret (True, candidate))
        else (case Reasons r of
          [] \<Rightarrow> fail (Errorf ''index out of range'')
        | reason # _ \<Rightarrow>
          if reason = ''name-only similarity is never auto-linked'' then
            bnd (exec (sql_insert_candidate org (PersonID p) (ac_id' a) (Confidence r) (JArr (map JStr (Reasons r))))) (\<lambda>_.
            match_people org counts a ps True)
          else match_people org counts a ps candidate)))"

definition correlate_account ::
  "string \<Rightarrow> string \<Rightarrow> Person list \<Rightarrow> int \<Rightarrow> acc \<Rightarrow> ((store, 'z) world_scheme, int) comp" where
  "correlate_account org con persons found a =
    bnd (match_people org (emailCounts persons) a persons False) (\<lambda>(linked, candidate).
    if linked then ret found
    else bnd (exec (sql_insert_orphan org (ac_id' a) con
           (if candidate then ''Observed account has ambiguous name-only correlation candidate''
            else ''Observed account has no linked person''))) (\<lambda>n. ret (found + n)))"

definition correlate :: "string \<Rightarrow> string \<Rightarrow> ((store, 'z) world_scheme, int) comp" where
  "correlate orgID connectorID =
    bnd (query_rows (sql_accounts orgID connectorID)) (\<lambda>(all, _).
    bnd (query_rows (sql_people orgID)) (\<lambda>(persons, _).
    bnd (fold_comp (correlate_account orgID connectorID persons) 0 all) (\<lambda>found.
    bnd (exec (sql_insert_duplicates orgID)) (\<lambda>_.
    ret found))))"

section \<open>ImportPeople\<close>

definition valid_lifecycle :: "string \<Rightarrow> bool" where
  "valid_lifecycle s \<longleftrightarrow> s \<in> set [''PRE_HIRE'', ''ACTIVE'', ''LEAVE'', ''SUSPENDED'', ''TERMINATED'', ''UNKNOWN'']"

definition is_person_key :: "string \<Rightarrow> string \<Rightarrow> string \<Rightarrow> person_row \<Rightarrow> bool" where
  "is_person_key org src ext p \<longleftrightarrow> p_org p = org \<and> p_source p = Some src \<and> p_external p = ext"

definition sql_upsert_person :: "string \<Rightarrow> string \<Rightarrow> Row \<Rightarrow> (store, int) stmt" where
  "sql_upsert_person org src row now gen d =
    (if \<not> valid_lifecycle (RowStatus row) then Inl (DBError ''check constraint'')
     else if \<exists>p \<in> set (people d). is_person_key org src (RowEmployeeID row) p then
       Inr (1, d\<lparr>people := update_where (is_person_key org src (RowEmployeeID row))
         (\<lambda>p. p\<lparr>p_name := RowDisplayName row, p_email := nullif_empty (RowEmail row), p_department := nullif_empty (RowDepartment row),
            p_status := RowStatus row, p_updated := now\<rparr>) (people d)\<rparr>)
     else if \<exists>p \<in> set (people d). p_id p = gen 0 then Inl (DBError ''duplicate key'')
     else Inr (1, d\<lparr>people := people d @ [\<lparr>p_id = gen 0, p_org = org, p_source = Some src, p_external = RowEmployeeID row,
       p_name = RowDisplayName row, p_email = nullif_empty (RowEmail row), p_employee = Some (RowEmployeeID row),
       p_department = nullif_empty (RowDepartment row), p_status = RowStatus row, p_created = now, p_updated = now\<rparr>]\<rparr>))"

definition import_body :: "string \<Rightarrow> string \<Rightarrow> Row list \<Rightarrow> ((store, 'z) world_scheme, int) comp" where
  "import_body orgID sourceID rows =
    fold_comp (\<lambda>count row. bnd (exec (sql_upsert_person orgID sourceID row)) (\<lambda>n. ret (count + n))) 0 rows"

definition ImportPeople :: "string \<Rightarrow> string \<Rightarrow> Row list \<Rightarrow> ((store, 'z) world_scheme, int) comp" where
  "ImportPeople orgID sourceID rows = tx (import_body orgID sourceID rows)"

end
