(* ===== verification/Sha256.thy ===== *)
theory Sha256
  imports GoStrings "HOL-Library.Word"
begin

text \<open>
  Go's \<open>crypto/sha256\<close> and \<open>encoding/hex\<close>, as the program uses them for evidence hashes, rate limit
  keys and session tokens: \<open>Sum256\<close> on 32-bit words after FIPS 180-4, and \<open>EncodeToString\<close>.
\<close>

unbundle bit_operations_syntax

type_synonym w32 = "32 word"

definition rotr :: "nat \<Rightarrow> w32 \<Rightarrow> w32" where
  "rotr n x = drop_bit n x OR push_bit (32 - n) x"

definition big_sigma0 :: "w32 \<Rightarrow> w32" where
  "big_sigma0 x = rotr 2 x XOR rotr 13 x XOR rotr 22 x"

definition big_sigma1 :: "w32 \<Rightarrow> w32" where
  "big_sigma1 x = rotr 6 x XOR rotr 11 x XOR rotr 25 x"

definition small_sigma0 :: "w32 \<Rightarrow> w32" where
  "small_sigma0 x = rotr 7 x XOR rotr 18 x XOR drop_bit 3 x"

definition small_sigma1 :: "w32 \<Rightarrow> w32" where
  "small_sigma1 x = rotr 17 x XOR rotr 19 x XOR drop_bit 10 x"

definition sha_k :: "w32 list" where
  "sha_k =
    [1116352408, 1899447441, 3049323471, 3921009573, 961987163, 1508970993, 2453635748, 2870763221,
     3624381080, 310598401, 607225278, 1426881987, 1925078388, 2162078206, 2614888103, 3248222580,
     3835390401, 4022224774, 264347078, 604807628, 770255983, 1249150122, 1555081692, 1996064986,
     2554220882, 2821834349, 2952996808, 3210313671, 3336571891, 3584528711, 113926993, 338241895,
     666307205, 773529912, 1294757372, 1396182291, 1695183700, 1986661051, 2177026350, 2456956037,
     2730485921, 2820302411, 3259730800, 3345764771, 3516065817, 3600352804, 4094571909, 275423344,
     430227734, 506948616, 659060556, 883997877, 958139571, 1322822218, 1537002063, 1747873779,
     1955562222, 2024104815, 2227730452, 2361852424, 2428436474, 2756734187, 3204031479, 3329325298]"

definition sha_init :: "w32 list" where
  "sha_init =
    [1779033703, 3144134277, 1013904242, 2773480762, 1359893119, 2600822924, 528734635, 1541459225]"

text \<open>The padded message: a one bit, zeros, and the bit length as a 64-bit big-endian number.\<close>

fun be_bytes :: "nat \<Rightarrow> nat \<Rightarrow> nat list" where
  "be_bytes 0 n = []"
| "be_bytes (Suc k) n = be_bytes k (n div 256) @ [n mod 256]"

definition sha_pad :: "string \<Rightarrow> nat list" where
  "sha_pad s = map of_char s @ [128] @ replicate ((119 - length s mod 64) mod 64) 0 @
     be_bytes 8 ((8 * length s) mod 2 ^ 64)"

fun be_words :: "nat list \<Rightarrow> w32 list" where
  "be_words (a # b # c # d # xs) =
     word_of_nat (((a * 256 + b) * 256 + c) * 256 + d) # be_words xs"
| "be_words _ = []"

text \<open>The message schedule, newest word first.\<close>

fun sha_schedule :: "nat \<Rightarrow> w32 list \<Rightarrow> w32 list" where
  "sha_schedule 0 ws = ws"
| "sha_schedule (Suc k) ws =
     sha_schedule k ((small_sigma1 (ws ! 1) + ws ! 6 + small_sigma0 (ws ! 14) + ws ! 15) # ws)"

definition sha_round :: "w32 list \<Rightarrow> w32 \<times> w32 \<Rightarrow> w32 list" where
  "sha_round st kw = (case st of [a, b, c, d, e, f, g, h] \<Rightarrow>
      (let t1 = h + big_sigma1 e + ((e AND f) XOR ((NOT e) AND g)) + fst kw + snd kw;
           t2 = big_sigma0 a + ((a AND b) XOR (a AND c) XOR (b AND c))
       in [t1 + t2, a, b, c, d + t1, e, f, g])
    | _ \<Rightarrow> st)"

definition sha_block :: "w32 list \<Rightarrow> w32 list \<Rightarrow> w32 list" where
  "sha_block hs blk = map2 (+) hs (foldl sha_round hs (zip sha_k (rev (sha_schedule 48 (rev blk)))))"

fun sha_blocks :: "nat \<Rightarrow> w32 list \<Rightarrow> w32 list \<Rightarrow> w32 list" where
  "sha_blocks 0 hs ws = hs"
| "sha_blocks (Suc k) hs ws = sha_blocks k (sha_block hs (take 16 ws)) (drop 16 ws)"

definition Sum256 :: "string \<Rightarrow> string" where
  "Sum256 s = (let ws = be_words (sha_pad s) in
     concat (map (\<lambda>w. map char_of (be_bytes 4 (unat w))) (sha_blocks (length ws div 16) sha_init ws)))"

definition hex_char :: "nat \<Rightarrow> char" where
  "hex_char d = (if d < 10 then char_of (48 + d) else char_of (87 + d))"

definition EncodeToString :: "string \<Rightarrow> string" where
  "EncodeToString s = concat (map (\<lambda>c. [hex_char (of_char c div 16), hex_char (of_char c mod 16)]) s)"

text \<open>The pads of \<open>crypto/hmac\<close>.\<close>

definition xor_bytes :: "nat \<Rightarrow> string \<Rightarrow> string" where
  "xor_bytes b s = map (\<lambda>c. char_of ((of_char c :: nat) XOR b)) s"

lemma length_be_bytes [simp]: "length (be_bytes k n) = k"
  by (induction k arbitrary: n) auto

lemma length_sha_round [simp]: "length (sha_round st kw) = length st"
  by (auto simp: sha_round_def Let_def split: list.split)

lemma length_sha_block: "length (sha_block hs blk) = length hs"
proof -
  have "length (foldl sha_round hs xs) = length hs" for xs by (induction xs arbitrary: hs) auto
  then show ?thesis by (simp add: sha_block_def)
qed

lemma length_sha_blocks: "length (sha_blocks k hs ws) = length hs"
  by (induction k arbitrary: hs ws) (auto simp: length_sha_block)

lemma length_concat_const: "(\<And>x. x \<in> set xs \<Longrightarrow> length (f x) = n) \<Longrightarrow> length (concat (map f xs)) = length xs * n"
  by (induction xs) auto

text \<open>A digest has 32 bytes, its text 64 characters.\<close>

lemma length_Sum256: "length (Sum256 s) = 32"
  unfolding Sum256_def Let_def
  by (subst length_concat_const [where n = 4]) (auto simp: length_sha_blocks sha_init_def)

lemma length_EncodeToString: "length (EncodeToString s) = 2 * length s"
  unfolding EncodeToString_def by (subst length_concat_const [where n = 2]) auto

lemma length_sha_pad: "64 dvd length (sha_pad s)"
proof -
  define m where "m = length s mod 64"
  define q where "q = length s div 64"
  have m: "m < 64" and s: "length s = 64 * q + m" by (simp_all add: m_def q_def)
  have "(119 - m) mod 64 = (if m \<le> 55 then 55 - m else 119 - m)"
  proof (cases "m \<le> 55")
    case True
    then have "119 - m = 64 + (55 - m)" by simp
    then have "(119 - m) mod 64 = (55 - m) mod 64" by (simp only: mod_add_self1)
    with True show ?thesis by simp
  qed (use m in simp)
  moreover have "length (sha_pad s) = length s + 9 + (119 - m) mod 64"
    by (simp add: sha_pad_def m_def)
  ultimately have "length (sha_pad s) = 64 * (q + (if m \<le> 55 then 1 else 2))"
    using m s by (cases "m \<le> 55") simp_all
  then show ?thesis by simp
qed

end
