(* ===== verification/Lifecycle.thy ===== *)
theory Lifecycle
  imports Store Sha256
begin

text \<open>
  The offboarding lifecycle of \<open>backend/internal/assurance/service.go\<close>: \<open>CreateCase\<close>, \<open>PlanCase\<close>,
  \<open>ApproveCase\<close>, \<open>ExecuteAndVerify\<close>, \<open>GetCase\<close>, and the statement of \<open>cancelCase\<close>
  (\<open>backend/internal/httpapi/product.go\<close>). Each SQL statement of the code is one definition with the
  prefix \<open>sql_\<close>; the methods compose them in the code's order, error returns included. The remote
  action that \<open>ExecuteAndVerify\<close> calls per account is its argument \<open>remote\<close>; \<open>Sync\<close> gives
  the code's own \<open>executeRemoteAction\<close> for it.
\<close>

section \<open>CreateCase\<close>

definition new_case :: "string \<Rightarrow> string \<Rightarrow> string \<Rightarrow> string \<Rightarrow> tstamp \<Rightarrow> case_row" where
  "new_case cid org person user now = \<lparr>lc_id = cid, lc_org = org, lc_person = person, lc_requested_by = user,
     lc_status = ''DRAFT'', lc_created = now, lc_approved = None, lc_started = None, lc_completed = None,
     lc_verification = None, lc_summary = JObj [], lc_type = ''OFFBOARDING'', lc_effective = None\<rparr>"

definition sql_insert_case :: "string \<Rightarrow> string \<Rightarrow> string \<Rightarrow> string \<Rightarrow> (store, int) stmt" where
  "sql_insert_case cid org user person now gen d =
    (case filter (\<lambda>p. p_org p = org \<and> p_id p = person) (people d) of
       [] \<Rightarrow> Inr (0, d)
     | [p] \<Rightarrow> if \<exists>c \<in> set (cases d). lc_id c = cid then Inl (DBError ''duplicate key'')
              else Inr (1, d\<lparr>cases := cases d @ [new_case cid org (p_id p) user now]\<rparr>)
     | _ \<Rightarrow> Inl (DBError ''duplicate key''))"

definition CreateCase :: "string \<Rightarrow> string \<Rightarrow> string \<Rightarrow> ((store, 'z) world_scheme, string) comp" where
  "CreateCase orgID personID userID =
    bnd new_uuid (\<lambda>cid.
    bnd (exec (sql_insert_case cid orgID userID personID)) (\<lambda>affected.
      if affected \<noteq> 1 then fail ErrNoRows else ret cid))"

section \<open>PlanCase\<close>

definition find_case :: "string \<Rightarrow> string \<Rightarrow> store \<Rightarrow> case_row option" where
  "find_case org cid d = List.find (\<lambda>c. lc_org c = org \<and> lc_id c = cid) (cases d)"

text \<open>The four-way join: the accounts linked to the case's person, with their connectors.\<close>

definition plan_rows :: "string \<Rightarrow> string \<Rightarrow> store \<Rightarrow> (account_row \<times> connector_row) list" where
  "plan_rows org cid d =
    [(a, c). lc \<leftarrow> cases d, lc_org lc = org \<and> lc_id lc = cid,
             l \<leftarrow> links d, l_person l = lc_person lc \<and> l_org l = org,
             a \<leftarrow> accounts d, a_id a = l_account l \<and> a_org a = org,
             c \<leftarrow> connectors d, c_id c = a_connector a \<and> c_org c = org]"

definition containsConnectorType :: "string list \<Rightarrow> string \<Rightarrow> bool" where
  "containsConnectorType values v = list_ex (\<lambda>candidate. candidate = v) values"

record plannedAction =
  pa_accountID :: string
  pa_connectorID :: string
  pa_name :: string
  pa_username :: string
  pa_state :: string
  pa_action :: string
  pa_write :: bool

definition plan_action :: "string \<Rightarrow> string \<Rightarrow> bool \<Rightarrow> string \<Rightarrow> string" where
  "plan_action state typ write caps =
    (if state = ''DISABLED'' then ''VERIFY_DISABLED''
     else if containsConnectorType [''SCIM_2_0'', ''ENTRA_ID'', ''OKTA'', ''GOOGLE_WORKSPACE'', ''LDAP_DIRECTORY''] typ
         \<and> write \<and> Contains caps ''DISABLE_ACCOUNT'' then ''DISABLE_ACCOUNT''
     else if typ = ''GITHUB'' \<and> write \<and> Contains caps ''REMOVE_MEMBERSHIP'' then ''REMOVE_MEMBERSHIP''
     else ''MANUAL_REVIEW'')"

definition planned_of :: "account_row \<times> connector_row \<Rightarrow> plannedAction" where
  "planned_of r = (case r of (a, c) \<Rightarrow> \<lparr>pa_accountID = a_id a, pa_connectorID = a_connector a, pa_name = c_name c,
     pa_username = a_username a, pa_state = a_status a,
     pa_action = plan_action (a_status a) (c_type c) (c_write_enabled c) (jsonb_text (c_capabilities c)),
     pa_write = c_write_enabled c\<rparr>)"

definition action_key :: "string \<Rightarrow> plannedAction \<Rightarrow> string" where
  "action_key cid item = cid @ '':'' @ pa_accountID item @ '':'' @ pa_action item"

definition new_action :: "string \<Rightarrow> string \<Rightarrow> string \<Rightarrow> plannedAction \<Rightarrow> tstamp \<Rightarrow> action_row" where
  "new_action aid org cid item now = \<lparr>la_id = aid, la_org = org, la_case = cid,
     la_connector = Some (pa_connectorID item), la_account = Some (pa_accountID item), la_type = pa_action item,
     la_status = ''PLANNED'', la_desired = JObj [(''active'', JBool False)], la_idem = action_key cid item,
     la_approved_by = None, la_started = None, la_completed = None, la_attempts = 0, la_error = None,
     la_summary = JObj [], la_created = now\<rparr>"

definition sql_insert_action :: "string \<Rightarrow> string \<Rightarrow> plannedAction \<Rightarrow> (store, unit) stmt" where
  "sql_insert_action org cid item now gen d =
    (if \<exists>r \<in> set (actions d). la_org r = org \<and> la_idem r = action_key cid item then Inr ((), d)
     else if \<exists>r \<in> set (actions d). la_id r = gen 0 then Inl (DBError ''duplicate key'')
     else Inr ((), d\<lparr>actions := actions d @ [new_action (gen 0) org cid item now]\<rparr>))"

definition sql_plan_case :: "int \<Rightarrow> string \<Rightarrow> string \<Rightarrow> (store, unit) stmt" where
  "sql_plan_case n org cid = upd (\<lambda>now gen d. ((), d\<lparr>cases := update_where (\<lambda>c. lc_org c = org \<and> lc_id c = cid)
     (\<lambda>c. c\<lparr>lc_status := ''AWAITING_APPROVAL'', lc_summary := JObj [(''plannedActions'', JNum n)]\<rparr>) (cases d)\<rparr>))"

definition sql_insert_event :: "string \<Rightarrow> string \<Rightarrow> string \<Rightarrow> string \<Rightarrow> json \<Rightarrow> (store, unit) stmt" where
  "sql_insert_event org cid typ summary meta = upd (\<lambda>now gen d. ((), d\<lparr>events := events d @
     [\<lparr>ev_org = org, ev_case = cid, ev_type = typ, ev_summary = summary, ev_metadata = meta, ev_created = now\<rparr>]\<rparr>))"

text \<open>The body of the transaction of \<open>PlanCase\<close>.\<close>

definition plan_body :: "string \<Rightarrow> string \<Rightarrow> ((store, 'z) world_scheme, plannedAction list) comp" where
  "plan_body orgID caseID =
    bnd (query_row (\<lambda>d. map_option lc_status (find_case orgID caseID d))) (\<lambda>status.
    if status \<noteq> ''DRAFT'' then fail (Errorf ''FORBIDDEN_STATE'')
    else bnd (query_rows (\<lambda>d. map planned_of (plan_rows orgID caseID d))) (\<lambda>(planned, rowsErr).
      case rowsErr of Some e \<Rightarrow> fail e | None \<Rightarrow>
      bnd (for_each (\<lambda>item. exec (sql_insert_action orgID caseID item)) planned) (\<lambda>_.
      if planned = [] then fail (Errorf ''no known identities for person'')
      else bnd (exec (sql_plan_case (int (length planned)) orgID caseID)) (\<lambda>_.
           bnd (exec (sql_insert_event orgID caseID ''PLAN_GENERATED''
                  ''Offboarding plan generated and awaits explicit approval'' (JObj []))) (\<lambda>_.
           ret planned)))))"

definition PlanCase :: "string \<Rightarrow> string \<Rightarrow> string \<Rightarrow> ((store, 'z) world_scheme, plannedAction list) comp" where
  "PlanCase orgID caseID userID = tx (plan_body orgID caseID)"

section \<open>ApproveCase and cancelCase\<close>

definition sql_approve_case :: "string \<Rightarrow> string \<Rightarrow> (store, int) stmt" where
  "sql_approve_case org cid = upd (\<lambda>now gen d.
     (let P = (\<lambda>c. lc_org c = org \<and> lc_id c = cid \<and> lc_status c = ''AWAITING_APPROVAL'') in
      (count_where P (cases d),
       d\<lparr>cases := update_where P (\<lambda>c. c\<lparr>lc_status := ''APPROVED'', lc_approved := Some now\<rparr>) (cases d)\<rparr>)))"

definition sql_approve_actions :: "string \<Rightarrow> string \<Rightarrow> string \<Rightarrow> (store, unit) stmt" where
  "sql_approve_actions org cid user = upd (\<lambda>now gen d. ((), d\<lparr>actions :=
     update_where (\<lambda>r. la_org r = org \<and> la_case r = cid \<and> la_status r = ''PLANNED'')
       (\<lambda>r. r\<lparr>la_status := ''APPROVED'', la_approved_by := Some user\<rparr>) (actions d)\<rparr>))"

definition approve_body :: "string \<Rightarrow> string \<Rightarrow> string \<Rightarrow> ((store, 'z) world_scheme, unit) comp" where
  "approve_body orgID caseID userID =
    bnd (exec (sql_approve_case orgID caseID)) (\<lambda>affected.
    if affected \<noteq> 1 then fail (Errorf ''FORBIDDEN_STATE'')
    else bnd (exec (sql_approve_actions orgID caseID userID)) (\<lambda>_.
         exec (sql_insert_event orgID caseID ''APPROVED'' ''Offboarding plan explicitly approved''
           (JObj [(''approvedBy'', JStr userID)]))))"

definition ApproveCase :: "string \<Rightarrow> string \<Rightarrow> string \<Rightarrow> ((store, 'z) world_scheme, unit) comp" where
  "ApproveCase orgID caseID userID = tx (approve_body orgID caseID userID)"

definition sql_cancel_case :: "string \<Rightarrow> string \<Rightarrow> (store, int) stmt" where
  "sql_cancel_case org cid = upd (\<lambda>now gen d.
     (let P = (\<lambda>c. lc_org c = org \<and> lc_id c = cid \<and>
             lc_status c \<in> set [''DRAFT'', ''PLANNED'', ''AWAITING_APPROVAL'', ''APPROVED'']) in
      (count_where P (cases d),
       d\<lparr>cases := update_where P (\<lambda>c. c\<lparr>lc_status := ''CANCELLED'', lc_completed := Some now\<rparr>) (cases d)\<rparr>)))"

definition sql_skip_actions :: "string \<Rightarrow> string \<Rightarrow> (store, unit) stmt" where
  "sql_skip_actions org cid = upd (\<lambda>now gen d. ((), d\<lparr>actions :=
     update_where (\<lambda>r. la_org r = org \<and> la_case r = cid \<and> la_status r \<in> set [''PLANNED'', ''APPROVED'', ''QUEUED''])
       (\<lambda>r. r\<lparr>la_status := ''SKIPPED'', la_completed := Some now,
          la_summary := JObj [(''message'', JStr ''Case cancelled before execution'')]\<rparr>) (actions d)\<rparr>))"

definition sql_audit :: "string \<Rightarrow> string \<Rightarrow> string \<Rightarrow> string \<Rightarrow> string \<Rightarrow> json \<Rightarrow> string \<Rightarrow> (store, unit) stmt" where
  "sql_audit org actor event rtype rid meta request = upd (\<lambda>now gen d. ((), d\<lparr>audit := audit d @
     [\<lparr>au_org = org, au_actor = actor, au_event = event, au_resource_type = rtype, au_resource = rid,
       au_metadata = meta, au_request = request, au_id = gen 0, au_time = now\<rparr>]\<rparr>))"

text \<open>The outcome of the handler: \<open>Inl\<close> is the internal error, \<open>Inr False\<close> the 409 answer.\<close>

definition cancelCase :: "string \<Rightarrow> string \<Rightarrow> string \<Rightarrow> string \<Rightarrow> ((store, 'z) world_scheme, bool) comp" where
  "cancelCase orgID caseID userID requestID =
    bnd (exec (sql_cancel_case orgID caseID)) (\<lambda>affected.
     if affected = 0 then ret False
     else bnd (ignore (exec (sql_skip_actions orgID caseID))) (\<lambda>_.
          bnd (ignore (exec (sql_audit orgID userID ''offboarding.cancelled'' ''lifecycle_case'' caseID (JObj []) requestID))) (\<lambda>_.
          ret True)))"

section \<open>ExecuteAndVerify\<close>

definition sql_start_case :: "string \<Rightarrow> string \<Rightarrow> (store, int) stmt" where
  "sql_start_case org cid = upd (\<lambda>now gen d.
     (let P = (\<lambda>c. lc_org c = org \<and> lc_id c = cid \<and> lc_status c = ''APPROVED'') in
      (count_where P (cases d),
       d\<lparr>cases := update_where P (\<lambda>c. c\<lparr>lc_status := ''RUNNING'', lc_started := Some now\<rparr>) (cases d)\<rparr>)))"

text \<open>The rows of the action query: its two LEFT JOINs leave NULLs, which cannot be scanned.\<close>

record action_view =
  av_id :: string
  av_typ :: string
  av_status :: string
  av_connectorID :: string
  av_accountID :: string
  av_externalID :: string
  av_baseURL :: string
  av_connectorType :: string

definition view_accounts :: "string \<Rightarrow> action_row \<Rightarrow> store \<Rightarrow> account_row option list" where
  "view_accounts org r d =
    (case filter (\<lambda>i. Some (a_id i) = la_account r \<and> a_org i = org) (accounts d) of [] \<Rightarrow> [None] | is \<Rightarrow> map Some is)"

definition view_connectors :: "string \<Rightarrow> action_row \<Rightarrow> store \<Rightarrow> connector_row option list" where
  "view_connectors org r d =
    (case filter (\<lambda>c. Some (c_id c) = la_connector r \<and> c_org c = org) (connectors d) of [] \<Rightarrow> [None] | cs \<Rightarrow> map Some cs)"

definition case_actions :: "string \<Rightarrow> string \<Rightarrow> store \<Rightarrow> action_row list" where
  "case_actions org cid d =
     sort_key (\<lambda>r. (la_created r, la_id r)) (filter (\<lambda>r. la_org r = org \<and> la_case r = cid) (actions d))"

definition action_rows ::
  "string \<Rightarrow> string \<Rightarrow> store \<Rightarrow> (action_row \<times> account_row option \<times> connector_row option) list" where
  "action_rows org cid d =
    [(r, i, c). r \<leftarrow> case_actions org cid d, i \<leftarrow> view_accounts org r d, c \<leftarrow> view_connectors org r d]"

definition scan_action :: "action_row \<times> account_row option \<times> connector_row option \<Rightarrow> error + action_view" where
  "scan_action row = (case row of
     (r, Some i, Some c) \<Rightarrow>
       (case (la_connector r, la_account r, c_base_url c) of
          (Some con, Some acc, Some url) \<Rightarrow> Inr \<lparr>av_id = la_id r, av_typ = la_type r, av_status = la_status r,
             av_connectorID = con, av_accountID = acc, av_externalID = a_external i, av_baseURL = url,
             av_connectorType = c_type c\<rparr>
        | _ \<Rightarrow> Inl (DBError ''cannot scan NULL into *string''))
   | _ \<Rightarrow> Inl (DBError ''cannot scan NULL into *string''))"

fun scan_all :: "('r \<Rightarrow> error + 'v) \<Rightarrow> 'r list \<Rightarrow> error + 'v list" where
  "scan_all f [] = Inr []"
| "scan_all f (r # rs) = (case f r of Inl e \<Rightarrow> Inl e
     | Inr v \<Rightarrow> (case scan_all f rs of Inl e \<Rightarrow> Inl e | Inr vs \<Rightarrow> Inr (v # vs)))"

definition sql_start_action :: "string \<Rightarrow> string \<Rightarrow> (store, unit) stmt" where
  "sql_start_action org aid = upd (\<lambda>now gen d. ((), d\<lparr>actions :=
     update_where (\<lambda>r. la_org r = org \<and> la_id r = aid \<and> la_status r \<in> set [''APPROVED'', ''FAILED''])
       (\<lambda>r. r\<lparr>la_status := ''RUNNING'', la_started := (case la_started r of None \<Rightarrow> Some now | Some t \<Rightarrow> Some t),
          la_attempts := la_attempts r + 1\<rparr>) (actions d)\<rparr>))"

definition sql_account_disabled :: "string \<Rightarrow> string \<Rightarrow> (store, unit) stmt" where
  "sql_account_disabled org acc = upd (\<lambda>now gen d. ((), d\<lparr>accounts :=
     update_where (\<lambda>a. a_org a = org \<and> a_id a = acc)
       (\<lambda>a. a\<lparr>a_status := ''DISABLED'', a_last_seen := now, a_updated := now\<rparr>) (accounts d)\<rparr>))"

definition find_account :: "string \<Rightarrow> string \<Rightarrow> store \<Rightarrow> account_row option" where
  "find_account org acc d = List.find (\<lambda>a. a_org a = org \<and> a_id a = acc) (accounts d)"

definition sql_finish_action :: "string \<Rightarrow> string \<Rightarrow> string \<Rightarrow> string \<Rightarrow> (store, unit) stmt" where
  "sql_finish_action outcome summary org aid = upd (\<lambda>now gen d. ((), d\<lparr>actions :=
     update_where (\<lambda>r. la_org r = org \<and> la_id r = aid)
       (\<lambda>r. r\<lparr>la_status := outcome, la_completed := Some now, la_summary := JObj [(''message'', JStr summary)],
          la_error := (if outcome = ''FAILED'' then Some ''POST_WRITE_VERIFICATION_FAILED'' else None)\<rparr>) (actions d)\<rparr>))"

definition evidence_state :: "string \<Rightarrow> string \<Rightarrow> json" where
  "evidence_state outcome summary = JObj [(''outcome'', JStr outcome), (''summary'', JStr summary)]"

definition sql_insert_evidence :: "string \<Rightarrow> string \<Rightarrow> action_view \<Rightarrow> string \<Rightarrow> string \<Rightarrow> (store, unit) stmt" where
  "sql_insert_evidence org cid a outcome summary = upd (\<lambda>now gen d. ((), d\<lparr>evidence := evidence d @
     [\<lparr>le_org = org, le_connector = av_connectorID a, le_account = av_accountID a, le_case = cid, le_action = av_id a,
       le_type = ''POST_ACTION_OBSERVATION'', le_summary = summary, le_observed = evidence_state outcome summary,
       le_hash = EncodeToString (Sum256 (Marshal (evidence_state outcome summary))), le_source_time = now,
       le_id = gen 0, le_person = None, le_created = now\<rparr>]\<rparr>))"

definition sql_verifying :: "string \<Rightarrow> string \<Rightarrow> (store, unit) stmt" where
  "sql_verifying org cid = upd (\<lambda>now gen d. ((), d\<lparr>cases := update_where (\<lambda>c. lc_org c = org \<and> lc_id c = cid)
     (\<lambda>c. c\<lparr>lc_status := ''VERIFYING''\<rparr>) (cases d)\<rparr>))"

definition linked_accounts :: "string \<Rightarrow> string \<Rightarrow> store \<Rightarrow> account_row list" where
  "linked_accounts org person d =
    [a. l \<leftarrow> links d, l_org l = org \<and> l_person l = person, a \<leftarrow> accounts d, a_id a = l_account l \<and> a_org a = org]"

definition pending_candidates :: "string \<Rightarrow> string \<Rightarrow> store \<Rightarrow> candidate_row list" where
  "pending_candidates org person d =
     filter (\<lambda>k. k_org k = org \<and> k_person k = person \<and> k_status k = ''PENDING'') (candidates d)"

definition manual_actions :: "string \<Rightarrow> string \<Rightarrow> store \<Rightarrow> action_row list" where
  "manual_actions org cid d =
     filter (\<lambda>r. la_org r = org \<and> la_case r = cid \<and> la_type r = ''MANUAL_REVIEW'') (actions d)"

definition distinct_connectors :: "string \<Rightarrow> string \<Rightarrow> store \<Rightarrow> int" where
  "distinct_connectors org cid d =
     int (length (remdups (List.map_filter la_connector (filter (\<lambda>r. la_org r = org \<and> la_case r = cid) (actions d)))))"

definition sql_insert_snapshot :: "string \<Rightarrow> string \<Rightarrow> VerificationInput \<Rightarrow> string \<Rightarrow> (store, unit) stmt" where
  "sql_insert_snapshot org cid v status = upd (\<lambda>now gen d. ((), d\<lparr>snapshots := snapshots d @
     [\<lparr>vs_org = org, vs_case = cid, vs_connected = distinct_connectors org cid d,
       vs_succeeded = distinct_connectors org cid d - SystemsFailed v, vs_failed = SystemsFailed v,
       vs_managed = Managed v, vs_disabled = Disabled v, vs_active = ActiveN v, vs_unresolved = Unresolved v,
       vs_status = status, vs_summary = JObj [(''manualSystems'', JNum (Manual v))],
       vs_observed = now\<rparr>]\<rparr>))"

definition sql_complete_case :: "string \<Rightarrow> string \<Rightarrow> string \<Rightarrow> string \<Rightarrow> VerificationInput \<Rightarrow> (store, unit) stmt" where
  "sql_complete_case org cid final status v = upd (\<lambda>now gen d. ((), d\<lparr>cases :=
     update_where (\<lambda>c. lc_org c = org \<and> lc_id c = cid)
       (\<lambda>c. c\<lparr>lc_status := final, lc_verification := Some status, lc_completed := Some now,
          lc_summary := JObj [(''managedIdentities'', JNum (Managed v)), (''disabledIdentities'', JNum (Disabled v)),
            (''activeIdentities'', JNum (ActiveN v)), (''unresolvedIdentities'', JNum (Unresolved v)),
            (''systemsFailed'', JNum (SystemsFailed v))]\<rparr>) (cases d)\<rparr>))"

text \<open>
  One action of the loop, with the connectors that failed so far. \<open>remote\<close> is
  \<open>executeRemoteAction(ctx, orgID, connectorID, connectorType, baseURL, externalID, actionType)\<close>.
\<close>

type_synonym 'w remote_action =
  "string \<Rightarrow> string \<Rightarrow> string \<Rightarrow> string \<Rightarrow> string \<Rightarrow> string \<Rightarrow> ('w, bool) comp"

definition action_outcome ::
  "((store, 'z) world_scheme) remote_action \<Rightarrow> string \<Rightarrow> action_view \<Rightarrow> string list \<Rightarrow>
     ((store, 'z) world_scheme, string \<times> string \<times> string list) comp" where
  "action_outcome remote orgID a failedSystems =
    (if av_typ a = ''DISABLE_ACCOUNT'' \<or> av_typ a = ''REMOVE_MEMBERSHIP'' then
       bnd (attempt (remote orgID (av_connectorID a) (av_connectorType a) (av_baseURL a) (av_externalID a) (av_typ a)))
        (\<lambda>r. case r of
           Inr True \<Rightarrow> bnd (exec (sql_account_disabled orgID (av_accountID a))) (\<lambda>_.
             ret (''SUCCEEDED'', ''Provider was re-read and access was observed disabled or removed'', failedSystems))
         | Inr False \<Rightarrow>
             ret (''FAILED'', ''Provider accepted the change but reconciliation still observed active access'', failedSystems)
         | Inl e \<Rightarrow>
             ret (''FAILED'', ''Provider action or post-write read failed'', List.insert (av_connectorID a) failedSystems))
     else if av_typ a = ''VERIFY_DISABLED'' then
       bnd (attempt (query_row (\<lambda>d. map_option a_status (find_account orgID (av_accountID a) d)))) (\<lambda>r.
         case r of
           Inr state \<Rightarrow> if state = ''DISABLED''
             then ret (''SUCCEEDED'', ''Read-only identity was observed disabled'', failedSystems)
             else ret (''INCONCLUSIVE'', ''Read-only identity could not be confirmed disabled'', failedSystems)
         | Inl e \<Rightarrow> ret (''INCONCLUSIVE'', ''Read-only identity could not be confirmed disabled'', failedSystems))
     else ret (''INCONCLUSIVE'', ''Manual system requires human review'', failedSystems))"

definition execute_action ::
  "((store, 'z) world_scheme) remote_action \<Rightarrow> string \<Rightarrow> string \<Rightarrow> string list \<Rightarrow> action_view \<Rightarrow>
     ((store, 'z) world_scheme, string list) comp" where
  "execute_action remote orgID caseID failedSystems a =
    (if av_status a = ''SUCCEEDED'' then ret failedSystems
     else bnd (exec (sql_start_action orgID (av_id a))) (\<lambda>_.
          bnd (action_outcome remote orgID a failedSystems) (\<lambda>(outcome, summary, failed).
          bnd (exec (sql_finish_action outcome summary orgID (av_id a))) (\<lambda>_.
          bnd (exec (sql_insert_evidence orgID caseID a outcome summary)) (\<lambda>_.
          ret failed)))))"

definition final_case :: "VerificationStatus \<Rightarrow> string" where
  "final_case result = (if result = Failed then ''FAILED'' else if result \<noteq> Verified then ''PARTIAL'' else ''COMPLETED'')"

record notify_event =
  ne_org :: string
  ne_type :: string
  ne_payload :: json
  ne_occurred :: tstamp

type_synonym 'w notifier = "(notify_event \<Rightarrow> ('w, unit) comp) option"

text \<open>\<open>if s.Notifier != nil { _ = s.Notifier.Notify(ctx, notifier.Event{\<dots>}) }\<close>\<close>

definition send_event ::
  "((store, 'z) world_scheme) notifier \<Rightarrow> string \<Rightarrow> string \<Rightarrow> json \<Rightarrow> ((store, 'z) world_scheme, unit) comp" where
  "send_event notify org typ payload = (case notify of None \<Rightarrow> ret ()
     | Some n \<Rightarrow> bnd time_now (\<lambda>t.
         ignore (n \<lparr>ne_org = org, ne_type = typ, ne_payload = payload, ne_occurred = t\<rparr>)))"

text \<open>The second half of \<open>ExecuteAndVerify\<close>: the counts, then the verdict and its records.\<close>

definition count_case ::
  "string \<Rightarrow> string \<Rightarrow> string list \<Rightarrow> ((store, 'z) world_scheme, VerificationInput) comp" where
  "count_case orgID caseID failedSystems =
    bnd (query_row (\<lambda>d. map_option lc_person (find_case orgID caseID d))) (\<lambda>personID.
    bnd (query_row (\<lambda>d. let as = linked_accounts orgID personID d in
           Some (int (length as), count_where (\<lambda>a. a_status a = ''DISABLED'') as,
                 count_where (\<lambda>a. a_status a = ''ACTIVE'') as))) (\<lambda>(managed, disabled, active).
    bnd (query_row (\<lambda>d. Some (int (length (pending_candidates orgID personID d))))) (\<lambda>unresolved.
    bnd (query_row (\<lambda>d. Some (int (length (manual_actions orgID caseID d))))) (\<lambda>manual.
    (let systemsFailed = int (length failedSystems) in
     ret \<lparr>Managed = managed, Disabled = disabled, ActiveN = active, Unresolved = unresolved, Manual = manual,
          SystemsFailed = systemsFailed, RequiredSystemsResponded = (systemsFailed = 0)\<rparr>)))))"

definition record_verdict ::
  "((store, 'z) world_scheme) notifier \<Rightarrow> string \<Rightarrow> string \<Rightarrow> VerificationInput \<Rightarrow>
     ((store, 'z) world_scheme, VerificationStatus) comp" where
  "record_verdict notify orgID caseID v =
    (let result = EvaluateVerification v in
     bnd (exec (sql_insert_snapshot orgID caseID v (verification_text result))) (\<lambda>_.
     bnd (exec (sql_complete_case orgID caseID (final_case result) (verification_text result) v)) (\<lambda>_.
     bnd (exec (sql_insert_event orgID caseID ''VERIFICATION_COMPLETED''
            ''Verification completed from observed provider state''
            (JObj [(''status'', JStr (verification_text result))]))) (\<lambda>_.
     bnd (if result = Verified then ret ()
          else send_event notify orgID (''OFFBOARDING_'' @ verification_text result)
            (JObj [(''caseId'', JStr caseID), (''verificationStatus'', JStr (verification_text result))])) (\<lambda>_.
     ret result)))))"

definition verify_case ::
  "((store, 'z) world_scheme) notifier \<Rightarrow> string \<Rightarrow> string \<Rightarrow> string list \<Rightarrow>
     ((store, 'z) world_scheme, VerificationStatus) comp" where
  "verify_case notify orgID caseID failedSystems =
    bnd (exec (sql_verifying orgID caseID)) (\<lambda>_.
    bnd (count_case orgID caseID failedSystems) (\<lambda>v.
    record_verdict notify orgID caseID v))"

text \<open>What follows once the case has been started: the actions in order, then the verification. The
  error that ends the row loop early is not looked at.\<close>

definition run_case ::
  "((store, 'z) world_scheme) remote_action \<Rightarrow> ((store, 'z) world_scheme) notifier \<Rightarrow>
     string \<Rightarrow> string \<Rightarrow> ((store, 'z) world_scheme, VerificationStatus) comp" where
  "run_case remote notify orgID caseID =
    bnd (query_rows (action_rows orgID caseID)) (\<lambda>(rows, _).
    bnd (liftE (scan_all scan_action rows)) (\<lambda>actions.
    bnd (fold_comp (execute_action remote orgID caseID) [] actions) (\<lambda>failedSystems.
    verify_case notify orgID caseID failedSystems)))"

definition ExecuteAndVerify ::
  "((store, 'z) world_scheme) remote_action \<Rightarrow> ((store, 'z) world_scheme) notifier \<Rightarrow>
     string \<Rightarrow> string \<Rightarrow> string \<Rightarrow> ((store, 'z) world_scheme, VerificationStatus) comp" where
  "ExecuteAndVerify remote notify orgID caseID userID =
    bnd (exec (sql_start_case orgID caseID)) (\<lambda>affected.
    if affected \<noteq> 1 then fail (Errorf ''FORBIDDEN_STATE'')
    else run_case remote notify orgID caseID)"

section \<open>GetCase\<close>

record case_action_view =
  cv_id :: string
  cv_type :: string
  cv_status :: string
  cv_connector :: string
  cv_username :: string
  cv_summary :: json

record case_view =
  gc_id :: string
  gc_personId :: string
  gc_status :: string
  gc_verification :: string
  gc_summary :: json
  gc_createdAt :: tstamp
  gc_actions :: "case_action_view list"

definition case_action_rows :: "string \<Rightarrow> string \<Rightarrow> store \<Rightarrow> case_action_view list" where
  "case_action_rows org cid d =
    [\<lparr>cv_id = la_id r, cv_type = la_type r, cv_status = la_status r,
      cv_connector = (case c of None \<Rightarrow> ''Manual'' | Some c \<Rightarrow> c_name c),
      cv_username = (case i of None \<Rightarrow> [] | Some i \<Rightarrow> a_username i), cv_summary = la_summary r\<rparr>.
     r \<leftarrow> sort_key la_id (filter (\<lambda>r. la_org r = org \<and> la_case r = cid) (actions d)),
     c \<leftarrow> view_connectors org r d, i \<leftarrow> view_accounts org r d]"

definition GetCase :: "string \<Rightarrow> string \<Rightarrow> ((store, 'z) world_scheme, case_view) comp" where
  "GetCase orgID caseID =
    bnd (query_row (find_case orgID caseID)) (\<lambda>c.
    bnd (query_rows (case_action_rows orgID caseID)) (\<lambda>(acts, rowsErr).
    case rowsErr of Some e \<Rightarrow> fail e
    | None \<Rightarrow> ret \<lparr>gc_id = lc_id c, gc_personId = lc_person c, gc_status = lc_status c,
        gc_verification = coalesce_empty (lc_verification c), gc_summary = lc_summary c, gc_createdAt = lc_created c,
        gc_actions = acts\<rparr>))"

end
