(* ===== verification/GoUrl.thy ===== *)
theory GoUrl
  imports GoStrings
begin

text \<open>
  What the connectors use of Go's \<open>net/url\<close> and \<open>net\<close>: parsing and printing of URLs, the escaping
  functions, host names, and IP addresses with the address classes that the clients refuse.
\<close>

section \<open>Escaping\<close>

definition is_alnum :: "char \<Rightarrow> bool" where
  "is_alnum c \<longleftrightarrow> is_digit c \<or> (let n = (of_char (lower_char c) :: nat) in 97 \<le> n \<and> n \<le> 122)"

datatype encoding = encodePath | encodePathSegment | encodeHost | encodeQueryComponent | encodeFragment

definition shouldEscape :: "encoding \<Rightarrow> char \<Rightarrow> bool" where
  "shouldEscape mode c =
    (if is_alnum c then False
     else if mode = encodeHost \<and> c \<in> set ''!$&'' \<union> set ''()*+,;=:[]<>'' \<union> {CHR 0x27, CHR 0x22} then False
     else if c \<in> set ''-_.~'' then False
     else if c \<in> set ''$&+,/:;=?@'' then
       (case mode of encodePath \<Rightarrow> c = CHR ''?'' | encodePathSegment \<Rightarrow> c \<in> set ''/;,?''
        | encodeQueryComponent \<Rightarrow> True | encodeFragment \<Rightarrow> False | encodeHost \<Rightarrow> True)
     else if mode = encodeFragment \<and> c \<in> set ''!()*'' then False
     else True)"

definition upper_hex :: "nat \<Rightarrow> char" where
  "upper_hex d = (if d < 10 then char_of (48 + d) else char_of (55 + d))"

definition escape_byte :: "encoding \<Rightarrow> char \<Rightarrow> string" where
  "escape_byte mode c =
    (if c = CHR '' '' \<and> mode = encodeQueryComponent then ''+''
     else if shouldEscape mode c then [CHR ''%'', upper_hex (of_char c div 16), upper_hex (of_char c mod 16)]
     else [c])"

definition url_escape :: "encoding \<Rightarrow> string \<Rightarrow> string" where
  "url_escape mode s = concat (map (escape_byte mode) s)"

definition PathEscape :: "string \<Rightarrow> string" where
  "PathEscape = url_escape encodePathSegment"

definition QueryEscape :: "string \<Rightarrow> string" where
  "QueryEscape = url_escape encodeQueryComponent"

definition unhex :: "char \<Rightarrow> nat option" where
  "unhex c = (let n = (of_char (lower_char c) :: nat) in
     if is_digit c then Some (digit_value c) else if 97 \<le> n \<and> n \<le> 102 then Some (n - 87) else None)"

fun url_unescape :: "encoding \<Rightarrow> string \<Rightarrow> string option" where
  "url_unescape mode [] = Some []"
| "url_unescape mode (c # s) =
    (if c = CHR ''%'' then
       (case s of a # b # s' \<Rightarrow>
          (case (unhex a, unhex b) of
             (Some x, Some y) \<Rightarrow> if mode = encodeHost \<and> x < 8 \<and> [a, b] \<noteq> ''25'' then None
               else map_option (\<lambda>t. char_of (16 * x + y) # t) (url_unescape mode s')
           | _ \<Rightarrow> None)
        | _ \<Rightarrow> None)
     else if mode = encodeHost \<and> (of_char c :: nat) < 128 \<and> shouldEscape encodeHost c then None
     else if mode = encodeQueryComponent \<and> c = CHR ''+'' then map_option ((#) (CHR '' '')) (url_unescape mode s)
     else map_option ((#) c) (url_unescape mode s))"

section \<open>URLs\<close>

record url =
  u_scheme :: string
  u_opaque :: string
  u_user :: "string option"
  u_host :: string
  u_path :: string
  u_rawpath :: string
  u_query :: string
  u_fragment :: string

definition empty_url :: url where
  "empty_url = \<lparr>u_scheme = [], u_opaque = [], u_user = None, u_host = [], u_path = [], u_rawpath = [], u_query = [],
     u_fragment = []\<rparr>"

definition is_ctl :: "char \<Rightarrow> bool" where
  "is_ctl c \<longleftrightarrow> (of_char c :: nat) < 32 \<or> (of_char c :: nat) = 127"

text \<open>\<open>getScheme\<close>: \<open>None\<close> is the missing scheme before a colon.\<close>

definition getScheme :: "string \<Rightarrow> (string \<times> string) option" where
  "getScheme raw =
    (let sch = takeWhile (\<lambda>c. is_alnum c \<or> c \<in> set ''+-.'') raw; rest = drop (length sch) raw in
     case rest of
       c # rest' \<Rightarrow>
         if c \<noteq> CHR '':'' then Some ([], raw)
         else if sch = [] then None
         else if is_digit (hd sch) \<or> hd sch \<in> set ''+-.'' then Some ([], raw)
         else Some (sch, rest')
     | [] \<Rightarrow> Some ([], raw))"

definition validOptionalPort :: "string \<Rightarrow> bool" where
  "validOptionalPort port \<longleftrightarrow> (case port of [] \<Rightarrow> True | c # ds \<Rightarrow> c = CHR '':'' \<and> list_all is_digit ds)"

text \<open>The part of a string up to and from the last occurrence of a character.\<close>

definition cut_last :: "char \<Rightarrow> string \<Rightarrow> (string \<times> string) option" where
  "cut_last c s = (if c \<in> set s then
     (let post = rev (takeWhile (\<lambda>x. x \<noteq> c) (rev s)) in Some (take (length s - Suc (length post)) s, post)) else None)"

definition parseHost :: "string \<Rightarrow> string option" where
  "parseHost host =
    (if HasPrefix host ''['' then
       (case cut_last (CHR '']'') host of None \<Rightarrow> None
        | Some (_, port) \<Rightarrow> if validOptionalPort port then url_unescape encodeHost host else None)
     else (case cut_last (CHR '':'') host of
        Some (_, port) \<Rightarrow> if validOptionalPort (CHR '':'' # port) then url_unescape encodeHost host else None
      | None \<Rightarrow> url_unescape encodeHost host))"

definition validUserinfo :: "string \<Rightarrow> bool" where
  "validUserinfo s = list_all (\<lambda>c. is_alnum c \<or> c \<in> set ''-._:~!$&()*+,;=%@'' \<or> c = CHR 0x27) s"

definition parseAuthority :: "string \<Rightarrow> (string option \<times> string) option" where
  "parseAuthority authority =
    (case cut_last (CHR ''@'') authority of
       None \<Rightarrow> map_option (Pair None) (parseHost authority)
     | Some (user, host) \<Rightarrow> (case parseHost host of None \<Rightarrow> None
         | Some h \<Rightarrow> if validUserinfo user \<and> url_unescape encodePath user \<noteq> None then Some (Some user, h) else None))"

definition setPath :: "string \<Rightarrow> url \<Rightarrow> url option" where
  "setPath p u = map_option (\<lambda>path. u\<lparr>u_path := path, u_rawpath := (if url_escape encodePath path = p then [] else p)\<rparr>)
     (url_unescape encodePath p)"

definition split_authority :: "string \<Rightarrow> string \<times> string" where
  "split_authority rest = (takeWhile (\<lambda>c. c \<noteq> CHR ''/'') rest, dropWhile (\<lambda>c. c \<noteq> CHR ''/'') rest)"

definition Parse :: "string \<Rightarrow> url option" where
  "Parse raw =
    (let parts = SplitN2 raw (CHR ''#''); body = hd parts; frag = concat (tl parts) in
     if list_ex is_ctl body then None else
     case (getScheme body, url_unescape encodeFragment frag) of
       (Some (sch, rest0), Some fragment) \<Rightarrow>
         (let qs = SplitN2 rest0 (CHR ''?''); rest = hd qs;
              u = empty_url\<lparr>u_scheme := ToLower sch, u_query := concat (tl qs), u_fragment := fragment\<rparr> in
          if \<not> HasPrefix rest ''/'' \<and> sch \<noteq> [] then Some (u\<lparr>u_opaque := rest\<rparr>)
          else if \<not> HasPrefix rest ''/'' \<and> CHR '':'' \<in> set (fst (split_authority rest)) then None
          else if HasPrefix rest ''//'' \<and> (sch \<noteq> [] \<or> \<not> HasPrefix rest ''///'') then
            (case split_authority (drop 2 rest) of (authority, path) \<Rightarrow>
               (case parseAuthority authority of None \<Rightarrow> None
                | Some (user, host) \<Rightarrow> setPath path (u\<lparr>u_user := user, u_host := host\<rparr>)))
          else setPath rest u)
     | _ \<Rightarrow> None)"

definition Hostname :: "url \<Rightarrow> string" where
  "Hostname u =
    (let h = (case cut_last (CHR '':'') (u_host u) of
         Some (pre, port) \<Rightarrow> if validOptionalPort (CHR '':'' # port) then pre else u_host u
       | None \<Rightarrow> u_host u) in
     if HasPrefix h ''['' \<and> HasSuffix h '']'' then tl (butlast h) else h)"

definition validEncodedPath :: "string \<Rightarrow> bool" where
  "validEncodedPath s = list_all (\<lambda>c. c \<in> set ''!$&()*+,;=:@[]%'' \<or> c = CHR 0x27 \<or> \<not> shouldEscape encodePath c) s"

definition EscapedPath :: "url \<Rightarrow> string" where
  "EscapedPath u =
    (if u_rawpath u \<noteq> [] \<and> validEncodedPath (u_rawpath u) \<and> url_unescape encodePath (u_rawpath u) = Some (u_path u)
     then u_rawpath u else if u_path u = ''*'' then ''*'' else url_escape encodePath (u_path u))"

text \<open>\<open>String()\<close> of a URL with an authority and no user information, which is all the clients print.\<close>

definition url_text :: "url \<Rightarrow> string" where
  "url_text u =
    (if u_scheme u = [] then [] else u_scheme u @ '':'') @
    (if u_opaque u \<noteq> [] then u_opaque u
     else (if u_host u = [] then [] else ''//'' @ url_escape encodeHost (u_host u)) @
       (let p = EscapedPath u in if p \<noteq> [] \<and> \<not> HasPrefix p ''/'' \<and> u_host u \<noteq> [] then ''/'' @ p else p)) @
    (if u_query u = [] then [] else ''?'' @ u_query u) @
    (if u_fragment u = [] then [] else ''#'' @ url_escape encodeFragment (u_fragment u))"

section \<open>IP addresses\<close>

text \<open>\<open>net.ParseIP\<close>: an address as its eight 16-bit groups; an IPv4 address is the mapped one.\<close>

definition v4_field :: "string \<Rightarrow> nat option" where
  "v4_field s = (if s \<noteq> [] \<and> length s \<le> 3 \<and> list_all is_digit s \<and> (length s = 1 \<or> hd s \<noteq> CHR ''0'') \<and> digits_value s \<le> 255
     then Some (digits_value s) else None)"

definition parse_v4 :: "string \<Rightarrow> (nat \<times> nat) option" where
  "parse_v4 s = (case map v4_field (Split s (CHR ''.'')) of
     [Some a, Some b, Some c, Some d] \<Rightarrow> Some (256 * a + b, 256 * c + d) | _ \<Rightarrow> None)"

definition hex_group :: "string \<Rightarrow> nat option" where
  "hex_group s = (if s \<noteq> [] \<and> length s \<le> 4 then
     foldl (\<lambda>r c. case (r, unhex c) of (Some n, Some d) \<Rightarrow> Some (16 * n + d) | _ \<Rightarrow> None) (Some 0) s else None)"

fun hex_groups :: "bool \<Rightarrow> string list \<Rightarrow> nat list option" where
  "hex_groups v4 [] = Some []"
| "hex_groups v4 [g] = (case hex_group g of Some n \<Rightarrow> Some [n]
     | None \<Rightarrow> if v4 then map_option (\<lambda>(a, b). [a, b]) (parse_v4 g) else None)"
| "hex_groups v4 (g # h # gs) = (case (hex_group g, hex_groups v4 (h # gs)) of
     (Some n, Some ns) \<Rightarrow> Some (n # ns) | _ \<Rightarrow> None)"

definition group_list :: "string \<Rightarrow> string list" where
  "group_list s = (if s = [] then [] else Split s (CHR '':''))"

fun cut_ellipsis :: "string \<Rightarrow> (string \<times> string) option" where
  "cut_ellipsis (a # b # s) = (if a = CHR '':'' \<and> b = CHR '':'' then Some ([], s)
     else map_option (\<lambda>(l, r). (a # l, r)) (cut_ellipsis (b # s)))"
| "cut_ellipsis _ = None"

definition parse_v6 :: "string \<Rightarrow> nat list option" where
  "parse_v6 s = (case cut_ellipsis s of
     None \<Rightarrow> (case hex_groups True (group_list s) of Some ns \<Rightarrow> if length ns = 8 then Some ns else None | None \<Rightarrow> None)
   | Some (l, r) \<Rightarrow> (case (hex_groups False (group_list l), hex_groups True (group_list r)) of
        (Some ls, Some rs) \<Rightarrow> if length ls + length rs < 8
          then Some (ls @ replicate (8 - length ls - length rs) 0 @ rs) else None
      | _ \<Rightarrow> None))"

definition ParseIP :: "string \<Rightarrow> nat list option" where
  "ParseIP s = (case dropWhile (\<lambda>c. c \<notin> set ''.:%'') s of
     [] \<Rightarrow> None
   | c # _ \<Rightarrow> if c = CHR ''.'' then map_option (\<lambda>(a, b). [0, 0, 0, 0, 0, 65535, a, b]) (parse_v4 s)
       else if c = CHR '':'' then parse_v6 s else None)"

definition To4 :: "nat list \<Rightarrow> (nat \<times> nat) option" where
  "To4 ip = (case ip of [0, 0, 0, 0, 0, f, a, b] \<Rightarrow> if f = 65535 then Some (a, b) else None | _ \<Rightarrow> None)"

definition IsUnspecified :: "nat list \<Rightarrow> bool" where
  "IsUnspecified ip \<longleftrightarrow> ip = replicate 8 0 \<or> To4 ip = Some (0, 0)"

definition IsMulticast :: "nat list \<Rightarrow> bool" where
  "IsMulticast ip = (case To4 ip of Some (a, _) \<Rightarrow> a div 4096 = 14 | None \<Rightarrow> hd ip div 256 = 255)"

definition IsLinkLocalUnicast :: "nat list \<Rightarrow> bool" where
  "IsLinkLocalUnicast ip = (case To4 ip of Some (a, _) \<Rightarrow> a = 256 * 169 + 254 | None \<Rightarrow> hd ip div 64 = 1018)"

definition IsLinkLocalMulticast :: "nat list \<Rightarrow> bool" where
  "IsLinkLocalMulticast ip = (case To4 ip of Some (a, b) \<Rightarrow> a = 256 * 224 \<and> b div 256 = 0
     | None \<Rightarrow> hd ip div 256 = 255 \<and> hd ip mod 16 = 2)"

end
