(* ===== verification/GoTime.thy ===== *)
theory GoTime
  imports Domain
begin

text \<open>
  What the connectors use of Go's \<open>time\<close>: parsing of RFC 3339 time stamps, with the result in
  nanoseconds since the epoch. \<open>time.Time{}\<close>, the zero value, is the first instant of year 1.
\<close>

abbreviation Second :: int where "Second \<equiv> 1000000000"

definition zero_time :: tstamp where
  "zero_time = - 62135596800 * Second"

definition leap_year :: "int \<Rightarrow> bool" where
  "leap_year y \<longleftrightarrow> y mod 4 = 0 \<and> (y mod 100 \<noteq> 0 \<or> y mod 400 = 0)"

definition month_lengths :: "int \<Rightarrow> int list" where
  "month_lengths y = [31, if leap_year y then 29 else 28, 31, 30, 31, 30, 31, 31, 30, 31, 30, 31]"

text \<open>The days before a date, counted from the first day of year 1.\<close>

definition days_before :: "int \<Rightarrow> int \<Rightarrow> int \<Rightarrow> int" where
  "days_before y m d =
     365 * (y - 1) + (y - 1) div 4 - (y - 1) div 100 + (y - 1) div 400 +
     sum_list (take (nat (m - 1)) (month_lengths y)) + (d - 1)"

definition field :: "nat \<Rightarrow> nat \<Rightarrow> string \<Rightarrow> int option" where
  "field start len s = (if start + len \<le> length s then map_option int (unsigned_text (take len (drop start s))) else None)"

definition char_at :: "nat \<Rightarrow> string \<Rightarrow> char option" where
  "char_at i s = (if i < length s then Some (s ! i) else None)"

text \<open>The fraction after the seconds, cut to nanoseconds, and what follows it.\<close>

definition fraction :: "string \<Rightarrow> (int \<times> string) option" where
  "fraction s = (case s of
     c # t \<Rightarrow> if c = CHR ''.'' then
         (let ds = takeWhile is_digit t in
          if ds = [] then None
          else Some (foldl (\<lambda>n c. 10 * n + int (digit_value c)) 0 (take 9 (ds @ replicate 9 (CHR ''0''))), drop (length ds) t))
       else Some (0, s)
   | [] \<Rightarrow> Some (0, s))"

text \<open>The offset of the zone in seconds.\<close>

definition zone :: "string \<Rightarrow> int option" where
  "zone s =
    (if s = ''Z'' then Some 0
     else if length s = 6 \<and> (hd s = CHR ''+'' \<or> hd s = CHR ''-'') \<and> char_at 3 s = Some (CHR '':'') then
       (case (field 1 2 s, field 4 2 s) of
          (Some h, Some m) \<Rightarrow> if h \<le> 23 \<and> m \<le> 59
            then Some ((if hd s = CHR ''-'' then -1 else 1) * (3600 * h + 60 * m)) else None
        | _ \<Rightarrow> None)
     else None)"

definition ParseRFC3339 :: "string \<Rightarrow> tstamp option" where
  "ParseRFC3339 s =
    (case (field 0 4 s, field 5 2 s, field 8 2 s, field 11 2 s, field 14 2 s, field 17 2 s) of
       (Some y, Some mo, Some d, Some h, Some mi, Some sec) \<Rightarrow>
         if map (\<lambda>i. char_at i s) [4, 7, 10, 13, 16] = map Some ''--T::'' \<and> 1 \<le> mo \<and> mo \<le> 12 \<and> 1 \<le> d \<and>
            d \<le> month_lengths y ! nat (mo - 1) \<and> h \<le> 23 \<and> mi \<le> 59 \<and> sec \<le> 59
         then (case fraction (drop 19 s) of None \<Rightarrow> None
           | Some (ns, rest) \<Rightarrow> map_option (\<lambda>off. zero_time + (86400 * days_before y mo d + 3600 * h + 60 * mi + sec - off) * Second + ns)
               (zone rest))
         else None
     | _ \<Rightarrow> None)"

text \<open>\<open>t.UTC().Format(time.RFC3339)\<close> keeps whole seconds; read back as a \<open>timestamptz\<close> it is this instant.\<close>

definition whole_seconds :: "tstamp \<Rightarrow> tstamp" where
  "whole_seconds t = t div Second * Second"

section \<open>Printing\<close>

text \<open>The civil date of a day number counted from the epoch.\<close>

definition civil :: "int \<Rightarrow> int \<times> int \<times> int" where
  "civil days =
    (let z = days + 719468; era = z div 146097; doe = z mod 146097;
         yoe = (doe - doe div 1460 + doe div 36524 - doe div 146096) div 365;
         doy = doe - (365 * yoe + yoe div 4 - yoe div 100);
         mp = (5 * doy + 2) div 153; d = doy - (153 * mp + 2) div 5 + 1;
         m = (if mp < 10 then mp + 3 else mp - 9) in
     (yoe + era * 400 + (if m \<le> 2 then 1 else 0), m, d))"

definition padded :: "nat \<Rightarrow> int \<Rightarrow> string" where
  "padded n i = (let t = Itoa i in replicate (n - length t) (CHR ''0'') @ t)"

text \<open>The nanoseconds of a second, without trailing zeros, as \<open>time.RFC3339Nano\<close> prints them.\<close>

definition fraction_text :: "int \<Rightarrow> string" where
  "fraction_text ns = (if ns = 0 then [] else ''.'' @ TrimRight (padded 9 ns) ''0'')"

definition FormatRFC3339Nano :: "tstamp \<Rightarrow> string" where
  "FormatRFC3339Nano t =
    (let secs = t div Second; s = secs mod 86400 in
     case civil (secs div 86400) of (y, m, d) \<Rightarrow>
       padded 4 y @ ''-'' @ padded 2 m @ ''-'' @ padded 2 d @ ''T'' @ padded 2 (s div 3600) @ '':'' @ padded 2 (s div 60 mod 60) @
       '':'' @ padded 2 (s mod 60) @ fraction_text (t mod Second) @ ''Z'')"

end
