(* ===== verification/Net.thy ===== *)
theory Net
  imports Store GoUrl GoTime
begin

text \<open>
  The network as the connectors see it: an \<open>http.Client\<close> that follows redirects under the
  clients' \<open>CheckRedirect\<close>, waiting that a cancelled context interrupts, and an LDAP connection.
  What the remote systems answer is part of the world and arbitrary. Every request, wait and LDAP
  operation is recorded, so that theorems can speak about what was sent.
\<close>

section \<open>The network world\<close>

record http_request =
  q_method :: string
  q_url :: url
  q_headers :: "(string \<times> string) list"
  q_body :: "string option"

text \<open>
  A response: the number of bytes of its body, the error reading it ends with, and the value that
  \<open>encoding/json\<close> reads it as (\<open>None\<close>: it is not JSON). \<open>s_location\<close> is the \<open>Location\<close> header,
  resolved against the URL of the request.
\<close>

record http_response =
  s_status :: int
  s_header :: "(string \<times> string) list"
  s_size :: nat
  s_readErr :: "error option"
  s_json :: "json option"
  s_location :: "url option"

text \<open>The operations of the \<open>go-ldap\<close> package on a bound connection, and the entries they return.\<close>

datatype ldap_op =
    LdapBind string string string
  | LdapSearch string string bool "string list"
  | LdapReplace string string string
  | LdapDelete string string string

record Entry =
  DN :: string
  Attributes :: "(string \<times> string list) list"

datatype ldap_error = LdapNoSuchAttribute | LdapError string

record 'd networld = "'d world" +
  net :: "nat \<Rightarrow> http_request \<Rightarrow> error + http_response"
  sent :: "http_request list"
  cancelled :: "nat \<Rightarrow> bool"
  waited :: "int list"
  http_date :: "string \<Rightarrow> tstamp option"
  directory :: "nat \<Rightarrow> ldap_op \<Rightarrow> ldap_error + Entry list"
  ldap_log :: "ldap_op list"
  ParseDN :: "string \<Rightarrow> (string \<times> string) list list option"

section \<open>Effects\<close>

definition round_trip :: "http_request \<Rightarrow> ('d networld, http_response) comp" where
  "round_trip q w = (net w (ticks w) q, w\<lparr>ticks := Suc (ticks w), sent := sent w @ [q]\<rparr>)"

text \<open>\<open>select { case <-ctx.Done(): return ctx.Err(); case <-time.After(d): }\<close>\<close>

definition wait :: "int \<Rightarrow> ('d networld, unit) comp" where
  "wait d w = (if cancelled w (ticks w) then (Inl CtxErr, w\<lparr>ticks := Suc (ticks w)\<rparr>)
     else (Inr (), w\<lparr>ticks := Suc (ticks w), waited := waited w @ [d]\<rparr>))"

definition ldap_do :: "ldap_op \<Rightarrow> ('d networld, ldap_error + Entry list) comp" where
  "ldap_do op w = (Inr (directory w (ticks w) op), w\<lparr>ticks := Suc (ticks w), ldap_log := ldap_log w @ [op]\<rparr>)"

text \<open>Reading the environment.\<close>

definition asks :: "('d networld \<Rightarrow> 'a) \<Rightarrow> ('d networld, 'a) comp" where
  "asks f w = (Inr (f w), w)"

definition header_get :: "string \<Rightarrow> (string \<times> string) list \<Rightarrow> string" where
  "header_get name hs = (case List.find (\<lambda>(k, v). EqualFold k name) hs of None \<Rightarrow> [] | Some (k, v) \<Rightarrow> v)"

section \<open>http.Client\<close>

definition same_origin :: "url \<Rightarrow> url \<Rightarrow> bool" where
  "same_origin origin u \<longleftrightarrow> u_scheme u = u_scheme origin \<and> EqualFold (u_host u) (u_host origin)"

definition redirect_target :: "http_response \<Rightarrow> url option" where
  "redirect_target s = (if s_status s \<in> set [301, 302, 303, 307, 308] then s_location s else None)"

definition redirect_request :: "http_request \<Rightarrow> http_response \<Rightarrow> url \<Rightarrow> http_request" where
  "redirect_request q s loc =
    (if s_status s \<in> set [307, 308] then q\<lparr>q_url := loc\<rparr>
     else q\<lparr>q_url := loc, q_method := (if q_method q = ''HEAD'' then ''HEAD'' else ''GET''), q_body := None\<rparr>)"

text \<open>
  \<open>http.Client.Do\<close> with the clients' \<open>CheckRedirect\<close>: only to the same origin, and no further when
  three requests have been made. \<open>hops\<close> counts the redirects that may still be followed, \<open>redirect_policy\<close>
  holds the origin and the texts of the two errors of the \<open>CheckRedirect\<close> function.
\<close>

record redirect_policy =
  rp_origin :: url
  rp_cross :: string
  rp_many :: string

fun http_do :: "nat \<Rightarrow> redirect_policy \<Rightarrow> http_request \<Rightarrow> ('d networld, http_response) comp" where
  "http_do 0 pol q = bnd (round_trip q) (\<lambda>s. case redirect_target s of None \<Rightarrow> ret s
     | Some loc \<Rightarrow> if same_origin (rp_origin pol) loc then fail (Errorf (rp_many pol)) else fail (Errorf (rp_cross pol)))"
| "http_do (Suc hops) pol q = bnd (round_trip q) (\<lambda>s. case redirect_target s of None \<Rightarrow> ret s
     | Some loc \<Rightarrow> if same_origin (rp_origin pol) loc then http_do hops pol (redirect_request q s loc)
         else fail (Errorf (rp_cross pol)))"

section \<open>Pages\<close>

text \<open>
  The pagination loops of the clients: \<open>page\<close> fetches one page and says where the next one is;
  after \<open>n\<close> pages the loop gives up with \<open>limit\<close>.
\<close>

fun page_loop ::
  "('p \<Rightarrow> ('d networld, 'a list \<times> 'p option) comp) \<Rightarrow> error \<Rightarrow> nat \<Rightarrow> 'p option \<Rightarrow> 'a list \<Rightarrow> ('d networld, 'a list) comp" where
  "page_loop page limit n None out = ret out"
| "page_loop page limit 0 (Some next) out = fail limit"
| "page_loop page limit (Suc n) (Some next) out =
     bnd (page next) (\<lambda>(xs, next'). page_loop page limit n next' (out @ xs))"

definition nonempty_link :: "string \<Rightarrow> string option" where
  "nonempty_link s = (if s = [] then None else Some s)"

section \<open>Frames of the network\<close>

text \<open>\<open>sends P w w'\<close>: the database and the LDAP log are as before, and every request sent in between satisfies \<open>P\<close>.\<close>

definition sends :: "(http_request \<Rightarrow> bool) \<Rightarrow> 'd networld \<Rightarrow> 'd networld \<Rightarrow> bool" where
  "sends P w w' \<longleftrightarrow> db w' = db w \<and> ldap_log w' = ldap_log w \<and> (\<exists>qs. sent w' = sent w @ qs \<and> list_all P qs)"

interpretation sends: state_frame "sends P" for P :: "http_request \<Rightarrow> bool"
  by unfold_locales (force simp: sends_def)+

lemma sends_round_trip: "P q \<Longrightarrow> keeps (sends P) (round_trip q)"
  by (simp add: keeps_def round_trip_def sends_def)

lemma sends_wait: "keeps (sends P) (wait d)"
  by (simp add: keeps_def wait_def sends_def)

lemma sends_asks: "keeps (sends P) (asks f)"
  by (simp add: keeps_def asks_def sends_def)

lemma sends_time_now: "keeps (sends P) time_now"
  by (simp add: keeps_def time_now_def sends_def)

lemma sends_mono: "keeps (sends P) m \<Longrightarrow> (\<And>q. P q \<Longrightarrow> Q q) \<Longrightarrow> keeps (sends Q) m"
  unfolding keeps_def sends_def by (metis (mono_tags, lifting) list.pred_mono_strong)

lemma sends_page_loop:
  assumes "\<And>p. keeps (sends P) (page p)"
  shows "keeps (sends P) (page_loop page limit n next out)"
  using assms
  by (induction page limit n "next" out rule: page_loop.induct)
    (auto intro!: sends.keeps_combinators simp: case_prod_beta)

text \<open>What a predicate on requests must respect so that redirects stay within it.\<close>

definition redirect_stable :: "url \<Rightarrow> (http_request \<Rightarrow> bool) \<Rightarrow> bool" where
  "redirect_stable origin P \<longleftrightarrow> (\<forall>q s loc. P q \<longrightarrow> same_origin origin loc \<longrightarrow> P (redirect_request q s loc))"

lemma sends_http_do:
  assumes "redirect_stable (rp_origin pol) P" and "P q"
  shows "keeps (sends P) (http_do hops pol q)"
  using assms(2)
proof (induction hops arbitrary: q)
  case 0
  then show ?case unfolding http_do.simps
    by (intro sends.keeps_combinators sends_round_trip)
next
  case (Suc hops)
  show ?case unfolding http_do.simps
    by (intro sends.keeps_combinators sends_round_trip Suc)
      (use Suc.prems assms(1) in \<open>auto simp: redirect_stable_def\<close>)
qed

end
