(* ===== verification/NativeHttp.thy ===== *)
theory NativeHttp
  imports Net
begin

text \<open>
  \<open>backend/internal/connectors/nativehttp/client.go\<close>: the HTTP client under the Entra, Okta, Google
  Workspace and GitHub connectors. It refuses metadata and link-local destinations, keeps every
  request on its configured origin, limits the size of responses and retries reads only. Time-outs
  are not modelled: they show as errors of the network.
\<close>

section \<open>Destinations\<close>

definition blockedHost :: "string \<Rightarrow> bool" where
  "blockedHost host0 =
    (let host = TrimSuffix (ToLower host0) ''.'' in
     if host = ''metadata.google.internal'' \<or> host = ''metadata.azure.com'' then True
     else (case ParseIP host of
        Some ip \<Rightarrow> IsLinkLocalUnicast ip \<or> IsLinkLocalMulticast ip \<or> IsUnspecified ip \<or> IsMulticast ip
      | None \<Rightarrow> False))"

text \<open>
  \<open>restrictedDialer\<close>: \<open>lookup\<close> is the resolver (the texts of the addresses), \<open>dial\<close> one connection
  attempt. The result comes with the addresses that were dialled.
\<close>

fun dial_each :: "(string \<Rightarrow> error + 'c) \<Rightarrow> string list \<Rightarrow> error option \<Rightarrow> (error + 'c) \<times> string list" where
  "dial_each dial [] dialErr = (Inl (case dialErr of
     None \<Rightarrow> Errorf ''provider host resolved only to blocked addresses'' | Some e \<Rightarrow> e), [])"
| "dial_each dial (ip # ips) dialErr =
    (if blockedHost ip then dial_each dial ips dialErr
     else (case dial ip of
        Inr conn \<Rightarrow> (Inr conn, [ip])
      | Inl e \<Rightarrow> (case dial_each dial ips (Some e) of (r, dialled) \<Rightarrow> (r, ip # dialled))))"

definition restrictedDialer ::
  "(string \<Rightarrow> error + string list) \<Rightarrow> (string \<Rightarrow> error + 'c) \<Rightarrow> string option \<Rightarrow> (error + 'c) \<times> string list" where
  "restrictedDialer lookup dial address =
    (case address of None \<Rightarrow> (Inl (Errorf ''provider destination is not permitted''), [])
     | Some host \<Rightarrow>
       if blockedHost host then (Inl (Errorf ''provider destination is not permitted''), [])
       else (case lookup host of Inl e \<Rightarrow> (Inl e, []) | Inr ips \<Rightarrow> dial_each dial ips None))"

section \<open>The client\<close>

record Client =
  Origin :: url
  Headers :: "(string \<times> string) list"
  MaxResponse :: nat
  MaxRetries :: nat

definition New :: "string \<Rightarrow> (string \<times> string) list \<Rightarrow> bool \<Rightarrow> error + Client" where
  "New baseURL headers allowHTTP =
    (case Parse baseURL of
       None \<Rightarrow> Inl (Errorf ''invalid provider base URL'')
     | Some u \<Rightarrow>
       if u_host u = [] \<or> u_user u \<noteq> None \<or> u_query u \<noteq> [] \<or> u_fragment u \<noteq> []
       then Inl (Errorf ''invalid provider base URL'')
       else if u_scheme u \<noteq> ''https'' \<and> \<not> (allowHTTP \<and> u_scheme u = ''http'')
       then Inl (Errorf ''provider base URL must use HTTPS'')
       else if blockedHost (Hostname u) then Inl (Errorf ''link-local and metadata endpoints are blocked'')
       else Inr \<lparr>Origin = u\<lparr>u_path := TrimRight (u_path u) ''/''\<rparr>, Headers = headers, MaxResponse = 8 * 2 ^ 20,
         MaxRetries = 3\<rparr>)"

definition Resolve :: "Client \<Rightarrow> string \<Rightarrow> error + url" where
  "Resolve c pathOrURL =
    (if HasPrefix pathOrURL ''http://'' \<or> HasPrefix pathOrURL ''https://'' then
       (case Parse pathOrURL of
          None \<Rightarrow> Inl (Errorf ''provider pagination escaped configured origin'')
        | Some u \<Rightarrow> if u_scheme u \<noteq> u_scheme (Origin c) \<or> \<not> EqualFold (u_host u) (u_host (Origin c))
            then Inl (Errorf ''provider pagination escaped configured origin'') else Inr u)
     else
       (let parts = SplitN2 pathOrURL (CHR ''?'') in
        Inr ((Origin c)\<lparr>u_path := TrimRight (u_path (Origin c)) ''/'' @ ''/'' @ TrimLeft (hd parts) ''/'',
          u_query := concat (tl parts)\<rparr>)))"

text \<open>The wait a \<open>Retry-After\<close> header asks for, in nanoseconds; \<open>date\<close> is \<open>http.ParseTime\<close>.\<close>

definition retryAfter :: "(string \<Rightarrow> tstamp option) \<Rightarrow> tstamp \<Rightarrow> string \<Rightarrow> int" where
  "retryAfter date now v =
    (let by_date = (case date v of None \<Rightarrow> 0
        | Some when \<Rightarrow> if 0 < when - now \<and> when - now \<le> 30 * Second then when - now else 0) in
     case Atoi v of
       Some seconds \<Rightarrow> if 0 < seconds \<and> seconds \<le> 30 then seconds * Second else by_date
     | None \<Rightarrow> by_date)"

definition policy :: "Client \<Rightarrow> redirect_policy" where
  "policy c = \<lparr>rp_origin = Origin c, rp_cross = ''provider cross-origin redirect blocked'',
     rp_many = ''too many provider redirects''\<rparr>"

definition make_request :: "Client \<Rightarrow> string \<Rightarrow> url \<Rightarrow> string option \<Rightarrow> http_request" where
  "make_request c meth endpoint body = \<lparr>q_method = meth, q_url = endpoint,
     q_headers = Headers c @ (if body = None then [] else [(''Content-Type'', ''application/json'')]), q_body = body\<rparr>"

text \<open>What one attempt says about the next: an answer, a final error, or an error to retry after.\<close>

datatype 'a attempt_result = Done 'a | Abort error | Again error

definition backoff :: "nat \<Rightarrow> int" where
  "backoff made = 2 ^ made * 100000000"

definition do_attempt :: "Client \<Rightarrow> http_request \<Rightarrow> ('d networld, http_response attempt_result) comp" where
  "do_attempt c q =
    bnd (attempt (http_do 2 (policy c) q)) (\<lambda>r. case r of
       Inl doErr \<Rightarrow> ret (Again doErr)
     | Inr resp \<Rightarrow>
       (case s_readErr resp of Some readErr \<Rightarrow> ret (Abort readErr) | None \<Rightarrow>
        if s_size resp > MaxResponse c then ret (Abort (Errorf ''provider response exceeds size limit''))
        else if 200 \<le> s_status resp \<and> s_status resp < 300 then ret (Done resp)
        else (let err = Errorf (''provider returned status '' @ Itoa (s_status resp)) in
          if s_status resp < 500 \<and> s_status resp \<noteq> 429 then ret (Abort err)
          else bnd (asks http_date) (\<lambda>date. bnd time_now (\<lambda>now.
               let w = retryAfter date now (header_get ''Retry-After'' (s_header resp)) in
               bnd (if 0 < w then wait w else ret ()) (\<lambda>_. ret (Again err)))))))"

text \<open>The loop of \<open>Do\<close>: \<open>n\<close> attempts are left, \<open>made\<close> were made. No attempt at all returns the
  zero response, as the code does for \<open>MaxRetries\<close> zero.\<close>

definition zero_response :: http_response where
  "zero_response = \<lparr>s_status = 0, s_header = [], s_size = 0, s_readErr = None, s_json = None, s_location = None\<rparr>"

fun do_loop :: "Client \<Rightarrow> http_request \<Rightarrow> nat \<Rightarrow> nat \<Rightarrow> error option \<Rightarrow> ('d networld, http_response) comp" where
  "do_loop c q 0 made lastErr = (case lastErr of None \<Rightarrow> ret zero_response | Some e \<Rightarrow> fail e)"
| "do_loop c q (Suc n) made lastErr =
    bnd (do_attempt c q) (\<lambda>r. case r of
       Done resp \<Rightarrow> ret resp
     | Abort e \<Rightarrow> fail e
     | Again e \<Rightarrow> bnd (if 0 < n then wait (backoff made) else ret ()) (\<lambda>_.
         do_loop c q n (Suc made) (Some e)))"

definition Do :: "Client \<Rightarrow> string \<Rightarrow> string \<Rightarrow> string option \<Rightarrow> ('d networld, http_response) comp" where
  "Do c meth pathOrURL body =
    bnd (liftE (Resolve c pathOrURL)) (\<lambda>endpoint.
    do_loop c (make_request c meth endpoint body)
      (if meth = ''GET'' \<or> meth = ''HEAD'' then MaxRetries c else 1) 0 None)"

definition SafeID :: "string \<Rightarrow> bool" where
  "SafeID v \<longleftrightarrow> v \<noteq> [] \<and> length v \<le> 512 \<and>
     \<not> ContainsAny v (''/?#'' @ [CHR 0x5C, CHR 0x00, CHR 0x0D, CHR 0x0A])"

section \<open>Where requests go\<close>

definition on_origin :: "Client \<Rightarrow> http_request \<Rightarrow> bool" where
  "on_origin c q \<longleftrightarrow> same_origin (Origin c) (q_url q)"

definition is_read :: "http_request \<Rightarrow> bool" where
  "is_read q \<longleftrightarrow> q_method q = ''GET'' \<or> q_method q = ''HEAD''"

lemma same_origin_refl [simp]: "same_origin u u"
  by (simp add: same_origin_def)

lemma Resolve_origin: "Resolve c path = Inr u \<Longrightarrow> same_origin (Origin c) u"
  by (auto simp: Resolve_def same_origin_def Let_def split: if_splits option.splits)

lemma redirect_stable_origin: "redirect_stable (Origin c) (on_origin c)"
  by (simp add: redirect_stable_def on_origin_def redirect_request_def)

lemma redirect_stable_read: "redirect_stable (Origin c) (\<lambda>q. on_origin c q \<and> is_read q)"
  by (simp add: redirect_stable_def on_origin_def is_read_def redirect_request_def)

lemma keeps_attempt_result:
  assumes "state_frame R" and "\<And>x. keeps R (f x)" and "\<And>e. keeps R (g e)" and "\<And>e. keeps R (h e)"
  shows "keeps R (case r of Done x \<Rightarrow> f x | Abort e \<Rightarrow> g e | Again e \<Rightarrow> h e)"
  using assms(2-4) by (cases r) simp_all

lemma sends_do_attempt:
  assumes "redirect_stable (Origin c) P" and "P q"
  shows "keeps (sends P) (do_attempt c q)"
proof -
  have "redirect_stable (rp_origin (policy c)) P" using assms(1) by (simp add: policy_def)
  then show ?thesis unfolding do_attempt_def Let_def
    by (intro sends.keeps_combinators sends_http_do sends_asks sends_time_now sends_wait assms(2))
qed

lemma sends_do_loop:
  assumes "redirect_stable (Origin c) P" and "P q"
  shows "keeps (sends P) (do_loop c q n made err)"
proof (induction n arbitrary: made err)
  case 0
  show ?case by (simp, intro sends.keeps_combinators)
next
  case (Suc n)
  show ?case unfolding do_loop.simps
    by (intro sends.keeps_combinators sends_do_attempt [OF assms] keeps_attempt_result [OF sends.state_frame_axioms]
        sends_wait Suc.IH)
qed

lemma keeps_liftE_bnd:
  assumes "state_frame R" and "\<And>x. r = Inr x \<Longrightarrow> keeps R (k x)"
  shows "keeps R (bnd (liftE r) k)"
proof (cases r)
  case (Inl e)
  then have "bnd (liftE r) k = fail e" by (auto simp: fun_eq_iff bnd_def liftE_def fail_def)
  then show ?thesis using state_frame.keeps_fail [OF assms(1)] by simp
next
  case (Inr x)
  then have "bnd (liftE r) k = k x" by (auto simp: fun_eq_iff bnd_def liftE_def)
  then show ?thesis using assms(2) [OF Inr] by simp
qed

lemma sends_Do: "keeps (sends (on_origin c)) (Do c meth path body)"
  unfolding Do_def
  by (intro keeps_liftE_bnd [OF sends.state_frame_axioms] sends_do_loop redirect_stable_origin)
    (simp add: on_origin_def make_request_def Resolve_origin)

lemma sends_Do_read: "keeps (sends (\<lambda>q. on_origin c q \<and> is_read q)) (Do c ''GET'' path body)"
  unfolding Do_def
  by (intro keeps_liftE_bnd [OF sends.state_frame_axioms] sends_do_loop redirect_stable_read)
    (simp add: on_origin_def is_read_def make_request_def Resolve_origin)

section \<open>How many requests\<close>

text \<open>\<open>costs n m\<close>: the computation sends at most \<open>n\<close> requests.\<close>

definition costs :: "nat \<Rightarrow> ('d networld, 'a) comp \<Rightarrow> bool" where
  "costs n m \<longleftrightarrow> (\<forall>w. length (sent (snd (m w))) \<le> length (sent w) + n)"

lemma costs_bnd:
  assumes "costs a m" and "\<And>x. costs b (k x)"
  shows "costs (a + b) (bnd m k)"
  unfolding costs_def
proof
  fix w
  obtain r t where r: "m w = (r, t)" by (cases "m w")
  then have t: "length (sent t) \<le> length (sent w) + a" using assms(1) by (metis costs_def snd_conv)
  show "length (sent (snd (bnd m k w))) \<le> length (sent w) + (a + b)"
  proof (cases r)
    case (Inr x)
    have "length (sent (snd (k x t))) \<le> length (sent t) + b" using assms(2) by (simp add: costs_def)
    with t Inr r show ?thesis by (simp add: bnd_def)
  qed (use r t in \<open>simp add: bnd_def\<close>)
qed

lemma costs_mono: "costs a m \<Longrightarrow> a \<le> b \<Longrightarrow> costs b m"
  unfolding costs_def by (meson add_le_cancel_left le_trans)

lemma costs_0: "costs 0 (ret x)" "costs 0 (fail e)" "costs 0 (liftE r)" "costs 0 (wait d)" "costs 0 (asks f)" "costs 0 time_now"
  by (simp_all add: costs_def ret_def fail_def liftE_def wait_def asks_def time_now_def)

lemma costs_attempt: "costs n m \<Longrightarrow> costs n (attempt m)"
  by (simp add: costs_def attempt_def split: prod.split) (metis snd_conv)

lemma costs_final: "costs n (ret x)" "costs n (fail e)"
  by (simp_all add: costs_def ret_def fail_def)

lemma costs_round_trip: "costs 1 (round_trip q)"
  by (simp add: costs_def round_trip_def)

lemma costs_http_do: "costs (1 + hops) (http_do hops pol q :: ('d networld, http_response) comp)"
proof (induction hops arbitrary: q)
  case 0
  show ?case unfolding http_do.simps
    by (rule costs_bnd [OF costs_round_trip]) (auto intro: costs_final split: option.split)
next
  case (Suc hops)
  show ?case unfolding http_do.simps
    by (rule costs_bnd [OF costs_round_trip]) (use Suc in \<open>simp add: costs_final split: option.split\<close>)
qed

lemma costs_do_attempt: "costs 3 (do_attempt c q)"
proof -
  have "costs (3 + 0) (do_attempt c q)" unfolding do_attempt_def Let_def
    by (rule costs_bnd, rule costs_attempt, rule costs_mono [OF costs_http_do], simp,
        auto split: sum.split option.split intro!: costs_0 costs_bnd [of 0 _ 0, simplified])
  then show ?thesis by simp
qed

lemma costs_do_loop: "costs (3 * n) (do_loop c q n made err :: ('d networld, http_response) comp)"
proof (induction n arbitrary: made err)
  case 0
  then show ?case by (auto split: option.split intro: costs_0)
next
  case (Suc n)
  have again: "costs (0 + 3 * n) (bnd (if 0 < n then wait (backoff made) else ret ()) (\<lambda>_. do_loop c q n (Suc made) (Some e))
      :: ('d networld, http_response) comp)" for e
    by (rule costs_bnd) (auto intro: costs_0 Suc)
  show ?case unfolding do_loop.simps mult_Suc_right
    by (rule costs_bnd [OF costs_do_attempt]) (use again in \<open>auto split: attempt_result.split intro: costs_final\<close>)
qed

text \<open>
  C30: The client under the native connectors sends a bounded number of requests per call: at most three
  attempts of at most three requests each (the first and two redirects) for a read, and a single
  attempt for a write, which is never repeated.
\<close>

theorem requests_bounded:
  assumes "New baseURL headers allowHTTP = Inr c" and "Do c meth path body w = (r, w')"
  shows "length (sent w') \<le> length (sent w) + (if meth = ''GET'' \<or> meth = ''HEAD'' then 9 else 3)"
proof -
  have retries: "MaxRetries c = 3" using assms(1) by (auto simp: New_def split: option.splits if_splits)
  have "costs (0 + 3 * (if meth = ''GET'' \<or> meth = ''HEAD'' then MaxRetries c else 1)) (Do c meth path body)"
    unfolding Do_def by (rule costs_bnd [OF costs_0(3) costs_do_loop])
  from this [unfolded costs_def, THEN spec, of w] show ?thesis using assms(2) retries by (auto split: if_splits)
qed

text \<open>A provider that is always unavailable.\<close>

definition unavailable_net :: "unit networld" where
  "unavailable_net = \<lparr>db = (), ticks = 0, faults = (\<lambda>_. NoFault), clock = int, fresh = (\<lambda>_ _. []), txnow = None,
     net = (\<lambda>_ _. Inr (zero_response\<lparr>s_status := 503\<rparr>)), sent = [], cancelled = (\<lambda>_. False), waited = [], http_date = (\<lambda>_. None),
     directory = (\<lambda>_ _. Inr []), ldap_log = [], ParseDN = (\<lambda>_. None)\<rparr>"

theorem requests_bounded_witness:
  "\<exists>c. New ''https://idp'' [] False = Inr c \<and>
     length (sent (snd (Do c ''GET'' ''/users'' None unavailable_net))) \<le> length (sent unavailable_net) + 9"
proof -
  let ?u = "\<lparr>u_scheme = ''https'', u_opaque = [], u_user = None, u_host = ''idp'', u_path = [], u_rawpath = [], u_query = [], u_fragment = []\<rparr>"
  have p: "Parse ''https://idp'' = Some ?u" by code_simp
  have "Hostname ?u = ''idp''" "TrimSuffix (ToLower ''idp'') ''.'' = ''idp''" by code_simp+
  then have "\<not> blockedHost (Hostname ?u)" by (simp add: blockedHost_def ParseIP_def)
  with p obtain c where c: "New ''https://idp'' [] False = Inr c" by (simp add: New_def)
  let ?run = "Do c ''GET'' ''/users'' None unavailable_net"
  have "?run = (fst ?run, snd ?run)" by simp
  from requests_bounded [OF c this] c show ?thesis by (intro exI [of _ c]) simp
qed

section \<open>The contract of a dialer\<close>

text \<open>
  The loops of the dialers over the addresses of a host: \<open>blocked\<close> addresses are passed over, the others tried in order
  until one connects; \<open>err\<close> is the error of the last attempt.
\<close>

locale dial_loop =
  fixes blocked :: "string \<Rightarrow> bool"
    and loop :: "(string \<Rightarrow> error + 'c) \<Rightarrow> string list \<Rightarrow> error option \<Rightarrow> (error + 'c) \<times> string list"
  assumes loop_Nil: "\<exists>e. loop dial [] err = (Inl e, [])"
    and loop_Cons: "loop dial (ip # ips) err = (if blocked ip then loop dial ips err
      else (case dial ip of Inr conn \<Rightarrow> (Inr conn, [ip]) | Inl e \<Rightarrow> (case loop dial ips (Some e) of (r, dialled) \<Rightarrow> (r, ip # dialled))))"
begin

lemma permitted:
  "list_all (\<lambda>ip. \<not> blocked ip \<and> ip \<in> set ips) (snd (loop dial ips err))"
  "fst (loop dial ips err) = Inr conn \<Longrightarrow> \<exists>ip \<in> set (snd (loop dial ips err)). dial ip = Inr conn"
proof (induction ips arbitrary: err)
  case Nil
  { case 1
    show ?case using loop_Nil [of dial err] by auto
  next
    case 2
    then show ?case using loop_Nil [of dial err] by auto
  }
next
  case (Cons ip ips)
  { case 1
    have "list_all (\<lambda>ip. \<not> blocked ip \<and> ip \<in> set ips) (snd (loop dial ips err'))" for err' by (rule Cons.IH(1))
    then have "list_all (\<lambda>x. \<not> blocked x \<and> x \<in> set (ip # ips)) (snd (loop dial ips err'))" for err'
      by (auto simp: list_all_iff)
    then show ?case by (auto simp: loop_Cons split: sum.split prod.split) (metis snd_conv)+
  next
    case 2
    then show ?case using Cons.IH(2) by (auto simp: loop_Cons split: if_splits sum.splits prod.splits) (metis fst_conv snd_conv)+
  }
qed

lemma never_blocked:
  "list_all (\<lambda>ip. \<not> blocked ip) (snd (loop dial ips err)) \<and>
   (\<forall>conn. fst (loop dial ips err) = Inr conn \<longrightarrow> (\<exists>ip \<in> set ips. \<not> blocked ip \<and> dial ip = Inr conn))"
  using permitted unfolding list_all_iff by blast

end

interpretation native_dial: dial_loop blockedHost dial_each
  by unfold_locales simp_all

end
