(* ===== verification/Provider.thy ===== *)
theory Provider
  imports NativeHttp
begin

text \<open>
  \<open>backend/internal/connectors/provider/provider.go\<close>: the users and groups every native connector
  reports, and the interface its client offers, as a record of operations on the network world.
\<close>

record User =
  pu_ID :: string
  pu_ExternalID :: string
  pu_Username :: string
  pu_DisplayName :: string
  pu_PrimaryEmail :: string
  pu_EmployeeNumber :: string
  pu_Active :: bool
  pu_Privileged :: bool
  pu_UpdatedAt :: tstamp

record Group =
  pg_ID :: string
  pg_Name :: string
  pg_Members :: "string list"

record 'd Client =
  TestConnection :: "('d networld, unit) comp"
  ListUsers :: "('d networld, User list) comp"
  ListGroups :: "('d networld, Group list) comp"
  GetUser :: "string \<Rightarrow> ('d networld, User) comp"
  DisableUser :: "string \<Rightarrow> ('d networld, unit) comp"

text \<open>\<open>json.Unmarshal(resp.Body, &v)\<close> with the client's own error when it fails.\<close>

definition unmarshal :: "string \<Rightarrow> (json \<Rightarrow> 'a option) \<Rightarrow> http_response \<Rightarrow> ('d networld, 'a) comp" where
  "unmarshal msg conv resp = (case Option.bind (s_json resp) conv of
     None \<Rightarrow> fail (Errorf msg) | Some v \<Rightarrow> ret v)"

text \<open>\<open>Link: <url>; rel="next"\<close>, as the Okta and the GitHub client read it.\<close>

fun next_of :: "string list \<Rightarrow> string" where
  "next_of [] = []"
| "next_of (part # parts) =
    (case Split part (CHR '';'') of
       [a, b] \<Rightarrow> if TrimSpace b = ''rel='' @ [CHR 0x22] @ ''next'' @ [CHR 0x22]
         then Trim (TrimSpace a) ''<>'' else next_of parts
     | _ \<Rightarrow> next_of parts)"

definition nextLink :: "(string \<times> string) list \<Rightarrow> string" where
  "nextLink header = next_of (Split (header_get ''Link'' header) (CHR '',''))"

section \<open>The contract of a client\<close>

text \<open>
  What the service relies on: the four reading operations send nothing but reads, to the client's
  own origin, and disabling a user sends nothing elsewhere either; none of them touches the database.
\<close>

locale native_client =
  fixes http :: NativeHttp.Client and impl :: "'d Client"
  assumes reads_TestConnection: "keeps (sends (\<lambda>q. on_origin http q \<and> is_read q)) (TestConnection impl)"
    and reads_ListUsers: "keeps (sends (\<lambda>q. on_origin http q \<and> is_read q)) (ListUsers impl)"
    and reads_ListGroups: "keeps (sends (\<lambda>q. on_origin http q \<and> is_read q)) (ListGroups impl)"
    and reads_GetUser: "keeps (sends (\<lambda>q. on_origin http q \<and> is_read q)) (GetUser impl uid)"
    and stays_DisableUser: "keeps (sends (on_origin http)) (DisableUser impl uid)"
begin

lemma stays_GetUser: "keeps (sends (on_origin http)) (GetUser impl uid)"
  by (rule sends_mono [OF reads_GetUser]) simp

text \<open>Disabling and reading back, as the offboarding does.\<close>

lemma stays_disable_and_observe:
  "keeps (sends (on_origin http)) (bnd (DisableUser impl uid) (\<lambda>_. bnd (GetUser impl uid) (\<lambda>u. ret (f u))))"
  by (intro sends.keeps_combinators stays_DisableUser stays_GetUser)

text \<open>Discovery, as the synchronization does: only reads.\<close>

lemma reads_discovery:
  "keeps (sends (\<lambda>q. on_origin http q \<and> is_read q))
     (bnd (ListUsers impl) (\<lambda>users. bnd (ListGroups impl) (\<lambda>groups. ret (users, groups))))"
  by (intro sends.keeps_combinators reads_ListUsers reads_ListGroups)

end

lemma sends_unmarshal: "keeps (sends P) (unmarshal msg conv resp)"
  unfolding unmarshal_def by (intro sends.keeps_combinators)

lemmas client_rules = sends.keeps_combinators sends_page_loop sends_Do_read sends_unmarshal

end
