(* ===== verification/Okta.thy ===== *)
theory Okta
  imports Provider
begin

text \<open>\<open>backend/internal/connectors/okta/client.go\<close>: the Okta connector.\<close>

definition New :: "string \<Rightarrow> string \<Rightarrow> bool \<Rightarrow> error + NativeHttp.Client" where
  "New baseURL token allowHTTP =
    (if token = [] then Inl (Errorf ''Okta API token is required'')
     else NativeHttp.New baseURL [(''Authorization'', ''SSWS '' @ token), (''Accept'', ''application/json'')] allowHTTP)"

record oktaUser =
  ou_ID :: string
  ou_Status :: string
  ou_LastUpdated :: string
  ou_Login :: string
  ou_Email :: string
  ou_DisplayName :: string
  ou_FirstName :: string
  ou_LastName :: string
  ou_EmployeeNumber :: string

definition empty_profile :: oktaUser where
  "empty_profile = \<lparr>ou_ID = [], ou_Status = [], ou_LastUpdated = [], ou_Login = [], ou_Email = [], ou_DisplayName = [],
     ou_FirstName = [], ou_LastName = [], ou_EmployeeNumber = []\<rparr>"

definition decode_profile :: "json \<Rightarrow> oktaUser option" where
  "decode_profile = as_struct (\<lambda>kv. do {
     login \<leftarrow> str_field ''Login'' kv; email \<leftarrow> str_field ''Email'' kv; name \<leftarrow> str_field ''DisplayName'' kv;
     first \<leftarrow> str_field ''FirstName'' kv; last \<leftarrow> str_field ''LastName'' kv; number \<leftarrow> str_field ''EmployeeNumber'' kv;
     Some (empty_profile\<lparr>ou_Login := login, ou_Email := email, ou_DisplayName := name, ou_FirstName := first,
       ou_LastName := last, ou_EmployeeNumber := number\<rparr>) })"

definition decode_user :: "json \<Rightarrow> oktaUser option" where
  "decode_user = as_struct (\<lambda>kv. do {
     id \<leftarrow> str_field ''ID'' kv; status \<leftarrow> str_field ''Status'' kv; updated \<leftarrow> str_field ''LastUpdated'' kv;
     profile \<leftarrow> decode_field decode_profile ''Profile'' empty_profile kv;
     Some (profile\<lparr>ou_ID := id, ou_Status := status, ou_LastUpdated := updated\<rparr>) })"

text \<open>A group: its id and the name of its profile.\<close>

definition decode_group :: "json \<Rightarrow> (string \<times> string) option" where
  "decode_group = as_struct (\<lambda>kv. do {
     id \<leftarrow> str_field ''ID'' kv;
     name \<leftarrow> decode_field (as_struct (\<lambda>p. do { name \<leftarrow> str_field ''Name'' p; _ \<leftarrow> str_field ''Description'' p; Some name }))
       ''Profile'' [] kv;
     Some (id, name) })"

definition active :: "string \<Rightarrow> bool" where
  "active status \<longleftrightarrow> status \<noteq> ''SUSPENDED'' \<and> status \<noteq> ''DEPROVISIONED''"

definition TestConnection :: "NativeHttp.Client \<Rightarrow> ('d networld, unit) comp" where
  "TestConnection c = bnd (Do c ''GET'' ''/api/v1/users?limit=1'' None) (\<lambda>_. ret ())"

definition listed_user :: "oktaUser \<Rightarrow> User" where
  "listed_user u =
    (let name = (if ou_DisplayName u = [] then TrimSpace (ou_FirstName u @ '' '' @ ou_LastName u) else ou_DisplayName u) in
     \<lparr>pu_ID = ou_ID u, pu_ExternalID = [], pu_Username = ou_Login u, pu_DisplayName = name,
      pu_PrimaryEmail = ToLower (ou_Email u), pu_EmployeeNumber = ou_EmployeeNumber u, pu_Active = active (ou_Status u),
      pu_Privileged = False,
      pu_UpdatedAt = (case ParseRFC3339 (ou_LastUpdated u) of None \<Rightarrow> zero_time | Some t \<Rightarrow> t)\<rparr>)"

definition user_page :: "NativeHttp.Client \<Rightarrow> string \<Rightarrow> ('d networld, User list \<times> string option) comp" where
  "user_page c next =
    bnd (Do c ''GET'' next None) (\<lambda>resp.
    bnd (unmarshal ''Okta returned malformed users'' (as_list decode_user) resp) (\<lambda>users.
    ret (map listed_user users, nonempty_link (nextLink (s_header resp)))))"

definition ListUsers :: "NativeHttp.Client \<Rightarrow> ('d networld, User list) comp" where
  "ListUsers c = page_loop (user_page c) (Errorf ''Okta pagination exceeded safety limit'') 100
     (Some ''/api/v1/users?limit=200'') []"

definition member_page :: "NativeHttp.Client \<Rightarrow> string \<Rightarrow> ('d networld, string list \<times> string option) comp" where
  "member_page c next =
    bnd (Do c ''GET'' next None) (\<lambda>resp.
    bnd (unmarshal ''Okta returned malformed memberships'' (as_list decode_user) resp) (\<lambda>users.
    ret (map ou_ID users, nonempty_link (nextLink (s_header resp)))))"

definition groupMembers :: "NativeHttp.Client \<Rightarrow> string \<Rightarrow> ('d networld, string list) comp" where
  "groupMembers c gid =
    (if \<not> SafeID gid then fail (Errorf ''invalid Okta group id'')
     else page_loop (member_page c) (Errorf ''Okta membership pagination exceeded safety limit'') 100
       (Some (''/api/v1/groups/'' @ PathEscape gid @ ''/users?limit=200'')) [])"

definition group_page :: "NativeHttp.Client \<Rightarrow> string \<Rightarrow> ('d networld, Group list \<times> string option) comp" where
  "group_page c next =
    bnd (Do c ''GET'' next None) (\<lambda>resp.
    bnd (unmarshal ''Okta returned malformed groups'' (as_list decode_group) resp) (\<lambda>groups.
    bnd (fold_comp (\<lambda>out (id, name).
          bnd (groupMembers c id) (\<lambda>members. ret (out @ [\<lparr>pg_ID = id, pg_Name = name, pg_Members = members\<rparr>]))) [] groups) (\<lambda>out.
    ret (out, nonempty_link (nextLink (s_header resp))))))"

definition ListGroups :: "NativeHttp.Client \<Rightarrow> ('d networld, Group list) comp" where
  "ListGroups c = page_loop (group_page c) (Errorf ''Okta group pagination exceeded safety limit'') 100
     (Some ''/api/v1/groups?limit=200'') []"

definition GetUser :: "NativeHttp.Client \<Rightarrow> string \<Rightarrow> ('d networld, User) comp" where
  "GetUser c uid =
    (if \<not> SafeID uid then fail (Errorf ''invalid Okta user id'')
     else bnd (Do c ''GET'' (''/api/v1/users/'' @ PathEscape uid) None) (\<lambda>resp.
          bnd (unmarshal ''Okta returned malformed user'' decode_user resp) (\<lambda>u.
          ret \<lparr>pu_ID = ou_ID u, pu_ExternalID = [], pu_Username = ou_Login u, pu_DisplayName = ou_DisplayName u,
            pu_PrimaryEmail = ToLower (ou_Email u), pu_EmployeeNumber = ou_EmployeeNumber u,
            pu_Active = active (ou_Status u), pu_Privileged = False, pu_UpdatedAt = zero_time\<rparr>)))"

definition DisableUser :: "NativeHttp.Client \<Rightarrow> string \<Rightarrow> ('d networld, unit) comp" where
  "DisableUser c uid =
    bnd (GetUser c uid) (\<lambda>u.
    if \<not> pu_Active u then ret ()
    else bnd (Do c ''POST'' (''/api/v1/users/'' @ PathEscape uid @ ''/lifecycle/suspend'') None) (\<lambda>_. ret ()))"

definition client :: "NativeHttp.Client \<Rightarrow> 'd Provider.Client" where
  "client c = \<lparr>Client.TestConnection = TestConnection c, ListUsers = ListUsers c, ListGroups = ListGroups c,
     GetUser = GetUser c, DisableUser = DisableUser c\<rparr>"

section \<open>The contract\<close>

lemma okta_reads_members: "keeps (sends (\<lambda>q. on_origin c q \<and> is_read q)) (groupMembers c g)"
  unfolding groupMembers_def member_page_def by (intro client_rules)

lemma okta_reads_GetUser: "keeps (sends (\<lambda>q. on_origin c q \<and> is_read q)) (GetUser c uid)"
  unfolding GetUser_def by (intro client_rules)

interpretation okta: native_client "c" "client c" for c
proof
  show "keeps (sends (\<lambda>q. on_origin c q \<and> is_read q)) (Client.TestConnection (client c))"
    unfolding client_def Client.simps TestConnection_def by (intro client_rules)
  show "keeps (sends (\<lambda>q. on_origin c q \<and> is_read q)) (Client.ListUsers (client c))"
    unfolding client_def Client.simps ListUsers_def user_page_def by (intro client_rules)
  show "keeps (sends (\<lambda>q. on_origin c q \<and> is_read q)) (Client.ListGroups (client c))"
    unfolding client_def Client.simps ListGroups_def group_page_def by (intro client_rules okta_reads_members)
  show "keeps (sends (\<lambda>q. on_origin c q \<and> is_read q)) (Client.GetUser (client c) uid)" for uid
    by (simp add: client_def okta_reads_GetUser)
  show "keeps (sends (on_origin c)) (Client.DisableUser (client c) uid)" for uid
    unfolding client_def Client.simps DisableUser_def
    by (intro sends.keeps_combinators sends_Do sends_mono [OF okta_reads_GetUser]) simp
qed

end
