(* ===== verification/Entra.thy ===== *)
theory Entra
  imports Provider
begin

text \<open>\<open>backend/internal/connectors/entra/client.go\<close>: the Microsoft Entra ID connector.\<close>

definition New :: "string \<Rightarrow> string \<Rightarrow> bool \<Rightarrow> error + NativeHttp.Client" where
  "New baseURL token allowHTTP =
    (if TrimSpace token = [] then Inl (Errorf ''Entra access token is required'')
     else NativeHttp.New baseURL [(''Authorization'', ''Bearer '' @ token), (''Accept'', ''application/json'')] allowHTTP)"

record graphUser =
  gr_ID :: string
  gr_UserPrincipalName :: string
  gr_DisplayName :: string
  gr_Mail :: string
  gr_EmployeeID :: string
  gr_AccountEnabled :: bool

definition decode_user :: "json \<Rightarrow> graphUser option" where
  "decode_user = as_struct (\<lambda>kv. do {
     id \<leftarrow> str_field ''ID'' kv; upn \<leftarrow> str_field ''UserPrincipalName'' kv; name \<leftarrow> str_field ''DisplayName'' kv;
     mail \<leftarrow> str_field ''Mail'' kv; employee \<leftarrow> str_field ''EmployeeID'' kv; enabled \<leftarrow> bool_field ''AccountEnabled'' kv;
     Some \<lparr>gr_ID = id, gr_UserPrincipalName = upn, gr_DisplayName = name, gr_Mail = mail, gr_EmployeeID = employee,
       gr_AccountEnabled = enabled\<rparr> })"

text \<open>The three page types: the values and the \<open>@odata.nextLink\<close>.\<close>

definition decode_page :: "(json \<Rightarrow> 'a option) \<Rightarrow> json \<Rightarrow> ('a list \<times> string) option" where
  "decode_page conv = as_struct (\<lambda>kv. do {
     value \<leftarrow> decode_field (as_list conv) ''value'' [] kv; next \<leftarrow> str_field ''@odata.nextLink'' kv; Some (value, next) })"

definition decode_group :: "json \<Rightarrow> (string \<times> string) option" where
  "decode_group = as_struct (\<lambda>kv. do { id \<leftarrow> str_field ''ID'' kv; name \<leftarrow> str_field ''DisplayName'' kv; Some (id, name) })"

definition decode_member :: "json \<Rightarrow> string option" where
  "decode_member = as_struct (str_field ''ID'')"

definition TestConnection :: "NativeHttp.Client \<Rightarrow> ('d networld, unit) comp" where
  "TestConnection c = bnd (Do c ''GET'' ''/v1.0/users?$select=id&$top=1'' None) (\<lambda>_. ret ())"

definition listed_user :: "graphUser \<Rightarrow> User" where
  "listed_user u =
    (let email = (if gr_Mail u = [] then gr_UserPrincipalName u else gr_Mail u) in
     \<lparr>pu_ID = gr_ID u, pu_ExternalID = [], pu_Username = gr_UserPrincipalName u, pu_DisplayName = gr_DisplayName u,
      pu_PrimaryEmail = ToLower email, pu_EmployeeNumber = gr_EmployeeID u, pu_Active = gr_AccountEnabled u,
      pu_Privileged = False, pu_UpdatedAt = zero_time\<rparr>)"

definition user_page :: "NativeHttp.Client \<Rightarrow> string \<Rightarrow> ('d networld, User list \<times> string option) comp" where
  "user_page c next =
    bnd (Do c ''GET'' next None) (\<lambda>resp.
    bnd (unmarshal ''Entra returned malformed users'' (decode_page decode_user) resp) (\<lambda>(value, next').
    ret (map listed_user value, nonempty_link next')))"

definition ListUsers :: "NativeHttp.Client \<Rightarrow> ('d networld, User list) comp" where
  "ListUsers c = page_loop (user_page c) (Errorf ''Entra pagination exceeded safety limit'') 100
     (Some ''/v1.0/users?$select=id,userPrincipalName,displayName,mail,accountEnabled,employeeId&$top=999'') []"

definition member_page :: "NativeHttp.Client \<Rightarrow> string \<Rightarrow> ('d networld, string list \<times> string option) comp" where
  "member_page c next =
    bnd (Do c ''GET'' next None) (\<lambda>resp.
    bnd (unmarshal ''Entra returned malformed memberships'' (decode_page decode_member) resp) (\<lambda>(value, next').
    ret (value, nonempty_link next')))"

definition members :: "NativeHttp.Client \<Rightarrow> string \<Rightarrow> ('d networld, string list) comp" where
  "members c groupID =
    (if \<not> SafeID groupID then fail (Errorf ''invalid Entra group id'')
     else page_loop (member_page c) (Errorf ''Entra membership pagination exceeded safety limit'') 100
       (Some (''/v1.0/groups/'' @ PathEscape groupID @ ''/members?$select=id&$top=999'')) [])"

definition group_page :: "NativeHttp.Client \<Rightarrow> string \<Rightarrow> ('d networld, Group list \<times> string option) comp" where
  "group_page c next =
    bnd (Do c ''GET'' next None) (\<lambda>resp.
    bnd (unmarshal ''Entra returned malformed groups'' (decode_page decode_group) resp) (\<lambda>(value, next').
    bnd (fold_comp (\<lambda>out (id, name).
          bnd (members c id) (\<lambda>ms. ret (out @ [\<lparr>pg_ID = id, pg_Name = name, pg_Members = ms\<rparr>]))) [] value) (\<lambda>out.
    ret (out, nonempty_link next'))))"

definition ListGroups :: "NativeHttp.Client \<Rightarrow> ('d networld, Group list) comp" where
  "ListGroups c = page_loop (group_page c) (Errorf ''Entra group pagination exceeded safety limit'') 100
     (Some ''/v1.0/groups?$select=id,displayName&$top=999'') []"

definition GetUser :: "NativeHttp.Client \<Rightarrow> string \<Rightarrow> ('d networld, User) comp" where
  "GetUser c uid =
    (if \<not> SafeID uid then fail (Errorf ''invalid Entra user id'')
     else bnd (Do c ''GET'' (''/v1.0/users/'' @ PathEscape uid @
              ''?$select=id,userPrincipalName,displayName,mail,accountEnabled,employeeId'') None) (\<lambda>resp.
          bnd (unmarshal ''Entra returned malformed user'' decode_user resp) (\<lambda>u.
          ret \<lparr>pu_ID = gr_ID u, pu_ExternalID = [], pu_Username = gr_UserPrincipalName u, pu_DisplayName = gr_DisplayName u,
            pu_PrimaryEmail = ToLower (gr_Mail u), pu_EmployeeNumber = gr_EmployeeID u, pu_Active = gr_AccountEnabled u,
            pu_Privileged = False, pu_UpdatedAt = zero_time\<rparr>)))"

definition disable_body :: string where
  "disable_body = Marshal (JObj [(''accountEnabled'', JBool False)])"

definition DisableUser :: "NativeHttp.Client \<Rightarrow> string \<Rightarrow> ('d networld, unit) comp" where
  "DisableUser c uid =
    bnd (GetUser c uid) (\<lambda>u.
    if \<not> pu_Active u then ret ()
    else bnd (Do c ''PATCH'' (''/v1.0/users/'' @ PathEscape uid) (Some disable_body)) (\<lambda>_. ret ()))"

definition client :: "NativeHttp.Client \<Rightarrow> 'd Provider.Client" where
  "client c = \<lparr>Client.TestConnection = TestConnection c, ListUsers = ListUsers c, ListGroups = ListGroups c,
     GetUser = GetUser c, DisableUser = DisableUser c\<rparr>"

section \<open>The contract\<close>

lemma entra_reads_members: "keeps (sends (\<lambda>q. on_origin c q \<and> is_read q)) (members c g)"
  unfolding members_def member_page_def by (intro client_rules)

lemma entra_reads_GetUser: "keeps (sends (\<lambda>q. on_origin c q \<and> is_read q)) (GetUser c uid)"
  unfolding GetUser_def by (intro client_rules)

interpretation entra: native_client "c" "client c" for c
proof
  show "keeps (sends (\<lambda>q. on_origin c q \<and> is_read q)) (Client.TestConnection (client c))"
    unfolding client_def Client.simps TestConnection_def by (intro client_rules)
  show "keeps (sends (\<lambda>q. on_origin c q \<and> is_read q)) (Client.ListUsers (client c))"
    unfolding client_def Client.simps ListUsers_def user_page_def by (intro client_rules)
  show "keeps (sends (\<lambda>q. on_origin c q \<and> is_read q)) (Client.ListGroups (client c))"
    unfolding client_def Client.simps ListGroups_def group_page_def by (intro client_rules entra_reads_members)
  show "keeps (sends (\<lambda>q. on_origin c q \<and> is_read q)) (Client.GetUser (client c) uid)" for uid
    by (simp add: client_def entra_reads_GetUser)
  show "keeps (sends (on_origin c)) (Client.DisableUser (client c) uid)" for uid
    unfolding client_def Client.simps DisableUser_def
    by (intro sends.keeps_combinators sends_Do sends_mono [OF entra_reads_GetUser]) simp
qed

end
