(* ===== verification/GoogleWorkspace.thy ===== *)
theory GoogleWorkspace
  imports Provider
begin

text \<open>\<open>backend/internal/connectors/googleworkspace/client.go\<close>: the Google Workspace connector.\<close>

record googleClient =
  go_http :: NativeHttp.Client
  go_customer :: string

definition New :: "string \<Rightarrow> string \<Rightarrow> string \<Rightarrow> bool \<Rightarrow> error + googleClient" where
  "New baseURL token customer allowHTTP =
    (if token = [] then Inl (Errorf ''Google Workspace access token is required'')
     else (case NativeHttp.New baseURL [(''Authorization'', ''Bearer '' @ token), (''Accept'', ''application/json'')] allowHTTP of
        Inl e \<Rightarrow> Inl e
      | Inr c \<Rightarrow> Inr \<lparr>go_http = c, go_customer = (if customer = [] then ''my_customer'' else customer)\<rparr>))"

record googleUser =
  gw_ID :: string
  gw_PrimaryEmail :: string
  gw_FullName :: string
  gw_Suspended :: bool
  gw_IsAdmin :: bool
  gw_ExternalIDs :: "(string \<times> string) list"

definition decode_external :: "json \<Rightarrow> (string \<times> string) option" where
  "decode_external = as_struct (\<lambda>kv. do { v \<leftarrow> str_field ''Value'' kv; t \<leftarrow> str_field ''Type'' kv; Some (v, t) })"

definition decode_user :: "json \<Rightarrow> googleUser option" where
  "decode_user = as_struct (\<lambda>kv. do {
     id \<leftarrow> str_field ''ID'' kv; email \<leftarrow> str_field ''PrimaryEmail'' kv; _ \<leftarrow> str_field ''LastLoginTime'' kv;
     _ \<leftarrow> str_field ''CreationTime'' kv;
     name \<leftarrow> decode_field (as_struct (str_field ''FullName'')) ''Name'' [] kv;
     suspended \<leftarrow> bool_field ''Suspended'' kv; admin \<leftarrow> bool_field ''IsAdmin'' kv;
     externals \<leftarrow> decode_field (as_list decode_external) ''ExternalIDs'' [] kv;
     Some \<lparr>gw_ID = id, gw_PrimaryEmail = email, gw_FullName = name, gw_Suspended = suspended, gw_IsAdmin = admin,
       gw_ExternalIDs = externals\<rparr> })"

text \<open>A page: the values under the name of its type and the \<open>NextPageToken\<close>.\<close>

definition decode_page :: "string \<Rightarrow> (json \<Rightarrow> 'a option) \<Rightarrow> json \<Rightarrow> ('a list \<times> string) option" where
  "decode_page name conv = as_struct (\<lambda>kv. do {
     vs \<leftarrow> decode_field (as_list conv) name [] kv; token \<leftarrow> str_field ''NextPageToken'' kv; Some (vs, token) })"

definition decode_group :: "json \<Rightarrow> (string \<times> string) option" where
  "decode_group = as_struct (\<lambda>kv. do {
     id \<leftarrow> str_field ''ID'' kv; _ \<leftarrow> str_field ''Email'' kv; name \<leftarrow> str_field ''Name'' kv; Some (id, name) })"

definition decode_member :: "json \<Rightarrow> string option" where
  "decode_member = as_struct (\<lambda>kv. do { id \<leftarrow> str_field ''ID'' kv; _ \<leftarrow> str_field ''Email'' kv; Some id })"

definition employee :: "googleUser \<Rightarrow> string" where
  "employee u = (case List.find (\<lambda>(v, t). EqualFold t ''organization'') (gw_ExternalIDs u) of
     None \<Rightarrow> [] | Some (v, _) \<Rightarrow> v)"

definition listed_user :: "googleUser \<Rightarrow> User" where
  "listed_user u = \<lparr>pu_ID = gw_ID u, pu_ExternalID = [], pu_Username = gw_PrimaryEmail u, pu_DisplayName = gw_FullName u,
     pu_PrimaryEmail = ToLower (gw_PrimaryEmail u), pu_EmployeeNumber = employee u, pu_Active = (\<not> gw_Suspended u),
     pu_Privileged = gw_IsAdmin u, pu_UpdatedAt = zero_time\<rparr>"

definition TestConnection :: "googleClient \<Rightarrow> ('d networld, unit) comp" where
  "TestConnection c =
    bnd (Do (go_http c) ''GET'' (''/admin/directory/v1/users?customer='' @ QueryEscape (go_customer c) @ ''&maxResults=1'') None)
      (\<lambda>_. ret ())"

definition page_path :: "string \<Rightarrow> string \<Rightarrow> string" where
  "page_path path token = (if token = [] then path else path @ ''&pageToken='' @ QueryEscape token)"

definition user_page :: "googleClient \<Rightarrow> string \<Rightarrow> ('d networld, User list \<times> string option) comp" where
  "user_page c token =
    bnd (Do (go_http c) ''GET'' (page_path (''/admin/directory/v1/users?customer='' @ QueryEscape (go_customer c) @
        ''&maxResults=500&orderBy=email'') token) None) (\<lambda>resp.
    bnd (unmarshal ''Google Workspace returned malformed users'' (decode_page ''Users'' decode_user) resp) (\<lambda>(users, token').
    ret (map listed_user users, nonempty_link token')))"

definition ListUsers :: "googleClient \<Rightarrow> ('d networld, User list) comp" where
  "ListUsers c = page_loop (user_page c) (Errorf ''Google Workspace pagination exceeded safety limit'') 100 (Some []) []"

definition member_page :: "googleClient \<Rightarrow> string \<Rightarrow> string \<Rightarrow> ('d networld, string list \<times> string option) comp" where
  "member_page c gid token =
    bnd (Do (go_http c) ''GET'' (page_path (''/admin/directory/v1/groups/'' @ PathEscape gid @ ''/members?maxResults=200'') token) None)
     (\<lambda>resp.
    bnd (unmarshal ''Google Workspace returned malformed memberships'' (decode_page ''Members'' decode_member) resp)
     (\<lambda>(ms, token').
    ret (ms, nonempty_link token')))"

definition members :: "googleClient \<Rightarrow> string \<Rightarrow> ('d networld, string list) comp" where
  "members c gid =
    (if \<not> SafeID gid then fail (Errorf ''invalid Google group id'')
     else page_loop (member_page c gid) (Errorf ''Google membership pagination exceeded safety limit'') 100 (Some []) [])"

definition group_page :: "googleClient \<Rightarrow> string \<Rightarrow> ('d networld, Group list \<times> string option) comp" where
  "group_page c token =
    bnd (Do (go_http c) ''GET'' (page_path (''/admin/directory/v1/groups?customer='' @ QueryEscape (go_customer c) @
        ''&maxResults=200'') token) None) (\<lambda>resp.
    bnd (unmarshal ''Google Workspace returned malformed groups'' (decode_page ''Groups'' decode_group) resp) (\<lambda>(groups, token').
    bnd (fold_comp (\<lambda>out (id, name).
          bnd (members c id) (\<lambda>ms. ret (out @ [\<lparr>pg_ID = id, pg_Name = name, pg_Members = ms\<rparr>]))) [] groups) (\<lambda>out.
    ret (out, nonempty_link token'))))"

definition ListGroups :: "googleClient \<Rightarrow> ('d networld, Group list) comp" where
  "ListGroups c = page_loop (group_page c) (Errorf ''Google Workspace group pagination exceeded safety limit'') 100 (Some []) []"

definition GetUser :: "googleClient \<Rightarrow> string \<Rightarrow> ('d networld, User) comp" where
  "GetUser c uid =
    (if \<not> SafeID uid then fail (Errorf ''invalid Google user id'')
     else bnd (Do (go_http c) ''GET'' (''/admin/directory/v1/users/'' @ PathEscape uid) None) (\<lambda>resp.
          bnd (unmarshal ''Google Workspace returned malformed user'' decode_user resp) (\<lambda>u. ret (listed_user u))))"

definition disable_body :: string where
  "disable_body = Marshal (JObj [(''suspended'', JBool True)])"

definition DisableUser :: "googleClient \<Rightarrow> string \<Rightarrow> ('d networld, unit) comp" where
  "DisableUser c uid =
    bnd (GetUser c uid) (\<lambda>u.
    if \<not> pu_Active u then ret ()
    else bnd (Do (go_http c) ''PATCH'' (''/admin/directory/v1/users/'' @ PathEscape uid) (Some disable_body)) (\<lambda>_. ret ()))"

definition client :: "googleClient \<Rightarrow> 'd Provider.Client" where
  "client c = \<lparr>Client.TestConnection = TestConnection c, ListUsers = ListUsers c, ListGroups = ListGroups c,
     GetUser = GetUser c, DisableUser = DisableUser c\<rparr>"

section \<open>The contract\<close>

lemma google_reads_members: "keeps (sends (\<lambda>q. on_origin (go_http c) q \<and> is_read q)) (members c g)"
  unfolding members_def member_page_def by (intro client_rules)

lemma google_reads_GetUser: "keeps (sends (\<lambda>q. on_origin (go_http c) q \<and> is_read q)) (GetUser c uid)"
  unfolding GetUser_def by (intro client_rules)

interpretation google: native_client "go_http c" "client c" for c
proof
  show "keeps (sends (\<lambda>q. on_origin (go_http c) q \<and> is_read q)) (Client.TestConnection (client c))"
    unfolding client_def Client.simps TestConnection_def by (intro client_rules)
  show "keeps (sends (\<lambda>q. on_origin (go_http c) q \<and> is_read q)) (Client.ListUsers (client c))"
    unfolding client_def Client.simps ListUsers_def user_page_def by (intro client_rules)
  show "keeps (sends (\<lambda>q. on_origin (go_http c) q \<and> is_read q)) (Client.ListGroups (client c))"
    unfolding client_def Client.simps ListGroups_def group_page_def by (intro client_rules google_reads_members)
  show "keeps (sends (\<lambda>q. on_origin (go_http c) q \<and> is_read q)) (Client.GetUser (client c) uid)" for uid
    by (simp add: client_def google_reads_GetUser)
  show "keeps (sends (on_origin (go_http c))) (Client.DisableUser (client c) uid)" for uid
    unfolding client_def Client.simps DisableUser_def
    by (intro sends.keeps_combinators sends_Do sends_mono [OF google_reads_GetUser]) simp
qed

end
