(* ===== verification/GitHub.thy ===== *)
theory GitHub
  imports Provider
begin

text \<open>\<open>backend/internal/connectors/github/client.go\<close>: the GitHub connector. Its DISABLE is the removal
  of the membership in the organization.\<close>

record githubClient =
  gh_http :: NativeHttp.Client
  gh_organization :: string

definition New :: "string \<Rightarrow> string \<Rightarrow> string \<Rightarrow> bool \<Rightarrow> error + githubClient" where
  "New baseURL token organization allowHTTP =
    (if token = [] \<or> organization = [] \<or> \<not> SafeID organization
     then Inl (Errorf ''GitHub token and organization are required'')
     else (case NativeHttp.New baseURL [(''Authorization'', ''Bearer '' @ token), (''Accept'', ''application/vnd.github+json''),
            (''X-GitHub-Api-Version'', ''2026-03-10'')] allowHTTP of
        Inl e \<Rightarrow> Inl e
      | Inr c \<Rightarrow> Inr \<lparr>gh_http = c, gh_organization = organization\<rparr>))"

record githubUser =
  gu_ID :: int
  gu_Login :: string
  gu_Name :: string
  gu_Email :: string
  gu_SiteAdmin :: bool

definition empty_user :: githubUser where
  "empty_user = \<lparr>gu_ID = 0, gu_Login = [], gu_Name = [], gu_Email = [], gu_SiteAdmin = False\<rparr>"

definition decode_user :: "json \<Rightarrow> githubUser option" where
  "decode_user = as_struct (\<lambda>kv. do {
     id \<leftarrow> int_field ''ID'' kv; login \<leftarrow> str_field ''Login'' kv; name \<leftarrow> str_field ''Name'' kv;
     email \<leftarrow> str_field ''Email'' kv; _ \<leftarrow> str_field ''Type'' kv; admin \<leftarrow> bool_field ''SiteAdmin'' kv;
     Some \<lparr>gu_ID = id, gu_Login = login, gu_Name = name, gu_Email = email, gu_SiteAdmin = admin\<rparr> })"

text \<open>A team: its id, name and slug.\<close>

definition decode_team :: "json \<Rightarrow> (int \<times> string \<times> string) option" where
  "decode_team = as_struct (\<lambda>kv. do {
     id \<leftarrow> int_field ''ID'' kv; name \<leftarrow> str_field ''Name'' kv; slug \<leftarrow> str_field ''Slug'' kv; Some (id, name, slug) })"

definition decode_membership :: "json \<Rightarrow> (string \<times> githubUser) option" where
  "decode_membership = as_struct (\<lambda>kv. do {
     state \<leftarrow> str_field ''State'' kv; u \<leftarrow> decode_field decode_user ''User'' empty_user kv; Some (state, u) })"

definition org_path :: "githubClient \<Rightarrow> string \<Rightarrow> string" where
  "org_path c suffix = ''/orgs/'' @ PathEscape (gh_organization c) @ suffix"

definition TestConnection :: "githubClient \<Rightarrow> ('d networld, unit) comp" where
  "TestConnection c = bnd (Do (gh_http c) ''GET'' (org_path c ''/members?per_page=1'') None) (\<lambda>_. ret ())"

definition listed_user :: "githubUser \<Rightarrow> User" where
  "listed_user u = \<lparr>pu_ID = Itoa (gu_ID u), pu_ExternalID = [], pu_Username = gu_Login u, pu_DisplayName = gu_Name u,
     pu_PrimaryEmail = ToLower (gu_Email u), pu_EmployeeNumber = [], pu_Active = True, pu_Privileged = gu_SiteAdmin u,
     pu_UpdatedAt = zero_time\<rparr>"

definition user_page :: "githubClient \<Rightarrow> string \<Rightarrow> ('d networld, User list \<times> string option) comp" where
  "user_page c path =
    bnd (Do (gh_http c) ''GET'' path None) (\<lambda>resp.
    bnd (unmarshal ''GitHub returned malformed members'' (as_list decode_user) resp) (\<lambda>users.
    ret (map listed_user users, nonempty_link (nextLink (s_header resp)))))"

definition ListUsers :: "githubClient \<Rightarrow> ('d networld, User list) comp" where
  "ListUsers c = page_loop (user_page c) (Errorf ''GitHub pagination exceeded safety limit'') 100
     (Some (org_path c ''/members?per_page=100'')) []"

definition member_page :: "githubClient \<Rightarrow> string \<Rightarrow> ('d networld, string list \<times> string option) comp" where
  "member_page c path =
    bnd (Do (gh_http c) ''GET'' path None) (\<lambda>resp.
    bnd (unmarshal ''GitHub returned malformed team members'' (as_list decode_user) resp) (\<lambda>users.
    ret (map (\<lambda>u. Itoa (gu_ID u)) users, nonempty_link (nextLink (s_header resp)))))"

definition members :: "githubClient \<Rightarrow> string \<Rightarrow> ('d networld, string list) comp" where
  "members c slug =
    (if \<not> SafeID slug then fail (Errorf ''invalid GitHub team slug'')
     else page_loop (member_page c) (Errorf ''GitHub membership pagination exceeded safety limit'') 100
       (Some (org_path c (''/teams/'' @ PathEscape slug @ ''/members?per_page=100''))) [])"

definition group_page :: "githubClient \<Rightarrow> string \<Rightarrow> ('d networld, Group list \<times> string option) comp" where
  "group_page c path =
    bnd (Do (gh_http c) ''GET'' path None) (\<lambda>resp.
    bnd (unmarshal ''GitHub returned malformed teams'' (as_list decode_team) resp) (\<lambda>teams.
    bnd (fold_comp (\<lambda>out (id, name, slug).
          bnd (members c slug) (\<lambda>ms. ret (out @ [\<lparr>pg_ID = Itoa id, pg_Name = name, pg_Members = ms\<rparr>]))) [] teams) (\<lambda>out.
    ret (out, nonempty_link (nextLink (s_header resp))))))"

definition ListGroups :: "githubClient \<Rightarrow> ('d networld, Group list) comp" where
  "ListGroups c = page_loop (group_page c) (Errorf ''GitHub team pagination exceeded safety limit'') 100
     (Some (org_path c ''/teams?per_page=100'')) []"

text \<open>The login of a user id: a number is looked up, anything else is the login itself.\<close>

definition user_login :: "githubClient \<Rightarrow> string \<Rightarrow> ('d networld, string) comp" where
  "user_login c uid =
    (case Atoi uid of
       None \<Rightarrow> ret uid
     | Some _ \<Rightarrow> bnd (Do (gh_http c) ''GET'' (''/user/'' @ PathEscape uid) None) (\<lambda>resp.
         bnd (unmarshal ''GitHub returned malformed user'' decode_user resp) (\<lambda>u. ret (gu_Login u))))"

definition GetUser :: "githubClient \<Rightarrow> string \<Rightarrow> ('d networld, User) comp" where
  "GetUser c uid =
    (if \<not> SafeID uid then fail (Errorf ''invalid GitHub user id'')
     else bnd (user_login c uid) (\<lambda>login.
          bnd (Do (gh_http c) ''GET'' (org_path c (''/memberships/'' @ PathEscape login)) None) (\<lambda>resp.
          bnd (unmarshal ''GitHub returned malformed membership'' decode_membership resp) (\<lambda>(state, u).
          ret \<lparr>pu_ID = Itoa (gu_ID u), pu_ExternalID = [], pu_Username = (if gu_Login u = [] then login else gu_Login u),
            pu_DisplayName = gu_Name u, pu_PrimaryEmail = ToLower (gu_Email u), pu_EmployeeNumber = [],
            pu_Active = (state = ''active''), pu_Privileged = gu_SiteAdmin u, pu_UpdatedAt = zero_time\<rparr>))))"

definition RemoveMembership :: "githubClient \<Rightarrow> string \<Rightarrow> string \<Rightarrow> ('d networld, unit) comp" where
  "RemoveMembership c grp userID =
    bnd (GetUser c userID) (\<lambda>u.
    if \<not> pu_Active u then ret ()
    else bnd (Do (gh_http c) ''DELETE'' (org_path c (''/members/'' @ PathEscape (pu_Username u))) None) (\<lambda>_. ret ()))"

definition DisableUser :: "githubClient \<Rightarrow> string \<Rightarrow> ('d networld, unit) comp" where
  "DisableUser c uid = RemoveMembership c [] uid"

definition client :: "githubClient \<Rightarrow> 'd Provider.Client" where
  "client c = \<lparr>Client.TestConnection = TestConnection c, ListUsers = ListUsers c, ListGroups = ListGroups c,
     GetUser = GetUser c, DisableUser = DisableUser c\<rparr>"

section \<open>The contract\<close>

lemma github_reads_members: "keeps (sends (\<lambda>q. on_origin (gh_http c) q \<and> is_read q)) (members c g)"
  unfolding members_def member_page_def by (intro client_rules)

lemma github_reads_GetUser: "keeps (sends (\<lambda>q. on_origin (gh_http c) q \<and> is_read q)) (GetUser c uid)"
  unfolding GetUser_def user_login_def by (intro client_rules)

interpretation github: native_client "gh_http c" "client c" for c
proof
  show "keeps (sends (\<lambda>q. on_origin (gh_http c) q \<and> is_read q)) (Client.TestConnection (client c))"
    unfolding client_def Client.simps TestConnection_def by (intro client_rules)
  show "keeps (sends (\<lambda>q. on_origin (gh_http c) q \<and> is_read q)) (Client.ListUsers (client c))"
    unfolding client_def Client.simps ListUsers_def user_page_def by (intro client_rules)
  show "keeps (sends (\<lambda>q. on_origin (gh_http c) q \<and> is_read q)) (Client.ListGroups (client c))"
    unfolding client_def Client.simps ListGroups_def group_page_def by (intro client_rules github_reads_members)
  show "keeps (sends (\<lambda>q. on_origin (gh_http c) q \<and> is_read q)) (Client.GetUser (client c) uid)" for uid
    by (simp add: client_def github_reads_GetUser)
  show "keeps (sends (on_origin (gh_http c))) (Client.DisableUser (client c) uid)" for uid
    unfolding client_def Client.simps DisableUser_def RemoveMembership_def
    by (intro sends.keeps_combinators sends_Do sends_mono [OF github_reads_GetUser]) simp
qed

end
