(* ===== verification/Scim.thy ===== *)
theory Scim
  imports Provider
begin

text \<open>
  \<open>backend/internal/connectors/scim/client.go\<close>: the SCIM 2.0 connector. It has an HTTP client of its
  own, which retries every method, and pages by start index and total.
\<close>

section \<open>Types\<close>

record User =
  su_ID :: string
  su_ExternalID :: string
  su_UserName :: string
  su_DisplayName :: string
  su_Active :: bool
  su_Emails :: "(string \<times> bool) list"
  su_LastModified :: tstamp

record Group =
  sg_ID :: string
  sg_DisplayName :: string
  sg_Members :: "string list"

record Client =
  origin :: url
  token :: string
  maxRetries :: nat
  maxResponse :: nat

definition as_time :: "json \<Rightarrow> tstamp option" where
  "as_time j = (case j of JStr s \<Rightarrow> ParseRFC3339 s | _ \<Rightarrow> None)"

definition decode_user :: "json \<Rightarrow> User option" where
  "decode_user = as_struct (\<lambda>kv. do {
     id \<leftarrow> str_field ''id'' kv; ext \<leftarrow> str_field ''externalId'' kv; user \<leftarrow> str_field ''userName'' kv;
     name \<leftarrow> str_field ''displayName'' kv; act \<leftarrow> bool_field ''active'' kv;
     emails \<leftarrow> decode_field (as_list (as_struct (\<lambda>e. do { v \<leftarrow> str_field ''value'' e; p \<leftarrow> bool_field ''primary'' e; Some (v, p) })))
       ''emails'' [] kv;
     modified \<leftarrow> decode_field (as_struct (decode_field as_time ''lastModified'' zero_time)) ''meta'' zero_time kv;
     Some \<lparr>su_ID = id, su_ExternalID = ext, su_UserName = user, su_DisplayName = name, su_Active = act, su_Emails = emails,
       su_LastModified = modified\<rparr> })"

definition decode_group :: "json \<Rightarrow> Group option" where
  "decode_group = as_struct (\<lambda>kv. do {
     id \<leftarrow> str_field ''id'' kv; name \<leftarrow> str_field ''displayName'' kv;
     ms \<leftarrow> decode_field (as_list (as_struct (str_field ''value''))) ''members'' [] kv;
     Some \<lparr>sg_ID = id, sg_DisplayName = name, sg_Members = ms\<rparr> })"

text \<open>\<open>listResponse\<close>: the total and the resources; the other two numbers are decoded and not used.\<close>

definition decode_list :: "(json \<Rightarrow> 'a option) \<Rightarrow> json \<Rightarrow> (int \<times> 'a list) option" where
  "decode_list conv = as_struct (\<lambda>kv. do {
     total \<leftarrow> int_field ''totalResults'' kv; _ \<leftarrow> int_field ''startIndex'' kv; _ \<leftarrow> int_field ''itemsPerPage'' kv;
     rs \<leftarrow> decode_field (as_list conv) ''Resources'' [] kv; Some (total, rs) })"

section \<open>The client\<close>

definition blockedEndpointHost :: "string \<Rightarrow> bool" where
  "blockedEndpointHost host0 =
    (let host = TrimSuffix (ToLower host0) ''.'' in
     if host = ''metadata.google.internal'' \<or> host = ''metadata.azure.com'' then True
     else (case ParseIP host of
        Some ip \<Rightarrow> IsLinkLocalUnicast ip \<or> IsLinkLocalMulticast ip \<or> IsUnspecified ip \<or> IsMulticast ip
      | None \<Rightarrow> False))"

text \<open>\<open>restrictedDialer\<close>, with the resolver and the connection attempts as in \<open>NativeHttp\<close>.\<close>

fun dial_each :: "(string \<Rightarrow> error + 'c) \<Rightarrow> string list \<Rightarrow> error option \<Rightarrow> (error + 'c) \<times> string list" where
  "dial_each dial [] err = (Inl (case err of
     None \<Rightarrow> Errorf ''SCIM host resolved only to blocked addresses'' | Some e \<Rightarrow> e), [])"
| "dial_each dial (ip # ips) err =
    (if blockedEndpointHost ip then dial_each dial ips err
     else (case dial ip of
        Inr conn \<Rightarrow> (Inr conn, [ip])
      | Inl dialErr \<Rightarrow> (case dial_each dial ips (Some dialErr) of (r, dialled) \<Rightarrow> (r, ip # dialled))))"

definition restrictedDialer ::
  "(string \<Rightarrow> error + string list) \<Rightarrow> (string \<Rightarrow> error + 'c) \<Rightarrow> string option \<Rightarrow> (error + 'c) \<times> string list" where
  "restrictedDialer lookup dial address =
    (case address of None \<Rightarrow> (Inl (Errorf ''SCIM destination is not permitted''), [])
     | Some host \<Rightarrow>
       if blockedEndpointHost host then (Inl (Errorf ''SCIM destination is not permitted''), [])
       else (case lookup host of Inl err \<Rightarrow> (Inl err, []) | Inr ips \<Rightarrow> dial_each dial ips None))"

interpretation scim_dial: dial_loop blockedEndpointHost dial_each
  by unfold_locales simp_all

definition New :: "string \<Rightarrow> string \<Rightarrow> bool \<Rightarrow> error + Client" where
  "New baseURL tok allowHTTP =
    (case Parse baseURL of
       None \<Rightarrow> Inl (Errorf ''invalid SCIM base URL'')
     | Some u \<Rightarrow>
       if u_host u = [] \<or> u_user u \<noteq> None \<or> u_query u \<noteq> [] \<or> u_fragment u \<noteq> []
       then Inl (Errorf ''invalid SCIM base URL'')
       else if u_scheme u \<noteq> ''https'' \<and> \<not> (allowHTTP \<and> u_scheme u = ''http'')
       then Inl (Errorf ''SCIM base URL must use HTTPS'')
       else if blockedEndpointHost (ToLower (Hostname u)) then Inl (Errorf ''link-local and metadata endpoints are blocked'')
       else Inr \<lparr>origin = u\<lparr>u_path := TrimRight (u_path u) ''/''\<rparr>, token = tok, maxRetries = 3, maxResponse = 4 * 2 ^ 20\<rparr>)"

definition endpoint :: "Client \<Rightarrow> string \<Rightarrow> url" where
  "endpoint c path =
    (let parts = SplitN2 path (CHR ''?'') in
     (origin c)\<lparr>u_path := TrimRight (u_path (origin c)) ''/'' @ hd parts, u_query := concat (tl parts)\<rparr>)"

definition retryAfter :: "string \<Rightarrow> int" where
  "retryAfter v = (case Atoi v of Some n \<Rightarrow> if 0 < n \<and> n \<le> 30 then n * Second else 0 | None \<Rightarrow> 0)"

definition policy :: "Client \<Rightarrow> redirect_policy" where
  "policy c = \<lparr>rp_origin = origin c, rp_cross = ''cross-origin redirect blocked'', rp_many = ''too many redirects''\<rparr>"

definition make_request :: "Client \<Rightarrow> string \<Rightarrow> string \<Rightarrow> string option \<Rightarrow> http_request" where
  "make_request c meth path body = \<lparr>q_method = meth, q_url = endpoint c path,
     q_headers = [(''Accept'', ''application/scim+json'')] @
       (if body = None then [] else [(''Content-Type'', ''application/scim+json'')]) @
       (if token c = [] then [] else [(''Authorization'', ''Bearer '' @ token c)]),
     q_body = body\<rparr>"

definition request_attempt :: "Client \<Rightarrow> http_request \<Rightarrow> ('d networld, http_response attempt_result) comp" where
  "request_attempt c q =
    bnd (attempt (http_do 2 (policy c) q)) (\<lambda>r. case r of
       Inl err \<Rightarrow> ret (Again err)
     | Inr resp \<Rightarrow>
       (case s_readErr resp of Some readErr \<Rightarrow> ret (Abort readErr) | None \<Rightarrow>
        if s_size resp > maxResponse c then ret (Abort (Errorf ''SCIM response exceeds size limit''))
        else if 200 \<le> s_status resp \<and> s_status resp < 300 then ret (Done resp)
        else (let err = Errorf (''SCIM provider returned '' @ Itoa (s_status resp)) in
          if s_status resp \<noteq> 429 \<and> s_status resp < 500 then ret (Abort err)
          else (let w = retryAfter (header_get ''Retry-After'' (s_header resp)) in
               bnd (if 0 < w then wait w else ret ()) (\<lambda>_. ret (Again err))))))"

fun request_loop :: "Client \<Rightarrow> http_request \<Rightarrow> nat \<Rightarrow> nat \<Rightarrow> error option \<Rightarrow> ('d networld, http_response) comp" where
  "request_loop c q 0 made lastErr = (case lastErr of None \<Rightarrow> ret zero_response | Some e \<Rightarrow> fail e)"
| "request_loop c q (Suc n) made lastErr =
    bnd (request_attempt c q) (\<lambda>r. case r of
       Done resp \<Rightarrow> ret resp
     | Abort e \<Rightarrow> fail e
     | Again e \<Rightarrow> bnd (if 0 < n then wait (backoff made) else ret ()) (\<lambda>_.
         request_loop c q n (Suc made) (Some e)))"

definition request :: "Client \<Rightarrow> string \<Rightarrow> string \<Rightarrow> string option \<Rightarrow> ('d networld, http_response) comp" where
  "request c meth path body = request_loop c (make_request c meth path body) (maxRetries c) 0 None"

section \<open>Operations\<close>

definition page_size :: "int \<Rightarrow> int" where
  "page_size n = (if n < 1 \<or> n > 200 then 100 else n)"

text \<open>One page of a listing: the state is the next start index and the number of resources so far.\<close>

definition list_page ::
  "Client \<Rightarrow> string \<Rightarrow> string \<Rightarrow> (json \<Rightarrow> 'a option) \<Rightarrow> int \<Rightarrow> int \<times> int \<Rightarrow> ('d networld, 'a list \<times> (int \<times> int) option) comp" where
  "list_page c kind msg conv pageSize st = (case st of (start, got) \<Rightarrow>
    bnd (request c ''GET'' (''/'' @ kind @ ''?startIndex='' @ Itoa start @ ''&count='' @ Itoa pageSize) None) (\<lambda>resp.
    bnd (unmarshal msg (decode_list conv) resp) (\<lambda>(total, rs).
    let n = int (length rs) in
    ret (rs, if rs = [] \<or> got + n \<ge> total then None else Some (start + n, got + n)))))"

definition ListUsers :: "Client \<Rightarrow> int \<Rightarrow> ('d networld, User list) comp" where
  "ListUsers c pageSize =
    page_loop (list_page c ''Users'' ''decode SCIM users'' decode_user (page_size pageSize))
      (Errorf ''SCIM user pagination exceeded safety limit'') 100 (Some (1, 0)) []"

definition ListGroups :: "Client \<Rightarrow> int \<Rightarrow> ('d networld, Group list) comp" where
  "ListGroups c pageSize =
    page_loop (list_page c ''Groups'' ''decode SCIM groups'' decode_group (page_size pageSize))
      (Errorf ''SCIM group pagination exceeded safety limit'') 100 (Some (1, 0)) []"

definition safeID :: "string \<Rightarrow> bool" where
  "safeID v \<longleftrightarrow> v \<noteq> [] \<and> \<not> ContainsAny v (''/?#'' @ [CHR 0x5C])"

definition GetUser :: "Client \<Rightarrow> string \<Rightarrow> ('d networld, User) comp" where
  "GetUser c uid =
    (if \<not> safeID uid then fail (Errorf ''invalid SCIM user id'')
     else bnd (request c ''GET'' (''/Users/'' @ PathEscape uid) None) (\<lambda>resp.
          unmarshal ''decode SCIM user'' decode_user resp))"

definition patch_body :: string where
  "patch_body = Marshal (JObj [(''schemas'', JArr [JStr ''urn:ietf:params:scim:api:messages:2.0:PatchOp'']),
     (''Operations'', JArr [JObj [(''op'', JStr ''replace''), (''path'', JStr ''active''), (''value'', JBool False)]])])"

definition DisableUser :: "Client \<Rightarrow> string \<Rightarrow> ('d networld, unit) comp" where
  "DisableUser c uid =
    (if \<not> safeID uid then fail (Errorf ''invalid SCIM user id'')
     else bnd (request c ''PATCH'' (''/Users/'' @ PathEscape uid) (Some patch_body)) (\<lambda>_. ret ()))"

definition TestConnection :: "Client \<Rightarrow> ('d networld, unit) comp" where
  "TestConnection c =
    bnd (request c ''GET'' ''/Users?startIndex=1&count=1'' None) (\<lambda>resp.
    bnd (unmarshal ''decode SCIM connection test'' (decode_list decode_user) resp) (\<lambda>_. ret ()))"

section \<open>Where requests go\<close>

definition on_origin :: "Client \<Rightarrow> http_request \<Rightarrow> bool" where
  "on_origin c q \<longleftrightarrow> same_origin (origin c) (q_url q)"

lemma sends_request_loop:
  assumes "redirect_stable (origin c) P" and "P q"
  shows "keeps (sends P) (request_loop c q n made err)"
proof (induction n arbitrary: made err)
  case 0
  show ?case by (simp, intro sends.keeps_combinators)
next
  case (Suc n)
  have "redirect_stable (rp_origin (policy c)) P" using assms(1) by (simp add: policy_def)
  then show ?case unfolding request_loop.simps request_attempt_def Let_def
    by (intro sends.keeps_combinators keeps_attempt_result [OF sends.state_frame_axioms]
        sends_http_do sends_wait assms(2) Suc.IH)
qed

lemma redirect_stable_scim:
  "redirect_stable (origin c) (on_origin c)" "redirect_stable (origin c) (\<lambda>q. on_origin c q \<and> is_read q)"
  by (simp_all add: redirect_stable_def on_origin_def is_read_def redirect_request_def)

lemma endpoint_origin: "same_origin (origin c) (endpoint c path)"
  by (simp add: endpoint_def same_origin_def Let_def)

lemma sends_request: "keeps (sends (on_origin c)) (request c meth path body)"
  unfolding request_def
  by (intro sends_request_loop redirect_stable_scim) (simp add: on_origin_def make_request_def endpoint_origin)

lemma sends_request_read: "keeps (sends (\<lambda>q. on_origin c q \<and> is_read q)) (request c ''GET'' path body)"
  unfolding request_def
  by (intro sends_request_loop redirect_stable_scim) (simp add: on_origin_def is_read_def make_request_def endpoint_origin)

lemmas scim_rules = sends.keeps_combinators sends_page_loop sends_request_read sends_unmarshal

lemma scim_reads:
  "keeps (sends (\<lambda>q. on_origin c q \<and> is_read q)) (TestConnection c)"
  "keeps (sends (\<lambda>q. on_origin c q \<and> is_read q)) (ListUsers c n)"
  "keeps (sends (\<lambda>q. on_origin c q \<and> is_read q)) (ListGroups c n)"
  "keeps (sends (\<lambda>q. on_origin c q \<and> is_read q)) (GetUser c uid)"
  unfolding TestConnection_def ListUsers_def ListGroups_def GetUser_def list_page_def Let_def
  by (intro scim_rules)+

lemma scim_writes: "keeps (sends (on_origin c)) (DisableUser c uid)"
  unfolding DisableUser_def by (intro sends.keeps_combinators sends_request)

end
