(* ===== verification/Ldap.thy ===== *)
theory Ldap
  imports Net
begin

text \<open>
  \<open>backend/internal/connectors/ldap/client.go\<close>: the LDAP connector. The \<open>go-ldap\<close> package is the
  world's \<open>directory\<close> (one answer per operation) and \<open>ParseDN\<close>; connection options and time-outs
  are not modelled.
\<close>

unbundle bit_operations_syntax

record Config =
  URL :: string
  BindDN :: string
  Password :: string
  SearchBase :: string
  UserFilter :: string
  GroupFilter :: string
  PageSize :: int
  ServerName :: string
  DisableStrategy :: string
  MembershipAttribute :: string

definition safeFilter :: "string \<Rightarrow> bool" where
  "safeFilter v \<longleftrightarrow> v \<noteq> [] \<and> HasPrefix v ''('' \<and> HasSuffix v '')'' \<and>
     \<not> ContainsAny v [CHR 0x00, CHR 0x0D, CHR 0x0A]"

definition New :: "Config \<Rightarrow> error + Config" where
  "New cfg =
    (case Parse (URL cfg) of
       None \<Rightarrow> Inl (Errorf ''LDAP URL must use ldap or ldaps'')
     | Some u \<Rightarrow>
       if u_scheme u \<noteq> ''ldap'' \<and> u_scheme u \<noteq> ''ldaps'' \<or> u_host u = []
       then Inl (Errorf ''LDAP URL must use ldap or ldaps'')
       else if SearchBase cfg = [] \<or> \<not> safeFilter (UserFilter cfg) \<or> \<not> safeFilter (GroupFilter cfg)
       then Inl (Errorf ''invalid administrative LDAP search configuration'')
       else Inr (if PageSize cfg = 0 then cfg\<lparr>PageSize := 200\<rparr> else cfg))"

definition ldap_text :: "ldap_error \<Rightarrow> error" where
  "ldap_text e = (case e of LdapNoSuchAttribute \<Rightarrow> Errorf ''LDAP Result Code 16: No Such Attribute'' | LdapError s \<Rightarrow> Errorf s)"

definition ldap_ok :: "ldap_op \<Rightarrow> ('d networld, Entry list) comp" where
  "ldap_ok op = bnd (ldap_do op) (\<lambda>r. case r of Inl e \<Rightarrow> fail (ldap_text e) | Inr es \<Rightarrow> ret es)"

text \<open>\<open>dial\<close>: the context may end first; then the connection is made and bound.\<close>

definition ctx_open :: "('d networld, unit) comp" where
  "ctx_open w = (if cancelled w (ticks w) then Inl CtxErr else Inr (), w\<lparr>ticks := Suc (ticks w)\<rparr>)"

definition dial :: "Config \<Rightarrow> ('d networld, unit) comp" where
  "dial c = bnd ctx_open (\<lambda>_. bnd (ldap_ok (LdapBind (URL c) (BindDN c) (Password c))) (\<lambda>_. ret ()))"

definition TestConnection :: "Config \<Rightarrow> ('d networld, unit) comp" where
  "TestConnection c = dial c"

text \<open>\<open>m[name] = values\<close>: the Go map of attributes, in order of first appearance.\<close>

fun map_put :: "string \<Rightarrow> 'v \<Rightarrow> (string \<times> 'v) list \<Rightarrow> (string \<times> 'v) list" where
  "map_put k v [] = [(k, v)]"
| "map_put k v ((k', v') # m) = (if k = k' then (k, v) # m else (k', v') # map_put k v m)"

definition copy_entry :: "Entry \<Rightarrow> Entry" where
  "copy_entry e = \<lparr>DN = DN e, Attributes = foldl (\<lambda>m (k, v). map_put k v m) [] (Attributes e)\<rparr>"

definition search :: "Config \<Rightarrow> string \<Rightarrow> string list \<Rightarrow> ('d networld, Entry list) comp" where
  "search c filt attrs =
    bnd (dial c) (\<lambda>_.
    bnd (ldap_do (LdapSearch (SearchBase c) filt True attrs)) (\<lambda>r. case r of
       Inl e \<Rightarrow> fail (Errorf (''LDAP search: '' @ error_text (ldap_text e)))
     | Inr es \<Rightarrow> ret (map copy_entry es)))"

definition SearchUsers :: "Config \<Rightarrow> ('d networld, Entry list) comp" where
  "SearchUsers c = search c (UserFilter c) [''uid'', ''cn'', ''mail'', ''employeeNumber'', ''description'',
     ''pwdAccountLockedTime'', ''userAccountControl'', ''modifyTimestamp'', ''objectClass'']"

definition SearchGroups :: "Config \<Rightarrow> ('d networld, Entry list) comp" where
  "SearchGroups c = search c (GroupFilter c) [''cn'', ''description'', ''member'', ''uniqueMember'', ''memberUid'', ''modifyTimestamp'']"

definition GetUser :: "Config \<Rightarrow> string \<Rightarrow> ('d networld, Entry) comp" where
  "GetUser c userDN =
    bnd (asks (\<lambda>w. ParseDN w userDN)) (\<lambda>parsed.
    if parsed = None then fail (Errorf ''invalid LDAP user DN'')
    else bnd (dial c) (\<lambda>_.
         bnd (ldap_ok (LdapSearch userDN ''(objectClass=*)'' False [''uid'', ''cn'', ''mail'', ''employeeNumber'', ''description'',
           ''pwdAccountLockedTime'', ''userAccountControl'', ''modifyTimestamp''])) (\<lambda>entries.
         case entries of [e] \<Rightarrow> ret (copy_entry e) | _ \<Rightarrow> fail (Errorf ''LDAP user was not returned''))))"

definition disabling :: "string \<times> string list \<Rightarrow> bool" where
  "disabling attr = (case attr of (name, values) \<Rightarrow>
     EqualFold name ''pwdAccountLockedTime'' \<and> values \<noteq> [] \<and> hd values \<noteq> [] \<or>
     EqualFold name ''description'' \<and> values \<noteq> [] \<and> EqualFold (hd values) ''DISABLED'' \<or>
     EqualFold name ''userAccountControl'' \<and> values \<noteq> [] \<and>
       (case Atoi (hd values) of Some v \<Rightarrow> v AND 2 \<noteq> 0 | None \<Rightarrow> False))"

definition IsDisabled :: "Entry \<Rightarrow> bool" where
  "IsDisabled entry = list_ex disabling (Attributes entry)"

text \<open>\<open>GetAttributeValue\<close> of go-ldap: the first value of the attribute of exactly this name.\<close>

definition GetAttributeValue :: "Entry \<Rightarrow> string \<Rightarrow> string" where
  "GetAttributeValue e name = (case map_of (Attributes e) name of Some (v # _) \<Rightarrow> v | _ \<Rightarrow> [])"

section \<open>Writes\<close>

text \<open>\<open>time.Now().UTC().Format("20060102150405Z")\<close>\<close>

definition generalized_time :: "tstamp \<Rightarrow> string" where
  "generalized_time t =
    (let secs = t div Second; days = secs div 86400; s = secs mod 86400 in
     case civil days of (y, m, d) \<Rightarrow>
       padded 4 y @ padded 2 m @ padded 2 d @ padded 2 (s div 3600) @ padded 2 (s div 60 mod 60) @ padded 2 (s mod 60) @ ''Z'')"

definition DisableUser :: "Config \<Rightarrow> string \<Rightarrow> ('d networld, unit) comp" where
  "DisableUser c userDN =
    bnd (asks (\<lambda>w. ParseDN w userDN)) (\<lambda>parsed.
    if parsed = None then fail (Errorf ''invalid LDAP user DN'')
    else bnd (dial c) (\<lambda>_.
      if DisableStrategy c = ''PPOLICY_LOCK'' then
        bnd time_now (\<lambda>now.
        bnd (ldap_ok (LdapReplace userDN ''pwdAccountLockedTime'' (generalized_time now))) (\<lambda>_. ret ()))
      else if DisableStrategy c = ''ACTIVE_DIRECTORY_UAC'' then
        bnd (ldap_ok (LdapSearch userDN ''(objectClass=*)'' False [''userAccountControl''])) (\<lambda>entries.
        case entries of
          [e] \<Rightarrow>
            (case Atoi (GetAttributeValue e ''userAccountControl'') of
               None \<Rightarrow> fail (Errorf ''LDAP userAccountControl is malformed'')
             | Some current \<Rightarrow>
                 bnd (ldap_ok (LdapReplace userDN ''userAccountControl'' (Itoa (current OR 2)))) (\<lambda>_. ret ()))
        | _ \<Rightarrow> fail (Errorf ''LDAP userAccountControl could not be read''))
      else fail (Errorf ''LDAP connector has no supported disable strategy'')))"

text \<open>The \<open>uid\<close> of a parsed DN: the last one wins.\<close>

definition dn_uid :: "(string \<times> string) list list \<Rightarrow> string" where
  "dn_uid rdns = foldl (\<lambda>v (ty, x). if EqualFold ty ''uid'' then x else v) [] (concat rdns)"

definition RemoveMembership :: "Config \<Rightarrow> string \<Rightarrow> string \<Rightarrow> ('d networld, unit) comp" where
  "RemoveMembership c groupDN userDN =
    bnd (asks ParseDN) (\<lambda>parse.
    if parse groupDN = None then fail (Errorf ''invalid LDAP group DN'')
    else (case parse userDN of
       None \<Rightarrow> fail (Errorf ''invalid LDAP user DN'')
     | Some parsedUser \<Rightarrow>
       (let attribute = (if MembershipAttribute c = [] then ''member'' else MembershipAttribute c);
            v = (if attribute = ''memberUid'' then dn_uid parsedUser else userDN) in
        if attribute \<noteq> ''member'' \<and> attribute \<noteq> ''uniqueMember'' \<and> attribute \<noteq> ''memberUid''
        then fail (Errorf ''unsupported LDAP membership attribute'')
        else if attribute = ''memberUid'' \<and> v = []
        then fail (Errorf ''LDAP user DN has no uid for memberUid removal'')
        else bnd (dial c) (\<lambda>_.
             bnd (ldap_do (LdapDelete groupDN attribute v)) (\<lambda>r. case r of
                Inl LdapNoSuchAttribute \<Rightarrow> ret ()
              | Inl e \<Rightarrow> fail (ldap_text e)
              | Inr _ \<Rightarrow> ret ())))))"

section \<open>What is written is what is recognised\<close>

lemma uac_bit: "(v OR 2) AND 2 \<noteq> (0::int)"
proof
  assume "(v OR 2) AND 2 = 0"
  then have "\<not> bit ((v OR 2) AND 2) 1" by simp
  then show False by (simp add: bit_simps)
qed

lemma uac_range:
  assumes "in_int64 v"
  shows "in_int64 (v OR 2)"
proof -
  have "v \<le> v OR 2" by (rule or_greater_eq) simp
  moreover have "v OR 2 < 2 ^ 63"
  proof (cases "0 \<le> v")
    case True
    then show ?thesis using OR_upper [of v 63 2] assms by (simp add: in_int64_def)
  next
    case False
    then have "v OR 2 < 0" by simp
    then show ?thesis by (rule less_trans) simp
  qed
  ultimately show ?thesis using assms by (simp add: in_int64_def)
qed

lemma Atoi_range: "Atoi s = Some v \<Longrightarrow> in_int64 v"
  by (auto simp: Atoi_def Let_def split: option.splits if_splits)

lemma written_uac_disabling: "Atoi s = Some v \<Longrightarrow> disabling (''userAccountControl'', Itoa (v OR 2) # vs)"
  using uac_bit [of v] by (simp add: disabling_def Atoi_Itoa uac_range [OF Atoi_range] EqualFold_refl)

lemma written_lock_disabling: "disabling (''pwdAccountLockedTime'', generalized_time t # vs)"
  by (simp add: disabling_def generalized_time_def Let_def EqualFold_refl split: prod.split)

lemma ldap_ok_log: "ldap_ok op w = (Inr es, w') \<Longrightarrow> ldap_log w' = ldap_log w @ [op]"
  by (auto simp: ldap_ok_def ldap_do_def fail_def ret_def elim!: bnd_InrE split: sum.splits)

lemma dial_log: "dial c w = (Inr u, w') \<Longrightarrow> ldap_log w' = ldap_log w @ [LdapBind (URL c) (BindDN c) (Password c)]"
  by (auto simp: dial_def ctx_open_def ret_def dest!: ldap_ok_log elim!: bnd_InrE split: if_splits)

definition is_write :: "ldap_op \<Rightarrow> bool" where
  "is_write op = (case op of LdapReplace dn attribute v \<Rightarrow> True | LdapDelete dn attribute v \<Rightarrow> True | _ \<Rightarrow> False)"

text \<open>
  C25: What \<open>DisableUser\<close> writes is what \<open>IsDisabled\<close> recognises. When disabling an LDAP account returns
  without an error, its last operation, and its only write, replaced one attribute of this very
  entry, and every entry that shows the written value first for that attribute is disabled for
  \<open>IsDisabled\<close>: the lock time is never empty, and the account control value, whose decimal text is
  read back as the same number, has the disable bit set.
\<close>

theorem ldap_disable_recognised:
  assumes "DisableUser c userDN w = (Inr u, w')"
  shows "\<exists>ops attribute v. ldap_log w' = ldap_log w @ ops @ [LdapReplace userDN attribute v] \<and> list_all (\<lambda>op. \<not> is_write op) ops \<and>
    (\<forall>e vs. (attribute, v # vs) \<in> set (Attributes e) \<longrightarrow> IsDisabled e)"
proof -
  consider (lock) t where "ldap_log w' = ldap_log w @ [LdapBind (URL c) (BindDN c) (Password c)] @
        [LdapReplace userDN ''pwdAccountLockedTime'' (generalized_time t)]"
    | (uac) s v where "Atoi s = Some v" "ldap_log w' = ldap_log w @ [LdapBind (URL c) (BindDN c) (Password c),
        LdapSearch userDN ''(objectClass=*)'' False [''userAccountControl'']] @
        [LdapReplace userDN ''userAccountControl'' (Itoa (v OR 2))]"
    using assms unfolding DisableUser_def
    by (auto simp: asks_def fail_def ret_def time_now_def elim!: bnd_InrE dest!: dial_log ldap_ok_log split: if_splits list.splits option.splits)
  then show ?thesis
  proof cases
    case lock
    have "(''pwdAccountLockedTime'', generalized_time t # vs) \<in> set (Attributes e) \<Longrightarrow> IsDisabled e" for e vs
      using written_lock_disabling by (auto simp: IsDisabled_def list_ex_iff)
    with lock show ?thesis by (intro exI) (auto simp: is_write_def)
  next
    case uac
    have "(''userAccountControl'', Itoa (v OR 2) # vs) \<in> set (Attributes e) \<Longrightarrow> IsDisabled e" for e vs
      using written_uac_disabling [OF uac(1)] by (auto simp: IsDisabled_def list_ex_iff)
    with uac(2) show ?thesis by (intro exI) (auto simp: is_write_def)
  qed
qed

definition sample_ad :: "unit networld" where
  "sample_ad = \<lparr>db = (), ticks = 0, faults = (\<lambda>_. NoFault), clock = int, fresh = (\<lambda>_ _. []), txnow = None,
     net = (\<lambda>_ _. Inl CtxErr), sent = [], cancelled = (\<lambda>_. False), waited = [], http_date = (\<lambda>_. None),
     directory = (\<lambda>_ op. case op of LdapSearch b f t a \<Rightarrow> Inr [\<lparr>DN = b, Attributes = [(''userAccountControl'', [''512''])]\<rparr>] | _ \<Rightarrow> Inr []),
     ldap_log = [], ParseDN = (\<lambda>_. Some [])\<rparr>"

definition sample_ad_config :: Config where
  "sample_ad_config = \<lparr>URL = ''ldaps://dc'', BindDN = ''cn=svc'', Password = ''pw'', SearchBase = ''dc=x'', UserFilter = ''(u=*)'',
     GroupFilter = ''(g=*)'', PageSize = 200, ServerName = [], DisableStrategy = ''ACTIVE_DIRECTORY_UAC'', MembershipAttribute = []\<rparr>"

theorem ldap_disable_recognised_witness:
  "\<exists>w'. DisableUser sample_ad_config ''cn=eva'' sample_ad = (Inr (), w') \<and>
     (\<exists>ops attribute v. ldap_log w' = ldap_log sample_ad @ ops @ [LdapReplace ''cn=eva'' attribute v])"
proof -
  let ?run = "DisableUser sample_ad_config ''cn=eva'' sample_ad"
  have "fst ?run = Inr ()" by code_simp
  then have run: "?run = (Inr (), snd ?run)" by (metis prod.collapse)
  from ldap_disable_recognised [OF run] run show ?thesis by blast
qed

end
