(* ===== verification/Sync.thy ===== *)
theory Sync
  imports Reconcile Lifecycle Okta Entra GoogleWorkspace GitHub Scim Ldap
begin

text \<open>
  Synchronization of \<open>backend/internal/assurance/service.go\<close>: \<open>SyncConnector\<close> and its three variants
  for SCIM, LDAP and the native providers, with the connector credentials, the connection tests and
  \<open>failSync\<close>. The secret store and the notifier are fields of the service, as in the code.
\<close>

section \<open>The service\<close>

record Service =
  Secrets :: "(string \<Rightarrow> (store networld, string) comp) option"
  AllowHTTP :: bool
  NotifierOf :: "(store networld) notifier"

definition find_credential :: "string \<Rightarrow> string \<Rightarrow> store \<Rightarrow> string option" where
  "find_credential org con d =
     map_option cc_ciphertext (List.find (\<lambda>c. cc_org c = org \<and> cc_connector c = con) (credentials d))"

definition connectorToken :: "Service \<Rightarrow> string \<Rightarrow> string \<Rightarrow> (store networld, string) comp" where
  "connectorToken s orgID connectorID =
    bnd (attempt (query_row (find_credential orgID connectorID))) (\<lambda>r. case r of
       Inl e \<Rightarrow> if e = ErrNoRows then ret [] else fail e
     | Inr ciphertext \<Rightarrow>
       (case Secrets s of
          None \<Rightarrow> fail (Errorf ''connector credential store is unavailable'')
        | Some Decrypt \<Rightarrow>
          bnd (attempt (Decrypt ciphertext)) (\<lambda>p. case p of
             Inl _ \<Rightarrow> fail (Errorf ''connector credential could not be decrypted'')
           | Inr plaintext \<Rightarrow> ret plaintext)))"

record SyncResult =
  RunID :: string
  AccountsDiscovered :: int
  GroupsDiscovered :: int
  FindingsCreated :: int
  SyncStatus :: string

definition find_connector :: "string \<Rightarrow> string \<Rightarrow> (connector_row \<Rightarrow> bool) \<Rightarrow> store \<Rightarrow> connector_row option" where
  "find_connector org con P d = List.find (\<lambda>c. c_org c = org \<and> c_id c = con \<and> P c) (connectors d)"

definition native_types :: "string list" where
  "native_types = [''ENTRA_ID'', ''OKTA'', ''GOOGLE_WORKSPACE'', ''GITHUB'']"

text \<open>\<open>Scan\<close> of a nullable column into a \<open>*string\<close>.\<close>

definition scan_string :: "string option \<Rightarrow> (store networld, string) comp" where
  "scan_string x = (case x of None \<Rightarrow> fail (DBError ''cannot scan NULL into *string'') | Some s \<Rightarrow> ret s)"

section \<open>Statements\<close>

definition sql_start_sync :: "string \<Rightarrow> string \<Rightarrow> string \<Rightarrow> string \<Rightarrow> (store, unit) stmt" where
  "sql_start_sync run org con reqid now gen d =
    (if \<exists>y \<in> set (syncs d). y_id y = run then Inl (DBError ''duplicate key'')
     else Inr ((), d\<lparr>syncs := syncs d @ [\<lparr>y_id = run, y_org = org, y_connector = con, y_trigger = ''MANUAL'',
       y_status = ''RUNNING'', y_request = reqid, y_completed = None, y_accounts = 0, y_groups = 0, y_error = None,
       y_summary = JObj [], y_started = now\<rparr>]\<rparr>))"

definition sql_start_run :: "string \<Rightarrow> string \<Rightarrow> string \<Rightarrow> (store, unit) stmt" where
  "sql_start_run run org con now gen d =
    (if \<exists>r \<in> set (runs d). r_id r = run then Inl (DBError ''duplicate key'')
     else Inr ((), d\<lparr>runs := runs d @ [\<lparr>r_id = run, r_org = org, r_connector = con, r_trigger = ''MANUAL'',
       r_status = ''RUNNING'', r_completed = None, r_accounts = 0, r_groups = 0, r_findings = 0, r_summary = JObj [],
       r_started = now, r_changed = 0, r_memberships = 0\<rparr>]\<rparr>))"

definition is_account_key :: "string \<Rightarrow> string \<Rightarrow> string \<Rightarrow> account_row \<Rightarrow> bool" where
  "is_account_key org con ext a \<longleftrightarrow> a_org a = org \<and> a_connector a = con \<and> a_external a = ext"

text \<open>The upsert of an account, with the row to insert and the columns to set on a conflict.\<close>

definition sql_upsert_account ::
  "string \<Rightarrow> string \<Rightarrow> string \<Rightarrow> (string \<Rightarrow> tstamp \<Rightarrow> account_row) \<Rightarrow> (tstamp \<Rightarrow> account_row \<Rightarrow> account_row) \<Rightarrow> (store, string) stmt" where
  "sql_upsert_account org con ext row set_columns now gen d =
    (case List.find (is_account_key org con ext) (accounts d) of
       Some a \<Rightarrow> Inr (a_id a, d\<lparr>accounts := update_where (is_account_key org con ext)
         (\<lambda>a. (set_columns now a)\<lparr>a_last_seen := now, a_missing := None, a_updated := now\<rparr>) (accounts d)\<rparr>)
     | None \<Rightarrow> if \<exists>a \<in> set (accounts d). a_id a = gen 0 then Inl (DBError ''duplicate key'')
         else Inr (gen 0, d\<lparr>accounts := accounts d @ [row (gen 0) now]\<rparr>))"

definition sql_mark_missing :: "string \<Rightarrow> string \<Rightarrow> (account_row \<Rightarrow> string) \<Rightarrow> string list \<Rightarrow> (store, unit) stmt" where
  "sql_mark_missing org con key seen = upd (\<lambda>now gen d. ((), d\<lparr>accounts :=
     update_where (\<lambda>a. a_org a = org \<and> a_connector a = con \<and> key a \<notin> set seen)
       (\<lambda>a. a\<lparr>a_status := ''MISSING'', a_missing := (case a_missing a of None \<Rightarrow> Some now | Some t \<Rightarrow> Some t),
          a_updated := now\<rparr>) (accounts d)\<rparr>))"

definition is_entitlement_key :: "string \<Rightarrow> string \<Rightarrow> string \<Rightarrow> entitlement_row \<Rightarrow> bool" where
  "is_entitlement_key org con ext e \<longleftrightarrow> e_org e = org \<and> e_connector e = con \<and> e_external e = ext"

definition sql_upsert_entitlement :: "string \<Rightarrow> string \<Rightarrow> string \<Rightarrow> string \<Rightarrow> (store, string) stmt" where
  "sql_upsert_entitlement org con ext name now gen d =
    (case List.find (is_entitlement_key org con ext) (entitlements d) of
       Some e \<Rightarrow> Inr (e_id e, d\<lparr>entitlements := update_where (is_entitlement_key org con ext)
         (\<lambda>e. e\<lparr>e_name := name, e_last_seen := now\<rparr>) (entitlements d)\<rparr>)
     | None \<Rightarrow> if \<exists>e \<in> set (entitlements d). e_id e = gen 0 then Inl (DBError ''duplicate key'')
         else Inr (gen 0, d\<lparr>entitlements := entitlements d @ [\<lparr>e_id = gen 0, e_org = org, e_connector = con,
           e_external = ext, e_name = name, e_type = ''GROUP'', e_last_seen = now, e_description = None, e_privileged = False,
           e_first_seen = now\<rparr>]\<rparr>))"

text \<open>\<open>INSERT \<dots> SELECT \<dots> ON CONFLICT DO UPDATE\<close> of a membership: the accounts of the connector under
  this external id, of which there is at most one.\<close>

definition is_grant_key :: "string \<Rightarrow> string \<Rightarrow> string \<Rightarrow> grant_row \<Rightarrow> bool" where
  "is_grant_key org acct ent g \<longleftrightarrow> g_org g = org \<and> g_account g = acct \<and> g_entitlement g = ent"

definition sql_grant :: "string \<Rightarrow> string \<Rightarrow> string \<Rightarrow> string \<Rightarrow> string \<Rightarrow> (store, unit) stmt" where
  "sql_grant org ent source con ext now gen d =
    (case List.find (is_account_key org con ext) (accounts d) of
       None \<Rightarrow> Inr ((), d)
     | Some a \<Rightarrow>
       if \<exists>g \<in> set (grants d). is_grant_key org (a_id a) ent g then
         Inr ((), d\<lparr>grants := update_where (is_grant_key org (a_id a) ent) (\<lambda>g. g\<lparr>g_active := True, g_last_seen := now\<rparr>) (grants d)\<rparr>)
       else if \<exists>g \<in> set (grants d). g_id g = gen 0 then Inl (DBError ''duplicate key'')
       else Inr ((), d\<lparr>grants := grants d @ [\<lparr>g_id = gen 0, g_org = org, g_account = a_id a, g_entitlement = ent,
         g_source = source, g_active = True, g_last_seen = now, g_first_seen = now\<rparr>]\<rparr>))"

definition sql_sync_succeeded :: "int \<Rightarrow> int \<Rightarrow> json \<Rightarrow> string \<Rightarrow> string \<Rightarrow> (store, unit) stmt" where
  "sql_sync_succeeded n m summary org run = upd (\<lambda>now gen d. ((), d\<lparr>syncs :=
     update_where (\<lambda>y. y_org y = org \<and> y_id y = run)
       (\<lambda>y. y\<lparr>y_status := ''SUCCEEDED'', y_completed := Some now, y_accounts := n, y_groups := m, y_summary := summary\<rparr>) (syncs d)\<rparr>))"

definition sql_connector_synced :: "string \<Rightarrow> string \<Rightarrow> (store, unit) stmt" where
  "sql_connector_synced org con = upd (\<lambda>now gen d. ((), d\<lparr>connectors :=
     update_where (\<lambda>c. c_org c = org \<and> c_id c = con)
       (\<lambda>c. c\<lparr>c_last_sync_at := Some now, c_last_sync_status := ''SUCCEEDED'', c_updated_at := now\<rparr>) (connectors d)\<rparr>))"

definition sql_run_succeeded :: "int \<Rightarrow> int \<Rightarrow> int \<Rightarrow> json \<Rightarrow> string \<Rightarrow> string \<Rightarrow> (store, unit) stmt" where
  "sql_run_succeeded n m found summary org run = upd (\<lambda>now gen d. ((), d\<lparr>runs :=
     update_where (\<lambda>r. r_org r = org \<and> r_id r = run)
       (\<lambda>r. r\<lparr>r_status := ''SUCCEEDED'', r_completed := Some now, r_accounts := n, r_groups := m, r_findings := found,
          r_summary := summary\<rparr>) (runs d)\<rparr>))"

section \<open>failSync\<close>

definition sql_sync_failed :: "string \<Rightarrow> string \<Rightarrow> string \<Rightarrow> string \<Rightarrow> (store, unit) stmt" where
  "sql_sync_failed code msg org run = upd (\<lambda>now gen d. ((), d\<lparr>syncs :=
     update_where (\<lambda>y. y_org y = org \<and> y_id y = run)
       (\<lambda>y. y\<lparr>y_status := ''FAILED'', y_completed := Some now, y_error := Some code,
          y_summary := JObj [(''message'', JStr msg)]\<rparr>) (syncs d)\<rparr>))"

definition sql_connector_failed :: "string \<Rightarrow> string \<Rightarrow> (store, unit) stmt" where
  "sql_connector_failed org con = upd (\<lambda>now gen d. ((), d\<lparr>connectors :=
     update_where (\<lambda>c. c_org c = org \<and> c_id c = con) (\<lambda>c. c\<lparr>c_last_sync_status := ''FAILED'', c_updated_at := now\<rparr>) (connectors d)\<rparr>))"

definition sql_run_failed :: "string \<Rightarrow> string \<Rightarrow> string \<Rightarrow> (store, unit) stmt" where
  "sql_run_failed code org run = upd (\<lambda>now gen d. ((), d\<lparr>runs :=
     update_where (\<lambda>r. r_org r = org \<and> r_id r = run)
       (\<lambda>r. r\<lparr>r_status := ''FAILED'', r_completed := Some now,
          r_summary := JObj [(''errorCode'', JStr code), (''staleDataPreserved'', JBool True)]\<rparr>) (runs d)\<rparr>))"

text \<open>\<open>failSync\<close> returns its cause; the result the code returns beside it is not looked at.\<close>

definition failSync ::
  "Service \<Rightarrow> string \<Rightarrow> string \<Rightarrow> string \<Rightarrow> string \<Rightarrow> error \<Rightarrow> (store networld, SyncResult) comp" where
  "failSync s orgID connectorID runID code cause =
    bnd (ignore (exec (sql_sync_failed code (error_text cause) orgID runID))) (\<lambda>_.
    bnd (ignore (exec (sql_connector_failed orgID connectorID))) (\<lambda>_.
    bnd (ignore (exec (sql_run_failed code orgID runID))) (\<lambda>_.
    bnd (send_event (NotifierOf s) orgID ''CONNECTOR_SYNC_FAILED''
          (JObj [(''connectorId'', JStr connectorID), (''errorCode'', JStr code), (''runId'', JStr runID)])) (\<lambda>_.
    fail cause))))"

text \<open>\<open>x, err := m(); if err != nil { return s.failSync(\<dots>, code, err) }\<close>\<close>

definition or_failSync ::
  "Service \<Rightarrow> string \<Rightarrow> string \<Rightarrow> string \<Rightarrow> string \<Rightarrow> (store networld, 'a) comp \<Rightarrow>
     ('a \<Rightarrow> (store networld, SyncResult) comp) \<Rightarrow> (store networld, SyncResult) comp" where
  "or_failSync s org con run code m k =
    bnd (attempt m) (\<lambda>r. case r of Inl e \<Rightarrow> failSync s org con run code e | Inr x \<Rightarrow> k x)"

section \<open>Clients\<close>

text \<open>\<open>ldapConfiguration\<close>: the stored configuration and the bind password.\<close>

definition ldap_values :: "string \<Rightarrow> json \<Rightarrow> Config option" where
  "ldap_values baseURL = as_struct (\<lambda>kv. do {
     bindDN \<leftarrow> str_field ''BindDN'' kv; base \<leftarrow> str_field ''SearchBase'' kv; users \<leftarrow> str_field ''UserFilter'' kv;
     grps \<leftarrow> str_field ''GroupFilter'' kv; server \<leftarrow> str_field ''ServerName'' kv; strategy \<leftarrow> str_field ''DisableStrategy'' kv;
     attribute \<leftarrow> str_field ''MembershipAttribute'' kv; pageSize \<leftarrow> decode_field as_uint32 ''PageSize'' 0 kv;
     Some \<lparr>URL = baseURL, BindDN = bindDN, Password = [], SearchBase = base, UserFilter = users, GroupFilter = grps,
       PageSize = pageSize, ServerName = server, DisableStrategy = strategy, MembershipAttribute = attribute\<rparr> })"

definition ldapConfiguration :: "Service \<Rightarrow> string \<Rightarrow> string \<Rightarrow> (store networld, Config) comp" where
  "ldapConfiguration s orgID connectorID =
    bnd (query_row (find_connector orgID connectorID (\<lambda>c. c_type c = ''LDAP_DIRECTORY''))) (\<lambda>c.
    case ldap_values (coalesce_empty (c_base_url c)) (c_configuration c) of
      None \<Rightarrow> fail (Errorf ''LDAP connector configuration is malformed'')
    | Some cfg \<Rightarrow> bnd (connectorToken s orgID connectorID) (\<lambda>password. ret (cfg\<lparr>Password := password\<rparr>)))"

definition native_configuration :: "json \<Rightarrow> (string \<times> string) option" where
  "native_configuration = as_struct (\<lambda>kv. do {
     customer \<leftarrow> str_field ''customer'' kv; organization \<leftarrow> str_field ''organization'' kv; Some (customer, organization) })"

definition new_native ::
  "string \<Rightarrow> string \<Rightarrow> string \<Rightarrow> string \<times> string \<Rightarrow> bool \<Rightarrow> error + store Provider.Client" where
  "new_native connectorType baseURL credential configuration allowHTTP =
    (if connectorType = ''ENTRA_ID'' then map_sum id Entra.client (Entra.New baseURL credential allowHTTP)
     else if connectorType = ''OKTA'' then map_sum id Okta.client (Okta.New baseURL credential allowHTTP)
     else if connectorType = ''GOOGLE_WORKSPACE''
     then map_sum id GoogleWorkspace.client (GoogleWorkspace.New baseURL credential (fst configuration) allowHTTP)
     else if connectorType = ''GITHUB''
     then map_sum id GitHub.client (GitHub.New baseURL credential (snd configuration) allowHTTP)
     else Inl (Errorf ''unsupported native connector type''))"

definition nativeClient :: "Service \<Rightarrow> string \<Rightarrow> string \<Rightarrow> (store networld, store Provider.Client) comp" where
  "nativeClient s orgID connectorID =
    bnd (query_row (find_connector orgID connectorID (\<lambda>c. c_type c \<in> set native_types))) (\<lambda>c.
    bnd (connectorToken s orgID connectorID) (\<lambda>credential.
    case native_configuration (c_configuration c) of
      None \<Rightarrow> fail (Errorf ''native connector configuration is malformed'')
    | Some configuration \<Rightarrow>
        liftE (new_native (c_type c) (coalesce_empty (c_base_url c)) credential configuration (AllowHTTP s))))"

section \<open>SyncLDAP\<close>

definition ldapValues :: "Entry \<Rightarrow> string \<Rightarrow> string list" where
  "ldapValues e name = (case List.find (\<lambda>(k, vs). EqualFold k name) (Attributes e) of None \<Rightarrow> [] | Some (k, vs) \<Rightarrow> vs)"

definition first :: "string list \<Rightarrow> string" where
  "first values = (case values of [] \<Rightarrow> [] | v # _ \<Rightarrow> v)"

definition ldapValue :: "Entry \<Rightarrow> string \<Rightarrow> string" where
  "ldapValue e name = (case List.find (\<lambda>(k, vs). EqualFold k name) (Attributes e) of None \<Rightarrow> [] | Some (k, vs) \<Rightarrow> first vs)"

definition ldap_state :: "Entry \<Rightarrow> string" where
  "ldap_state e = (if EqualFold (ldapValue e ''description'') ''DISABLED'' \<or> ldapValue e ''pwdAccountLockedTime'' \<noteq> []
     then ''DISABLED'' else ''ACTIVE'')"

definition sql_ldap_account :: "string \<Rightarrow> string \<Rightarrow> Entry \<Rightarrow> (store, string) stmt" where
  "sql_ldap_account org con e =
    (let uid = ldapValue e ''uid'';
         columns = (\<lambda>a. a\<lparr>a_username := uid, a_name := Some (ldapValue e ''cn''), a_email := nullif_empty (ldapValue e ''mail''),
           a_employee := nullif_empty (ldapValue e ''employeeNumber''), a_status := ldap_state e,
           a_type := (if HasPrefix uid ''service.'' then ''SERVICE'' else ''HUMAN'')\<rparr>) in
     sql_upsert_account org con (DN e)
       (\<lambda>aid now. columns \<lparr>a_id = aid, a_org = org, a_connector = con, a_external = DN e, a_username = [], a_name = None,
          a_email = None, a_employee = None, a_status = [], a_type = [], a_privileged = False, a_last_seen = now,
          a_provider_updated = None, a_raw = JObj [(''dn'', JStr (DN e))], a_missing = None, a_updated = now,
          a_first_seen = now\<rparr>)
       (\<lambda>now. columns))"

definition ldap_body :: "string \<Rightarrow> string \<Rightarrow> string \<Rightarrow> string \<Rightarrow> Entry list \<Rightarrow> Entry list \<Rightarrow> (store networld, SyncResult) comp" where
  "ldap_body orgID connectorID name runID users groups =
    bnd (for_each (\<lambda>e. bnd (exec (sql_ldap_account orgID connectorID e)) (\<lambda>_. ret ())) users) (\<lambda>_.
    bnd (exec (sql_mark_missing orgID connectorID a_external (map DN users))) (\<lambda>_.
    bnd (for_each (\<lambda>g.
          bnd (exec (sql_upsert_entitlement orgID connectorID (DN g) (ldapValue g ''cn''))) (\<lambda>ent.
          for_each (\<lambda>m. exec (sql_grant orgID ent ''LDAP_GROUP'' connectorID m)) (ldapValues g ''member'' @ ldapValues g ''uniqueMember''))) groups) (\<lambda>_.
    bnd (correlate orgID connectorID) (\<lambda>found.
    let n = int (length users); m = int (length groups) in
    bnd (exec (sql_sync_succeeded n m (JObj [(''connector'', JStr name), (''readOnly'', JBool True)]) orgID runID)) (\<lambda>_.
    bnd (exec (sql_connector_synced orgID connectorID)) (\<lambda>_.
    bnd (exec (sql_run_succeeded n m found (JObj [(''readOnly'', JBool True)]) orgID runID)) (\<lambda>_.
    ret \<lparr>RunID = runID, AccountsDiscovered = n, GroupsDiscovered = m, FindingsCreated = found, SyncStatus = ''SUCCEEDED''\<rparr>)))))))"

text \<open>The opening that the three variants share: the connector must be enabled for reading, and the
  run is recorded as RUNNING in both tables.\<close>

definition open_run ::
  "string \<Rightarrow> string \<Rightarrow> string \<Rightarrow> connector_row \<Rightarrow> (store networld, string) comp" where
  "open_run orgID connectorID requestID c =
    (if \<not> c_enabled c \<or> \<not> c_read_enabled c then fail (Errorf ''connector discovery is disabled'')
     else bnd new_uuid (\<lambda>runID.
          bnd (exec (sql_start_sync runID orgID connectorID requestID)) (\<lambda>_.
          bnd (exec (sql_start_run runID orgID connectorID)) (\<lambda>_.
          ret runID))))"

definition SyncLDAP :: "Service \<Rightarrow> string \<Rightarrow> string \<Rightarrow> string \<Rightarrow> Config \<Rightarrow> (store networld, SyncResult) comp" where
  "SyncLDAP s orgID connectorID requestID cfg =
    bnd (query_row (find_connector orgID connectorID (\<lambda>c. c_type c = ''LDAP_DIRECTORY''))) (\<lambda>c.
    bnd (open_run orgID connectorID requestID c) (\<lambda>runID.
    or_failSync s orgID connectorID runID ''LDAP_CONFIGURATION_ERROR'' (liftE (Ldap.New cfg)) (\<lambda>cl.
    or_failSync s orgID connectorID runID ''LDAP_DISCOVERY_FAILED'' (Ldap.SearchUsers cl) (\<lambda>users.
    or_failSync s orgID connectorID runID ''LDAP_GROUP_DISCOVERY_FAILED'' (Ldap.SearchGroups cl) (\<lambda>groups.
    tx (ldap_body orgID connectorID (c_name c) runID users groups))))))"

section \<open>SyncSCIM\<close>

definition scim_email :: "Scim.User \<Rightarrow> string" where
  "scim_email u = foldl (\<lambda>email (v, primary). if primary \<or> email = [] then ToLower (TrimSpace v) else email) [] (su_Emails u)"

text \<open>\<open>nullif($8::timestamptz, '0001-01-01T00:00:00Z')\<close> of a formatted time.\<close>

definition provider_time :: "tstamp \<Rightarrow> tstamp option" where
  "provider_time t = (if whole_seconds t = zero_time then None else Some (whole_seconds t))"

definition active_state :: "bool \<Rightarrow> string" where
  "active_state a = (if a then ''ACTIVE'' else ''DISABLED'')"

definition sql_scim_account :: "string \<Rightarrow> string \<Rightarrow> Scim.User \<Rightarrow> (store, string) stmt" where
  "sql_scim_account org con u =
    (let columns = (\<lambda>a. a\<lparr>a_username := su_UserName u, a_name := Some (su_DisplayName u), a_email := nullif_empty (scim_email u),
           a_status := active_state (su_Active u), a_provider_updated := provider_time (su_LastModified u)\<rparr>) in
     sql_upsert_account org con (su_ID u)
       (\<lambda>aid now. columns \<lparr>a_id = aid, a_org = org, a_connector = con, a_external = su_ID u, a_username = [], a_name = None,
          a_email = None, a_employee = None, a_status = [], a_type = ''UNKNOWN'', a_privileged = False, a_last_seen = now,
          a_provider_updated = None, a_raw = JObj [(''externalId'', JStr (su_ExternalID u))], a_missing = None, a_updated = now,
          a_first_seen = now\<rparr>)
       (\<lambda>now. columns))"

definition scim_body :: "string \<Rightarrow> string \<Rightarrow> string \<Rightarrow> string \<Rightarrow> Scim.User list \<Rightarrow> Scim.Group list \<Rightarrow> (store networld, SyncResult) comp" where
  "scim_body orgID connectorID name runID users groups =
    bnd (fold_comp (\<lambda>seen u. bnd (exec (sql_scim_account orgID connectorID u)) (\<lambda>aid. ret (seen @ [aid]))) [] users) (\<lambda>seen.
    bnd (for_each (\<lambda>g.
          bnd (exec (sql_upsert_entitlement orgID connectorID (sg_ID g) (sg_DisplayName g))) (\<lambda>ent.
          for_each (\<lambda>m. exec (sql_grant orgID ent ''SCIM_GROUP'' connectorID m)) (sg_Members g))) groups) (\<lambda>_.
    bnd (exec (sql_mark_missing orgID connectorID a_id seen)) (\<lambda>_.
    bnd (correlate orgID connectorID) (\<lambda>found.
    let n = int (length users); m = int (length groups) in
    bnd (exec (sql_sync_succeeded n m (JObj [(''connector'', JStr name)]) orgID runID)) (\<lambda>_.
    bnd (exec (sql_connector_synced orgID connectorID)) (\<lambda>_.
    bnd (exec (sql_run_succeeded n m found (JObj [(''normalized'', JBool True), (''stalePreservedOnFailure'', JBool True)]) orgID runID)) (\<lambda>_.
    ret \<lparr>RunID = runID, AccountsDiscovered = n, GroupsDiscovered = m, FindingsCreated = found, SyncStatus = ''SUCCEEDED''\<rparr>)))))))"

definition SyncSCIM :: "Service \<Rightarrow> string \<Rightarrow> string \<Rightarrow> string \<Rightarrow> (store networld, SyncResult) comp" where
  "SyncSCIM s orgID connectorID requestID =
    bnd (query_row (find_connector orgID connectorID (\<lambda>c. c_type c = ''SCIM_2_0''))) (\<lambda>c.
    bnd (scan_string (c_base_url c)) (\<lambda>baseURL.
    bnd (open_run orgID connectorID requestID c) (\<lambda>runID.
    or_failSync s orgID connectorID runID ''CREDENTIAL_ERROR'' (connectorToken s orgID connectorID) (\<lambda>tok.
    or_failSync s orgID connectorID runID ''CONFIGURATION_ERROR'' (liftE (Scim.New baseURL tok (AllowHTTP s))) (\<lambda>cl.
    or_failSync s orgID connectorID runID ''SCIM_DISCOVERY_FAILED'' (Scim.ListUsers cl 100) (\<lambda>users.
    or_failSync s orgID connectorID runID ''SCIM_GROUP_DISCOVERY_FAILED'' (Scim.ListGroups cl 100) (\<lambda>groups.
    tx (scim_body orgID connectorID (c_name c) runID users groups))))))))"

section \<open>SyncNative\<close>

definition sql_native_account :: "string \<Rightarrow> string \<Rightarrow> string \<Rightarrow> Provider.User \<Rightarrow> (store, string) stmt" where
  "sql_native_account org con connectorType u =
    (let columns = (\<lambda>a. a\<lparr>a_username := pu_Username u, a_name := Some (pu_DisplayName u),
           a_email := nullif_empty (pu_PrimaryEmail u), a_employee := nullif_empty (pu_EmployeeNumber u),
           a_status := active_state (pu_Active u), a_type := (if pu_Username u = [] then ''UNKNOWN'' else ''HUMAN''),
           a_privileged := pu_Privileged u, a_provider_updated := provider_time (pu_UpdatedAt u)\<rparr>) in
     sql_upsert_account org con (pu_ID u)
       (\<lambda>aid now. columns \<lparr>a_id = aid, a_org = org, a_connector = con, a_external = pu_ID u, a_username = [], a_name = None,
          a_email = None, a_employee = None, a_status = [], a_type = [], a_privileged = False, a_last_seen = now,
          a_provider_updated = None,
          a_raw = JObj [(''externalId'', JStr (pu_ExternalID u)), (''nativeProvider'', JStr connectorType)],
          a_missing = None, a_updated = now,
          a_first_seen = now\<rparr>)
       (\<lambda>now. columns))"

definition native_body ::
  "string \<Rightarrow> string \<Rightarrow> string \<Rightarrow> string \<Rightarrow> string \<Rightarrow> Provider.User list \<Rightarrow> Provider.Group list \<Rightarrow> (store networld, SyncResult) comp" where
  "native_body orgID connectorID name connectorType runID users groups =
    bnd (fold_comp (\<lambda>seen u. bnd (exec (sql_native_account orgID connectorID connectorType u)) (\<lambda>aid. ret (seen @ [aid]))) [] users) (\<lambda>seen.
    bnd (for_each (\<lambda>g.
          bnd (exec (sql_upsert_entitlement orgID connectorID (pg_ID g) (pg_Name g))) (\<lambda>ent.
          for_each (\<lambda>m. exec (sql_grant orgID ent (connectorType @ ''_GROUP'') connectorID m)) (pg_Members g))) groups) (\<lambda>_.
    bnd (exec (sql_mark_missing orgID connectorID a_id seen)) (\<lambda>_.
    bnd (correlate orgID connectorID) (\<lambda>found.
    let n = int (length users); m = int (length groups) in
    bnd (exec (sql_sync_succeeded n m (JObj [(''connector'', JStr name), (''nativeProvider'', JStr connectorType)]) orgID runID)) (\<lambda>_.
    bnd (exec (sql_connector_synced orgID connectorID)) (\<lambda>_.
    bnd (exec (sql_run_succeeded n m found
          (JObj [(''nativeProvider'', JStr connectorType), (''stalePreservedOnFailure'', JBool True)]) orgID runID)) (\<lambda>_.
    ret \<lparr>RunID = runID, AccountsDiscovered = n, GroupsDiscovered = m, FindingsCreated = found, SyncStatus = ''SUCCEEDED''\<rparr>)))))))"

definition SyncNative :: "Service \<Rightarrow> string \<Rightarrow> string \<Rightarrow> string \<Rightarrow> (store networld, SyncResult) comp" where
  "SyncNative s orgID connectorID requestID =
    bnd (query_row (find_connector orgID connectorID (\<lambda>c. c_type c \<in> set native_types))) (\<lambda>c.
    bnd (open_run orgID connectorID requestID c) (\<lambda>runID.
    or_failSync s orgID connectorID runID ''NATIVE_CONFIGURATION_ERROR'' (nativeClient s orgID connectorID) (\<lambda>cl.
    or_failSync s orgID connectorID runID ''NATIVE_DISCOVERY_FAILED'' (Client.ListUsers cl) (\<lambda>users.
    or_failSync s orgID connectorID runID ''NATIVE_GROUP_DISCOVERY_FAILED'' (Client.ListGroups cl) (\<lambda>groups.
    tx (native_body orgID connectorID (c_name c) (c_type c) runID users groups))))))"

section \<open>SyncConnector and the connection tests\<close>

definition connector_type :: "string \<Rightarrow> string \<Rightarrow> (store networld, string) comp" where
  "connector_type orgID connectorID = query_row (\<lambda>d. map_option c_type (find_connector orgID connectorID (\<lambda>_. True) d))"

definition SyncConnector :: "Service \<Rightarrow> string \<Rightarrow> string \<Rightarrow> string \<Rightarrow> (store networld, SyncResult) comp" where
  "SyncConnector s orgID connectorID requestID =
    bnd (connector_type orgID connectorID) (\<lambda>connectorType.
    if connectorType = ''SCIM_2_0'' then SyncSCIM s orgID connectorID requestID
    else if connectorType = ''LDAP_DIRECTORY'' then
      bnd (ldapConfiguration s orgID connectorID) (\<lambda>cfg. SyncLDAP s orgID connectorID requestID cfg)
    else if connectorType \<in> set native_types then SyncNative s orgID connectorID requestID
    else fail (Errorf ''connector type does not support remote synchronization''))"

definition TestSCIMConnection :: "Service \<Rightarrow> string \<Rightarrow> string \<Rightarrow> (store networld, unit) comp" where
  "TestSCIMConnection s orgID connectorID =
    bnd (query_row (find_connector orgID connectorID (\<lambda>c. c_type c = ''SCIM_2_0'' \<and> c_enabled c))) (\<lambda>c.
    bnd (scan_string (c_base_url c)) (\<lambda>baseURL.
    bnd (connectorToken s orgID connectorID) (\<lambda>tok.
    bnd (liftE (Scim.New baseURL tok (AllowHTTP s))) (\<lambda>cl.
    Scim.TestConnection cl))))"

definition TestConnection :: "Service \<Rightarrow> string \<Rightarrow> string \<Rightarrow> (store networld, unit) comp" where
  "TestConnection s orgID connectorID =
    bnd (connector_type orgID connectorID) (\<lambda>connectorType.
    if connectorType = ''SCIM_2_0'' then TestSCIMConnection s orgID connectorID
    else if connectorType = ''LDAP_DIRECTORY'' then
      bnd (ldapConfiguration s orgID connectorID) (\<lambda>cfg.
      bnd (liftE (Ldap.New cfg)) (\<lambda>cl. Ldap.TestConnection cl))
    else if connectorType \<in> set native_types then
      bnd (nativeClient s orgID connectorID) (\<lambda>cl. Client.TestConnection cl)
    else fail (Errorf ''connector type has no remote connection to test''))"

section \<open>executeRemoteAction\<close>

definition executeRemoteAction :: "Service \<Rightarrow> (store networld) remote_action" where
  "executeRemoteAction s orgID connectorID connectorType baseURL externalID actionType =
    (if connectorType = ''SCIM_2_0'' then
       bnd (connectorToken s orgID connectorID) (\<lambda>tok.
       bnd (liftE (Scim.New baseURL tok (AllowHTTP s))) (\<lambda>cl.
       bnd (Scim.DisableUser cl externalID) (\<lambda>_.
       bnd (Scim.GetUser cl externalID) (\<lambda>observed. ret (\<not> su_Active observed)))))
     else if connectorType = ''LDAP_DIRECTORY'' then
       (if actionType \<noteq> ''DISABLE_ACCOUNT'' then fail (Errorf ''LDAP membership action requires an entitlement-scoped plan'')
        else bnd (ldapConfiguration s orgID connectorID) (\<lambda>cfg.
          bnd (liftE (Ldap.New cfg)) (\<lambda>cl.
          bnd (Ldap.DisableUser cl externalID) (\<lambda>_.
          bnd (Ldap.GetUser cl externalID) (\<lambda>observed. ret (IsDisabled observed))))))
     else if connectorType \<in> set native_types then
       bnd (nativeClient s orgID connectorID) (\<lambda>cl.
       bnd (Client.DisableUser cl externalID) (\<lambda>_.
       bnd (Client.GetUser cl externalID) (\<lambda>observed. ret (\<not> pu_Active observed))))
     else fail (Errorf ''connector does not support controlled remote actions''))"

end
