(* ===== verification/Frames.thy ===== *)
theory Frames
  imports Lifecycle
begin

text \<open>
  Frame conditions of the store: the rows of other tenants stay as they are (shown for the whole service in
  \<open>TenantService\<close>), and the evidence, event, snapshot and audit tables only grow. They are interpretations of
  \<open>db_frame\<close>, so that a method keeps them as soon as its statements do.
\<close>

section \<open>Tenant isolation\<close>

text \<open>\<open>same_elsewhere org d d'\<close>: no row of another organization was added, removed or changed.\<close>

definition same_elsewhere :: "string \<Rightarrow> store \<Rightarrow> store \<Rightarrow> bool" where
  "same_elsewhere org d d' \<longleftrightarrow>
     filter (\<lambda>r. c_org r \<noteq> org) (connectors d') = filter (\<lambda>r. c_org r \<noteq> org) (connectors d) \<and>
     filter (\<lambda>r. cc_org r \<noteq> org) (credentials d') = filter (\<lambda>r. cc_org r \<noteq> org) (credentials d) \<and>
     filter (\<lambda>r. p_org r \<noteq> org) (people d') = filter (\<lambda>r. p_org r \<noteq> org) (people d) \<and>
     filter (\<lambda>r. a_org r \<noteq> org) (accounts d') = filter (\<lambda>r. a_org r \<noteq> org) (accounts d) \<and>
     filter (\<lambda>r. l_org r \<noteq> org) (links d') = filter (\<lambda>r. l_org r \<noteq> org) (links d) \<and>
     filter (\<lambda>r. k_org r \<noteq> org) (candidates d') = filter (\<lambda>r. k_org r \<noteq> org) (candidates d) \<and>
     filter (\<lambda>r. e_org r \<noteq> org) (entitlements d') = filter (\<lambda>r. e_org r \<noteq> org) (entitlements d) \<and>
     filter (\<lambda>r. g_org r \<noteq> org) (grants d') = filter (\<lambda>r. g_org r \<noteq> org) (grants d) \<and>
     filter (\<lambda>r. y_org r \<noteq> org) (syncs d') = filter (\<lambda>r. y_org r \<noteq> org) (syncs d) \<and>
     filter (\<lambda>r. r_org r \<noteq> org) (runs d') = filter (\<lambda>r. r_org r \<noteq> org) (runs d) \<and>
     filter (\<lambda>r. f_org r \<noteq> org) (findings d') = filter (\<lambda>r. f_org r \<noteq> org) (findings d) \<and>
     filter (\<lambda>r. lc_org r \<noteq> org) (cases d') = filter (\<lambda>r. lc_org r \<noteq> org) (cases d) \<and>
     filter (\<lambda>r. la_org r \<noteq> org) (actions d') = filter (\<lambda>r. la_org r \<noteq> org) (actions d) \<and>
     filter (\<lambda>r. ev_org r \<noteq> org) (events d') = filter (\<lambda>r. ev_org r \<noteq> org) (events d) \<and>
     filter (\<lambda>r. vs_org r \<noteq> org) (snapshots d') = filter (\<lambda>r. vs_org r \<noteq> org) (snapshots d) \<and>
     filter (\<lambda>r. le_org r \<noteq> org) (evidence d') = filter (\<lambda>r. le_org r \<noteq> org) (evidence d) \<and>
     filter (\<lambda>r. ac_org r \<noteq> org) (campaigns d') = filter (\<lambda>r. ac_org r \<noteq> org) (campaigns d) \<and>
     filter (\<lambda>r. ai_org r \<noteq> org) (items d') = filter (\<lambda>r. ai_org r \<noteq> org) (items d) \<and>
     filter (\<lambda>r. ad_org r \<noteq> org) (decisions d') = filter (\<lambda>r. ad_org r \<noteq> org) (decisions d) \<and>
     filter (\<lambda>r. ob_org r \<noteq> org) (outbox d') = filter (\<lambda>r. ob_org r \<noteq> org) (outbox d) \<and>
     filter (\<lambda>r. au_org r \<noteq> org) (audit d') = filter (\<lambda>r. au_org r \<noteq> org) (audit d) \<and>
     filter (\<lambda>r. n_org r \<noteq> org) (notifications d') = filter (\<lambda>r. n_org r \<noteq> org) (notifications d)"

named_theorems stmt_append \<open>statements that only append to the history tables\<close>

lemma same_elsewhere_refl: "same_elsewhere org d d"
  by (simp add: same_elsewhere_def)

section \<open>History only grows\<close>

definition history_grows :: "store \<Rightarrow> store \<Rightarrow> bool" where
  "history_grows d d' \<longleftrightarrow> (\<exists>ev vs le au. events d' = events d @ ev \<and> snapshots d' = snapshots d @ vs \<and>
     evidence d' = evidence d @ le \<and> audit d' = audit d @ au)"

interpretation history: db_frame history_grows
  by unfold_locales (auto simp: history_grows_def)

section \<open>The statements of the lifecycle\<close>

lemma history_lifecycle [stmt_append]:
  "stmt_keeps history_grows (sql_insert_case cid org user person)"
  "stmt_keeps history_grows (sql_insert_action org cid item)"
  by (auto simp: stmt_keeps_def history_grows_def sql_insert_case_def sql_insert_action_def
      split: list.splits if_splits)

lemma history_lifecycle_updates [stmt_append]:
  "stmt_keeps history_grows (sql_plan_case n org cid)"
  "stmt_keeps history_grows (sql_insert_event org cid typ summary meta)"
  "stmt_keeps history_grows (sql_approve_case org cid)"
  "stmt_keeps history_grows (sql_approve_actions org cid user)"
  "stmt_keeps history_grows (sql_cancel_case org cid)"
  "stmt_keeps history_grows (sql_skip_actions org cid)"
  "stmt_keeps history_grows (sql_audit org actor event rtype rid meta request)"
  "stmt_keeps history_grows (sql_start_case org cid)"
  "stmt_keeps history_grows (sql_start_action org aid)"
  "stmt_keeps history_grows (sql_account_disabled org acc)"
  "stmt_keeps history_grows (sql_finish_action outcome summary org aid)"
  "stmt_keeps history_grows (sql_insert_evidence org cid av outcome summary)"
  "stmt_keeps history_grows (sql_verifying org cid)"
  "stmt_keeps history_grows (sql_insert_snapshot org cid v status)"
  "stmt_keeps history_grows (sql_complete_case org cid final status v)"
  unfolding sql_plan_case_def sql_insert_event_def sql_approve_case_def sql_approve_actions_def sql_cancel_case_def
    sql_skip_actions_def sql_audit_def sql_start_case_def sql_start_action_def sql_account_disabled_def
    sql_finish_action_def sql_insert_evidence_def sql_verifying_def sql_insert_snapshot_def sql_complete_case_def
  by (rule history.stmt_keeps_upd, simp add: Let_def history_grows_def)+

lemmas history_rules = history.world.keeps_combinators history.keeps_database history.keeps_exec

section \<open>The methods of the lifecycle\<close>

text \<open>What is asked of a notifier and of a remote action: they keep the frame for the tenant they act for.\<close>

definition notifier_keeps ::
  "((store, 'z) world_scheme \<Rightarrow> (store, 'z) world_scheme \<Rightarrow> bool) \<Rightarrow> string \<Rightarrow> ((store, 'z) world_scheme) notifier \<Rightarrow> bool" where
  "notifier_keeps R org notify \<longleftrightarrow> (\<forall>n e. notify = Some n \<longrightarrow> ne_org e = org \<longrightarrow> keeps R (n e))"

definition remote_keeps ::
  "((store, 'z) world_scheme \<Rightarrow> (store, 'z) world_scheme \<Rightarrow> bool) \<Rightarrow> string \<Rightarrow> ((store, 'z) world_scheme) remote_action \<Rightarrow> bool" where
  "remote_keeps R org remote \<longleftrightarrow> (\<forall>con ty url ext act. keeps R (remote org con ty url ext act))"

lemma remote_keepsD: "remote_keeps R org remote \<Longrightarrow> keeps R (remote org con ty url ext act)"
  by (simp add: remote_keeps_def)

text \<open>
  A run keeps a frame when its statements, its remote actions and its notifier do. \<open>case_frame\<close>
  collects what a frame has to know about the statements of a run.
\<close>

locale case_frame = db_frame R for R :: "store \<Rightarrow> store \<Rightarrow> bool" +
  fixes org cid :: string
  assumes frame_start_action: "stmt_keeps R (sql_start_action org aid)"
    and frame_account_disabled: "stmt_keeps R (sql_account_disabled org acc)"
    and frame_finish_action: "stmt_keeps R (sql_finish_action outcome summary org aid)"
    and frame_insert_evidence: "stmt_keeps R (sql_insert_evidence org cid av outcome summary)"
    and frame_verifying: "stmt_keeps R (sql_verifying org cid)"
    and frame_insert_snapshot: "stmt_keeps R (sql_insert_snapshot org cid v status)"
    and frame_complete_case: "stmt_keeps R (sql_complete_case org cid (final_case result) status v)"
    and frame_insert_event: "stmt_keeps R (sql_insert_event org cid ty summary meta)"
begin

lemma keeps_send_event:
  assumes "notifier_keeps (on_db R) org notify"
  shows "keeps (on_db R) (send_event notify org ty payload)"
proof (cases notify)
  case None
  then show ?thesis by (simp add: send_event_def world.keeps_ret)
next
  case (Some n)
  then show ?thesis unfolding send_event_def option.case using assms
    by (auto simp: notifier_keeps_def intro!: world.keeps_bnd keeps_time_now world.keeps_ignore)
qed

lemma keeps_run_case:
  assumes "remote_keeps (on_db R) org remote" and "notifier_keeps (on_db R) org notify"
  shows "keeps (on_db R) (run_case remote notify org cid)"
  unfolding run_case_def execute_action_def action_outcome_def verify_case_def count_case_def
    record_verdict_def Let_def
  by (intro world.keeps_combinators keeps_database keeps_exec keeps_send_event remote_keepsD assms
      frame_start_action frame_account_disabled frame_finish_action frame_insert_evidence frame_verifying
      frame_insert_snapshot frame_complete_case frame_insert_event)

end

interpretation history_run: case_frame history_grows org cid for org cid
  by unfold_locales (rule stmt_append)+

lemma history_ExecuteAndVerify:
  assumes "remote_keeps (on_db history_grows) org remote" and "notifier_keeps (on_db history_grows) org notify"
  shows "keeps (on_db history_grows) (ExecuteAndVerify remote notify org cid user)"
  unfolding ExecuteAndVerify_def
  by (intro history_rules stmt_append history_run.keeps_run_case assms)

end
