(* ===== verification/Samples.thy ===== *)
theory Samples
  imports Frames
begin

text \<open>
  A small tenant for the witnesses: one person with one account at one connector and an
  offboarding case, a world without faults around it, and the rewrite rules that evaluate the
  methods on it.
\<close>

definition sample_world :: "store \<Rightarrow> store world" where
  "sample_world d = \<lparr>db = d, ticks = 0, faults = (\<lambda>_. NoFault), clock = (\<lambda>n. int n),
     fresh = (\<lambda>n i. ''uuid-'' @ nat_text n @ ''-'' @ nat_text i), txnow = None\<rparr>"

definition sample_case :: "string \<Rightarrow> case_row" where
  "sample_case status = (new_case ''case-1'' ''org-1'' ''person-1'' ''user-1'' 0)\<lparr>lc_status := status\<rparr>"

definition sample_connector :: "string \<Rightarrow> bool \<Rightarrow> connector_row" where
  "sample_connector typ write = \<lparr>c_id = ''conn-1'', c_org = ''org-1'', c_name = ''Directory'', c_type = typ,
     c_base_url = Some ''https://idp.example'', c_enabled = True, c_read_enabled = True, c_write_enabled = write,
     c_capabilities = JArr [JStr ''DISABLE_ACCOUNT''], c_configuration = JObj [], c_last_sync_at = None,
     c_last_sync_status = ''UNKNOWN'', c_updated_at = 0, c_environment = ''PRODUCTION'', c_sync_interval = ''MANUAL''\<rparr>"

definition sample_account :: "string \<Rightarrow> account_row" where
  "sample_account status = \<lparr>a_id = ''acc-1'', a_org = ''org-1'', a_connector = ''conn-1'', a_external = ''ext-1'',
     a_username = ''ana'', a_name = Some ''Ana'', a_email = None, a_employee = None, a_status = status, a_type = ''HUMAN'',
     a_privileged = False, a_last_seen = 0, a_provider_updated = None, a_raw = JObj [], a_missing = None, a_updated = 0, a_first_seen = 0\<rparr>"

definition sample_link :: link_row where
  "sample_link = \<lparr>l_id = ''link-1'', l_org = ''org-1'', l_person = ''person-1'', l_account = ''acc-1'', l_type = ''AUTOMATIC'',
     l_confidence = ''HIGH'', l_reason = ''r'', l_created_by = None\<rparr>"

definition sample_store :: "string \<Rightarrow> string \<Rightarrow> store" where
  "sample_store case_status account_status = empty_store\<lparr>cases := [sample_case case_status],
     connectors := [sample_connector ''OKTA'' True], accounts := [sample_account account_status], links := [sample_link]\<rparr>"

definition sample_action :: action_row where
  "sample_action = (new_action ''act-1'' ''org-1'' ''case-1'' \<lparr>pa_accountID = ''acc-1'', pa_connectorID = ''conn-1'',
      pa_name = [], pa_username = [], pa_state = ''ACTIVE'', pa_action = ''DISABLE_ACCOUNT'', pa_write = True\<rparr> 0)
      \<lparr>la_status := ''APPROVED''\<rparr>"

lemmas sample_defs = sample_world_def sample_store_def sample_connector_def sample_account_def sample_link_def
  sample_action_def sample_case_def new_case_def new_action_def empty_store_def

lemmas run_defs = bnd_def ret_def fail_def attempt_def ignore_def liftE_def exec_def query_row_def query_rows_def
  upd_def Let_def now_of_def time_now_def new_uuid_def tx_def for_each_def

lemmas execute_defs = ExecuteAndVerify_def run_case_def sql_start_case_def count_where_def update_where_def
  action_rows_def case_actions_def view_accounts_def view_connectors_def scan_action_def execute_action_def
  action_outcome_def sql_start_action_def sql_account_disabled_def sql_finish_action_def sql_insert_evidence_def
  verify_case_def count_case_def record_verdict_def sql_verifying_def find_case_def linked_accounts_def
  pending_candidates_def manual_actions_def sql_insert_snapshot_def sql_complete_case_def sql_insert_event_def
  EvaluateVerification_def final_case_def

definition sample_run :: "(error + VerificationStatus) \<times> store world" where
  "sample_run = ExecuteAndVerify (\<lambda>_ _ _ _ _ _. ret True) None ''org-1'' ''case-1'' ''user-1''
     (sample_world ((sample_store ''APPROVED'' ''ACTIVE'')\<lparr>actions := [sample_action]\<rparr>))"

lemma sample_run_verified: "fst sample_run = Inr Verified"
  by (simp add: sample_run_def run_defs sample_defs execute_defs)

lemma sample_run_eq:
  "ExecuteAndVerify (\<lambda>_ _ _ _ _ _. ret True) None ''org-1'' ''case-1'' ''user-1''
     (sample_world ((sample_store ''APPROVED'' ''ACTIVE'')\<lparr>actions := [sample_action]\<rparr>)) = (Inr Verified, snd sample_run)"
  by (metis prod.collapse sample_run_def sample_run_verified)

end
