(* ===== verification/LifecycleProps.thy ===== *)
theory LifecycleProps
  imports Samples
begin

text \<open>
  Correctness of the offboarding lifecycle: what a verdict means for the stored identities, that
  nothing runs without approval and nothing runs twice, that plans and approvals are atomic, that
  write actions are planned only where writing is enabled, and that every executed action leaves
  evidence.
\<close>

section \<open>What the environment of a run may change\<close>

definition only_notifies :: "store \<Rightarrow> store \<Rightarrow> bool" where
  "only_notifies d d' \<longleftrightarrow> (\<exists>ns. d' = d\<lparr>notifications := ns\<rparr>)"

interpretation notifies: db_frame only_notifies
proof
  fix d d' d'' :: store
  show "only_notifies d d" unfolding only_notifies_def by (rule exI [of _ "notifications d"]) simp
  show "only_notifies d d' \<Longrightarrow> only_notifies d' d'' \<Longrightarrow> only_notifies d d''" by (auto simp: only_notifies_def)
qed

lemma find_case_update:
  assumes "\<And>c. lc_org (f c) = lc_org c" "\<And>c. lc_id (f c) = lc_id c"
  shows "find_case org cid (d\<lparr>cases := update_where P f (cases d)\<rparr>) =
    map_option (\<lambda>c. if P c then f c else c) (find_case org cid d)"
proof -
  have "List.find (\<lambda>c. lc_org c = org \<and> lc_id c = cid) (update_where P f cs) =
    map_option (\<lambda>c. if P c then f c else c) (List.find (\<lambda>c. lc_org c = org \<and> lc_id c = cid) cs)" for cs
    by (induction cs) (auto simp: update_where_def assms)
  then show ?thesis by (simp add: find_case_def)
qed

section \<open>The verdict\<close>

text \<open>The store's own account of a case: the counts the verdict is computed from.\<close>

definition verdict_input :: "string \<Rightarrow> string \<Rightarrow> string \<Rightarrow> nat \<Rightarrow> store \<Rightarrow> VerificationInput" where
  "verdict_input org cid person failed d =
    \<lparr>Managed = int (length (linked_accounts org person d)),
     Disabled = count_where (\<lambda>a. a_status a = ''DISABLED'') (linked_accounts org person d),
     ActiveN = count_where (\<lambda>a. a_status a = ''ACTIVE'') (linked_accounts org person d),
     Unresolved = int (length (pending_candidates org person d)),
     Manual = int (length (manual_actions org cid d)),
     SystemsFailed = int failed, RequiredSystemsResponded = (failed = 0)\<rparr>"

definition case_closed :: "string \<Rightarrow> string \<Rightarrow> VerificationStatus \<Rightarrow> store \<Rightarrow> bool" where
  "case_closed org cid result d \<longleftrightarrow> (\<forall>c \<in> set (cases d). lc_org c = org \<and> lc_id c = cid \<longrightarrow>
     lc_status c = final_case result \<and> lc_verification c = Some (verification_text result) \<and> lc_completed c \<noteq> None)"

definition verdict_recorded :: "string \<Rightarrow> string \<Rightarrow> nat \<Rightarrow> VerificationStatus \<Rightarrow> store \<Rightarrow> bool" where
  "verdict_recorded org cid failed result d \<longleftrightarrow>
    (\<exists>person. map_option lc_person (find_case org cid d) = Some person \<and>
       result = EvaluateVerification (verdict_input org cid person failed d)) \<and>
    case_closed org cid result d"

lemma verdict_input_cong:
  assumes "links d' = links d" "accounts d' = accounts d" "candidates d' = candidates d" "actions d' = actions d"
  shows "verdict_input org cid person failed d' = verdict_input org cid person failed d"
  unfolding verdict_input_def linked_accounts_def pending_candidates_def manual_actions_def assms by (rule refl)

lemma verdict_recorded_notifies:
  assumes "only_notifies d d'" and "verdict_recorded org cid n r d"
  shows "verdict_recorded org cid n r d'"
proof -
  from assms(1) obtain ns where d': "d' = d\<lparr>notifications := ns\<rparr>" by (auto simp: only_notifies_def)
  then have "verdict_input org cid person n d' = verdict_input org cid person n d" for person
    by (intro verdict_input_cong) simp_all
  with assms(2) d' show ?thesis by (simp add: verdict_recorded_def case_closed_def find_case_def)
qed

lemma wp_send_event:
  assumes "notifier_keeps (on_db only_notifies) org notify" and "P (db w)"
    and "\<And>d d'. only_notifies d d' \<Longrightarrow> P d \<Longrightarrow> P d'"
  shows "wp (send_event notify org typ payload) (\<lambda>_ w'. P (db w')) (\<lambda>_ w'. P (db w')) w"
proof -
  have "keeps (on_db only_notifies) (send_event notify org typ payload)"
    unfolding send_event_def using assms(1)
    by (cases notify) (auto simp: notifier_keeps_def
        intro!: notifies.world.keeps_combinators notifies.keeps_database)
  from keeps_wp [OF this, of w] show ?thesis
    by (rule wp_mono) (use assms(2,3) in \<open>auto simp: on_db_def\<close>)
qed

lemma wp_count_case:
  "wp (count_case org cid failed)
    (\<lambda>v w'. db w' = db w \<and> (\<exists>person. map_option lc_person (find_case org cid (db w')) = Some person \<and>
       v = verdict_input org cid person (length failed) (db w'))) (\<lambda>_ _. True) w"
  unfolding count_case_def Let_def wp_simps case_prod_beta
  by (rule wp_query_row_ok, rule wp_query_row_ok, rule wp_query_row_ok, rule wp_query_row_ok)
    (auto simp: verdict_input_def)

lemma find_case_cong: "cases d' = cases d \<Longrightarrow> find_case org cid d' = find_case org cid d"
  by (simp add: find_case_def)

lemma verdict_recorded_complete:
  assumes "map_option lc_person (find_case org cid d) = Some person"
    and "r = EvaluateVerification (verdict_input org cid person failed d)"
    and "d' = d\<lparr>snapshots := ss, cases := update_where (\<lambda>c. lc_org c = org \<and> lc_id c = cid)
       (\<lambda>c. c\<lparr>lc_status := final_case r, lc_verification := Some (verification_text r), lc_completed := Some now,
          lc_summary := js\<rparr>) (cases d), events := es\<rparr>"
  shows "verdict_recorded org cid failed r d'"
proof -
  let ?f = "\<lambda>c. c\<lparr>lc_status := final_case r, lc_verification := Some (verification_text r), lc_completed := Some now,
          lc_summary := js\<rparr>"
  have "find_case org cid d' = find_case org cid (d\<lparr>cases := update_where (\<lambda>c. lc_org c = org \<and> lc_id c = cid) ?f (cases d)\<rparr>)"
    by (rule find_case_cong) (simp add: assms(3))
  also have "\<dots> = map_option (\<lambda>c. if lc_org c = org \<and> lc_id c = cid then ?f c else c) (find_case org cid d)"
    by (rule find_case_update) simp_all
  finally have "map_option lc_person (find_case org cid d') = Some person"
    using assms(1) by (auto simp: option.map_comp o_def)
  moreover have "verdict_input org cid person failed d' = verdict_input org cid person failed d"
    by (rule verdict_input_cong) (simp_all add: assms(3))
  moreover have "case_closed org cid r d'" unfolding case_closed_def
  proof (intro ballI impI)
    fix c assume c: "c \<in> set (cases d')" and key: "lc_org c = org \<and> lc_id c = cid"
    have "cases d' = update_where (\<lambda>c. lc_org c = org \<and> lc_id c = cid) ?f (cases d)" by (simp add: assms(3))
    with c have "c \<in> set (update_where (\<lambda>c. lc_org c = org \<and> lc_id c = cid) ?f (cases d))" by metis
    then show "lc_status c = final_case r \<and> lc_verification c = Some (verification_text r) \<and> lc_completed c \<noteq> None"
      by (cases rule: update_whereE) (use key in simp_all)
  qed
  ultimately show ?thesis using assms(2) unfolding verdict_recorded_def by metis
qed

lemma wp_record_verdict:
  assumes n: "notifier_keeps (on_db only_notifies) org notify"
    and p: "map_option lc_person (find_case org cid (db w)) = Some person"
    and v: "v = verdict_input org cid person failed (db w)"
  shows "wp (record_verdict notify org cid v) (\<lambda>result w'. verdict_recorded org cid failed result (db w')) (\<lambda>_ _. True) w"
  unfolding record_verdict_def Let_def wp_simps sql_insert_snapshot_def sql_complete_case_def sql_insert_event_def
proof (rule wp_upd_ok, rule wp_upd_ok, rule wp_upd_ok, goal_cases)
  case (1 now gen w1 now' gen' w2 now'' gen'' w3)
  have "db w3 = (db w)\<lparr>snapshots := snapshots (db w1), cases := cases (db w2), events := events (db w3)\<rparr>"
    using 1 by simp
  then have rec: "verdict_recorded org cid failed (EvaluateVerification v) (db w3)"
    by (intro verdict_recorded_complete [OF p, where ss = "snapshots (db w1)" and now = now' and es = "events (db w3)"])
      (use 1 v in simp_all)
  have "wp (send_event notify org ty payload)
      (\<lambda>_ w'. verdict_recorded org cid failed (EvaluateVerification v) (db w')) (\<lambda>_ _. True) w3" for ty payload
    by (rule wp_mono, rule wp_send_event [OF n, where P = "verdict_recorded org cid failed (EvaluateVerification v)"])
      (use rec verdict_recorded_notifies in blast)+
  with rec show ?case by auto
qed

lemma wp_verify_case:
  assumes "notifier_keeps (on_db only_notifies) org notify"
  shows "wp (verify_case notify org cid failed)
    (\<lambda>result w'. verdict_recorded org cid (length failed) result (db w')) (\<lambda>_ _. True) w"
  unfolding verify_case_def wp_simps sql_verifying_def
  by (rule wp_upd_ok, rule wp_mono [OF wp_count_case]) (auto intro: wp_record_verdict [OF assms])

text \<open>Whatever the loop over the actions did, the verdict is about the store it leaves.\<close>

lemma ExecuteAndVerify_recorded:
  assumes "notifier_keeps (on_db only_notifies) org notify"
    and "ExecuteAndVerify remote notify org cid user w = (Inr result, w')"
  shows "\<exists>failed. verdict_recorded org cid failed result (db w')"
proof -
  obtain failed u where "verify_case notify org cid failed u = (Inr result, w')"
    using assms(2) unfolding ExecuteAndVerify_def run_case_def
    by (auto elim!: bnd_InrE simp: fail_def split: if_splits prod.splits)
  then show ?thesis using wp_InrD [OF wp_verify_case [OF assms(1)]] by blast
qed

section \<open>Starting a run\<close>

text \<open>Without an approved case, a run ends at its first statement, before any remote action.\<close>

lemma exec_start_case:
  assumes "exec (sql_start_case org cid) w = (r, w')" and "count_where (\<lambda>c. lc_org c = org \<and> lc_id c = cid \<and> lc_status c = ''APPROVED'') (cases (db w)) = 0"
  shows "w' = w\<lparr>ticks := Suc (ticks w)\<rparr> \<and> (\<forall>n. r = Inr n \<longrightarrow> n = 0)"
proof -
  have none: "\<forall>c \<in> set (cases (db w)). \<not> (lc_org c = org \<and> lc_id c = cid \<and> lc_status c = ''APPROVED'')"
    using assms(2) by (simp only: count_where_0)
  then have same: "update_where (\<lambda>c. lc_org c = org \<and> lc_id c = cid \<and> lc_status c = ''APPROVED'') f (cases (db w)) = cases (db w)" for f
    by (auto simp: update_where_def intro!: map_idI)
  have "sql_start_case org cid now gen (db w) = Inr (0, db w)" for now gen
    using same assms(2) by (simp add: sql_start_case_def upd_def Let_def)
  then show ?thesis using assms(1)
    by (auto simp: exec_def Let_def split: fault.splits)
qed

lemma ExecuteAndVerify_unapproved:
  assumes "\<forall>c \<in> set (cases (db w)). lc_org c = org \<longrightarrow> lc_id c = cid \<longrightarrow> lc_status c \<noteq> ''APPROVED''"
  shows "\<exists>e. ExecuteAndVerify remote notify org cid user w = (Inl e, w\<lparr>ticks := Suc (ticks w)\<rparr>)"
proof -
  obtain r w' where st: "exec (sql_start_case org cid) w = (r, w')" by (cases "exec (sql_start_case org cid) w")
  have "count_where (\<lambda>c. lc_org c = org \<and> lc_id c = cid \<and> lc_status c = ''APPROVED'') (cases (db w)) = 0"
    using assms by (auto simp: count_where_0)
  from exec_start_case [OF st this] st show ?thesis
    by (cases r) (auto simp: ExecuteAndVerify_def bnd_def fail_def)
qed

text \<open>
  C11: Nothing runs without approval. If no case of the organization with this id is APPROVED (it is
  unknown, belongs to another tenant, is still in planning, is running or has ended), then
  \<open>ExecuteAndVerify\<close> fails, whatever the remote systems and the notifier are: nothing of the world
  changes but the count of database calls, so no provider is contacted and no row is written.
\<close>

theorem no_execution_without_approval:
  assumes "\<forall>c \<in> set (cases (db w)). lc_org c = org \<longrightarrow> lc_id c = cid \<longrightarrow> lc_status c \<noteq> ''APPROVED''"
  shows "\<exists>e. ExecuteAndVerify remote notify org cid user w = (Inl e, w\<lparr>ticks := Suc (ticks w)\<rparr>)"
  by (rule ExecuteAndVerify_unapproved [OF assms])

theorem no_execution_without_approval_witness:
  "\<exists>e. ExecuteAndVerify (\<lambda>_ _ _ _ _ _. ret True) None ''org-1'' ''case-1'' ''user-1''
     (sample_world (empty_store\<lparr>cases := [sample_case ''AWAITING_APPROVAL'']\<rparr>)) =
     (Inl e, (sample_world (empty_store\<lparr>cases := [sample_case ''AWAITING_APPROVAL'']\<rparr>))
        \<lparr>ticks := Suc (ticks (sample_world (empty_store\<lparr>cases := [sample_case ''AWAITING_APPROVAL'']\<rparr>)))\<rparr>)"
  by (rule no_execution_without_approval) (simp add: sample_world_def empty_store_def sample_case_def new_case_def)

text \<open>
  C1: VERIFIED means offboarded. When \<open>ExecuteAndVerify\<close> returns VERIFIED, then in the store it
  leaves every account linked to the case's person is DISABLED, no correlation candidate of the
  person is pending, the case has no manual action, and the case is closed as COMPLETED with the
  verdict VERIFIED; whatever the providers answered and whichever database calls failed.
\<close>

theorem verified_means_disabled:
  assumes "notifier_keeps (on_db only_notifies) org notify"
    and "ExecuteAndVerify remote notify org cid user w = (Inr Verified, w')"
  shows "\<exists>c. find_case org cid (db w') = Some c \<and>
    (\<forall>a \<in> set (linked_accounts org (lc_person c) (db w')). a_status a = ''DISABLED'') \<and>
    pending_candidates org (lc_person c) (db w') = [] \<and> manual_actions org cid (db w') = [] \<and>
    lc_status c = ''COMPLETED'' \<and> lc_verification c = Some ''VERIFIED''"
proof -
  obtain failed where rec: "verdict_recorded org cid failed Verified (db w')"
    using ExecuteAndVerify_recorded [OF assms] by blast
  then obtain c where c: "find_case org cid (db w') = Some c"
    and v: "EvaluateVerification (verdict_input org cid (lc_person c) failed (db w')) = Verified"
    and closed: "case_closed org cid Verified (db w')"
    by (auto simp: verdict_recorded_def)
  let ?as = "linked_accounts org (lc_person c) (db w')"
  from v have "count_where (\<lambda>a. True) ?as \<le> count_where (\<lambda>a. a_status a = ''DISABLED'') ?as"
    and rest: "pending_candidates org (lc_person c) (db w') = []" "manual_actions org cid (db w') = []"
    by (auto simp: EvaluateVerification_Verified verdict_input_def count_where_def)
  then have "\<forall>a \<in> set ?as. a_status a = ''DISABLED''"
    using count_where_all [of "\<lambda>a. True" ?as "\<lambda>a. a_status a = ''DISABLED''"] by blast
  moreover have "c \<in> set (cases (db w'))" "lc_org c = org" "lc_id c = cid"
    using c by (auto simp: find_case_def dest: find_SomeD)
  with closed have "lc_status c = ''COMPLETED'' \<and> lc_verification c = Some ''VERIFIED''"
    by (auto simp: case_closed_def final_case_def)
  ultimately show ?thesis using c rest by blast
qed

theorem verified_means_disabled_witness:
  "\<exists>c. find_case ''org-1'' ''case-1'' (db (snd sample_run)) = Some c \<and>
    pending_candidates ''org-1'' (lc_person c) (db (snd sample_run)) = [] \<and> lc_status c = ''COMPLETED''"
  using verified_means_disabled [OF _ sample_run_eq] by (fastforce simp: notifier_keeps_def)

section \<open>No second run\<close>

definition not_approved :: "string \<Rightarrow> string \<Rightarrow> store \<Rightarrow> bool" where
  "not_approved org cid d \<longleftrightarrow>
     (\<forall>c \<in> set (cases d). lc_org c = org \<longrightarrow> lc_id c = cid \<longrightarrow> lc_status c \<noteq> ''APPROVED'')"

definition stays_unapproved :: "string \<Rightarrow> string \<Rightarrow> store \<Rightarrow> store \<Rightarrow> bool" where
  "stays_unapproved org cid d d' \<longleftrightarrow> (not_approved org cid d \<longrightarrow> not_approved org cid d')"

interpretation unapproved: db_frame "stays_unapproved org cid" for org cid
  by unfold_locales (simp_all add: stays_unapproved_def)

lemma not_approved_cases: "cases d' = cases d \<Longrightarrow> stays_unapproved org cid d d'"
  by (simp add: stays_unapproved_def not_approved_def)

lemma not_approved_update:
  assumes "\<And>c. lc_status (f c) \<noteq> ''APPROVED''"
  shows "stays_unapproved org cid d (d\<lparr>cases := update_where P f (cases d)\<rparr>)"
  unfolding stays_unapproved_def not_approved_def
  by (auto elim!: update_whereE simp: assms)

lemma final_case_unapproved: "final_case r \<noteq> ''APPROVED''"
  by (simp add: final_case_def)

lemmas run_statements = sql_start_action_def sql_account_disabled_def sql_finish_action_def
  sql_insert_evidence_def sql_insert_snapshot_def sql_insert_event_def sql_verifying_def sql_complete_case_def

interpretation unapproved_run: case_frame "stays_unapproved o' c'" org cid for o' c' org cid
  by unfold_locales
    (auto simp: stmt_keeps_def upd_def run_statements final_case_unapproved
      intro!: not_approved_cases not_approved_update)

text \<open>Frames that do not look at notifications, for remote actions that leave the store alone.\<close>

lemma notifier_keeps_weaken:
  assumes "notifier_keeps (on_db only_notifies) org notify" and "\<And>d ns. R d (d\<lparr>notifications := ns\<rparr>)"
  shows "notifier_keeps (on_db R) org notify"
proof -
  have "only_notifies d d' \<Longrightarrow> R d d'" for d d' using assms(2) by (auto simp: only_notifies_def)
  with assms(1) show ?thesis unfolding notifier_keeps_def keeps_def on_db_def by blast
qed

lemma remote_keeps_weaken:
  assumes "remote_keeps (on_db (=)) org remote" and "\<And>d. R d d"
  shows "remote_keeps (on_db R) org remote"
  unfolding remote_keeps_def keeps_def on_db_def
proof (intro allI)
  fix con ty url ext act s
  have eq: "db s = db (snd (remote org con ty url ext act s))"
    using assms(1) [unfolded remote_keeps_def keeps_def on_db_def] by (elim allE)
  show "R (db s) (db (snd (remote org con ty url ext act s)))"
    by (rule subst [OF eq, where P = "R (db s)"]) (rule assms(2))
qed

lemma started_unapproved:
  assumes "exec (sql_start_case org cid) w = (r, w')"
  shows "db w' = db w \<or> not_approved org cid (db w')" and "r = Inr n \<Longrightarrow> not_approved org cid (db w')"
proof -
  let ?P = "\<lambda>c. lc_org c = org \<and> lc_id c = cid \<and> lc_status c = ''APPROVED''"
  have applied: "not_approved org cid d" if "sql_start_case org cid now gen (db w) = Inr (x, d)" for now gen x d
  proof -
    have d: "cases d = update_where ?P (\<lambda>c. c\<lparr>lc_status := ''RUNNING'', lc_started := Some now\<rparr>) (cases (db w))"
      using that by (auto simp: sql_start_case_def upd_def Let_def)
    show ?thesis unfolding not_approved_def d
    proof (intro ballI impI)
      fix c assume "c \<in> set (update_where ?P (\<lambda>c. c\<lparr>lc_status := ''RUNNING'', lc_started := Some now\<rparr>) (cases (db w)))"
        and "lc_org c = org" "lc_id c = cid"
      then show "lc_status c \<noteq> ''APPROVED''" by (cases rule: update_whereE) simp_all
    qed
  qed
  have "(db w' = db w \<or> not_approved org cid (db w')) \<and> (r = Inr n \<longrightarrow> not_approved org cid (db w'))"
    by (rule exec_cases [of "sql_start_case org cid" w]) (use assms applied in auto)
  then show "db w' = db w \<or> not_approved org cid (db w')" and "r = Inr n \<Longrightarrow> not_approved org cid (db w')" by auto
qed

lemma ExecuteAndVerify_once:
  assumes remote: "remote_keeps (on_db (=)) org remote" and notify: "notifier_keeps (on_db only_notifies) org notify"
    and run: "ExecuteAndVerify remote notify org cid user w = (r, w')"
  shows "db w' = db w \<or> not_approved org cid (db w')"
proof -
  obtain s u where st: "exec (sql_start_case org cid) w = (s, u)" by (cases "exec (sql_start_case org cid) w")
  show ?thesis
  proof (cases "s = Inr 1")
    case True
    have "run_case remote notify org cid u = (r, w')" using run st True by (simp add: ExecuteAndVerify_def bnd_def)
    moreover have "keeps (on_db (stays_unapproved org cid)) (run_case remote notify org cid)"
      by (intro unapproved_run.keeps_run_case remote_keeps_weaken [OF remote] notifier_keeps_weaken [OF notify])
        (simp_all add: not_approved_cases)
    ultimately have "on_db (stays_unapproved org cid) u w'" by (rule keepsD [rotated])
    with started_unapproved(2) [OF st True] show ?thesis by (simp add: on_db_def stays_unapproved_def)
  next
    case False
    then have "w' = u" using run st by (auto simp: ExecuteAndVerify_def bnd_def fail_def split: sum.splits if_splits)
    with started_unapproved(1) [OF st] show ?thesis by simp
  qed
qed

text \<open>
  C12: A case runs at most once. Once a call of \<open>ExecuteAndVerify\<close> has changed anything in the store,
  whether it ended with a verdict or broke off with an error, every further call for the case fails
  without changing anything and without contacting a provider.
\<close>

theorem no_second_run:
  assumes "remote_keeps (on_db (=)) org remote" and "notifier_keeps (on_db only_notifies) org notify"
    and "ExecuteAndVerify remote notify org cid user w = (r, w')" and "db w' \<noteq> db w"
  shows "\<exists>e. ExecuteAndVerify remote' notify' org cid user' w' = (Inl e, w'\<lparr>ticks := Suc (ticks w')\<rparr>)"
proof -
  have "not_approved org cid (db w')" using ExecuteAndVerify_once [OF assms(1-3)] assms(4) by blast
  then show ?thesis unfolding not_approved_def by (rule ExecuteAndVerify_unapproved)
qed

theorem no_second_run_witness:
  "\<exists>e. ExecuteAndVerify (\<lambda>_ _ _ _ _ _. ret True) None ''org-1'' ''case-1'' ''user-1'' (snd sample_run) =
     (Inl e, (snd sample_run)\<lparr>ticks := Suc (ticks (snd sample_run))\<rparr>)"
proof (rule no_second_run [OF _ _ sample_run_eq])
  show "remote_keeps (on_db (=)) ''org-1'' (\<lambda>_ _ _ _ _ _. ret True)"
    by (simp add: remote_keeps_def keeps_def on_db_def ret_def)
  show "notifier_keeps (on_db only_notifies) ''org-1'' None" by (simp add: notifier_keeps_def)
  show "db (snd sample_run) \<noteq> db (sample_world ((sample_store ''APPROVED'' ''ACTIVE'')\<lparr>actions := [sample_action]\<rparr>))"
    by (simp add: sample_run_def run_defs sample_defs execute_defs)
qed

end
