(* ===== verification/PlanProps.thy ===== *)
theory PlanProps
  imports LifecycleProps
begin

text \<open>
  \<open>PlanCase\<close> and \<open>ApproveCase\<close>: both are atomic, a plan covers exactly the linked accounts, plans
  write actions only where the connector allows them, and an approval touches only what was planned.
\<close>

section \<open>PlanCase\<close>

definition plan_items :: "string \<Rightarrow> string \<Rightarrow> store \<Rightarrow> plannedAction list" where
  "plan_items org cid d = map planned_of (plan_rows org cid d)"

text \<open>What a plan does to the store: one PLANNED action per item, the case awaiting approval.\<close>

definition actions_planned :: "string \<Rightarrow> string \<Rightarrow> plannedAction list \<Rightarrow> store \<Rightarrow> store \<Rightarrow> bool" where
  "actions_planned org cid planned d d' \<longleftrightarrow>
     (\<exists>new. actions d' = actions d @ new \<and>
        (\<forall>r \<in> set new. \<exists>item \<in> set planned. \<exists>aid now. r = new_action aid org cid item now)) \<and>
     (\<forall>item \<in> set planned. \<exists>r \<in> set (actions d'). la_org r = org \<and> la_idem r = action_key cid item)"

definition plan_applied :: "string \<Rightarrow> string \<Rightarrow> store \<Rightarrow> store \<Rightarrow> bool" where
  "plan_applied org cid d d' \<longleftrightarrow>
     (\<exists>c. find_case org cid d = Some c \<and> lc_status c = ''DRAFT'') \<and>
     plan_items org cid d \<noteq> [] \<and> actions_planned org cid (plan_items org cid d) d d' \<and>
     cases d' = update_where (\<lambda>c. lc_org c = org \<and> lc_id c = cid)
       (\<lambda>c. c\<lparr>lc_status := ''AWAITING_APPROVAL'',
          lc_summary := JObj [(''plannedActions'', JNum (int (length (plan_items org cid d))))]\<rparr>) (cases d) \<and>
     d' = d\<lparr>actions := actions d', cases := cases d', events := events d'\<rparr>"

lemma wp_insert_actions:
  "wp (for_each (\<lambda>item. exec (sql_insert_action org cid item)) planned)
     (\<lambda>_ w'. actions_planned org cid planned (db w) (db w') \<and> (\<exists>acts. db w' = (db w)\<lparr>actions := acts\<rparr>))
     (\<lambda>_ _. True) w"
proof -
  define I where "I = (\<lambda>(_ :: unit) (w' :: (store, 'a) world_scheme) rest. \<exists>done. planned = done @ rest \<and>
      actions_planned org cid done (db w) (db w') \<and> (\<exists>acts. db w' = (db w)\<lparr>actions := acts\<rparr>))"
  have "wp (fold_comp (\<lambda>_ item. exec (sql_insert_action org cid item)) () planned)
      (\<lambda>acc w'. I acc w' []) (\<lambda>_ _. True) w"
  proof (rule wp_fold_comp)
    show "I () w planned" unfolding I_def
      by (intro exI [of _ "[]"] conjI exI [of _ "actions (db w)"]) (simp_all add: actions_planned_def)
  next
    fix acc s x ys assume "I acc s (x # ys)"
    then obtain dn where dn: "planned = dn @ x # ys" and pl: "actions_planned org cid dn (db w) (db s)"
      and eq: "\<exists>acts. db s = (db w)\<lparr>actions := acts\<rparr>" by (auto simp: I_def)
    show "wp (exec (sql_insert_action org cid x)) (\<lambda>acc' s'. I acc' s' ys) (\<lambda>_ _. True) s"
    proof (rule wp_exec_ok)
      fix now gen y d assume st: "sql_insert_action org cid x now gen (db s) = Inr (y, d)"
      let ?n = "new_action (gen 0) org cid x now"
      have d: "(\<exists>r \<in> set (actions (db s)). la_org r = org \<and> la_idem r = action_key cid x) \<and> d = db s \<or>
          d = (db s)\<lparr>actions := actions (db s) @ [?n]\<rparr>"
        using st by (auto simp: sql_insert_action_def split: if_splits)
      have key: "la_org ?n = org \<and> la_idem ?n = action_key cid x" by (simp add: new_action_def)
      have "actions_planned org cid (dn @ [x]) (db w) d"
        using d
      proof
        assume "(\<exists>r \<in> set (actions (db s)). la_org r = org \<and> la_idem r = action_key cid x) \<and> d = db s"
        with pl show ?thesis by (auto simp: actions_planned_def)
      next
        assume d': "d = (db s)\<lparr>actions := actions (db s) @ [?n]\<rparr>"
        obtain new where new: "actions (db s) = actions (db w) @ new"
          "\<forall>r \<in> set new. \<exists>item \<in> set dn. \<exists>aid now. r = new_action aid org cid item now"
          using pl by (auto simp: actions_planned_def)
        have "actions d = actions (db w) @ (new @ [?n])" using d' new(1) by simp
        moreover have "\<forall>r \<in> set (new @ [?n]). \<exists>item \<in> set (dn @ [x]). \<exists>aid now. r = new_action aid org cid item now"
          using new(2) by auto
        moreover have "\<forall>item \<in> set (dn @ [x]). \<exists>r \<in> set (actions d). la_org r = org \<and> la_idem r = action_key cid item"
          using pl key d' by (auto simp: actions_planned_def)
        ultimately show ?thesis unfolding actions_planned_def by blast
      qed
      moreover have "\<exists>acts. d = (db w)\<lparr>actions := acts\<rparr>" using d eq by auto
      ultimately show "I y (s\<lparr>ticks := Suc (ticks s), db := d\<rparr>) ys" using dn
        unfolding I_def by (intro exI [of _ "dn @ [x]"]) simp
    qed
  qed
  then show ?thesis unfolding for_each_def by (rule wp_mono) (auto simp: I_def)
qed

lemma wp_plan_body:
  "wp (plan_body org cid)
    (\<lambda>planned w'. planned = plan_items org cid (db w) \<and> plan_applied org cid (db w) (db w')) (\<lambda>_ _. True) w"
proof -
  let ?Q = "\<lambda>planned w'. planned = plan_items org cid (db w) \<and> plan_applied org cid (db w) (db w')"
  have rest: "wp (bnd (for_each (\<lambda>item. exec (sql_insert_action org cid item)) planned) (\<lambda>_.
      if planned = [] then fail (Errorf ''no known identities for person'')
      else bnd (exec (sql_plan_case (int (length planned)) org cid)) (\<lambda>_.
           bnd (exec (sql_insert_event org cid ''PLAN_GENERATED''
                  ''Offboarding plan generated and awaits explicit approval'' (JObj []))) (\<lambda>_.
           ret planned)))) ?Q (\<lambda>_ _. True) t"
    if draft: "\<exists>c. find_case org cid (db w) = Some c \<and> lc_status c = ''DRAFT''" and t: "db t = db w"
      and planned: "planned = plan_items org cid (db w)" for planned and t :: "(store, 'a) world_scheme"
    unfolding wp_simps sql_plan_case_def sql_insert_event_def
  proof (rule wp_mono [OF wp_insert_actions], goal_cases)
    case (1 x u)
    then obtain acts where u: "actions_planned org cid planned (db w) (db u)" "db u = (db w)\<lparr>actions := acts\<rparr>"
      using t by auto
    show ?case
    proof (cases "planned = []")
      case False
      with u draft planned show ?thesis
        by (simp, intro wp_upd_ok) (auto simp: plan_applied_def actions_planned_def)
    qed simp
  qed
  show ?thesis
    unfolding plan_body_def
  proof (rule wp_bndI, rule wp_query_row_ok, goal_cases)
    case (1 status t)
    show ?case
    proof (cases "status = ''DRAFT''")
      case True
      then have draft: "\<exists>c. find_case org cid (db w) = Some c \<and> lc_status c = ''DRAFT''" using 1 by auto
      show ?thesis unfolding if_not_P [OF not_not [THEN iffD2, OF True]]
        by (rule wp_bndI, rule wp_query_rows)
          (use rest [OF draft] 1 in \<open>auto simp: wp_fail plan_items_def\<close>)
    qed (simp add: wp_fail)
  qed
qed

lemma wp_PlanCase:
  "wp (PlanCase org cid user)
    (\<lambda>planned w'. planned = plan_items org cid (db w) \<and> plan_applied org cid (db w) (db w'))
    (\<lambda>_ w'. db w' = db w \<or> (\<exists>planned. planned = plan_items org cid (db w) \<and> plan_applied org cid (db w) (db w'))) w"
  unfolding PlanCase_def by (rule wp_tx_db) (rule wp_mono [OF wp_plan_body], auto)


lemma plan_rows_mem:
  "(a, c) \<in> set (plan_rows org cid d) \<Longrightarrow> a \<in> set (accounts d) \<and> c \<in> set (connectors d) \<and>
     a_org a = org \<and> c_org c = org \<and> c_id c = a_connector a \<and>
     (\<exists>lc \<in> set (cases d). lc_org lc = org \<and> lc_id lc = cid \<and>
        (\<exists>l \<in> set (links d). l_org l = org \<and> l_person l = lc_person lc \<and> l_account l = a_id a))"
  by (fastforce simp: plan_rows_def split: if_splits)

lemma plan_action_write:
  "plan_action state ty write caps = ''DISABLE_ACCOUNT'' \<or> plan_action state ty write caps = ''REMOVE_MEMBERSHIP'' \<Longrightarrow>
     write \<and> state \<noteq> ''DISABLED'' \<and> Contains caps (plan_action state ty write caps) \<and>
     (ty = ''GITHUB'' \<longleftrightarrow> plan_action state ty write caps = ''REMOVE_MEMBERSHIP'')"
  by (auto simp: plan_action_def containsConnectorType_def split: if_splits)

text \<open>
  C18: Writes are planned only where writing is enabled. Every DISABLE_ACCOUNT or REMOVE_MEMBERSHIP
  action of a plan is for an account of the tenant, linked to the person and not already disabled,
  at a connector of the tenant whose write switch is on and whose capabilities name the action;
  accounts of GitHub are the only ones whose membership is removed instead of disabled.
\<close>

theorem plan_writes_where_enabled:
  assumes "PlanCase org cid user w = (Inr planned, w')" and "item \<in> set planned"
    and "pa_action item = ''DISABLE_ACCOUNT'' \<or> pa_action item = ''REMOVE_MEMBERSHIP''"
  shows "\<exists>a \<in> set (accounts (db w)). \<exists>c \<in> set (connectors (db w)).
    a_id a = pa_accountID item \<and> c_id c = pa_connectorID item \<and> a_org a = org \<and> c_org c = org \<and>
    (\<exists>lc \<in> set (cases (db w)). \<exists>l \<in> set (links (db w)). lc_id lc = cid \<and> l_org l = org \<and>
       l_person l = lc_person lc \<and> l_account l = a_id a) \<and>
    c_write_enabled c \<and> a_status a \<noteq> ''DISABLED'' \<and> Contains (jsonb_text (c_capabilities c)) (pa_action item) \<and>
    (c_type c = ''GITHUB'' \<longleftrightarrow> pa_action item = ''REMOVE_MEMBERSHIP'')"
proof -
  have "planned = plan_items org cid (db w)" using wp_InrD [OF wp_PlanCase assms(1)] by simp
  with assms(2) obtain a c where ac: "(a, c) \<in> set (plan_rows org cid (db w))" and item: "item = planned_of (a, c)"
    by (auto simp: plan_items_def)
  have act: "pa_action item = plan_action (a_status a) (c_type c) (c_write_enabled c) (jsonb_text (c_capabilities c))"
    by (simp add: item planned_of_def)
  have "c_write_enabled c \<and> a_status a \<noteq> ''DISABLED'' \<and> Contains (jsonb_text (c_capabilities c)) (pa_action item) \<and>
    (c_type c = ''GITHUB'' \<longleftrightarrow> pa_action item = ''REMOVE_MEMBERSHIP'')"
    using assms(3) unfolding act by (rule plan_action_write)
  moreover have "a_id a = pa_accountID item" "a_connector a = pa_connectorID item"
    by (simp_all add: item planned_of_def)
  ultimately show ?thesis using plan_rows_mem [OF ac] by metis
qed

lemma sample_caps: "Contains (jsonb_text (JArr [JStr ''DISABLE_ACCOUNT''])) ''DISABLE_ACCOUNT''"
  by code_simp

lemma sample_plan:
  "\<exists>w'. PlanCase ''org-1'' ''case-1'' ''user-1'' (sample_world (sample_store ''DRAFT'' ''ACTIVE'')) =
     (Inr [\<lparr>pa_accountID = ''acc-1'', pa_connectorID = ''conn-1'', pa_name = ''Directory'', pa_username = ''ana'',
       pa_state = ''ACTIVE'', pa_action = ''DISABLE_ACCOUNT'', pa_write = True\<rparr>], w')"
  using sample_caps
  by (simp add: PlanCase_def plan_body_def run_defs sample_defs find_case_def plan_rows_def planned_of_def
      plan_action_def containsConnectorType_def sql_insert_action_def sql_plan_case_def sql_insert_event_def)

theorem plan_writes_where_enabled_witness:
  "\<exists>c \<in> set (connectors (sample_store ''DRAFT'' ''ACTIVE'')). c_id c = ''conn-1'' \<and> c_write_enabled c"
proof -
  obtain w' where p: "PlanCase ''org-1'' ''case-1'' ''user-1'' (sample_world (sample_store ''DRAFT'' ''ACTIVE'')) =
     (Inr [\<lparr>pa_accountID = ''acc-1'', pa_connectorID = ''conn-1'', pa_name = ''Directory'', pa_username = ''ana'',
       pa_state = ''ACTIVE'', pa_action = ''DISABLE_ACCOUNT'', pa_write = True\<rparr>], w')"
    using sample_plan by blast
  from plan_writes_where_enabled [OF p list.set_intros(1)] show ?thesis
    by (auto simp: sample_world_def)
qed

section \<open>ApproveCase\<close>

definition approval_applied :: "string \<Rightarrow> string \<Rightarrow> string \<Rightarrow> store \<Rightarrow> store \<Rightarrow> bool" where
  "approval_applied org cid user d d' \<longleftrightarrow>
     count_where (\<lambda>c. lc_org c = org \<and> lc_id c = cid \<and> lc_status c = ''AWAITING_APPROVAL'') (cases d) = 1 \<and>
     (\<exists>now. cases d' = update_where (\<lambda>c. lc_org c = org \<and> lc_id c = cid \<and> lc_status c = ''AWAITING_APPROVAL'')
        (\<lambda>c. c\<lparr>lc_status := ''APPROVED'', lc_approved := Some now\<rparr>) (cases d)) \<and>
     actions d' = update_where (\<lambda>r. la_org r = org \<and> la_case r = cid \<and> la_status r = ''PLANNED'')
        (\<lambda>r. r\<lparr>la_status := ''APPROVED'', la_approved_by := Some user\<rparr>) (actions d) \<and>
     (\<exists>now. events d' = events d @ [\<lparr>ev_org = org, ev_case = cid, ev_type = ''APPROVED'',
        ev_summary = ''Offboarding plan explicitly approved'', ev_metadata = JObj [(''approvedBy'', JStr user)],
        ev_created = now\<rparr>]) \<and>
     d' = d\<lparr>cases := cases d', actions := actions d', events := events d'\<rparr>"

lemma wp_approve_body:
  "wp (approve_body org cid user) (\<lambda>_ w'. approval_applied org cid user (db w) (db w')) (\<lambda>_ _. True) w"
  unfolding approve_body_def sql_approve_case_def sql_approve_actions_def sql_insert_event_def Let_def
proof (rule wp_bndI, rule wp_upd_ok, goal_cases)
  case (1 now gen u)
  then show ?case
    by (auto simp: wp_fail intro!: wp_bndI wp_upd_ok) (auto simp: approval_applied_def)
qed

text \<open>
  C19: Approval is atomic and accountable. An \<open>ApproveCase\<close> that fails leaves the store as it was,
  unless only the acknowledgement of its commit was lost; otherwise exactly one case awaited
  approval and is now APPROVED, its PLANNED actions, and no others, are APPROVED under the name of
  the approver, and the approval is recorded as an event; nothing else changed.
\<close>

theorem approval_atomic:
  "case ApproveCase org cid user w of
     (Inr _, w') \<Rightarrow> approval_applied org cid user (db w) (db w')
   | (Inl _, w') \<Rightarrow> db w' = db w \<or> approval_applied org cid user (db w) (db w')"
proof -
  have "wp (ApproveCase org cid user) (\<lambda>_ w'. approval_applied org cid user (db w) (db w'))
      (\<lambda>_ w'. db w' = db w \<or> (\<exists>x :: unit. approval_applied org cid user (db w) (db w'))) w"
    unfolding ApproveCase_def by (rule wp_tx_db) (rule wp_mono [OF wp_approve_body], auto)
  then show ?thesis by (auto simp: wp_def split: prod.splits sum.splits)
qed

end
