(* ===== verification/CaseProps.thy ===== *)
theory CaseProps
  imports PlanProps
begin

text \<open>
  The evidence of a run and the status of a case: every executed action leaves evidence that matches
  its recorded outcome, and every operation moves cases only along the transitions of the domain's
  state machine.
\<close>

section \<open>Evidence\<close>

definition same_actions_evidence :: "store \<Rightarrow> store \<Rightarrow> bool" where
  "same_actions_evidence d d' \<longleftrightarrow> actions d' = actions d \<and> evidence d' = evidence d"

interpretation actions_evidence: db_frame same_actions_evidence
  by unfold_locales (simp_all add: same_actions_evidence_def)

lemmas actions_evidence_rules = actions_evidence.world.keeps_combinators actions_evidence.keeps_database
  actions_evidence.keeps_exec

lemma actions_evidence_statements:
  "stmt_keeps same_actions_evidence (sql_account_disabled org acc)"
  "stmt_keeps same_actions_evidence (sql_verifying org cid)"
  "stmt_keeps same_actions_evidence (sql_insert_snapshot org cid v status)"
  "stmt_keeps same_actions_evidence (sql_complete_case org cid final status v)"
  "stmt_keeps same_actions_evidence (sql_insert_event org cid ty summary meta)"
  by (auto simp: stmt_keeps_def same_actions_evidence_def upd_def run_statements)

lemma keeps_action_outcome:
  assumes "remote_keeps (on_db (=)) org remote"
  shows "keeps (on_db same_actions_evidence) (action_outcome remote org a failed)"
  unfolding action_outcome_def
  by (intro actions_evidence_rules actions_evidence_statements
      remote_keepsD remote_keeps_weaken [OF assms] actions_evidence.db_refl)

lemma keeps_send_event_weaken:
  assumes "db_frame R" and "notifier_keeps (on_db only_notifies) org notify" and "\<And>d ns. R d (d\<lparr>notifications := ns\<rparr>)"
  shows "keeps (on_db R) (send_event notify org ty payload)"
proof -
  have "keeps (on_db only_notifies) (send_event notify org ty payload)"
    unfolding send_event_def using assms(2)
    by (cases notify) (auto simp: notifier_keeps_def
        intro!: notifies.world.keeps_combinators notifies.keeps_database)
  with assms(3) show ?thesis unfolding keeps_def on_db_def only_notifies_def by metis
qed

lemma keeps_verify_case:
  assumes "notifier_keeps (on_db only_notifies) org notify"
  shows "keeps (on_db same_actions_evidence) (verify_case notify org cid failed)"
  unfolding verify_case_def count_case_def record_verdict_def Let_def
  by (intro actions_evidence_rules actions_evidence_statements
      keeps_send_event_weaken [OF actions_evidence.db_frame_axioms assms])
    (simp add: same_actions_evidence_def)

text \<open>An action row with an outcome has evidence when an evidence row of the case states that very
  outcome and summary under a hash of the stated content.\<close>

definition evidenced :: "string \<Rightarrow> string \<Rightarrow> action_row \<Rightarrow> store \<Rightarrow> bool" where
  "evidenced org cid r d \<longleftrightarrow> (\<exists>e \<in> set (evidence d). \<exists>s. le_org e = org \<and> le_case e = cid \<and> le_action e = la_id r \<and>
     la_summary r = JObj [(''message'', JStr s)] \<and> le_observed e = evidence_state (la_status r) s \<and>
     le_hash e = EncodeToString (Sum256 (Marshal (le_observed e))))"

definition evidence_complete :: "string \<Rightarrow> string \<Rightarrow> store \<Rightarrow> bool" where
  "evidence_complete org cid d \<longleftrightarrow> (\<forall>r \<in> set (actions d). la_org r = org \<longrightarrow> la_case r = cid \<longrightarrow>
     la_status r \<in> {''SUCCEEDED'', ''FAILED'', ''INCONCLUSIVE''} \<longrightarrow> evidenced org cid r d)"

lemma evidence_complete_same: "same_actions_evidence d d' \<Longrightarrow> evidence_complete org cid d \<Longrightarrow> evidence_complete org cid d'"
  by (simp add: same_actions_evidence_def evidence_complete_def evidenced_def)

lemma evidence_complete_start:
  assumes "evidence_complete org cid d"
  shows "evidence_complete org cid (snd (projr (sql_start_action org aid now gen d)))"
  unfolding evidence_complete_def
proof (intro ballI impI)
  let ?d = "snd (projr (sql_start_action org aid now gen d))"
  fix r assume r: "r \<in> set (actions ?d)" "la_org r = org" "la_case r = cid" "la_status r \<in> {''SUCCEEDED'', ''FAILED'', ''INCONCLUSIVE''}"
  from r(1) have "r \<in> set (actions d)"
    unfolding sql_start_action_def upd_def by (auto elim!: update_whereE) (use r(4) in auto)
  with assms r(2-4) have "evidenced org cid r d" unfolding evidence_complete_def by blast
  then show "evidenced org cid r ?d" by (simp add: evidenced_def sql_start_action_def upd_def)
qed

lemma evidence_complete_finish:
  assumes c: "evidence_complete org cid d"
    and d1: "sql_finish_action outcome summary org (av_id a) now gen d = Inr (x, d1)"
    and d2: "sql_insert_evidence org cid a outcome summary now' gen' d1 = Inr (y, d2)"
  shows "evidence_complete org cid d2"
  unfolding evidence_complete_def
proof (intro ballI impI)
  let ?e = "\<lparr>le_org = org, le_connector = av_connectorID a, le_account = av_accountID a, le_case = cid, le_action = av_id a,
       le_type = ''POST_ACTION_OBSERVATION'', le_summary = summary, le_observed = evidence_state outcome summary,
       le_hash = EncodeToString (Sum256 (Marshal (evidence_state outcome summary))), le_source_time = now',
       le_id = gen' 0, le_person = None, le_created = now'\<rparr>"
  fix r assume r: "r \<in> set (actions d2)" "la_org r = org" "la_case r = cid" "la_status r \<in> {''SUCCEEDED'', ''FAILED'', ''INCONCLUSIVE''}"
  let ?f = "\<lambda>r. r\<lparr>la_status := outcome, la_completed := Some now, la_summary := JObj [(''message'', JStr summary)],
          la_error := (if outcome = ''FAILED'' then Some ''POST_WRITE_VERIFICATION_FAILED'' else None)\<rparr>"
  have ev: "evidence d2 = evidence d @ [?e]"
    and ac: "actions d2 = update_where (\<lambda>r. la_org r = org \<and> la_id r = av_id a) ?f (actions d)"
    using d1 d2 by (auto simp: sql_finish_action_def sql_insert_evidence_def upd_def)
  from r(1) [unfolded ac] show "evidenced org cid r d2"
  proof (cases rule: update_whereE)
    case (hit s)
    then show ?thesis unfolding evidenced_def ev by (intro bexI [of _ ?e] exI [of _ summary]) auto
  next
    case miss
    with c r(2-4) have "evidenced org cid r d" unfolding evidence_complete_def by blast
    then show ?thesis unfolding evidenced_def ev by auto
  qed
qed

lemma wp_execute_action_evidence:
  assumes remote: "remote_keeps (on_db (=)) org remote" and c: "evidence_complete org cid (db w)"
  shows "wp (execute_action remote org cid failed a) (\<lambda>_ w'. evidence_complete org cid (db w')) (\<lambda>_ _. True) w"
proof (cases "av_status a = ''SUCCEEDED''")
  case True
  with c show ?thesis by (simp add: execute_action_def wp_ret)
next
  case False
  have start: "wp (exec (sql_start_action org (av_id a))) (\<lambda>_ w'. evidence_complete org cid (db w')) (\<lambda>_ _. True) w"
  proof (rule wp_exec_ok)
    fix now gen x d assume "sql_start_action org (av_id a) now gen (db w) = Inr (x, d)"
    then show "evidence_complete org cid (db (w\<lparr>ticks := Suc (ticks w), db := d\<rparr>))"
      using evidence_complete_start [OF c, of "av_id a" now gen] by simp
  qed
  have outcome: "wp (action_outcome remote org a failed)
      (\<lambda>_ w'. evidence_complete org cid (db w')) (\<lambda>_ _. True) u" if "evidence_complete org cid (db u)" for u
    by (rule wp_mono [OF keeps_wp [OF keeps_action_outcome [OF remote]]])
      (use that evidence_complete_same in \<open>auto simp: on_db_def\<close>)
  have finish: "wp (case p of (outcome, summary, f) \<Rightarrow>
          bnd (exec (sql_finish_action outcome summary org (av_id a))) (\<lambda>_.
          bnd (exec (sql_insert_evidence org cid a outcome summary)) (\<lambda>_. ret f)))
      (\<lambda>_ w'. evidence_complete org cid (db w')) (\<lambda>_ _. True) u" if "evidence_complete org cid (db u)" for u p
    unfolding case_prod_beta
    by (intro wp_bndI wp_exec_ok) (use evidence_complete_finish [OF that] in \<open>auto simp: wp_ret\<close>)
  show ?thesis unfolding execute_action_def if_not_P [OF False]
    by (rule wp_seqI [OF start], rule wp_seqI [OF outcome], assumption, rule finish)
qed

lemma wp_run_case_evidence:
  assumes remote: "remote_keeps (on_db (=)) org remote" and notify: "notifier_keeps (on_db only_notifies) org notify"
    and c: "evidence_complete org cid (db w)"
  shows "wp (run_case remote notify org cid) (\<lambda>_ w'. evidence_complete org cid (db w')) (\<lambda>_ _. True) w"
proof -
  have loop: "wp (fold_comp (execute_action remote org cid) [] acts) (\<lambda>_ w'. evidence_complete org cid (db w')) (\<lambda>_ _. True) u"
    if "evidence_complete org cid (db u)" for acts u
    by (rule wp_fold_comp [where I = "\<lambda>_ s _. evidence_complete org cid (db s)"])
      (use that wp_execute_action_evidence [OF remote] in auto)
  have verify: "wp (verify_case notify org cid failed) (\<lambda>_ w'. evidence_complete org cid (db w')) (\<lambda>_ _. True) u"
    if "evidence_complete org cid (db u)" for failed u
    by (rule wp_mono [OF keeps_wp [OF keeps_verify_case [OF notify]]])
      (use that evidence_complete_same in \<open>auto simp: on_db_def\<close>)
  have rest: "wp (bnd (liftE (scan_all scan_action rows)) (\<lambda>actions.
      bnd (fold_comp (execute_action remote org cid) [] actions) (\<lambda>failedSystems.
      verify_case notify org cid failedSystems))) (\<lambda>_ w'. evidence_complete org cid (db w')) (\<lambda>_ _. True) u"
    if "evidence_complete org cid (db u)" for rows u
    by (cases "scan_all scan_action rows")
      (auto simp: wp_liftE intro!: wp_bndI wp_mono [OF loop [OF that]] verify)
  show ?thesis unfolding run_case_def
    by (rule wp_bndI, rule wp_query_rows) (use c rest in auto)
qed

lemma evidence_complete_started:
  "sql_start_case org cid now gen d = Inr (n, d') \<Longrightarrow> same_actions_evidence d d'"
  by (auto simp: sql_start_case_def upd_def Let_def same_actions_evidence_def)

text \<open>
  C20: Every outcome has its evidence. If, before a run, each action of the case with the outcome
  SUCCEEDED, FAILED or INCONCLUSIVE has an evidence row that states this outcome and its summary under
  the SHA-256 of exactly that statement, then it is so after every run of \<open>ExecuteAndVerify\<close> that
  returns a verdict.
\<close>

theorem run_leaves_evidence:
  assumes "remote_keeps (on_db (=)) org remote" and "notifier_keeps (on_db only_notifies) org notify"
    and "evidence_complete org cid (db w)"
    and "ExecuteAndVerify remote notify org cid user w = (Inr result, w')"
  shows "evidence_complete org cid (db w')"
proof -
  have "wp (ExecuteAndVerify remote notify org cid user) (\<lambda>_ w'. evidence_complete org cid (db w')) (\<lambda>_ _. True) w"
    unfolding ExecuteAndVerify_def
  proof (rule wp_seqI [OF wp_exec_ok])
    fix now gen x d assume "sql_start_case org cid now gen (db w) = Inr (x, d)"
    then show "evidence_complete org cid (db (w\<lparr>ticks := Suc (ticks w), db := d\<rparr>))"
      using evidence_complete_same [OF evidence_complete_started assms(3)] by simp
  qed (auto simp: wp_fail intro: wp_run_case_evidence [OF assms(1,2)])
  from wp_InrD [OF this assms(4)] show ?thesis .
qed

theorem run_leaves_evidence_witness:
  "evidence_complete ''org-1'' ''case-1'' (db (snd sample_run))"
proof (rule run_leaves_evidence [OF _ _ _ sample_run_eq])
  show "remote_keeps (on_db (=)) ''org-1'' (\<lambda>_ _ _ _ _ _. ret True)"
    by (simp add: remote_keeps_def keeps_def on_db_def ret_def)
  show "notifier_keeps (on_db only_notifies) ''org-1'' None" by (simp add: notifier_keeps_def)
  show "evidence_complete ''org-1'' ''case-1''
      (db (sample_world ((sample_store ''APPROVED'' ''ACTIVE'')\<lparr>actions := [sample_action]\<rparr>)))"
    by (simp add: evidence_complete_def sample_defs)
qed

section \<open>The status of a case\<close>

abbreviation status_path :: "string \<Rightarrow> string \<Rightarrow> bool" where
  "status_path \<equiv> CanTransitionCase\<^sup>*\<^sup>*"

text \<open>Cases are never removed, never change their identity, and their status moves along transitions
  of the machine of \<open>domain.go\<close>.\<close>

definition case_step :: "case_row \<Rightarrow> case_row \<Rightarrow> bool" where
  "case_step c c' \<longleftrightarrow> lc_id c' = lc_id c \<and> lc_org c' = lc_org c \<and> lc_person c' = lc_person c \<and>
     lc_requested_by c' = lc_requested_by c \<and> status_path (lc_status c) (lc_status c')"

definition case_moves :: "store \<Rightarrow> store \<Rightarrow> bool" where
  "case_moves d d' \<longleftrightarrow> list_all2 case_step (cases d) (take (length (cases d)) (cases d'))"

lemma case_step_refl: "case_step c c" by (simp add: case_step_def)

lemma case_step_trans: "case_step a b \<Longrightarrow> case_step b c \<Longrightarrow> case_step a c"
  by (auto simp: case_step_def)

interpretation moves: db_frame case_moves
proof
  fix d d' d'' :: store
  show "case_moves d d" by (simp add: case_moves_def list_all2_refl case_step_refl)
  assume 1: "case_moves d d'" and 2: "case_moves d' d''"
  let ?n = "length (cases d)" and ?m = "length (cases d')"
  have le: "?n \<le> ?m" using list_all2_lengthD [OF 1 [unfolded case_moves_def]] by simp
  have "list_all2 case_step (take ?n (cases d')) (take ?n (take ?m (cases d'')))"
    by (rule list_all2_takeI [OF 2 [unfolded case_moves_def]])
  then have "list_all2 case_step (take ?n (cases d')) (take ?n (cases d''))" using le by (simp add: min_absorb1)
  with 1 show "case_moves d d''" unfolding case_moves_def
    by (rule list_all2_trans [OF case_step_trans, rotated 2])
qed

lemma case_moves_same: "cases d' = cases d \<Longrightarrow> case_moves d d'"
  by (simp add: case_moves_def list_all2_refl case_step_refl)

lemma case_moves_append: "cases d' = cases d @ cs \<Longrightarrow> case_moves d d'"
  by (simp add: case_moves_def list_all2_refl case_step_refl)

lemma case_moves_update:
  assumes "cases d' = update_where P f (cases d)" and "\<And>c. c \<in> set (cases d) \<Longrightarrow> P c \<Longrightarrow> case_step c (f c)"
  shows "case_moves d d'"
  using assms(2) unfolding case_moves_def assms(1)
  by (auto simp: update_where_def list_all2_conv_all_nth case_step_refl)

lemma status_paths:
  "status_path ''DRAFT'' ''AWAITING_APPROVAL''" "status_path ''AWAITING_APPROVAL'' ''APPROVED''"
  "status_path ''APPROVED'' ''RUNNING''" "status_path ''RUNNING'' ''VERIFYING''"
  "status_path ''VERIFYING'' (final_case r)"
  "s \<in> set [''DRAFT'', ''PLANNED'', ''AWAITING_APPROVAL'', ''APPROVED''] \<Longrightarrow> status_path s ''CANCELLED''"
proof -
  have "status_path ''DRAFT'' ''PLANNED''" "status_path ''PLANNED'' ''AWAITING_APPROVAL''"
    by (rule r_into_rtranclp, simp add: CanTransitionCase_iff)+
  then show "status_path ''DRAFT'' ''AWAITING_APPROVAL''" by (rule rtranclp_trans)
qed (auto simp: CanTransitionCase_iff final_case_def intro!: r_into_rtranclp)

text \<open>The statements that do not touch the cases, and those that move them by their own guard.\<close>

definition same_cases :: "store \<Rightarrow> store \<Rightarrow> bool" where
  "same_cases d d' \<longleftrightarrow> cases d' = cases d"

interpretation cases_kept: db_frame same_cases
  by unfold_locales (simp_all add: same_cases_def)

lemmas same_cases_rules = cases_kept.world.keeps_combinators cases_kept.keeps_database cases_kept.keeps_exec

lemma same_cases_statements:
  "stmt_keeps same_cases (sql_start_action org aid)"
  "stmt_keeps same_cases (sql_account_disabled org acc)"
  "stmt_keeps same_cases (sql_finish_action outcome summary org aid)"
  "stmt_keeps same_cases (sql_insert_evidence org cid av outcome summary)"
  "stmt_keeps same_cases (sql_insert_snapshot org cid v status)"
  "stmt_keeps same_cases (sql_insert_event org cid ty summary meta)"
  by (auto simp: stmt_keeps_def same_cases_def upd_def run_statements)

lemma moves_statements:
  "stmt_keeps case_moves (sql_insert_case cid org user person)"
  "stmt_keeps case_moves (sql_approve_case org cid)"
  "stmt_keeps case_moves (sql_approve_actions org cid user)"
  "stmt_keeps case_moves (sql_cancel_case org cid)"
  "stmt_keeps case_moves (sql_skip_actions org cid)"
  "stmt_keeps case_moves (sql_insert_event org cid ty summary meta)"
  "stmt_keeps case_moves (sql_audit org actor event rtype rid meta request)"
  "stmt_keeps case_moves (sql_start_case org cid)"
proof -
  show "stmt_keeps case_moves (sql_insert_case cid org user person)"
    by (auto simp: stmt_keeps_def sql_insert_case_def split: list.splits if_splits
        intro: case_moves_same case_moves_append)
  show "stmt_keeps case_moves (sql_approve_actions org cid user)" "stmt_keeps case_moves (sql_skip_actions org cid)"
    "stmt_keeps case_moves (sql_insert_event org cid ty summary meta)"
    "stmt_keeps case_moves (sql_audit org actor event rtype rid meta request)"
    by (auto simp: stmt_keeps_def upd_def sql_approve_actions_def sql_skip_actions_def sql_insert_event_def
        sql_audit_def intro: case_moves_same)
qed (auto simp: stmt_keeps_def upd_def Let_def sql_approve_case_def sql_cancel_case_def sql_start_case_def
      case_step_def status_paths intro!: case_moves_update)

lemmas moves_rules = moves.world.keeps_combinators moves.keeps_database moves.keeps_exec

text \<open>\<open>sql_verifying\<close> and \<open>sql_complete_case\<close> have no guard on the status: inside a run they are sound
  because the case was started by this run.\<close>

definition case_at :: "string \<Rightarrow> string \<Rightarrow> string \<Rightarrow> store \<Rightarrow> bool" where
  "case_at org cid status d \<longleftrightarrow> (\<forall>c \<in> set (cases d). lc_org c = org \<and> lc_id c = cid \<longrightarrow> lc_status c = status)"

definition case_ids_unique :: "store \<Rightarrow> bool" where
  "case_ids_unique d \<longleftrightarrow> distinct (map lc_id (cases d))"

lemma case_ids_uniqueD: "case_ids_unique d \<Longrightarrow> c \<in> set (cases d) \<Longrightarrow> c' \<in> set (cases d) \<Longrightarrow> lc_id c = lc_id c' \<Longrightarrow> c = c'"
  by (auto simp: case_ids_unique_def distinct_map dest: inj_onD)

lemma case_at_same: "same_cases d d' \<Longrightarrow> case_moves d0 d \<and> case_at org cid status d \<Longrightarrow>
    case_moves d0 d' \<and> case_at org cid status d'"
  by (simp add: same_cases_def case_moves_def case_at_def)

lemma case_at_update:
  assumes "case_at org cid status d" "cases d' = update_where (\<lambda>c. lc_org c = org \<and> lc_id c = cid) f (cases d)"
    and "\<And>c. lc_status c = status \<Longrightarrow> case_step c (f c) \<and> lc_status (f c) = status'"
  shows "case_moves d d' \<and> case_at org cid status' d'"
proof
  show "case_moves d d'" by (rule case_moves_update [OF assms(2)]) (use assms(1,3) in \<open>auto simp: case_at_def\<close>)
  show "case_at org cid status' d'" unfolding case_at_def
  proof (intro ballI impI)
    fix c assume "c \<in> set (cases d')" "lc_org c = org \<and> lc_id c = cid"
    then show "lc_status c = status'" unfolding assms(2)
      by (cases rule: update_whereE) (use assms(1,3) in \<open>auto simp: case_at_def case_step_def\<close>)
  qed
qed

lemma started_case_at:
  assumes "case_ids_unique d" and "sql_start_case org cid now gen d = Inr (1, d')"
  shows "case_at org cid ''RUNNING'' d'"
proof -
  let ?P = "\<lambda>c. lc_org c = org \<and> lc_id c = cid \<and> lc_status c = ''APPROVED''"
  have n: "count_where ?P (cases d) = 1"
    and d': "cases d' = update_where ?P (\<lambda>c. c\<lparr>lc_status := ''RUNNING'', lc_started := Some now\<rparr>) (cases d)"
    using assms(2) by (auto simp: sql_start_case_def upd_def Let_def)
  from n obtain a where a: "a \<in> set (cases d)" "?P a"
    using count_where_0 [of ?P "cases d"] by auto
  show ?thesis unfolding case_at_def
  proof (intro ballI impI)
    fix c assume "c \<in> set (cases d')" "lc_org c = org \<and> lc_id c = cid"
    then show "lc_status c = ''RUNNING''" unfolding d'
    proof (cases rule: update_whereE)
      case miss
      then have "c = a" using case_ids_uniqueD [OF assms(1) _ a(1)] \<open>lc_org c = org \<and> lc_id c = cid\<close> a(2) by blast
      with miss a(2) show ?thesis by blast
    qed simp
  qed
qed

text \<open>The intermediate assertions of a run: the cases moved properly so far, and its own case is at a
  given status.\<close>

definition moved_to :: "store \<Rightarrow> string \<Rightarrow> string \<Rightarrow> string \<Rightarrow> store \<Rightarrow> bool" where
  "moved_to d0 org cid status d \<longleftrightarrow> case_moves d0 d \<and> case_at org cid status d"

lemma wp_moved_keep:
  assumes "keeps (on_db same_cases) m" and "moved_to d0 org cid status (db w)"
  shows "wp m (\<lambda>_ w'. moved_to d0 org cid status (db w')) (\<lambda>_ w'. case_moves d0 (db w')) w"
  by (rule wp_mono [OF wp_carried [OF assms(1), where P = "moved_to d0 org cid status"]])
    (use assms(2) case_at_same in \<open>auto simp: moved_to_def\<close>)

lemma wp_moved_upd:
  assumes "moved_to d0 org cid status (db w)"
    and "\<And>now gen d. cases (snd (f now gen d)) = update_where (\<lambda>c. lc_org c = org \<and> lc_id c = cid) (g now) (cases d)"
    and "\<And>now c. lc_status c = status \<Longrightarrow> case_step c (g now c) \<and> lc_status (g now c) = status'"
  shows "wp (exec (upd f)) (\<lambda>_ w'. moved_to d0 org cid status' (db w')) (\<lambda>_ w'. case_moves d0 (db w')) w"
proof (rule wp_upd_db, goal_cases)
  case (1 now gen e w')
  have "case_moves (db w) (db w') \<and> case_at org cid status' (db w')"
    by (rule case_at_update [where f = "g now"]) (use 1 assms in \<open>auto simp: moved_to_def\<close>)
  with assms(1) show ?case unfolding moved_to_def using moves.db_trans by blast
qed (use assms(1) in \<open>simp add: moved_to_def\<close>)

lemma wp_moved_verifying:
  assumes "moved_to d0 org cid ''RUNNING'' (db w)"
  shows "wp (exec (sql_verifying org cid)) (\<lambda>_ w'. moved_to d0 org cid ''VERIFYING'' (db w')) (\<lambda>_ w'. case_moves d0 (db w')) w"
  unfolding sql_verifying_def
  by (rule wp_moved_upd [OF assms, where g = "\<lambda>_ c. c\<lparr>lc_status := ''VERIFYING''\<rparr>"])
    (use status_paths(4) in \<open>auto simp: case_step_def\<close>)

lemma wp_moved_complete:
  assumes "moved_to d0 org cid ''VERIFYING'' (db w)"
  shows "wp (exec (sql_complete_case org cid (final_case r) st v))
    (\<lambda>_ w'. moved_to d0 org cid (final_case r) (db w')) (\<lambda>_ w'. case_moves d0 (db w')) w"
  unfolding sql_complete_case_def
  by (rule wp_moved_upd [OF assms, where g = "\<lambda>now c. c\<lparr>lc_status := final_case r, lc_verification := Some st,
        lc_completed := Some now, lc_summary := JObj [(''managedIdentities'', JNum (Managed v)),
        (''disabledIdentities'', JNum (Disabled v)), (''activeIdentities'', JNum (ActiveN v)),
        (''unresolvedIdentities'', JNum (Unresolved v)), (''systemsFailed'', JNum (SystemsFailed v))]\<rparr>"])
    (use status_paths(5) in \<open>auto simp: case_step_def\<close>)

lemma moved_toD: "moved_to d0 org cid status d \<Longrightarrow> case_moves d0 d"
  by (simp add: moved_to_def)

lemma wp_moved_record:
  assumes notify: "notifier_keeps (on_db only_notifies) org notify" and "moved_to d0 org cid ''VERIFYING'' (db w)"
  shows "wp (record_verdict notify org cid v) (\<lambda>_ w'. case_moves d0 (db w')) (\<lambda>_ w'. case_moves d0 (db w')) w"
proof -
  let ?r = "EvaluateVerification v"
  have snap: "keeps (on_db same_cases) (exec (sql_insert_snapshot org cid v st))" for st
    by (intro same_cases_rules same_cases_statements)
  have rest: "keeps (on_db same_cases) (bnd (exec (sql_insert_event org cid ty summary meta)) (\<lambda>_.
      bnd (if ?r = Verified then ret () else send_event notify org ty' payload) (\<lambda>_. ret ?r)))" for ty summary meta ty' payload
    by (intro same_cases_rules same_cases_statements keeps_send_event_weaken [OF cases_kept.db_frame_axioms notify])
      (simp add: same_cases_def)
  show ?thesis unfolding record_verdict_def Let_def
    by (rule wp_seqI [OF wp_moved_keep [OF snap assms(2)]], rule wp_seqI [OF wp_moved_complete], assumption,
        rule wp_mono [OF wp_moved_keep [OF rest]], assumption) (auto dest: moved_toD)
qed

lemma wp_moved_verify:
  assumes "notifier_keeps (on_db only_notifies) org notify" and "moved_to d0 org cid ''RUNNING'' (db w)"
  shows "wp (verify_case notify org cid failed) (\<lambda>_ w'. case_moves d0 (db w')) (\<lambda>_ w'. case_moves d0 (db w')) w"
proof -
  have count: "keeps (on_db same_cases) (count_case org cid failed)"
    unfolding count_case_def Let_def by (intro same_cases_rules)
  show ?thesis unfolding verify_case_def
    by (rule wp_seqI [OF wp_moved_verifying [OF assms(2)]], rule wp_seqI [OF wp_moved_keep [OF count]], assumption,
        rule wp_moved_record [OF assms(1)])
qed

lemma wp_moved_run_case:
  assumes "remote_keeps (on_db (=)) org remote" and "notifier_keeps (on_db only_notifies) org notify"
    and "moved_to d0 org cid ''RUNNING'' (db w)"
  shows "wp (run_case remote notify org cid) (\<lambda>_ w'. case_moves d0 (db w')) (\<lambda>_ w'. case_moves d0 (db w')) w"
proof -
  have rows: "keeps (on_db same_cases) (query_rows (action_rows org cid))" by (intro same_cases_rules)
  have scan: "keeps (on_db same_cases) (liftE (scan_all scan_action rs))" for rs by (intro same_cases_rules)
  have loop: "keeps (on_db same_cases) (fold_comp (execute_action remote org cid) [] acts)" for acts
    unfolding execute_action_def action_outcome_def
    by (intro same_cases_rules same_cases_statements remote_keepsD remote_keeps_weaken [OF assms(1)]
        cases_kept.db_refl)
  show ?thesis unfolding run_case_def case_prod_beta
    by (rule wp_seqI [OF wp_moved_keep [OF rows assms(3)]], rule wp_seqI [OF wp_moved_keep [OF scan]], assumption,
        rule wp_seqI [OF wp_moved_keep [OF loop]], assumption, rule wp_moved_verify [OF assms(2)])
qed

lemma ExecuteAndVerify_moves:
  assumes "remote_keeps (on_db (=)) org remote" and "notifier_keeps (on_db only_notifies) org notify"
    and "case_ids_unique (db w)"
  shows "case_moves (db w) (db (snd (ExecuteAndVerify remote notify org cid user w)))"
proof -
  have moved: "case_moves (db w) d" if "sql_start_case org cid now gen (db w) = Inr (n, d)" for now gen n d
    using moves_statements(8) that by (auto simp: stmt_keeps_def)
  have start: "wp (exec (sql_start_case org cid))
      (\<lambda>n w'. case_moves (db w) (db w') \<and> (n = 1 \<longrightarrow> moved_to (db w) org cid ''RUNNING'' (db w')))
      (\<lambda>_ w'. case_moves (db w) (db w')) w"
  proof (rule wp_exec_db, goal_cases)
    case (1 now gen n d w' e)
    then show ?case using moved [OF 1(1)] started_case_at [OF assms(3)] by (auto simp: moved_to_def)
  qed (simp add: case_moves_same)
  have "wp (ExecuteAndVerify remote notify org cid user) (\<lambda>_ w'. case_moves (db w) (db w')) (\<lambda>_ w'. case_moves (db w) (db w')) w"
    unfolding ExecuteAndVerify_def
    by (rule wp_seqI [OF start]) (auto simp: wp_fail intro: wp_moved_run_case [OF assms(1,2)])
  then show ?thesis by (auto simp: wp_def split: prod.splits sum.splits)
qed

lemma plan_applied_moves:
  assumes "case_ids_unique d" and "plan_applied org cid d d'"
  shows "case_moves d d'"
proof -
  obtain a where a: "find_case org cid d = Some a" "lc_status a = ''DRAFT''"
    and d': "cases d' = update_where (\<lambda>c. lc_org c = org \<and> lc_id c = cid)
       (\<lambda>c. c\<lparr>lc_status := ''AWAITING_APPROVAL'',
          lc_summary := JObj [(''plannedActions'', JNum (int (length (plan_items org cid d))))]\<rparr>) (cases d)"
    using assms(2) unfolding plan_applied_def by blast
  have "a \<in> set (cases d)" "lc_id a = cid" using a(1) by (auto simp: find_case_def dest: find_SomeD)
  then have "lc_status c = ''DRAFT''" if "c \<in> set (cases d)" "lc_id c = cid" for c
    using case_ids_uniqueD [OF assms(1) that(1)] that(2) a(2) by metis
  then show ?thesis by (intro case_moves_update [OF d']) (auto simp: case_step_def status_paths(1))
qed

lemma PlanCase_moves: "case_ids_unique (db w) \<Longrightarrow> case_moves (db w) (db (snd (PlanCase org cid user w)))"
  using wp_PlanCase [of org cid user w] plan_applied_moves
  by (auto simp: wp_def case_moves_same split: prod.splits sum.splits)

text \<open>The primary key of the case table.\<close>

definition keeps_ids :: "store \<Rightarrow> store \<Rightarrow> bool" where
  "keeps_ids d d' \<longleftrightarrow> (case_ids_unique d \<longrightarrow> case_ids_unique d')"

interpretation ids: db_frame keeps_ids
  by unfold_locales (simp_all add: keeps_ids_def)

lemma keeps_ids_same: "cases d' = cases d \<Longrightarrow> keeps_ids d d'"
  by (simp add: keeps_ids_def case_ids_unique_def)

lemma keeps_ids_update: "cases d' = update_where P f (cases d) \<Longrightarrow> (\<And>c. lc_id (f c) = lc_id c) \<Longrightarrow> keeps_ids d d'"
  unfolding keeps_ids_def case_ids_unique_def update_where_def
  by (simp add: o_def if_distrib [of lc_id] cong: if_cong)

lemma ids_statements:
  "stmt_keeps keeps_ids (sql_insert_case cid org user person)"
  "stmt_keeps keeps_ids (sql_insert_action org cid item)"
  by (auto simp: stmt_keeps_def sql_insert_case_def sql_insert_action_def new_case_def keeps_ids_def case_ids_unique_def
      split: list.splits if_splits)

lemma ids_updates:
  "stmt_keeps keeps_ids (sql_approve_case org cid)" "stmt_keeps keeps_ids (sql_cancel_case org cid)"
  "stmt_keeps keeps_ids (sql_start_case org cid)" "stmt_keeps keeps_ids (sql_plan_case n org cid)"
  "stmt_keeps keeps_ids (sql_verifying org cid)" "stmt_keeps keeps_ids (sql_complete_case org cid final status v)"
  by (auto simp: stmt_keeps_def upd_def Let_def sql_approve_case_def sql_cancel_case_def sql_start_case_def
      sql_plan_case_def sql_verifying_def sql_complete_case_def intro!: keeps_ids_update)

lemma ids_unchanged:
  "stmt_keeps keeps_ids (sql_approve_actions org cid user)" "stmt_keeps keeps_ids (sql_skip_actions org cid)"
  "stmt_keeps keeps_ids (sql_insert_event org cid ty summary meta)"
  "stmt_keeps keeps_ids (sql_audit org actor event rtype rid meta request)"
  "stmt_keeps keeps_ids (sql_start_action org aid)" "stmt_keeps keeps_ids (sql_account_disabled org acc)"
  "stmt_keeps keeps_ids (sql_finish_action outcome summary org aid)"
  "stmt_keeps keeps_ids (sql_insert_evidence org cid av outcome summary)"
  "stmt_keeps keeps_ids (sql_insert_snapshot org cid v status)"
  by (auto simp: stmt_keeps_def upd_def run_statements sql_approve_actions_def sql_skip_actions_def sql_audit_def
      intro!: keeps_ids_same)

interpretation ids_run: case_frame keeps_ids org cid for org cid
  by unfold_locales (rule ids_updates ids_unchanged)+

lemmas ids_rules = ids.world.keeps_combinators ids.keeps_database ids.keeps_exec ids_statements ids_updates ids_unchanged

section \<open>Sequences of operations\<close>

text \<open>
  One operation of the lifecycle for the tenant \<open>org\<close>, with any outcome; \<open>notify\<close> and \<open>remote\<close> are the
  service's notifier and its remote actions.
\<close>

inductive lifecycle_step ::
  "((store, 'z) world_scheme) remote_action \<Rightarrow> ((store, 'z) world_scheme) notifier \<Rightarrow>
     string \<Rightarrow> (store, 'z) world_scheme \<Rightarrow> (store, 'z) world_scheme \<Rightarrow> bool" for remote notify org where
  create: "CreateCase org person user w = (r, w') \<Longrightarrow> lifecycle_step remote notify org w w'"
| plan: "PlanCase org cid user w = (p, w') \<Longrightarrow> lifecycle_step remote notify org w w'"
| approve: "ApproveCase org cid user w = (a, w') \<Longrightarrow> lifecycle_step remote notify org w w'"
| cancel: "cancelCase org cid user request w = (b, w') \<Longrightarrow> lifecycle_step remote notify org w w'"
| execute: "ExecuteAndVerify remote notify org cid user w = (v, w') \<Longrightarrow> lifecycle_step remote notify org w w'"

lemma lifecycle_step_ids:
  assumes "lifecycle_step remote notify org w w'" and "remote_keeps (on_db (=)) org remote"
    and "notifier_keeps (on_db only_notifies) org notify" and "case_ids_unique (db w)"
  shows "case_ids_unique (db w')"
proof -
  have run: "keeps (on_db keeps_ids) (run_case remote notify org cid)" for cid
    by (intro ids_run.keeps_run_case remote_keeps_weaken [OF assms(2)] notifier_keeps_weaken [OF assms(3)])
      (simp_all add: keeps_ids_same)
  from assms(1) have "on_db keeps_ids w w'"
  proof cases
    case create
    then show ?thesis by (rule keepsD [rotated]) (unfold CreateCase_def, intro ids_rules)
  next
    case plan
    then show ?thesis by (rule keepsD [rotated]) (unfold PlanCase_def plan_body_def, intro ids_rules)
  next
    case approve
    then show ?thesis by (rule keepsD [rotated]) (unfold ApproveCase_def approve_body_def, intro ids_rules)
  next
    case cancel
    then show ?thesis by (rule keepsD [rotated]) (unfold cancelCase_def, intro ids_rules)
  next
    case execute
    then show ?thesis by (rule keepsD [rotated]) (unfold ExecuteAndVerify_def, intro ids_rules run)
  qed
  with assms(4) show ?thesis by (simp add: on_db_def keeps_ids_def)
qed

lemma lifecycle_step_moves:
  assumes "lifecycle_step remote notify org w w'" and "remote_keeps (on_db (=)) org remote"
    and "notifier_keeps (on_db only_notifies) org notify" and "case_ids_unique (db w)"
  shows "case_moves (db w) (db w')"
  using assms(1)
proof cases
  case (create person user r)
  then have "on_db case_moves w w'"
    by (rule keepsD [rotated]) (unfold CreateCase_def, intro moves_rules moves_statements)
  then show ?thesis by (simp add: on_db_def)
next
  case (plan cid user p)
  with PlanCase_moves [OF assms(4), of org cid user] show ?thesis by simp
next
  case (approve cid user a)
  then have "on_db case_moves w w'"
    by (rule keepsD [rotated]) (unfold ApproveCase_def approve_body_def, intro moves_rules moves_statements)
  then show ?thesis by (simp add: on_db_def)
next
  case (cancel cid user request b)
  then have "on_db case_moves w w'"
    by (rule keepsD [rotated]) (unfold cancelCase_def, intro moves_rules moves_statements)
  then show ?thesis by (simp add: on_db_def)
next
  case (execute cid user v)
  with ExecuteAndVerify_moves [OF assms(2,3,4), of cid user] show ?thesis by simp
qed

text \<open>A service whose remote actions leave the database alone and whose notifier writes notifications only.\<close>

definition proper_service ::
  "((store, 'z) world_scheme) remote_action \<Rightarrow> ((store, 'z) world_scheme) notifier \<Rightarrow> bool" where
  "proper_service remote notify \<longleftrightarrow>
     (\<forall>org. remote_keeps (on_db (=)) org remote \<and> notifier_keeps (on_db only_notifies) org notify)"

definition lifecycle_steps ::
  "((store, 'z) world_scheme) remote_action \<Rightarrow> ((store, 'z) world_scheme) notifier \<Rightarrow>
     (store, 'z) world_scheme \<Rightarrow> (store, 'z) world_scheme \<Rightarrow> bool" where
  "lifecycle_steps remote notify = (\<lambda>w w'. \<exists>org. lifecycle_step remote notify org w w')\<^sup>*\<^sup>*"

interpretation lifecycle_inv: step_invariant "\<lambda>w w'. proper_service remote notify \<and> (\<exists>org. lifecycle_step remote notify org w w')"
  "\<lambda>w. case_ids_unique (db w)" for remote notify
  by unfold_locales (auto simp: proper_service_def intro: lifecycle_step_ids)

lemma lifecycle_steps_moves:
  assumes "proper_service remote notify" and "lifecycle_steps remote notify w w'" and "case_ids_unique (db w)"
  shows "case_moves (db w) (db w')"
proof -
  have "(\<lambda>w w'. proper_service remote notify \<and> (\<exists>org. lifecycle_step remote notify org w w'))\<^sup>*\<^sup>* w w'"
    using assms(1,2) by (simp add: lifecycle_steps_def)
  then show ?thesis
  proof (rule lifecycle_inv.stable_steps [where P = "\<lambda>u. case_moves (db w) (db u)"])
    fix u v assume u: "case_ids_unique (db u)" "case_moves (db w) (db u)"
      and step: "proper_service remote notify \<and> (\<exists>org. lifecycle_step remote notify org u v)"
    then have "case_moves (db u) (db v)" by (auto simp: proper_service_def intro: lifecycle_step_moves)
    with u(2) show "case_moves (db w) (db v)" by (rule moves.db_trans)
  qed (use assms(3) in \<open>simp_all add: case_moves_same\<close>)
qed



end
