(* ===== verification/Inventory.thy ===== *)
theory Inventory
  imports Sync CaseProps
begin

text \<open>
  What a synchronization promises about the account inventory: the abstract view of the accounts of
  one connector as a map from external ids to states, the specification of a complete discovery on
  that view, and the proof that the statements of the sync transactions implement it.
\<close>

section \<open>The abstract inventory\<close>

definition inventory :: "string \<Rightarrow> string \<Rightarrow> store \<Rightarrow> string \<rightharpoonup> string" where
  "inventory org con d ext = map_option a_status (List.find (is_account_key org con ext) (accounts d))"

text \<open>
  A complete discovery of the users \<open>us\<close> (external id and state): every one of them has the state it
  was last reported with, and every other known account is MISSING.
\<close>

definition sync_spec :: "(string \<times> string) list \<Rightarrow> (string \<rightharpoonup> string) \<Rightarrow> string \<rightharpoonup> string" where
  "sync_spec us m ext = (case map_of (rev us) ext of Some st \<Rightarrow> Some st | None \<Rightarrow> map_option (\<lambda>_. ''MISSING'') (m ext))"

definition of_connector :: "string \<Rightarrow> string \<Rightarrow> account_row \<Rightarrow> bool" where
  "of_connector org con a \<longleftrightarrow> a_org a = org \<and> a_connector a = con"

text \<open>The primary key and the unique key of the accounts table.\<close>

definition account_key :: "account_row \<Rightarrow> string \<times> string \<times> string" where
  "account_key a = (a_org a, a_connector a, a_external a)"

definition account_keys :: "store \<Rightarrow> bool" where
  "account_keys d \<longleftrightarrow> distinct (map a_id (accounts d)) \<and> distinct (map account_key (accounts d))"

text \<open>
  The effect of a complete synchronization on the accounts: the abstract view moves by the
  specification, the accounts of every other connector are untouched, no account is lost, and the
  table's keys hold.
\<close>

definition reflects :: "string \<Rightarrow> string \<Rightarrow> (string \<times> string) list \<Rightarrow> store \<Rightarrow> store \<Rightarrow> bool" where
  "reflects org con us d d' \<longleftrightarrow>
     inventory org con d' = sync_spec us (inventory org con d) \<and>
     filter (\<lambda>a. \<not> of_connector org con a) (accounts d') = filter (\<lambda>a. \<not> of_connector org con a) (accounts d) \<and>
     (\<exists>more. map a_id (accounts d') = map a_id (accounts d) @ more) \<and> account_keys d'"

lemma is_account_key_iff: "is_account_key org con ext a \<longleftrightarrow> account_key a = (org, con, ext)"
  by (auto simp: is_account_key_def account_key_def)

lemma distinct_map_eq: "distinct (map f xs) \<Longrightarrow> x \<in> set xs \<Longrightarrow> y \<in> set xs \<Longrightarrow> f x = f y \<Longrightarrow> x = y"
  by (metis distinct_map inj_onD)

section \<open>One account\<close>

text \<open>What the three upserts have in common: the row they insert and the columns they set.\<close>

definition account_write ::
  "string \<Rightarrow> string \<Rightarrow> string \<Rightarrow> string \<Rightarrow> (string \<Rightarrow> tstamp \<Rightarrow> account_row) \<Rightarrow> (tstamp \<Rightarrow> account_row \<Rightarrow> account_row) \<Rightarrow> bool" where
  "account_write org con ext st row set_columns \<longleftrightarrow>
     (\<forall>aid now. a_id (row aid now) = aid \<and> account_key (row aid now) = (org, con, ext) \<and> a_status (row aid now) = st) \<and>
     (\<forall>now a. a_id (set_columns now a) = a_id a \<and> account_key (set_columns now a) = account_key a \<and>
        a_status (set_columns now a) = st)"

text \<open>The invariant of the loop over the discovered users: \<open>us\<close> are those done so far, \<open>seen\<close> their account ids.\<close>

definition syncing :: "string \<Rightarrow> string \<Rightarrow> store \<Rightarrow> (string \<times> string) list \<Rightarrow> string list \<Rightarrow> store \<Rightarrow> bool" where
  "syncing org con d0 us seen d \<longleftrightarrow>
     account_keys d \<and> inventory org con d = inventory org con d0 ++ map_of (rev us) \<and>
     filter (\<lambda>a. \<not> of_connector org con a) (accounts d) = filter (\<lambda>a. \<not> of_connector org con a) (accounts d0) \<and>
     (\<exists>more. map a_id (accounts d) = map a_id (accounts d0) @ more) \<and>
     (\<forall>a \<in> set (accounts d). of_connector org con a \<longrightarrow> (a_id a \<in> set seen \<longleftrightarrow> a_external a \<in> fst ` set us))"

lemma syncing_start: "account_keys d \<Longrightarrow> syncing org con d [] [] d"
  by (simp add: syncing_def)

text \<open>An update of rows within one connector that leaves ids and keys alone.\<close>

lemma update_keeps_keys:
  assumes "\<And>a. a_id (f a) = a_id a" and "\<And>a. account_key (f a) = account_key a" and "\<And>a. P a \<Longrightarrow> of_connector org con a"
  shows "map a_id (update_where P f as) = map a_id as" "map account_key (update_where P f as) = map account_key as"
    "filter (\<lambda>a. \<not> of_connector org con a) (update_where P f as) = filter (\<lambda>a. \<not> of_connector org con a) as"
    "is_account_key org' con' ext (if P a then f a else a) = is_account_key org' con' ext a"
proof -
  have "of_connector org con (f a) = of_connector org con a" for a
    using assms(2) [of a] by (simp add: account_key_def of_connector_def)
  then show "filter (\<lambda>a. \<not> of_connector org con a) (update_where P f as) = filter (\<lambda>a. \<not> of_connector org con a) as"
    using assms(3) by (intro filter_update_where) auto
qed (simp_all add: assms(1,2) map_update_where is_account_key_iff)

lemma inventory_update:
  assumes "\<And>a. a_id (f a) = a_id a" and "\<And>a. account_key (f a) = account_key a" and "\<And>a. P a \<Longrightarrow> of_connector org con a"
  shows "inventory org con (d\<lparr>accounts := update_where P f (accounts d)\<rparr>) ext =
    map_option (\<lambda>a. a_status (if P a then f a else a)) (List.find (is_account_key org con ext) (accounts d))"
  by (simp add: inventory_def update_where_def find_map update_keeps_keys(4) [OF assms] option.map_comp comp_def)

lemma same_account:
  assumes "account_keys d" and "a \<in> set (accounts d)" and "b \<in> set (accounts d)"
    and "of_connector org con a" and "account_key b = (org, con, ext)"
  shows "a_id a = a_id b \<longleftrightarrow> a_external a = ext"
  using assms distinct_map_eq [of a_id "accounts d" a b] distinct_map_eq [of account_key "accounts d" a b]
  by (auto simp: account_keys_def account_key_def of_connector_def)

lemma seen_update:
  assumes "syncing org con d0 us seen d" and "b \<in> set (accounts d)" and "account_key b = (org, con, ext)"
    and "\<And>a. a_id (f a) = a_id a" and "\<And>a. account_key (f a) = account_key a"
    and "a \<in> set (update_where P f (accounts d))" and "of_connector org con a"
  shows "a_id a \<in> set (seen @ [a_id b]) \<longleftrightarrow> a_external a \<in> fst ` set (us @ [(ext, st)])"
proof -
  obtain c where c: "c \<in> set (accounts d)" and a: "a = (if P c then f c else c)"
    using assms(6) by (auto simp: set_update_where)
  have ac: "a_id a = a_id c" "account_key a = account_key c" using a assms(4,5) by simp_all
  then have "of_connector org con c" using assms(7) by (simp add: account_key_def of_connector_def)
  moreover have "account_keys d" using assms(1) by (simp add: syncing_def)
  ultimately show ?thesis
    using assms(1) c ac same_account [of d c b org con ext, OF _ c assms(2) _ assms(3)]
    by (auto simp: syncing_def account_key_def)
qed

lemma syncing_update:
  assumes "account_write org con ext st row set_columns" and s: "syncing org con d0 us seen d"
    and "List.find (is_account_key org con ext) (accounts d) = Some b"
  shows "syncing org con d0 (us @ [(ext, st)]) (seen @ [a_id b])
    (d\<lparr>accounts := update_where (is_account_key org con ext)
       (\<lambda>a. (set_columns now a)\<lparr>a_last_seen := now, a_missing := None, a_updated := now\<rparr>) (accounts d)\<rparr>)"
    (is "syncing _ _ _ _ _ (d\<lparr>accounts := update_where ?P ?f (accounts d)\<rparr>)")
proof -
  have f: "\<And>a. a_id (?f a) = a_id a" "\<And>a. account_key (?f a) = account_key a" "\<And>a. ?P a \<Longrightarrow> of_connector org con a"
    using assms(1) by (auto simp: account_write_def account_key_def is_account_key_def of_connector_def)
  have st: "a_status (?f a) = st" for a using assms(1) by (simp add: account_write_def)
  have b: "b \<in> set (accounts d)" "account_key b = (org, con, ext)"
    using find_SomeD [OF assms(3)] by (simp_all add: is_account_key_iff)
  have inv: "inventory org con (d\<lparr>accounts := update_where ?P ?f (accounts d)\<rparr>) = (inventory org con d)(ext \<mapsto> st)"
  proof
    fix e
    have i: "inventory org con (d\<lparr>accounts := update_where ?P ?f (accounts d)\<rparr>) e =
        map_option (\<lambda>a. a_status (if ?P a then ?f a else a)) (List.find (is_account_key org con e) (accounts d))"
      by (rule inventory_update [OF f])
    show "inventory org con (d\<lparr>accounts := update_where ?P ?f (accounts d)\<rparr>) e = ((inventory org con d)(ext \<mapsto> st)) e"
    proof (cases "e = ext")
      case True
      then show ?thesis using assms(3) st find_SomeD [OF assms(3)] i by simp
    next
      case False
      have "map_option (\<lambda>a. a_status (if ?P a then ?f a else a)) (List.find (is_account_key org con e) (accounts d)) =
          map_option a_status (List.find (is_account_key org con e) (accounts d))"
        using False by (intro option.map_cong0) (auto dest: find_SomeD simp: is_account_key_def elem_set)
      with False i show ?thesis by (simp add: inventory_def)
    qed
  qed
  show ?thesis unfolding syncing_def
    using s inv seen_update [OF s b f(1,2)] by (simp add: syncing_def account_keys_def update_keeps_keys [OF f])
qed

lemma syncing_insert:
  assumes w: "account_write org con ext st row set_columns" and s: "syncing org con d0 us seen d"
    and none: "List.find (is_account_key org con ext) (accounts d) = None" and new: "\<not> (\<exists>a \<in> set (accounts d). a_id a = aid)"
  shows "syncing org con d0 (us @ [(ext, st)]) (seen @ [aid]) (d\<lparr>accounts := accounts d @ [row aid now]\<rparr>)"
proof -
  have r: "a_id (row aid now) = aid" "account_key (row aid now) = (org, con, ext)" "a_status (row aid now) = st"
    "of_connector org con (row aid now)" "a_external (row aid now) = ext"
    using w by (simp_all add: account_write_def account_key_def of_connector_def)
  have absent: "account_key a \<noteq> (org, con, ext)" "of_connector org con a \<Longrightarrow> a_external a \<noteq> ext" if "a \<in> set (accounts d)" for a
    using none that by (auto simp: find_None_iff is_account_key_iff account_key_def of_connector_def)
  have inv: "inventory org con (d\<lparr>accounts := accounts d @ [row aid now]\<rparr>) = (inventory org con d)(ext \<mapsto> st)"
  proof
    fix e
    show "inventory org con (d\<lparr>accounts := accounts d @ [row aid now]\<rparr>) e = ((inventory org con d)(ext \<mapsto> st)) e"
      using none r by (auto simp: inventory_def find_append is_account_key_iff split: option.split)
  qed
  have "aid \<notin> a_id ` set (accounts d)" using new by auto
  moreover have "(org, con, ext) \<notin> account_key ` set (accounts d)" using absent(1) by (metis imageE)
  ultimately have "account_keys (d\<lparr>accounts := accounts d @ [row aid now]\<rparr>)"
    using s r by (simp add: syncing_def account_keys_def)
  moreover have "\<forall>a \<in> set (accounts d). of_connector org con a \<longrightarrow>
      (a_id a \<in> set (seen @ [aid]) \<longleftrightarrow> a_external a \<in> fst ` set (us @ [(ext, st)]))"
    using s new absent(2) by (auto simp: syncing_def)
  moreover obtain more where "map a_id (accounts d) = map a_id (accounts d0) @ more" using s by (auto simp: syncing_def)
  ultimately show ?thesis using s r inv by (simp add: syncing_def)
qed

lemma syncing_upsert:
  assumes "account_write org con ext st row set_columns" and "syncing org con d0 us seen d"
    and "sql_upsert_account org con ext row set_columns now gen d = Inr (aid, d')"
  shows "syncing org con d0 (us @ [(ext, st)]) (seen @ [aid]) d'"
  using assms(3) syncing_update [OF assms(1,2)] syncing_insert [OF assms(1,2)]
  by (auto simp: sql_upsert_account_def split: option.splits if_splits)

lemma account_writes:
  "\<exists>row set_columns. sql_scim_account org con u = sql_upsert_account org con (su_ID u) row set_columns \<and>
     account_write org con (su_ID u) (active_state (su_Active u)) row set_columns"
  "\<exists>row set_columns. sql_ldap_account org con e = sql_upsert_account org con (DN e) row set_columns \<and>
     account_write org con (DN e) (ldap_state e) row set_columns"
  "\<exists>row set_columns. sql_native_account org con ty p = sql_upsert_account org con (pu_ID p) row set_columns \<and>
     account_write org con (pu_ID p) (active_state (pu_Active p)) row set_columns"
  unfolding sql_scim_account_def sql_ldap_account_def sql_native_account_def Let_def
  by (intro exI conjI, rule refl, simp add: account_write_def account_key_def)+

text \<open>The accounts that were not seen become MISSING, whichever column tells which were seen.\<close>

lemma missing_reflects:
  assumes s: "syncing org con d0 us seen d"
    and k: "\<And>a. a \<in> set (accounts d) \<Longrightarrow> of_connector org con a \<Longrightarrow> (key a \<in> set ks \<longleftrightarrow> a_external a \<in> fst ` set us)"
    and m: "sql_mark_missing org con key ks now gen d = Inr (u, d')"
  shows "reflects org con us d0 d'"
proof -
  let ?P = "\<lambda>a. a_org a = org \<and> a_connector a = con \<and> key a \<notin> set ks"
  let ?f = "\<lambda>a. a\<lparr>a_status := ''MISSING'', a_missing := (case a_missing a of None \<Rightarrow> Some now | Some t \<Rightarrow> Some t), a_updated := now\<rparr>"
  have d': "d' = d\<lparr>accounts := update_where ?P ?f (accounts d)\<rparr>" using m by (simp add: sql_mark_missing_def upd_def)
  have f: "\<And>a. a_id (?f a) = a_id a" "\<And>a. account_key (?f a) = account_key a" "\<And>a. ?P a \<Longrightarrow> of_connector org con a"
    by (simp_all add: account_key_def of_connector_def)
  have "inventory org con d' ext = sync_spec us (inventory org con d0) ext" for ext
  proof -
    have i: "inventory org con d' ext = map_option (\<lambda>a. a_status (if ?P a then ?f a else a)) (List.find (is_account_key org con ext) (accounts d))"
      unfolding d' by (rule inventory_update [OF f])
    also have "\<dots> = map_option (\<lambda>a. if ext \<in> fst ` set us then a_status a else ''MISSING'') (List.find (is_account_key org con ext) (accounts d))"
    proof (cases "List.find (is_account_key org con ext) (accounts d)")
      case (Some a)
      then have "a \<in> set (accounts d)" "of_connector org con a" "a_external a = ext"
        using find_SomeD [OF Some] by (simp_all add: is_account_key_def of_connector_def)
      with Some show ?thesis using k [of a] by (auto simp: of_connector_def)
    qed simp
    also have "\<dots> = (if ext \<in> fst ` set us then inventory org con d ext else map_option (\<lambda>_. ''MISSING'') (inventory org con d ext))"
      by (simp add: inventory_def option.map_comp comp_def)
    also have "\<dots> = sync_spec us (inventory org con d0) ext"
      using s map_of_eq_None_iff [of "rev us" ext] by (auto simp: syncing_def sync_spec_def map_add_def split: option.split)
    finally show ?thesis .
  qed
  then show ?thesis
    using s unfolding reflects_def d' by (simp add: syncing_def account_keys_def update_keeps_keys [OF f] fun_eq_iff)
qed

end
