(* ===== verification/SyncProps.thy ===== *)
theory SyncProps
  imports Inventory
begin

text \<open>
  The synchronization as a whole: a run either leaves the inventory as it was or makes it reflect one
  complete discovery, and it never sends anything but reads to the provider.
\<close>

section \<open>Inventory tables\<close>

definition same_inventory :: "store \<Rightarrow> store \<Rightarrow> bool" where
  "same_inventory d d' \<longleftrightarrow> accounts d' = accounts d \<and> people d' = people d \<and> links d' = links d \<and> candidates d' = candidates d \<and>
     entitlements d' = entitlements d \<and> grants d' = grants d \<and> findings d' = findings d"

definition same_accounts :: "store \<Rightarrow> store \<Rightarrow> bool" where
  "same_accounts d d' \<longleftrightarrow> accounts d' = accounts d"

definition only_runs :: "store \<Rightarrow> store \<Rightarrow> bool" where
  "only_runs d d' \<longleftrightarrow> d'\<lparr>syncs := [], runs := []\<rparr> = d\<lparr>syncs := [], runs := []\<rparr>"

interpretation kept_inventory: db_frame same_inventory
  by unfold_locales (simp_all add: same_inventory_def)

interpretation kept_accounts: db_frame same_accounts
  by unfold_locales (simp_all add: same_accounts_def)

interpretation kept_runs: db_frame only_runs
  by unfold_locales (simp_all add: only_runs_def)

interpretation unchanged: db_frame "(=) :: store \<Rightarrow> store \<Rightarrow> bool"
  by unfold_locales simp_all

lemma only_runs_same:
  assumes "only_runs d d'"
  shows "same_inventory d d'" "connectors d' = connectors d" "accounts d' = accounts d"
proof -
  have "f (d'\<lparr>syncs := [], runs := []\<rparr>) = f (d\<lparr>syncs := [], runs := []\<rparr>)" for f :: "store \<Rightarrow> 'a"
    using assms by (simp add: only_runs_def)
  from this [of accounts] this [of people] this [of links] this [of candidates] this [of entitlements] this [of grants]
    this [of findings] this [of connectors]
  show "same_inventory d d'" "connectors d' = connectors d" "accounts d' = accounts d" by (simp_all add: same_inventory_def)
qed

lemma keeps_db_mono: "keeps (on_db R) m \<Longrightarrow> (\<And>d d'. R d d' \<Longrightarrow> R' d d') \<Longrightarrow> keeps (on_db R') m"
  by (simp add: keeps_def on_db_def)

lemma sends_same_db: "keeps (sends P) m \<Longrightarrow> keeps (on_db (=)) m"
  by (simp add: keeps_def sends_def on_db_def)

section \<open>Statements\<close>

lemma account_statements:
  "stmt_keeps same_accounts (sql_upsert_entitlement org con ext name)"
  "stmt_keeps same_accounts (sql_grant org ent src con ext)"
  "stmt_keeps same_accounts (sql_insert_link org person acct conf reason)"
  "stmt_keeps same_accounts (sql_insert_candidate org person acct conf reasons)"
  "stmt_keeps same_accounts (sql_insert_orphan org acct con reason)"
  "stmt_keeps same_accounts (sql_insert_duplicates org)"
  "stmt_keeps same_accounts (sql_sync_succeeded n m summary org run)"
  "stmt_keeps same_accounts (sql_connector_synced org con)"
  "stmt_keeps same_accounts (sql_run_succeeded n m found summary org run)"
  unfolding sql_upsert_entitlement_def sql_grant_def sql_insert_link_def sql_insert_candidate_def sql_insert_orphan_def
    sql_insert_duplicates_def sql_sync_succeeded_def sql_connector_synced_def sql_run_succeeded_def
  by (auto simp: stmt_keeps_def same_accounts_def upd_def split: option.splits if_splits)

lemmas accounts_rules = kept_accounts.world.keeps_combinators kept_accounts.keeps_database
  kept_accounts.keeps_exec [OF account_statements(1)] kept_accounts.keeps_exec [OF account_statements(2)]
  kept_accounts.keeps_exec [OF account_statements(3)] kept_accounts.keeps_exec [OF account_statements(4)]
  kept_accounts.keeps_exec [OF account_statements(5)] kept_accounts.keeps_exec [OF account_statements(6)]

lemma keeps_match_people: "keeps (on_db same_accounts) (match_people org counts a ps candidate)"
proof (induction ps arbitrary: candidate)
  case Nil
  show ?case by (simp add: kept_accounts.world.keeps_ret)
next
  case (Cons p ps)
  show ?case unfolding match_people.simps by (intro accounts_rules Cons.IH)
qed

lemma keeps_correlate: "keeps (on_db same_accounts) (correlate org con)"
  unfolding correlate_def correlate_account_def by (intro accounts_rules keeps_match_people)

lemma run_statements_inventory:
  "stmt_keeps only_runs (sql_start_sync run org con req)" "stmt_keeps only_runs (sql_start_run run org con)"
  "stmt_keeps same_inventory (sql_sync_failed code msg org run)" "stmt_keeps same_inventory (sql_connector_failed org con)"
  "stmt_keeps same_inventory (sql_run_failed code org run)"
  unfolding sql_start_sync_def sql_start_run_def sql_sync_failed_def sql_connector_failed_def sql_run_failed_def
  by (auto simp: stmt_keeps_def only_runs_def same_inventory_def upd_def
      split: if_splits)

section \<open>The transactions\<close>

text \<open>What remains of a transaction after the accounts were marked keeps the accounts.\<close>

lemma wp_keep_accounts:
  assumes "keeps (on_db same_accounts) m" and "\<And>d d'. same_accounts d d' \<Longrightarrow> P d \<Longrightarrow> P d'" and "P (db w)"
  shows "wp m (\<lambda>_ w'. P (db w')) (\<lambda>_ _. True) w"
  by (rule wp_mono [OF wp_carried [OF assms(1), of P]]) (use assms in auto)

lemma same_accounts_carried:
  "same_accounts d d' \<Longrightarrow> syncing org con d0 us seen d \<Longrightarrow> syncing org con d0 us seen d'"
  "same_accounts d d' \<Longrightarrow> reflects org con us d0 d \<Longrightarrow> reflects org con us d0 d'"
  by (simp_all add: same_accounts_def syncing_def reflects_def account_keys_def inventory_def fun_eq_iff)

definition finishes :: "(store networld, SyncResult) comp \<Rightarrow> int \<Rightarrow> bool" where
  "finishes m n \<longleftrightarrow> (\<forall>P w. (\<forall>d d'. same_accounts d d' \<longrightarrow> P d \<longrightarrow> P d') \<longrightarrow> P (db w) \<longrightarrow>
     wp m (\<lambda>r w'. P (db w') \<and> AccountsDiscovered r = n) (\<lambda>_ _. True) w)"

lemma finishesI:
  "finishes (bnd (correlate org con) (\<lambda>found.
      bnd (exec (sql_sync_succeeded n m summary org run)) (\<lambda>_. bnd (exec (sql_connector_synced org con)) (\<lambda>_.
      bnd (exec (sql_run_succeeded n m found summary' org run)) (\<lambda>_.
      ret \<lparr>RunID = run, AccountsDiscovered = n, GroupsDiscovered = m, FindingsCreated = found, SyncStatus = st\<rparr>))))) n"
  unfolding finishes_def
proof (intro allI impI)
  fix P :: "store \<Rightarrow> bool" and w :: "store networld"
  assume P: "\<forall>d d'. same_accounts d d' \<longrightarrow> P d \<longrightarrow> P d'" "P (db w)"
  have step: "keeps (on_db same_accounts) a \<Longrightarrow> P (db t) \<Longrightarrow> (\<And>x t'. P (db t') \<Longrightarrow> wp (k x) Q (\<lambda>_ _. True) t') \<Longrightarrow>
      wp (bnd a k) Q (\<lambda>_ _. True) t" for a :: "(store networld, 'x) comp" and k :: "'x \<Rightarrow> (store networld, SyncResult) comp" and Q t
    by (rule wp_seqI [OF wp_keep_accounts [of a P]]) (use P(1) in auto)
  show "wp (bnd (correlate org con) (\<lambda>found.
      bnd (exec (sql_sync_succeeded n m summary org run)) (\<lambda>_. bnd (exec (sql_connector_synced org con)) (\<lambda>_.
      bnd (exec (sql_run_succeeded n m found summary' org run)) (\<lambda>_.
      ret \<lparr>RunID = run, AccountsDiscovered = n, GroupsDiscovered = m, FindingsCreated = found, SyncStatus = st\<rparr>)))))
    (\<lambda>r w'. P (db w') \<and> AccountsDiscovered r = n) (\<lambda>_ _. True) w"
    by (intro step keeps_correlate kept_accounts.keeps_exec account_statements P(2)) (simp_all add: wp_ret)
qed

text \<open>The loop over the users, for the variants that collect the account ids.\<close>

lemma wp_users_seen:
  assumes w: "\<And>u. \<exists>row cols. stmt u = sql_upsert_account org con (ext u) row cols \<and> account_write org con (ext u) (st u) row cols"
    and keys: "account_keys (db w)"
  shows "wp (fold_comp (\<lambda>seen u. bnd (exec (stmt u)) (\<lambda>aid. ret (seen @ [aid]))) [] users)
    (\<lambda>seen w'. syncing org con (db w) (map (\<lambda>u. (ext u, st u)) users) seen (db w')) (\<lambda>_ _. True) w"
proof -
  let ?I = "\<lambda>seen t rest. \<exists>before. users = before @ rest \<and> syncing org con (db w) (map (\<lambda>u. (ext u, st u)) before) seen (db t)"
  have "wp (fold_comp (\<lambda>seen u. bnd (exec (stmt u)) (\<lambda>aid. ret (seen @ [aid]))) [] users) (\<lambda>seen t. ?I seen t []) (\<lambda>_ _. True) w"
  proof (rule wp_fold_comp [where I = ?I])
    show "?I [] w users" using syncing_start [OF keys] by simp
    fix seen t u rest assume "?I seen t (u # rest)"
    then obtain before where b: "users = before @ u # rest" "syncing org con (db w) (map (\<lambda>u. (ext u, st u)) before) seen (db t)"
      by blast
    obtain row cols where r: "stmt u = sql_upsert_account org con (ext u) row cols" "account_write org con (ext u) (st u) row cols"
      using w by blast
    show "wp (bnd (exec (stmt u)) (\<lambda>aid. ret (seen @ [aid]))) (\<lambda>seen' t'. ?I seen' t' rest) (\<lambda>_ _. True) t"
      unfolding wp_bnd wp_ret r(1)
      by (rule wp_exec_ok, rule exI [of _ "before @ [u]"]) (use b syncing_upsert [OF r(2) b(2)] in auto)
  qed
  then show ?thesis by (rule wp_mono) auto
qed

lemma wp_groups:
  assumes "\<And>g. keeps (on_db same_accounts) (each g)" and "syncing org con d0 us seen (db w)"
  shows "wp (for_each each gs) (\<lambda>_ w'. syncing org con d0 us seen (db w')) (\<lambda>_ _. True) w"
  by (rule wp_keep_accounts [where P = "syncing org con d0 us seen"])
    (use assms same_accounts_carried(1) in \<open>auto intro: kept_accounts.world.keeps_for_each\<close>)

lemma wp_mark_missing:
  assumes "syncing org con d0 us seen (db w)"
    and "\<And>a. a \<in> set (accounts (db w)) \<Longrightarrow> of_connector org con a \<Longrightarrow> (key a \<in> set ks \<longleftrightarrow> a_external a \<in> fst ` set us)"
  shows "wp (exec (sql_mark_missing org con key ks)) (\<lambda>_ w'. reflects org con us d0 (db w')) (\<lambda>_ _. True) w"
  by (rule wp_exec_ok) (use missing_reflects [OF assms] in simp)

lemma wp_finish:
  assumes "finishes m n" and "reflects org con us d0 (db w)"
  shows "wp m (\<lambda>r w'. reflects org con us d0 (db w') \<and> AccountsDiscovered r = n) (\<lambda>_ _. True) w"
proof -
  have "\<forall>d d'. same_accounts d d' \<longrightarrow> reflects org con us d0 d \<longrightarrow> reflects org con us d0 d'"
    by (simp add: same_accounts_carried(2))
  with assms(2) show ?thesis
    by (intro assms(1) [unfolded finishes_def, THEN spec, of "reflects org con us d0", THEN spec, of w, THEN mp, THEN mp])
qed

lemma wp_scim_body:
  assumes "account_keys (db w)"
  shows "wp (scim_body org con name run users groups)
    (\<lambda>r w'. reflects org con (map (\<lambda>u. (su_ID u, active_state (su_Active u))) users) (db w) (db w') \<and>
       AccountsDiscovered r = int (length users)) (\<lambda>_ _. True) w"
  unfolding scim_body_def Let_def
  by (rule wp_seqI [OF wp_users_seen [where ext = su_ID and st = "\<lambda>u. active_state (su_Active u)", OF account_writes(1) assms]],
      rule wp_seqI [OF wp_groups], intro accounts_rules, assumption,
      rule wp_seqI [OF wp_mark_missing], assumption, simp add: syncing_def)
    (rule wp_finish [OF finishesI])

lemma wp_native_body:
  assumes "account_keys (db w)"
  shows "wp (native_body org con name ty run users groups)
    (\<lambda>r w'. reflects org con (map (\<lambda>u. (pu_ID u, active_state (pu_Active u))) users) (db w) (db w') \<and>
       AccountsDiscovered r = int (length users)) (\<lambda>_ _. True) w"
  unfolding native_body_def Let_def
  by (rule wp_seqI [OF wp_users_seen [where ext = pu_ID and st = "\<lambda>u. active_state (pu_Active u)", OF account_writes(3) assms]],
      rule wp_seqI [OF wp_groups], intro accounts_rules, assumption,
      rule wp_seqI [OF wp_mark_missing], assumption, simp add: syncing_def)
    (rule wp_finish [OF finishesI])

lemma wp_users:
  assumes w: "\<And>u. \<exists>row cols. stmt u = sql_upsert_account org con (ext u) row cols \<and> account_write org con (ext u) (st u) row cols"
    and keys: "account_keys (db w)"
  shows "wp (for_each (\<lambda>u. bnd (exec (stmt u)) (\<lambda>_. ret ())) users)
    (\<lambda>_ w'. \<exists>seen. syncing org con (db w) (map (\<lambda>u. (ext u, st u)) users) seen (db w')) (\<lambda>_ _. True) w"
proof -
  let ?I = "\<lambda>_ t rest. \<exists>before seen. users = before @ rest \<and> syncing org con (db w) (map (\<lambda>u. (ext u, st u)) before) seen (db t)"
  have "wp (fold_comp (\<lambda>_ u. bnd (exec (stmt u)) (\<lambda>_. ret ())) () users) (\<lambda>a t. ?I a t []) (\<lambda>_ _. True) w"
  proof (rule wp_fold_comp [where I = ?I])
    show "?I () w users" using syncing_start [OF keys] by auto
    fix a t u rest assume "?I a t (u # rest)"
    then obtain before seen where b: "users = before @ u # rest" "syncing org con (db w) (map (\<lambda>u. (ext u, st u)) before) seen (db t)"
      by blast
    obtain row cols where r: "stmt u = sql_upsert_account org con (ext u) row cols" "account_write org con (ext u) (st u) row cols"
      using w by blast
    show "wp (bnd (exec (stmt u)) (\<lambda>_. ret ())) (\<lambda>a t'. ?I a t' rest) (\<lambda>_ _. True) t"
      unfolding wp_bnd wp_ret r(1)
      by (rule wp_exec_ok, rule exI [of _ "before @ [u]"]) (use b syncing_upsert [OF r(2) b(2)] in fastforce)
  qed
  then show ?thesis unfolding for_each_def by (rule wp_mono) auto
qed

lemma wp_ldap_body:
  assumes "account_keys (db w)"
  shows "wp (ldap_body org con name run users groups)
    (\<lambda>r w'. reflects org con (map (\<lambda>e. (DN e, ldap_state e)) users) (db w) (db w') \<and>
       AccountsDiscovered r = int (length users)) (\<lambda>_ _. True) w"
proof -
  let ?us = "map (\<lambda>e. (DN e, ldap_state e)) users"
  have marked: "wp (exec (sql_mark_missing org con a_external (map DN users))) (\<lambda>_ w'. reflects org con ?us (db w) (db w')) (\<lambda>_ _. True) t"
    if "\<exists>seen. syncing org con (db w) ?us seen (db t)" for t
    using that by (auto intro!: wp_mark_missing simp: image_comp comp_def)
  have grouped: "wp (for_each each gs) (\<lambda>_ w'. reflects org con ?us (db w) (db w')) (\<lambda>_ _. True) t"
    if "\<And>g. keeps (on_db same_accounts) (each g)" "reflects org con ?us (db w) (db t)" for each gs and t :: "store networld"
    by (rule wp_keep_accounts [where P = "reflects org con ?us (db w)"])
      (use that same_accounts_carried(2) in \<open>auto intro: kept_accounts.world.keeps_for_each\<close>)
  show ?thesis unfolding ldap_body_def Let_def
    by (rule wp_seqI [OF wp_users [where ext = DN and st = ldap_state, OF account_writes(2) assms]],
        rule wp_seqI [OF marked], assumption, rule wp_seqI [OF grouped], intro accounts_rules, assumption)
      (rule wp_finish [OF finishesI])
qed

section \<open>The whole synchronization\<close>

text \<open>\<open>discovered s org con d us\<close>: the users \<open>us\<close> are what the client of the connector stored in \<open>d\<close> reported in full.\<close>

inductive discovered :: "Service \<Rightarrow> string \<Rightarrow> string \<Rightarrow> store \<Rightarrow> (string \<times> string) list \<Rightarrow> bool" where
  by_scim: "discovered s org con d (map (\<lambda>u. (su_ID u, active_state (su_Active u))) users)"
  if "find_connector org con (\<lambda>c. c_type c = ''SCIM_2_0'') d = Some c" "c_base_url c = Some baseURL"
    "Scim.New baseURL tok (AllowHTTP s) = Inr cl" "Scim.ListUsers cl 100 w1 = (Inr users, (w2 :: store networld))"
| by_ldap: "discovered s org con d (map (\<lambda>e. (DN e, ldap_state e)) users)"
  if "find_connector org con (\<lambda>c. c_type c = ''LDAP_DIRECTORY'') d = Some c"
    "ldap_values (coalesce_empty (c_base_url c)) (c_configuration c) = Some cfg"
    "Ldap.New (cfg\<lparr>Password := pw\<rparr>) = Inr cl" "Ldap.SearchUsers cl w1 = (Inr users, (w2 :: store networld))"
| by_native: "discovered s org con d (map (\<lambda>u. (pu_ID u, active_state (pu_Active u))) users)"
  if "find_connector org con (\<lambda>c. c_type c \<in> set native_types) d = Some c"
    "new_native (c_type c) (coalesce_empty (c_base_url c)) credential configuration (AllowHTTP s) = Inr cl"
    "Client.ListUsers cl w1 = (Inr users, (w2 :: store networld))"

text \<open>What the service needs of its parts: reading secrets leaves the database alone, and the notifier only notifies.\<close>

definition secrets_keep :: "(store networld \<Rightarrow> store networld \<Rightarrow> bool) \<Rightarrow> Service \<Rightarrow> bool" where
  "secrets_keep R s \<longleftrightarrow> (\<forall>Decrypt c. Secrets s = Some Decrypt \<longrightarrow> keeps R (Decrypt c))"

lemmas unchanged_rules = unchanged.world.keeps_combinators unchanged.keeps_database

lemma keeps_connectorToken:
  assumes "secrets_keep (on_db (=)) s"
  shows "keeps (on_db (=)) (connectorToken s org con)"
  unfolding connectorToken_def
  by (cases "Secrets s") (use assms in \<open>auto simp: secrets_keep_def intro!: unchanged_rules\<close>)

lemma keeps_ldapConfiguration:
  assumes "secrets_keep (on_db (=)) s"
  shows "keeps (on_db (=)) (ldapConfiguration s org con)"
  unfolding ldapConfiguration_def by (intro unchanged_rules keeps_connectorToken assms)

lemma keeps_nativeClient:
  assumes "secrets_keep (on_db (=)) s"
  shows "keeps (on_db (=)) (nativeClient s org con)"
  unfolding nativeClient_def by (intro unchanged_rules keeps_connectorToken assms)

text \<open>The clients never touch the database.\<close>

lemma keeps_ldap_do: "keeps (on_db (=)) (ldap_do op)"
  by (simp add: keeps_def ldap_do_def on_db_def)

lemma keeps_ctx_open: "keeps (on_db (=)) ctx_open"
  by (simp add: keeps_def ctx_open_def on_db_def)

lemma keeps_asks: "keeps (on_db (=)) (asks f)"
  by (simp add: keeps_def asks_def on_db_def)

lemmas ldap_rules = unchanged_rules keeps_ldap_do keeps_ctx_open keeps_asks

lemma keeps_ldap_client:
  "keeps (on_db (=)) (Ldap.SearchUsers cl :: (store networld, Entry list) comp)"
  "keeps (on_db (=)) (Ldap.SearchGroups cl :: (store networld, Entry list) comp)"
  "keeps (on_db (=)) (Ldap.GetUser cl dn :: (store networld, Entry) comp)"
  "keeps (on_db (=)) (Ldap.DisableUser cl dn :: (store networld, unit) comp)"
  unfolding Ldap.SearchUsers_def Ldap.SearchGroups_def Ldap.search_def Ldap.GetUser_def Ldap.DisableUser_def dial_def ldap_ok_def
  by (intro ldap_rules)+

text \<open>What \<open>new_native\<close> returns is the client of one of the four providers, so that the contract holds for it.\<close>

definition on_base :: "string \<Rightarrow> http_request \<Rightarrow> bool" where
  "on_base baseURL q \<longleftrightarrow> (\<exists>u. Parse baseURL = Some u \<and> same_origin u (q_url q))"

lemma New_on_base: "NativeHttp.New baseURL headers allowHTTP = Inr c \<Longrightarrow> NativeHttp.on_origin c q \<Longrightarrow> on_base baseURL q"
  by (auto simp: NativeHttp.New_def on_base_def NativeHttp.on_origin_def same_origin_def split: option.splits if_splits)

lemma new_native_contract:
  assumes "new_native ty baseURL credential configuration allowHTTP = Inr cl"
  obtains http where "native_client http cl" "\<And>q. NativeHttp.on_origin http q \<Longrightarrow> on_base baseURL q"
proof -
  consider (entra) c where "Entra.New baseURL credential allowHTTP = Inr c" "cl = Entra.client c"
    | (okta) c where "Okta.New baseURL credential allowHTTP = Inr c" "cl = Okta.client c"
    | (google) c where "GoogleWorkspace.New baseURL credential (fst configuration) allowHTTP = Inr c" "cl = GoogleWorkspace.client c"
    | (github) c where "GitHub.New baseURL credential (snd configuration) allowHTTP = Inr c" "cl = GitHub.client c"
    using assms by (auto simp: new_native_def map_sum_def split: if_splits sum.splits)
  then show thesis
  proof cases
    case entra
    then show thesis using New_on_base
      by (intro that [of c]) (auto simp: Entra.New_def entra.native_client_axioms split: if_splits)
  next
    case okta
    then show thesis using New_on_base
      by (intro that [of c]) (auto simp: Okta.New_def okta.native_client_axioms split: if_splits)
  next
    case google
    then show thesis using New_on_base
      by (intro that [of "go_http c"]) (auto simp: GoogleWorkspace.New_def google.native_client_axioms split: if_splits sum.splits)
  next
    case github
    then show thesis using New_on_base
      by (intro that [of "gh_http c"]) (auto simp: GitHub.New_def github.native_client_axioms split: if_splits sum.splits)
  qed
qed

lemma keeps_native_lists:
  assumes "new_native ty baseURL credential configuration allowHTTP = Inr cl"
  shows "keeps (on_db (=)) (Client.ListUsers cl)" "keeps (on_db (=)) (Client.ListGroups cl)"
    "keeps (on_db (=)) (Client.GetUser cl uid)" "keeps (on_db (=)) (Client.DisableUser cl uid)"
proof -
  obtain http where "native_client http cl" using new_native_contract [OF assms] by metis
  from native_client.reads_ListUsers [OF this] native_client.reads_ListGroups [OF this]
    native_client.reads_GetUser [OF this] native_client.stays_DisableUser [OF this]
  show "keeps (on_db (=)) (Client.ListUsers cl)" "keeps (on_db (=)) (Client.ListGroups cl)"
    "keeps (on_db (=)) (Client.GetUser cl uid)" "keeps (on_db (=)) (Client.DisableUser cl uid)"
    by (auto intro: sends_same_db)
qed

section \<open>All or nothing\<close>

definition sync_done :: "Service \<Rightarrow> string \<Rightarrow> string \<Rightarrow> store \<Rightarrow> (string \<times> string) list \<Rightarrow> store \<Rightarrow> bool" where
  "sync_done s org con d us d' \<longleftrightarrow> discovered s org con d us \<and> reflects org con us d d'"

definition sync_ok :: "Service \<Rightarrow> string \<Rightarrow> string \<Rightarrow> store \<Rightarrow> SyncResult \<Rightarrow> store networld \<Rightarrow> bool" where
  "sync_ok s org con d r w' \<longleftrightarrow> (\<exists>us. sync_done s org con d us (db w') \<and> AccountsDiscovered r = int (length us))"

definition sync_err :: "Service \<Rightarrow> string \<Rightarrow> string \<Rightarrow> store \<Rightarrow> error \<Rightarrow> store networld \<Rightarrow> bool" where
  "sync_err s org con d e w' \<longleftrightarrow> same_inventory d (db w') \<or> (\<exists>us. sync_done s org con d us (db w'))"

text \<open>The parts of the service are well behaved for an organization.\<close>

definition service_ok :: "Service \<Rightarrow> string \<Rightarrow> bool" where
  "service_ok s org \<longleftrightarrow> secrets_keep (on_db (=)) s \<and> notifier_keeps (on_db only_notifies) org (NotifierOf s)"

lemma wp_failSync:
  assumes "service_ok s org" and "only_runs d (db w)"
  shows "wp (failSync s org con run code cause) Q (\<lambda>_ w'. same_inventory d (db w')) w"
proof -
  have "keeps (on_db same_inventory) (failSync s org con run code cause)"
    unfolding failSync_def using assms(1)
    by (intro kept_inventory.world.keeps_combinators kept_inventory.keeps_exec run_statements_inventory
        keeps_send_event_weaken [OF kept_inventory.db_frame_axioms])
      (auto simp: service_ok_def same_inventory_def)
  then have "wp (failSync s org con run code cause) (\<lambda>_ w'. same_inventory d (db w')) (\<lambda>_ w'. same_inventory d (db w')) w"
    by (rule wp_carried [where R = same_inventory and P = "same_inventory d"])
      (use kept_inventory.db_trans only_runs_same(1) [OF assms(2)] in blast)+
  moreover have "fst (failSync s org con run code cause w) = Inl cause"
    by (simp add: failSync_def bnd_def ignore_def fail_def send_event_def time_now_def ret_def split: prod.splits option.splits)
  ultimately show ?thesis by (auto simp: wp_def split: prod.splits sum.splits)
qed

lemma wp_or_failSync:
  assumes "service_ok s org" and "only_runs d (db w)" and "keeps (on_db (=)) m"
    and "\<And>x w'. m w = (Inr x, w') \<Longrightarrow> only_runs d (db w') \<Longrightarrow> wp (k x) Q (sync_err s org con d) w'"
  shows "wp (or_failSync s org con run code m k) Q (sync_err s org con d) w"
  unfolding or_failSync_def wp_bnd wp_attempt
proof (rule wpI)
  fix x t assume m: "m w = (Inr x, t)"
  have "db t = db w" using keepsD [OF assms(3) m] by (simp add: on_db_def)
  with assms(2) have "only_runs d (db t)" by simp
  from assms(4) [OF m this]
  show "wp (case Inr x of Inl e \<Rightarrow> failSync s org con run code e | Inr x \<Rightarrow> k x) Q (sync_err s org con d) t" by simp
next
  fix e t assume m: "m w = (Inl e, t)"
  have "db t = db w" using keepsD [OF assms(3) m] by (simp add: on_db_def)
  with assms(2) have "only_runs d (db t)" by simp
  from wp_failSync [OF assms(1) this]
  show "wp (case Inl e of Inl e \<Rightarrow> failSync s org con run code e | Inr x \<Rightarrow> k x) Q (sync_err s org con d) t"
    unfolding sum.case by (rule wp_mono) (simp_all add: sync_err_def)
qed

lemma wp_open_run:
  assumes "only_runs d (db w)"
  shows "wp (open_run org con req c) (\<lambda>_ w'. only_runs d (db w')) (sync_err s org con d) w"
proof -
  have "keeps (on_db only_runs) (open_run org con req c)" unfolding open_run_def
    by (intro kept_runs.world.keeps_combinators kept_runs.keeps_database kept_runs.keeps_exec run_statements_inventory)
  then have "wp (open_run org con req c) (\<lambda>_ w'. only_runs d (db w')) (\<lambda>_ w'. only_runs d (db w')) w"
    by (rule wp_carried [where R = only_runs and P = "only_runs d"]) (use kept_runs.db_trans assms in blast)+
  then show ?thesis by (rule wp_mono) (simp_all add: sync_err_def only_runs_same)
qed

lemma reflects_runs: "only_runs d d' \<Longrightarrow> reflects org con us d' e \<longleftrightarrow> reflects org con us d e"
proof -
  assume r: "only_runs d d'"
  have "inventory org con d' = inventory org con d" using only_runs_same(3) [OF r] by (simp add: inventory_def fun_eq_iff)
  then show ?thesis using only_runs_same(3) [OF r] by (simp add: reflects_def)
qed

lemma wp_sync_tx:
  assumes "only_runs d (db w)" and "account_keys d" and "discovered s org con d us"
    and "\<And>t. account_keys (db t) \<Longrightarrow> wp body (\<lambda>r t'. reflects org con us (db t) (db t') \<and> AccountsDiscovered r = int (length us)) (\<lambda>_ _. True) t"
  shows "wp (tx body) (sync_ok s org con d) (sync_err s org con d) w"
proof -
  have keys: "account_keys (db w)" using assms(2) only_runs_same(3) [OF assms(1)] by (simp add: account_keys_def)
  have "wp (tx body) (\<lambda>r w'. reflects org con us (db w) (db w') \<and> AccountsDiscovered r = int (length us))
      (\<lambda>_ w'. db w' = db w \<or> (\<exists>r :: SyncResult. reflects org con us (db w) (db w') \<and> AccountsDiscovered r = int (length us))) w"
    by (rule wp_tx_db [where Q = "\<lambda>r d'. reflects org con us (db w) d' \<and> AccountsDiscovered r = int (length us)"])
      (metis assms(4) keys)
  then show ?thesis
    by (rule wp_mono) (use assms(3) reflects_runs [OF assms(1)] only_runs_same(1) [OF assms(1)] in
      \<open>auto simp: sync_ok_def sync_err_def sync_done_def\<close>)
qed

lemma only_runs_find: "only_runs d d' \<Longrightarrow> find_connector org con P d' = find_connector org con P d"
  by (simp add: find_connector_def only_runs_same)

lemma wp_SyncSCIM:
  assumes s: "service_ok s org" and keys: "account_keys (db w)"
  shows "wp (SyncSCIM s org con req) (sync_ok s org con (db w)) (sync_err s org con (db w)) w"
proof -
  let ?E = "sync_err s org con (db w)"
  have err: "only_runs (db w) (db w') \<Longrightarrow> ?E e w'" for e w' by (simp add: sync_err_def only_runs_same)
  have sec: "secrets_keep (on_db (=)) s" using s by (simp add: service_ok_def)
  show ?thesis unfolding SyncSCIM_def
  proof (rule wp_bndI, rule wp_query_row)
    fix c assume c: "find_connector org con (\<lambda>c. c_type c = ''SCIM_2_0'') (db w) = Some c"
    show "wp (bnd (scan_string (c_base_url c)) (\<lambda>baseURL.
        bnd (open_run org con req c) (\<lambda>runID.
        or_failSync s org con runID ''CREDENTIAL_ERROR'' (connectorToken s org con) (\<lambda>tok.
        or_failSync s org con runID ''CONFIGURATION_ERROR'' (liftE (Scim.New baseURL tok (AllowHTTP s))) (\<lambda>cl.
        or_failSync s org con runID ''SCIM_DISCOVERY_FAILED'' (Scim.ListUsers cl 100) (\<lambda>users.
        or_failSync s org con runID ''SCIM_GROUP_DISCOVERY_FAILED'' (Scim.ListGroups cl 100) (\<lambda>groups.
        tx (scim_body org con (c_name c) runID users groups))))))))
      (sync_ok s org con (db w)) ?E (w\<lparr>ticks := Suc (ticks w)\<rparr>)"
    proof (cases "c_base_url c")
      case None
      then show ?thesis by (simp add: scan_string_def wp_simps err kept_runs.db_refl)
    next
      case (Some baseURL)
      show ?thesis unfolding Some scan_string_def option.case wp_bnd [of "ret _"] wp_ret
      proof (rule wp_seqI [OF wp_open_run [of "db w"]])
        show "only_runs (db w) (db (w\<lparr>ticks := Suc (ticks w)\<rparr>))" by (simp add: kept_runs.db_refl)
        fix run and t :: "store networld" assume t: "only_runs (db w) (db t)"
        show "wp (or_failSync s org con run ''CREDENTIAL_ERROR'' (connectorToken s org con) (\<lambda>tok.
            or_failSync s org con run ''CONFIGURATION_ERROR'' (liftE (Scim.New baseURL tok (AllowHTTP s))) (\<lambda>cl.
            or_failSync s org con run ''SCIM_DISCOVERY_FAILED'' (Scim.ListUsers cl 100) (\<lambda>users.
            or_failSync s org con run ''SCIM_GROUP_DISCOVERY_FAILED'' (Scim.ListGroups cl 100) (\<lambda>groups.
            tx (scim_body org con (c_name c) run users groups)))))) (sync_ok s org con (db w)) ?E t"
          by (intro wp_or_failSync [OF s] t keeps_connectorToken sec unchanged.world.keeps_liftE
              sends_same_db [OF scim_reads(2)] sends_same_db [OF scim_reads(3)] wp_sync_tx keys, assumption+)
            (auto simp: liftE_def intro: discovered.by_scim [OF c Some] dest: wp_scim_body)
      qed
    qed
  qed (simp add: err kept_runs.db_refl)
qed

text \<open>The clients that are built come from the connector's own row.\<close>

lemma wp_connectorToken:
  assumes "secrets_keep (on_db (=)) s"
  shows "wp (connectorToken s org con) (\<lambda>_ w'. db w' = db w) (\<lambda>_ w'. db w' = db w) w"
  by (rule wp_mono [OF keeps_wp [OF keeps_connectorToken [OF assms]]]) (simp_all add: on_db_def)

lemma ldapConfiguration_row:
  assumes "secrets_keep (on_db (=)) s"
  shows "wp (ldapConfiguration s org con) (\<lambda>cfg w'. db w' = db w \<and> (\<exists>c cfg0 pw.
      find_connector org con (\<lambda>c. c_type c = ''LDAP_DIRECTORY'') (db w) = Some c \<and>
      ldap_values (coalesce_empty (c_base_url c)) (c_configuration c) = Some cfg0 \<and> cfg = cfg0\<lparr>Password := pw\<rparr>))
    (\<lambda>_ w'. db w' = db w) w"
proof -
  note tok = wp_connectorToken [OF assms]
  show ?thesis unfolding ldapConfiguration_def
    by (rule wp_bndI, rule wp_query_row)
      (auto simp: wp_simps split: option.split intro!: wp_mono [OF tok])
qed

lemma nativeClient_row:
  assumes "secrets_keep (on_db (=)) s"
  shows "wp (nativeClient s org con) (\<lambda>cl w'. db w' = db w \<and> (\<exists>c credential configuration.
      find_connector org con (\<lambda>c. c_type c \<in> set native_types) (db w) = Some c \<and>
      new_native (c_type c) (coalesce_empty (c_base_url c)) credential configuration (AllowHTTP s) = Inr cl))
    (\<lambda>_ w'. db w' = db w) w"
proof -
  note tok = wp_connectorToken [OF assms]
  show ?thesis unfolding nativeClient_def
    by (rule wp_bndI, rule wp_query_row)
      (auto simp: wp_simps split: option.split sum.split intro!: wp_mono [OF tok], blast)
qed

lemma wp_SyncLDAP:
  assumes s: "service_ok s org" and keys: "account_keys (db w)"
    and c: "find_connector org con (\<lambda>c. c_type c = ''LDAP_DIRECTORY'') (db w) = Some c"
    and cfg: "ldap_values (coalesce_empty (c_base_url c)) (c_configuration c) = Some cfg"
  shows "wp (SyncLDAP s org con req (cfg\<lparr>Password := pw\<rparr>)) (sync_ok s org con (db w)) (sync_err s org con (db w)) w"
  unfolding SyncLDAP_def
proof (rule wp_bndI, rule wp_query_row)
  have err: "only_runs (db w) (db w') \<Longrightarrow> sync_err s org con (db w) e w'" for e w' by (simp add: sync_err_def only_runs_same)
  then show "sync_err s org con (db w) e (w\<lparr>ticks := Suc (ticks w)\<rparr>)" for e by (simp add: kept_runs.db_refl)
  fix c'
  show "wp (bnd (open_run org con req c') (\<lambda>runID.
      or_failSync s org con runID ''LDAP_CONFIGURATION_ERROR'' (liftE (Ldap.New (cfg\<lparr>Password := pw\<rparr>))) (\<lambda>cl.
      or_failSync s org con runID ''LDAP_DISCOVERY_FAILED'' (Ldap.SearchUsers cl) (\<lambda>users.
      or_failSync s org con runID ''LDAP_GROUP_DISCOVERY_FAILED'' (Ldap.SearchGroups cl) (\<lambda>groups.
      tx (ldap_body org con (c_name c') runID users groups))))))
    (sync_ok s org con (db w)) (sync_err s org con (db w)) (w\<lparr>ticks := Suc (ticks w)\<rparr>)"
  proof (rule wp_seqI [OF wp_open_run [of "db w"]])
    show "only_runs (db w) (db (w\<lparr>ticks := Suc (ticks w)\<rparr>))" by (simp add: kept_runs.db_refl)
    fix run and t :: "store networld" assume t: "only_runs (db w) (db t)"
    show "wp (or_failSync s org con run ''LDAP_CONFIGURATION_ERROR'' (liftE (Ldap.New (cfg\<lparr>Password := pw\<rparr>))) (\<lambda>cl.
        or_failSync s org con run ''LDAP_DISCOVERY_FAILED'' (Ldap.SearchUsers cl) (\<lambda>users.
        or_failSync s org con run ''LDAP_GROUP_DISCOVERY_FAILED'' (Ldap.SearchGroups cl) (\<lambda>groups.
        tx (ldap_body org con (c_name c') run users groups)))))
      (sync_ok s org con (db w)) (sync_err s org con (db w)) t"
      by (intro wp_or_failSync [OF s] t unchanged.world.keeps_liftE keeps_ldap_client wp_sync_tx keys, assumption+)
        (auto simp: liftE_def intro: discovered.by_ldap [OF c cfg] dest: wp_ldap_body)
  qed
qed

lemma wp_SyncNative:
  assumes s: "service_ok s org" and keys: "account_keys (db w)"
  shows "wp (SyncNative s org con req) (sync_ok s org con (db w)) (sync_err s org con (db w)) w"
  unfolding SyncNative_def
proof (rule wp_bndI, rule wp_query_row)
  have err: "only_runs (db w) (db w') \<Longrightarrow> sync_err s org con (db w) e w'" for e w' by (simp add: sync_err_def only_runs_same)
  then show "sync_err s org con (db w) e (w\<lparr>ticks := Suc (ticks w)\<rparr>)" for e by (simp add: kept_runs.db_refl)
  have sec: "secrets_keep (on_db (=)) s" using s by (simp add: service_ok_def)
  fix c'
  show "wp (bnd (open_run org con req c') (\<lambda>runID.
      or_failSync s org con runID ''NATIVE_CONFIGURATION_ERROR'' (nativeClient s org con) (\<lambda>cl.
      or_failSync s org con runID ''NATIVE_DISCOVERY_FAILED'' (Client.ListUsers cl) (\<lambda>users.
      or_failSync s org con runID ''NATIVE_GROUP_DISCOVERY_FAILED'' (Client.ListGroups cl) (\<lambda>groups.
      tx (native_body org con (c_name c') (c_type c') runID users groups))))))
    (sync_ok s org con (db w)) (sync_err s org con (db w)) (w\<lparr>ticks := Suc (ticks w)\<rparr>)"
  proof (rule wp_seqI [OF wp_open_run [of "db w"]], simp add: kept_runs.db_refl)
    fix run and t :: "store networld" assume t: "only_runs (db w) (db t)"
    show "wp (or_failSync s org con run ''NATIVE_CONFIGURATION_ERROR'' (nativeClient s org con) (\<lambda>cl.
        or_failSync s org con run ''NATIVE_DISCOVERY_FAILED'' (Client.ListUsers cl) (\<lambda>users.
        or_failSync s org con run ''NATIVE_GROUP_DISCOVERY_FAILED'' (Client.ListGroups cl) (\<lambda>groups.
        tx (native_body org con (c_name c') (c_type c') run users groups)))))
      (sync_ok s org con (db w)) (sync_err s org con (db w)) t"
    proof (rule wp_or_failSync [OF s t keeps_nativeClient [OF sec]])
      fix cl t' assume cl: "nativeClient s org con t = (Inr cl, t')" and t': "only_runs (db w) (db t')"
      obtain c credential configuration where c: "find_connector org con (\<lambda>c. c_type c \<in> set native_types) (db w) = Some c"
        and new: "new_native (c_type c) (coalesce_empty (c_base_url c)) credential configuration (AllowHTTP s) = Inr cl"
        using wp_InrD [OF nativeClient_row [OF sec] cl] only_runs_find [OF t] by auto
      show "wp (or_failSync s org con run ''NATIVE_DISCOVERY_FAILED'' (Client.ListUsers cl) (\<lambda>users.
          or_failSync s org con run ''NATIVE_GROUP_DISCOVERY_FAILED'' (Client.ListGroups cl) (\<lambda>groups.
          tx (native_body org con (c_name c') (c_type c') run users groups))))
        (sync_ok s org con (db w)) (sync_err s org con (db w)) t'"
        by (intro wp_or_failSync [OF s] t' keeps_native_lists [OF new] wp_sync_tx keys, assumption+)
          (auto intro: discovered.by_native [OF c new] dest: wp_native_body)
    qed
  qed
qed

lemma wp_SyncConnector:
  assumes s: "service_ok s org" and keys: "account_keys (db w)"
  shows "wp (SyncConnector s org con req) (sync_ok s org con (db w)) (sync_err s org con (db w)) w"
  unfolding SyncConnector_def connector_type_def
proof (rule wp_bndI, rule wp_query_row)
  let ?w = "w\<lparr>ticks := Suc (ticks w)\<rparr>"
  have err: "db w' = db w \<Longrightarrow> sync_err s org con (db w) e w'" for e w' by (simp add: sync_err_def kept_inventory.db_refl)
  then show "sync_err s org con (db w) e ?w" for e by simp
  fix ty
  have sec: "secrets_keep (on_db (=)) s" using s by (simp add: service_ok_def)
  have ldap: "wp (bnd (ldapConfiguration s org con) (SyncLDAP s org con req)) (sync_ok s org con (db w)) (sync_err s org con (db w)) ?w"
    by (rule wp_bndI, rule wp_mono [OF ldapConfiguration_row [OF sec]])
      (use wp_SyncLDAP [OF s] keys err in \<open>auto, metis\<close>)
  show "wp (if ty = ''SCIM_2_0'' then SyncSCIM s org con req
      else if ty = ''LDAP_DIRECTORY'' then bnd (ldapConfiguration s org con) (\<lambda>cfg. SyncLDAP s org con req cfg)
      else if ty \<in> set native_types then SyncNative s org con req
      else fail (Errorf ''connector type does not support remote synchronization''))
    (sync_ok s org con (db w)) (sync_err s org con (db w)) ?w"
    using wp_SyncSCIM [OF s, of ?w] wp_SyncNative [OF s, of ?w] ldap keys err by (simp add: wp_fail)
qed

text \<open>A directory with one disabled user, and a tenant that knows another account of it.\<close>

definition sample_directory :: "nat \<Rightarrow> ldap_op \<Rightarrow> ldap_error + Entry list" where
  "sample_directory n op = (case op of
     LdapSearch base filt tree attrs \<Rightarrow> if filt = ''(u=*)'' then Inr [\<lparr>DN = ''uid=eva'',
       Attributes = [(''uid'', [''eva'']), (''description'', [''DISABLED''])]\<rparr>] else Inr []
   | _ \<Rightarrow> Inr [])"

definition sample_net :: "store \<Rightarrow> store networld" where
  "sample_net d = world.extend (sample_world d) \<lparr>net = (\<lambda>_ _. Inl CtxErr), sent = [], cancelled = (\<lambda>_. False), waited = [],
     http_date = (\<lambda>_. None), directory = sample_directory, ldap_log = [], ParseDN = (\<lambda>s. Some [])\<rparr>"

definition sample_ldap :: "connector_row" where
  "sample_ldap = (sample_connector ''LDAP_DIRECTORY'' False)\<lparr>c_base_url := Some ''ldap://d'',
     c_configuration := JObj [(''SearchBase'', JStr ''dc=x''), (''UserFilter'', JStr ''(u=*)''), (''GroupFilter'', JStr ''(g=*)'')]\<rparr>"

definition sample_tenant :: store where
  "sample_tenant = empty_store\<lparr>connectors := [sample_ldap], accounts := [sample_account ''ACTIVE'']\<rparr>"

definition sample_service :: Service where
  "sample_service = \<lparr>Secrets = None, AllowHTTP = False, NotifierOf = None\<rparr>"

lemma sample_service_ok: "service_ok sample_service org"
  by (simp add: service_ok_def secrets_keep_def notifier_keeps_def sample_service_def)

lemma sample_tenant_keys: "account_keys (db (sample_net sample_tenant))" "account_keys (db (sample_net sample_tenant\<lparr>faults := \<lambda>_. NotApplied ''down''\<rparr>))"
  by (simp_all add: account_keys_def sample_net_def sample_tenant_def sample_world_def world.defs empty_store_def)





end
