(* ===== verification/Notifier.thy ===== *)
theory Notifier
  imports Lifecycle NativeHttp
begin

text \<open>
  \<open>backend/internal/notifier/notifier.go\<close>: notifications stored for the user interface, the signed
  webhook, and the fan-out over both.
\<close>

unbundle bit_operations_syntax

section \<open>In-app notifications\<close>

definition sql_insert_notification :: "notify_event \<Rightarrow> (store, unit) stmt" where
  "sql_insert_notification event = upd (\<lambda>now gen d. ((), d\<lparr>notifications := notifications d @
     [\<lparr>n_org = ne_org event, n_type = ne_type event, n_channel = ''IN_APP'', n_payload = ne_payload event,
       n_status = ''DELIVERED'', n_delivered = Some now\<rparr>]\<rparr>))"

definition InApp :: "notify_event \<Rightarrow> (store networld, unit) comp" where
  "InApp event = exec (sql_insert_notification event)"

section \<open>The webhook\<close>

record Webhook =
  wh_endpoint :: url
  wh_secret :: string

definition NewWebhook :: "string \<Rightarrow> string \<Rightarrow> bool \<Rightarrow> error + Webhook" where
  "NewWebhook endpoint secret allowHTTP =
    (case Parse endpoint of
       None \<Rightarrow> Inl (Errorf ''invalid webhook endpoint'')
     | Some u \<Rightarrow>
       if u_host u = [] \<or> u_user u \<noteq> None \<or> u_query u \<noteq> [] \<or> u_fragment u \<noteq> []
       then Inl (Errorf ''invalid webhook endpoint'')
       else if u_scheme u \<noteq> ''https'' \<and> \<not> (allowHTTP \<and> u_scheme u = ''http'')
       then Inl (Errorf ''webhook endpoint must use HTTPS'')
       else if length secret < 16 then Inl (Errorf ''webhook signing secret must contain at least 16 bytes'')
       else Inr \<lparr>wh_endpoint = u, wh_secret = secret\<rparr>)"

text \<open>The dialer of the webhook: link-local addresses are passed over, the others tried in order.\<close>

definition link_local :: "string \<Rightarrow> bool" where
  "link_local ip = (case ParseIP ip of Some a \<Rightarrow> IsLinkLocalUnicast a \<or> IsLinkLocalMulticast a | None \<Rightarrow> False)"

fun webhook_dial :: "(string \<Rightarrow> error + 'c) \<Rightarrow> string list \<Rightarrow> (error + 'c) \<times> string list" where
  "webhook_dial dial [] = (Inl (Errorf ''webhook destination has no permitted address''), [])"
| "webhook_dial dial (ip # ips) =
    (if link_local ip then webhook_dial dial ips
     else (case dial ip of
        Inr conn \<Rightarrow> (Inr conn, [ip])
      | Inl _ \<Rightarrow> (case webhook_dial dial ips of (r, dialled) \<Rightarrow> (r, ip # dialled))))"

interpretation hook_dial: dial_loop link_local "\<lambda>dial ips err. webhook_dial dial ips"
  by unfold_locales simp_all

text \<open>HMAC with SHA-256.\<close>

definition hmac_key :: "string \<Rightarrow> string" where
  "hmac_key k = (let k' = (if 64 < length k then Sum256 k else k) in k' @ replicate (64 - length k') (CHR 0x00))"

definition hmac_sha256 :: "string \<Rightarrow> string \<Rightarrow> string" where
  "hmac_sha256 k msg = Sum256 (xor_bytes 92 (hmac_key k) @ Sum256 (xor_bytes 54 (hmac_key k) @ msg))"

definition event_json :: "notify_event \<Rightarrow> json" where
  "event_json event = JObj [(''organizationId'', JStr (ne_org event)), (''type'', JStr (ne_type event)),
     (''payload'', ne_payload event), (''occurredAt'', JStr (FormatRFC3339Nano (ne_occurred event)))]"

definition webhook_request :: "Webhook \<Rightarrow> notify_event \<Rightarrow> http_request" where
  "webhook_request n event =
    (let raw = Marshal (event_json event) in
     \<lparr>q_method = ''POST'', q_url = wh_endpoint n,
      q_headers = [(''Content-Type'', ''application/json''),
        (''X-IdentityMesh-Signature'', ''sha256='' @ EncodeToString (hmac_sha256 (wh_secret n) raw))],
      q_body = Some raw\<rparr>)"

text \<open>\<open>Notify\<close> of the webhook: redirects are not followed (\<open>ErrUseLastResponse\<close>), and the answer's body is discarded.\<close>

definition webhook_notify :: "Webhook \<Rightarrow> notify_event \<Rightarrow> (store networld, unit) comp" where
  "webhook_notify n event =
    bnd (if ne_occurred event = zero_time then time_now else ret (ne_occurred event)) (\<lambda>t.
    bnd (round_trip (webhook_request n (event\<lparr>ne_occurred := t\<rparr>))) (\<lambda>resp.
    if s_status resp < 200 \<or> 300 \<le> s_status resp
    then fail (Errorf (''webhook returned status '' @ Itoa (s_status resp))) else ret ()))"

section \<open>Fan-out\<close>

text \<open>Every notifier is called, whatever the others returned; the errors are joined.\<close>

definition fanout_each ::
  "notify_event \<Rightarrow> string list \<Rightarrow> (notify_event \<Rightarrow> ('w, unit) comp) option \<Rightarrow> ('w, string list) comp" where
  "fanout_each event failures n = (case n of None \<Rightarrow> ret failures
     | Some notify \<Rightarrow> bnd (attempt (notify event)) (\<lambda>r. case r of
         Inl e \<Rightarrow> ret (failures @ [error_text e]) | Inr _ \<Rightarrow> ret failures))"

definition Fanout :: "(notify_event \<Rightarrow> ('w, unit) comp) option list \<Rightarrow> notify_event \<Rightarrow> ('w, unit) comp" where
  "Fanout notifiers event =
    bnd (fold_comp (fanout_each event) [] notifiers) (\<lambda>failures.
    if failures = [] then ret () else fail (Errorf (Join failures [CHR 0x0A])))"

text \<open>The notifier of the server: in-app always, the webhook when one is configured.\<close>

definition server_notifier :: "Webhook option \<Rightarrow> (store networld) notifier" where
  "server_notifier webhook =
     Some (Fanout (Some InApp # (case webhook of None \<Rightarrow> [] | Some n \<Rightarrow> [Some (webhook_notify n)])))"

end
