(* ===== verification/SecretStore.thy ===== *)
theory SecretStore
  imports Net
begin

text \<open>
  \<open>backend/internal/secure/secretstore.go\<close>: the encryption of connector credentials, with a local
  AES-256-GCM key or by Vault Transit. The block cipher is a parameter: \<open>seal\<close> and \<open>unseal\<close> stand for
  \<open>gcm.Seal\<close> and \<open>gcm.Open\<close>. Base64 is modelled.
\<close>

section \<open>Base64\<close>

definition std_alphabet :: string where
  "std_alphabet = ''ABCDEFGHIJKLMNOPQRSTUVWXYZabcdefghijklmnopqrstuvwxyz0123456789+/''"

definition url_alphabet :: string where
  "url_alphabet = ''ABCDEFGHIJKLMNOPQRSTUVWXYZabcdefghijklmnopqrstuvwxyz0123456789-_''"

abbreviation byte_of :: "char \<Rightarrow> nat" where "byte_of c \<equiv> of_char c"

fun b64_encode :: "string \<Rightarrow> bool \<Rightarrow> string \<Rightarrow> string" where
  "b64_encode al pad (a # b # c # s) =
     [al ! (byte_of a div 4), al ! (byte_of a mod 4 * 16 + byte_of b div 16),
      al ! (byte_of b mod 16 * 4 + byte_of c div 64), al ! (byte_of c mod 64)] @ b64_encode al pad s"
| "b64_encode al pad [a, b] =
     [al ! (byte_of a div 4), al ! (byte_of a mod 4 * 16 + byte_of b div 16), al ! (byte_of b mod 16 * 4)] @
     (if pad then ''='' else [])"
| "b64_encode al pad [a] =
     [al ! (byte_of a div 4), al ! (byte_of a mod 4 * 16)] @ (if pad then ''=='' else [])"
| "b64_encode al pad [] = []"

fun index_of :: "'a list \<Rightarrow> 'a \<Rightarrow> nat option" where
  "index_of [] x = None"
| "index_of (y # ys) x = (if x = y then Some 0 else map_option Suc (index_of ys x))"

text \<open>
  Decoding of groups of six-bit digits. The unused bits of a last group are ignored, as Go does
  unless \<open>Strict\<close> is asked for.
\<close>

fun b64_groups :: "nat list \<Rightarrow> string option" where
  "b64_groups (a # b # c # d # s) = map_option
     (\<lambda>t. [char_of (a * 4 + b div 16), char_of (b mod 16 * 16 + c div 4), char_of (c mod 4 * 64 + d)] @ t) (b64_groups s)"
| "b64_groups [a, b, c] = Some [char_of (a * 4 + b div 16), char_of (b mod 16 * 16 + c div 4)]"
| "b64_groups [a, b] = Some [char_of (a * 4 + b div 16)]"
| "b64_groups [a] = None"
| "b64_groups [] = Some []"

text \<open>Carriage returns and line feeds are skipped; the padded form has full groups.\<close>

definition strip_pad :: "string \<Rightarrow> string option" where
  "strip_pad s = (if length s mod 4 \<noteq> 0 then None
     else Some (if HasSuffix s ''=='' then take (length s - 2) s
       else if HasSuffix s ''='' then take (length s - 1) s else s))"

definition b64_decode :: "string \<Rightarrow> bool \<Rightarrow> string \<Rightarrow> string option" where
  "b64_decode al pad s0 =
    (let s = filter (\<lambda>c. c \<noteq> CHR 0x0D \<and> c \<noteq> CHR 0x0A) s0 in
     case (if pad then strip_pad s else Some s) of
       None \<Rightarrow> None
     | Some t \<Rightarrow> Option.bind (those (map (index_of al) t)) b64_groups)"

section \<open>AESGCMStore\<close>

record AESGCMStore =
  aes_key :: string

definition NewAESGCMStore :: "string \<Rightarrow> error + AESGCMStore" where
  "NewAESGCMStore key =
    (if length key \<noteq> 32 then Inl (Errorf ''AES-256-GCM requires a 32-byte key'') else Inr \<lparr>aes_key = key\<rparr>)"

definition nonce_size :: nat where
  "nonce_size = 12"

text \<open>\<open>seal key nonce plain\<close> is the sealed text with its tag; \<open>nonce\<close> is what \<open>rand.Reader\<close> gave, \<open>None\<close> its error.\<close>

definition aes_Encrypt ::
  "(string \<Rightarrow> string \<Rightarrow> string \<Rightarrow> string) \<Rightarrow> AESGCMStore \<Rightarrow> string option \<Rightarrow> string \<Rightarrow> error + string" where
  "aes_Encrypt seal s nonce plain = (case nonce of
     None \<Rightarrow> Inl (Errorf ''random source failed'')
   | Some n \<Rightarrow> Inr (b64_encode url_alphabet False (n @ seal (aes_key s) n plain)))"

definition aes_Decrypt ::
  "(string \<Rightarrow> string \<Rightarrow> string \<Rightarrow> string option) \<Rightarrow> AESGCMStore \<Rightarrow> string \<Rightarrow> error + string" where
  "aes_Decrypt unseal s encoded =
    (case b64_decode url_alphabet False encoded of
       None \<Rightarrow> Inl (Errorf ''malformed ciphertext'')
     | Some raw \<Rightarrow>
       if length raw < nonce_size then Inl (Errorf ''malformed ciphertext'')
       else (case unseal (aes_key s) (take nonce_size raw) (drop nonce_size raw) of
          None \<Rightarrow> Inl (Errorf ''secret authentication failed'')
        | Some plain \<Rightarrow> Inr plain))"

section \<open>VaultTransitStore\<close>

record VaultTransitStore =
  v_origin :: url
  v_token :: string
  v_namespace :: string
  v_mount :: string
  v_key :: string

text \<open>\<open>^[A-Za-z0-9][A-Za-z0-9_-]{0,127}$\<close>\<close>

definition vaultPathPart :: "string \<Rightarrow> bool" where
  "vaultPathPart s \<longleftrightarrow> s \<noteq> [] \<and> length s \<le> 128 \<and> is_alnum (hd s) \<and> list_all (\<lambda>c. is_alnum c \<or> c = CHR ''_'' \<or> c = CHR ''-'') s"

definition NewVaultTransitStore :: "string \<Rightarrow> string \<Rightarrow> string \<Rightarrow> string \<Rightarrow> string \<Rightarrow> bool \<Rightarrow> error + VaultTransitStore" where
  "NewVaultTransitStore address token namespace mount0 key0 allowHTTP =
    (let mount = (if mount0 = [] then ''transit'' else mount0); key = (if key0 = [] then ''identitymesh'' else key0) in
     case Parse address of
       None \<Rightarrow> Inl (Errorf ''invalid Vault address'')
     | Some u \<Rightarrow>
       if u_host u = [] \<or> u_user u \<noteq> None \<or> u_query u \<noteq> [] \<or> u_fragment u \<noteq> []
       then Inl (Errorf ''invalid Vault address'')
       else if u_scheme u \<noteq> ''https'' \<and> \<not> (allowHTTP \<and> u_scheme u = ''http'')
       then Inl (Errorf ''Vault address must use HTTPS'')
       else if token = [] then Inl (Errorf ''Vault token is required'')
       else if \<not> vaultPathPart mount \<or> \<not> vaultPathPart key
       then Inl (Errorf ''Vault mount and key must be safe path segments'')
       else Inr \<lparr>v_origin = u\<lparr>u_path := TrimRight (u_path u) ''/''\<rparr>, v_token = token, v_namespace = namespace, v_mount = mount,
         v_key = key\<rparr>)"

definition v_endpoint :: "VaultTransitStore \<Rightarrow> string \<Rightarrow> url" where
  "v_endpoint s operation = (v_origin s)\<lparr>u_path := TrimRight (u_path (v_origin s)) ''/'' @ ''/v1/'' @ v_mount s @ ''/'' @
     operation @ ''/'' @ v_key s\<rparr>"

definition v_policy :: "VaultTransitStore \<Rightarrow> redirect_policy" where
  "v_policy s = \<lparr>rp_origin = v_origin s, rp_cross = ''Vault cross-origin redirect blocked'', rp_many = ''too many Vault redirects''\<rparr>"

definition v_request :: "VaultTransitStore \<Rightarrow> string \<Rightarrow> string \<times> string \<Rightarrow> http_request" where
  "v_request s operation input = \<lparr>q_method = ''POST'', q_url = v_endpoint s operation,
     q_headers = [(''Content-Type'', ''application/json''), (''X-Vault-Token'', v_token s)] @
       (if v_namespace s = [] then [] else [(''X-Vault-Namespace'', v_namespace s)]),
     q_body = Some (Marshal (JObj [(fst input, JStr (snd input))]))\<rparr>"

text \<open>
  \<open>call\<close>: two attempts; a 4xx other than 429 ends the loop. A redirect is followed once. A body longer
  than the limit is cut, so that it is not JSON any more; \<open>time.Sleep\<close> has no effect here.
\<close>

fun v_call :: "VaultTransitStore \<Rightarrow> http_request \<Rightarrow> nat \<Rightarrow> error option \<Rightarrow> ('d networld, (string \<times> json) list) comp" where
  "v_call s q 0 lastErr = fail (case lastErr of None \<Rightarrow> Errorf [] | Some e \<Rightarrow> e)"
| "v_call s q (Suc n) lastErr =
    bnd (attempt (http_do 1 (v_policy s) q)) (\<lambda>r. case r of
       Inl doErr \<Rightarrow> v_call s q n (Some doErr)
     | Inr resp \<Rightarrow>
       (case s_readErr resp of Some readErr \<Rightarrow> fail readErr | None \<Rightarrow>
        if 200 \<le> s_status resp \<and> s_status resp < 300 then
          (case (if s_size resp > 2 ^ 20 then None else Option.bind (s_json resp) object_fields) of
             None \<Rightarrow> fail (Errorf ''Vault returned malformed JSON'')
           | Some decoded \<Rightarrow> ret decoded)
        else (let e = Errorf (''Vault Transit returned status '' @ Itoa (s_status resp)) in
          if s_status resp < 500 \<and> s_status resp \<noteq> 429 then fail e else v_call s q n (Some e))))"

text \<open>A Go map keeps the last of equal keys.\<close>

definition vaultDataString :: "(string \<times> json) list \<Rightarrow> string \<Rightarrow> error + string" where
  "vaultDataString response name =
    (case map_of (rev response) ''data'' of
       Some (JObj data) \<Rightarrow>
         (case map_of (rev data) name of
            Some (JStr v) \<Rightarrow> if v = [] then Inl (Errorf (''Vault response is missing '' @ name)) else Inr v
          | _ \<Rightarrow> Inl (Errorf (''Vault response is missing '' @ name)))
     | _ \<Rightarrow> Inl (Errorf ''Vault response is missing data''))"

definition vault_Encrypt :: "VaultTransitStore \<Rightarrow> string \<Rightarrow> ('d networld, string) comp" where
  "vault_Encrypt s plain =
    bnd (v_call s (v_request s ''encrypt'' (''plaintext'', b64_encode std_alphabet True plain)) 2 None) (\<lambda>response.
    liftE (vaultDataString response ''ciphertext''))"

definition vault_Decrypt :: "VaultTransitStore \<Rightarrow> string \<Rightarrow> ('d networld, string) comp" where
  "vault_Decrypt s ciphertext =
    (if \<not> HasPrefix ciphertext ''vault:v'' then fail (Errorf ''malformed Vault ciphertext'')
     else bnd (v_call s (v_request s ''decrypt'' (''ciphertext'', ciphertext)) 2 None) (\<lambda>response.
          bnd (liftE (vaultDataString response ''plaintext'')) (\<lambda>encoded.
          case b64_decode std_alphabet True encoded of
            None \<Rightarrow> fail (Errorf ''Vault returned malformed plaintext'')
          | Some plain \<Rightarrow> ret plain)))"

definition vault_Health :: "VaultTransitStore \<Rightarrow> ('d networld, unit) comp" where
  "vault_Health s =
    bnd (http_do 1 (v_policy s) \<lparr>q_method = ''GET'', q_url = (v_origin s)\<lparr>u_path := TrimRight (u_path (v_origin s)) ''/'' @ ''/v1/sys/health''\<rparr>,
        q_headers = [], q_body = None\<rparr>) (\<lambda>resp.
    if s_status resp \<in> set [200, 429, 472, 473] then ret ()
    else fail (Errorf (''Vault health returned status '' @ Itoa (s_status resp))))"

section \<open>Round trips\<close>

lemma index_of_nth: "distinct xs \<Longrightarrow> i < length xs \<Longrightarrow> index_of xs (xs ! i) = Some i"
proof (induction xs arbitrary: i)
  case (Cons x xs)
  then show ?case by (cases i) (auto simp: nth_mem)
qed simp

definition alphabet_ok :: "string \<Rightarrow> bool" where
  "alphabet_ok al \<longleftrightarrow> length al = 64 \<and> distinct al \<and> CHR 0x0D \<notin> set al \<and> CHR 0x0A \<notin> set al"

lemma alphabets_ok: "alphabet_ok std_alphabet" "alphabet_ok url_alphabet"
  by (simp_all add: alphabet_ok_def std_alphabet_def url_alphabet_def)

text \<open>The six-bit digits of a text.\<close>

fun sextets :: "string \<Rightarrow> nat list" where
  "sextets (a # b # c # s) =
     [byte_of a div 4, byte_of a mod 4 * 16 + byte_of b div 16, byte_of b mod 16 * 4 + byte_of c div 64, byte_of c mod 64] @ sextets s"
| "sextets [a, b] = [byte_of a div 4, byte_of a mod 4 * 16 + byte_of b div 16, byte_of b mod 16 * 4]"
| "sextets [a] = [byte_of a div 4, byte_of a mod 4 * 16]"
| "sextets [] = []"

lemma encode_sextets: "b64_encode al False s = map ((!) al) (sextets s)"
  by (induction al False s rule: b64_encode.induct) simp_all

text \<open>The arithmetic of regrouping three bytes into four digits.\<close>

lemma div_less: "b < n * k \<Longrightarrow> b div k < (n::nat)"
  by (simp add: less_mult_imp_div_less)
lemma digit: "y < k \<Longrightarrow> (x * k + y) div k = x" "y < k \<Longrightarrow> (x * k + y) mod k = (y::nat)"
  by simp_all
lemma digit_bound1: "b < 256 \<Longrightarrow> a mod 4 * 16 + b div 16 < (64::nat)"
  using div_less [of b 16 16] mod_less_divisor [of 4 a] by simp
lemma digit_bound2: "c < 256 \<Longrightarrow> b mod 16 * 4 + c div 64 < (64::nat)"
  using div_less [of c 4 64] mod_less_divisor [of 16 b] by simp

lemma byte_bounds:
  "byte_of a div 4 < 64" "byte_of a mod 4 * 16 < 64" "byte_of a mod 16 * 4 < 64" "byte_of a mod 64 < 64"
  "byte_of a mod 4 * 16 + byte_of b div 16 < 64" "byte_of b mod 16 * 4 + byte_of c div 64 < 64"
  using digit_bound1 [OF of_char_less_256, of "byte_of a" b] digit_bound2 [OF of_char_less_256, of "byte_of b" c]
    digit_bound1 [of 0 "byte_of a"] digit_bound2 [of 0 "byte_of a"] div_less [of "byte_of a" 64 4] of_char_less_256 [of a]
  by simp_all

lemma sextets_less: "list_all (\<lambda>n. n < 64) (sextets s)"
  by (induction s rule: sextets.induct) (simp_all only: sextets.simps append_Cons append_Nil list.pred_inject byte_bounds simp_thms)

lemma first_byte: "b < 256 \<Longrightarrow> a div 4 * 4 + (a mod 4 * 16 + b div 16) div 16 = (a::nat)"
  using div_less [of b 16 16] by (simp only: digit) simp

lemma second_byte: "b < 256 \<Longrightarrow> c < 256 \<Longrightarrow> (a mod 4 * 16 + b div 16) mod 16 * 16 + (b mod 16 * 4 + c div 64) div 4 = (b::nat)"
  using div_less [of b 16 16] div_less [of c 4 64] by (simp only: digit) simp

lemma third_byte: "c < 256 \<Longrightarrow> (b mod 16 * 4 + c div 64) mod 4 * 64 + c mod 64 = (c::nat)"
  using div_less [of c 4 64] by (simp only: digit) simp

lemma regroup:
  "byte_of a div 4 * 4 + (byte_of a mod 4 * 16 + byte_of b div 16) div 16 = byte_of a"
  "(byte_of a mod 4 * 16 + byte_of b div 16) mod 16 * 16 + (byte_of b mod 16 * 4 + byte_of c div 64) div 4 = byte_of b"
  "(byte_of b mod 16 * 4 + byte_of c div 64) mod 4 * 64 + byte_of c mod 64 = byte_of c"
  "byte_of a div 4 * 4 + (byte_of a mod 4 * 16) div 16 = byte_of a"
  "(byte_of a mod 4 * 16 + byte_of b div 16) mod 16 * 16 + (byte_of b mod 16 * 4) div 4 = byte_of b"
  using first_byte [OF of_char_less_256, of "byte_of a" b] second_byte [OF of_char_less_256 of_char_less_256, of "byte_of a" b c]
    third_byte [OF of_char_less_256, of "byte_of b" c] first_byte [of 0 "byte_of a"]
    second_byte [OF of_char_less_256, of 0 "byte_of a" b]
  by (simp_all only: div_0 add_0_right zero_less_numeral)

lemma groups_sextets: "b64_groups (sextets s) = Some s"
proof (induction s rule: sextets.induct)
  case (1 a b c s)
  then show ?case
    by (simp only: sextets.simps append_Cons append_Nil b64_groups.simps regroup option.map char_of_char)
qed (simp_all only: sextets.simps b64_groups.simps regroup char_of_char)

lemma those_digits:
  assumes "alphabet_ok al"
  shows "list_all (\<lambda>n. n < 64) ns \<Longrightarrow> those (map (index_of al) (map ((!) al) ns)) = Some ns"
  using assms by (induction ns) (simp_all add: alphabet_ok_def index_of_nth)

lemma b64_roundtrip:
  assumes "alphabet_ok al"
  shows "b64_decode al False (b64_encode al False s) = Some s"
proof -
  have "set (b64_encode al False s) \<subseteq> set al"
    using sextets_less [of s] assms by (auto simp: encode_sextets alphabet_ok_def list_all_iff)
  then have "filter (\<lambda>c. c \<noteq> CHR 0x0D \<and> c \<noteq> CHR 0x0A) (b64_encode al False s) = b64_encode al False s"
    using assms by (intro filter_True) (auto simp: alphabet_ok_def)
  then show ?thesis
    by (simp add: b64_decode_def encode_sextets those_digits [OF assms sextets_less, simplified] groups_sextets)
qed

text \<open>
  C24: Stored credentials can be read back. For every key of the right length, every plaintext and
  every nonce of the length that GCM asks for, \<open>Decrypt\<close> of what \<open>Encrypt\<close> stored returns exactly the
  plaintext, provided opening undoes sealing under the same key and nonce.
\<close>

theorem credential_roundtrip:
  assumes "NewAESGCMStore key = Inr s" and "length nonce = nonce_size"
    and "\<forall>k n p. unseal k n (seal k n p) = Some p"
    and "aes_Encrypt seal s (Some nonce) plain = Inr stored"
  shows "aes_Decrypt unseal s stored = Inr plain"
proof -
  have stored: "stored = b64_encode url_alphabet False (nonce @ seal (aes_key s) nonce plain)"
    using assms(4) by (simp add: aes_Encrypt_def)
  have "b64_decode url_alphabet False stored = Some (nonce @ seal (aes_key s) nonce plain)"
    unfolding stored by (rule b64_roundtrip [OF alphabets_ok(2)])
  then show ?thesis using assms(2,3) by (simp add: aes_Decrypt_def)
qed

theorem credential_roundtrip_witness:
  "\<exists>stored. aes_Encrypt (\<lambda>k n p. rev p @ k) \<lparr>aes_key = replicate 32 (CHR ''k'')\<rparr> (Some ''0123456789ab'') ''token'' = Inr stored \<and>
     aes_Decrypt (\<lambda>k n c. Some (rev (take (length c - length k) c))) \<lparr>aes_key = replicate 32 (CHR ''k'')\<rparr> stored = Inr ''token''"
proof -
  let ?s = "\<lparr>aes_key = replicate 32 (CHR ''k'')\<rparr>"
  have n: "NewAESGCMStore (replicate 32 (CHR ''k'')) = Inr ?s" by (simp add: NewAESGCMStore_def)
  obtain stored where e: "aes_Encrypt (\<lambda>k n p. rev p @ k) ?s (Some ''0123456789ab'') ''token'' = Inr stored"
    by (simp add: aes_Encrypt_def)
  have "aes_Decrypt (\<lambda>k n c. Some (rev (take (length c - length k) c))) ?s stored = Inr ''token''"
    by (rule credential_roundtrip [OF n _ _ e]) (simp_all add: nonce_size_def)
  with e show ?thesis by blast
qed

end
