(* ===== verification/Traffic.thy ===== *)
theory Traffic
  imports SyncProps Notifier SecretStore
begin

text \<open>
  What the service sends to other systems. The frame \<open>traffic P L U org con\<close> says that every HTTP
  request satisfies \<open>P\<close> and every LDAP operation \<open>L\<close>, as long as the base URLs stored for the
  connector are among \<open>U\<close>, which the service never changes.
\<close>

section \<open>The frame\<close>

definition url_of :: "connector_row \<Rightarrow> string \<times> string \<times> string option" where
  "url_of c = (c_org c, c_id c, c_base_url c)"

definition urls_in :: "string set \<Rightarrow> string \<Rightarrow> string \<Rightarrow> store \<Rightarrow> bool" where
  "urls_in U org con d \<longleftrightarrow> list_all (\<lambda>(tenant, cid, b). tenant = org \<and> cid = con \<longrightarrow> coalesce_empty b \<in> U) (map url_of (connectors d))"

lemma urls_inD: "urls_in U org con d \<Longrightarrow> find_connector org con Q d = Some c \<Longrightarrow> coalesce_empty (c_base_url c) \<in> U"
  by (auto simp: urls_in_def url_of_def list_all_iff find_connector_def dest!: find_SomeD)

definition traffic ::
  "(http_request \<Rightarrow> bool) \<Rightarrow> (ldap_op \<Rightarrow> bool) \<Rightarrow> string set \<Rightarrow> string \<Rightarrow> string \<Rightarrow> store networld \<Rightarrow> store networld \<Rightarrow> bool" where
  "traffic P L U org con w w' \<longleftrightarrow> urls_in U org con (db w) \<longrightarrow>
     urls_in U org con (db w') \<and> (\<exists>qs. sent w' = sent w @ qs \<and> list_all P qs) \<and>
     (\<exists>ops. ldap_log w' = ldap_log w @ ops \<and> list_all L ops)"

interpretation traffic: state_frame "traffic P L U org con" for P L U org con
proof
  fix s t u
  show "traffic P L U org con s s" by (simp add: traffic_def)
  assume "traffic P L U org con s t" "traffic P L U org con t u"
  then show "traffic P L U org con s u" unfolding traffic_def by (metis append.assoc list_all_append)
qed

definition same_urls :: "store \<Rightarrow> store \<Rightarrow> bool" where
  "same_urls d d' \<longleftrightarrow> map url_of (connectors d') = map url_of (connectors d)"

interpretation same_urls: db_frame same_urls
  by unfold_locales (simp_all add: same_urls_def)

lemma same_urls_in: "same_urls d d' \<Longrightarrow> urls_in U org con d' = urls_in U org con d"
  by (simp only: same_urls_def urls_in_def)

text \<open>Statements send nothing; transactions send what their bodies send.\<close>

lemma traffic_exec:
  assumes "stmt_keeps same_urls st"
  shows "keeps (traffic P L U org con) (exec st)"
proof (rule keepsI)
  fix w
  show "traffic P L U org con w (snd (exec st w))"
    by (rule exec_cases [of st w]) (use assms same_urls_in in \<open>auto simp: traffic_def stmt_keeps_def, metis+\<close>)
qed

lemma traffic_query_row: "keeps (traffic P L U org con) (query_row q)"
  unfolding query_row_def by (rule traffic_exec) (auto simp: stmt_keeps_def same_urls_def split: option.splits)

lemma traffic_query_rows: "keeps (traffic P L U org con) (query_rows q)"
  by (auto simp: keeps_def query_rows_def Let_def traffic_def split: fault.split)

lemma traffic_new_uuid: "keeps (traffic P L U org con) new_uuid"
  by (simp add: keeps_def new_uuid_def traffic_def)

lemma traffic_time_now: "keeps (traffic P L U org con) time_now"
  by (simp add: keeps_def time_now_def traffic_def)

lemma traffic_asks: "keeps (traffic P L U org con) (asks f)"
  by (simp add: keeps_def asks_def traffic_def)

lemma traffic_ctx_open: "keeps (traffic P L U org con) ctx_open"
  by (simp add: keeps_def ctx_open_def traffic_def)

lemma traffic_ldap_do: "L op \<Longrightarrow> keeps (traffic P L U org con) (ldap_do op)"
  by (simp add: keeps_def ldap_do_def traffic_def)

lemma traffic_sends: "keeps (sends P) m \<Longrightarrow> keeps (traffic P L U org con) m"
  by (auto simp: keeps_def sends_def traffic_def)

lemma traffic_tx:
  assumes "keeps (traffic P L U org con) m"
  shows "keeps (traffic P L U org con) (tx m)"
proof (rule keepsI)
  fix w :: "store networld"
  let ?w = "w\<lparr>ticks := Suc (ticks w), txnow := Some (clock w (ticks w))\<rparr>"
  have m: "traffic P L U org con ?w (snd (m ?w))" using assms by (simp add: keeps_def)
  show "traffic P L U org con w (snd (tx m w))"
    using m by (auto simp: tx_def Let_def traffic_def split: fault.split prod.split sum.split)
qed

text \<open>A connector that is found has one of the URLs.\<close>

lemma traffic_find:
  assumes "\<And>c. coalesce_empty (c_base_url c) \<in> U \<Longrightarrow> keeps (traffic P L U org con) (k c)"
  shows "keeps (traffic P L U org con) (bnd (query_row (find_connector org con Q)) k)"
proof (rule keepsI)
  fix w :: "store networld"
  let ?w = "w\<lparr>ticks := Suc (ticks w)\<rparr>"
  show "traffic P L U org con w (snd (bnd (query_row (find_connector org con Q)) k w))"
  proof (rule query_row_cases [of "find_connector org con Q" w])
    fix e assume "query_row (find_connector org con Q) w = (Inl e, ?w)"
    then show ?thesis by (simp add: bnd_def traffic_def)
  next
    fix c assume c: "find_connector org con Q (db w) = Some c" "query_row (find_connector org con Q) w = (Inr c, ?w)"
    show ?thesis
    proof (cases "urls_in U org con (db w)")
      case True
      from urls_inD [OF True c(1)] have "traffic P L U org con ?w (snd (k c ?w))" using assms by (simp add: keeps_def)
      with c(2) show ?thesis by (simp add: bnd_def traffic_def)
    qed (simp add: traffic_def)
  qed
qed

lemmas traffic_rules = traffic.keeps_combinators traffic_query_rows traffic_query_row traffic_new_uuid traffic_time_now
  traffic_asks traffic_ctx_open traffic_tx

lemma url_statements:
  "stmt_keeps same_urls (sql_start_sync run org con req)" "stmt_keeps same_urls (sql_start_run run org con)"
  "stmt_keeps same_urls (sql_upsert_account org con ext row cols)" "stmt_keeps same_urls (sql_mark_missing org con key seen)"
  "stmt_keeps same_urls (sql_upsert_entitlement org con ext name)" "stmt_keeps same_urls (sql_grant org ent src con ext)"
  "stmt_keeps same_urls (sql_insert_link org person acct conf reason)"
  "stmt_keeps same_urls (sql_insert_candidate org person acct conf reasons)"
  "stmt_keeps same_urls (sql_insert_orphan org acct con reason)" "stmt_keeps same_urls (sql_insert_duplicates org)"
  "stmt_keeps same_urls (sql_sync_succeeded n m summary org run)" "stmt_keeps same_urls (sql_connector_synced org con)"
  "stmt_keeps same_urls (sql_run_succeeded n m found summary org run)" "stmt_keeps same_urls (sql_sync_failed code msg org run)"
  "stmt_keeps same_urls (sql_connector_failed org con)" "stmt_keeps same_urls (sql_run_failed code org run)"
  unfolding sql_start_sync_def sql_start_run_def sql_upsert_account_def sql_mark_missing_def sql_upsert_entitlement_def
    sql_grant_def sql_insert_link_def sql_insert_candidate_def sql_insert_orphan_def sql_insert_duplicates_def
    sql_sync_succeeded_def sql_connector_synced_def sql_run_succeeded_def sql_sync_failed_def sql_connector_failed_def
    sql_run_failed_def
  by (auto simp: stmt_keeps_def same_urls_def url_of_def upd_def map_update_where split: option.splits if_splits)

lemmas traffic_statements = url_statements [THEN traffic_exec]

section \<open>The parts of the service\<close>

text \<open>The secret store and the notifier may send requests of their own, \<open>S\<close>, and the notifier stores notifications.\<close>

definition outside :: "(http_request \<Rightarrow> bool) \<Rightarrow> store networld \<Rightarrow> store networld \<Rightarrow> bool" where
  "outside S w w' \<longleftrightarrow> only_notifies (db w) (db w') \<and> ldap_log w' = ldap_log w \<and> (\<exists>qs. sent w' = sent w @ qs \<and> list_all S qs)"

definition service_sends :: "(http_request \<Rightarrow> bool) \<Rightarrow> Service \<Rightarrow> bool" where
  "service_sends S s \<longleftrightarrow> secrets_keep (sends S) s \<and> (\<forall>n e. NotifierOf s = Some n \<longrightarrow> keeps (outside S) (n e))"

lemma traffic_outside: "keeps (outside S) m \<Longrightarrow> (\<And>q. S q \<Longrightarrow> P q) \<Longrightarrow> keeps (traffic P L U org con) m"
proof -
  assume m: "keeps (outside S) m" and S: "\<And>q. S q \<Longrightarrow> P q"
  have "same_urls (db w) (db (snd (m w)))" for w
    using m [unfolded keeps_def, THEN spec, of w] by (auto simp: outside_def only_notifies_def same_urls_def)
  moreover have "list_all S qs \<Longrightarrow> list_all P qs" for qs using S by (auto simp: list_all_iff)
  ultimately show "keeps (traffic P L U org con) m"
    using m unfolding keeps_def outside_def traffic_def by (metis append_Nil2 list.pred_inject(1) same_urls_in)
qed

lemma traffic_send_event:
  assumes "service_sends S s" and "\<And>q. S q \<Longrightarrow> P q"
  shows "keeps (traffic P L U org con) (send_event (NotifierOf s) tenant ty payload)"
proof (cases "NotifierOf s")
  case (Some n)
  then have "keeps (traffic P L U org con) (n e)" for e
    using assms by (intro traffic_outside [of S]) (auto simp: service_sends_def)
  with Some show ?thesis unfolding send_event_def option.case by (auto intro!: traffic_rules)
qed (simp add: send_event_def traffic.keeps_ret)

lemma traffic_connectorToken:
  assumes "service_sends S s" and "\<And>q. S q \<Longrightarrow> P q"
  shows "keeps (traffic P L U org con) (connectorToken s tenant cid)"
proof (cases "Secrets s")
  case (Some Decrypt)
  then have "keeps (sends S) (Decrypt c)" for c using assms(1) by (simp add: service_sends_def secrets_keep_def)
  then have "keeps (traffic P L U org con) (Decrypt c)" for c using assms(2) by (intro traffic_sends) (rule sends_mono)
  with Some show ?thesis unfolding connectorToken_def by (auto intro!: traffic_rules)
next
  case None
  then show ?thesis unfolding connectorToken_def None option.case by (intro traffic_rules)
qed

text \<open>A synchronization without its discovery: the statements and the two parts above.\<close>

lemma traffic_match_people: "keeps (traffic P L U org con) (match_people tenant counts a ps candidate)"
proof (induction ps arbitrary: candidate)
  case Nil
  show ?case by (simp add: traffic.keeps_ret)
next
  case (Cons p ps)
  show ?case unfolding match_people.simps by (intro traffic_rules traffic_statements Cons.IH)
qed

lemma traffic_correlate: "keeps (traffic P L U org con) (correlate tenant cid)"
  unfolding correlate_def correlate_account_def by (intro traffic_rules traffic_statements traffic_match_people)

lemma traffic_bodies:
  "keeps (traffic P L U org con) (scim_body tenant cid name run users groups)"
  "keeps (traffic P L U org con) (ldap_body tenant cid name run entries entries')"
  "keeps (traffic P L U org con) (native_body tenant cid name ty run pusers pgroups)"
  unfolding scim_body_def ldap_body_def native_body_def sql_scim_account_def sql_ldap_account_def sql_native_account_def Let_def
  by (intro traffic_rules traffic_statements traffic_correlate)+

lemma traffic_open_run: "keeps (traffic P L U org con) (open_run tenant cid req c)"
  unfolding open_run_def by (intro traffic_rules traffic_statements)

lemma traffic_failSync:
  assumes "service_sends S s" and "\<And>q. S q \<Longrightarrow> P q"
  shows "keeps (traffic P L U org con) (failSync s tenant cid run code e)"
  unfolding failSync_def by (intro traffic_rules traffic_statements traffic_send_event [OF assms])

lemma traffic_or_failSync:
  assumes "service_sends S s" and "\<And>q. S q \<Longrightarrow> P q" and m: "keeps (traffic P L U org con) m"
    and k: "\<And>w x w'. m w = (Inr x, w') \<Longrightarrow> urls_in U org con (db w) \<Longrightarrow> keeps (traffic P L U org con) (k x)"
  shows "keeps (traffic P L U org con) (or_failSync s tenant cid run code m k)"
proof (rule keepsI)
  fix w
  obtain r t where r: "m w = (r, t)" by (cases "m w")
  have t: "traffic P L U org con w t" using m r by (rule keepsD)
  show "traffic P L U org con w (snd (or_failSync s tenant cid run code m k w))"
  proof (cases "urls_in U org con (db w)")
    case True
    have "keeps (traffic P L U org con) (case r of Inl e \<Rightarrow> failSync s tenant cid run code e | Inr x \<Rightarrow> k x)"
      using k [of w _ t] r True traffic_failSync [OF assms(1,2)] by (cases r) auto
    then have "traffic P L U org con t (snd ((case r of Inl e \<Rightarrow> failSync s tenant cid run code e | Inr x \<Rightarrow> k x) t))"
      by (simp add: keeps_def)
    with t show ?thesis using traffic.frame_trans r by (auto simp: or_failSync_def bnd_def attempt_def)
  qed (simp add: traffic_def)
qed

section \<open>A synchronization only reads\<close>

definition reads_at :: "(http_request \<Rightarrow> bool) \<Rightarrow> string set \<Rightarrow> http_request \<Rightarrow> bool" where
  "reads_at S U q \<longleftrightarrow> S q \<or> is_read q \<and> (\<exists>b \<in> U. on_base b q)"

definition ldap_reads_at :: "string set \<Rightarrow> ldap_op \<Rightarrow> bool" where
  "ldap_reads_at U op = (case op of LdapBind url dn pw \<Rightarrow> url \<in> U | LdapSearch base filt tree attrs \<Rightarrow> True | _ \<Rightarrow> False)"

lemma reads_atI: "is_read q \<Longrightarrow> on_base b q \<Longrightarrow> b \<in> U \<Longrightarrow> reads_at S U q"
  by (auto simp: reads_at_def)

lemma Scim_New_base: "Scim.New baseURL tok allowHTTP = Inr c \<Longrightarrow> Scim.on_origin c q \<Longrightarrow> on_base baseURL q"
  by (auto simp: Scim.New_def on_base_def Scim.on_origin_def same_origin_def split: option.splits if_splits)

lemma Ldap_New_url: "Ldap.New cfg = Inr cl \<Longrightarrow> URL cl = URL cfg"
  by (auto simp: Ldap.New_def split: option.splits if_splits)

lemma ldap_values_url: "ldap_values b j = Some cfg \<Longrightarrow> URL cfg = b"
  by (auto simp: ldap_values_def as_struct_def bind_eq_Some_conv split: json.splits option.splits)

lemma traffic_ldap_reads:
  assumes "URL cl \<in> U"
  shows "keeps (traffic P (ldap_reads_at U) V org con) (Ldap.SearchUsers cl)"
    "keeps (traffic P (ldap_reads_at U) V org con) (Ldap.SearchGroups cl)"
  unfolding Ldap.SearchUsers_def Ldap.SearchGroups_def Ldap.search_def dial_def ldap_ok_def
  by (intro traffic_rules traffic_ldap_do, simp_all add: ldap_reads_at_def assms)+

lemma same_db_secrets: "service_sends S s \<Longrightarrow> secrets_keep (on_db (=)) s"
  unfolding service_sends_def secrets_keep_def using sends_same_db by blast

lemma traffic_nativeClient:
  assumes "service_sends S s" and "\<And>q. S q \<Longrightarrow> P q"
  shows "keeps (traffic P L U org con) (nativeClient s org con)"
  unfolding nativeClient_def by (intro traffic_rules traffic_connectorToken [OF assms])

lemma traffic_ldapConfiguration:
  assumes "service_sends S s" and "\<And>q. S q \<Longrightarrow> P q"
  shows "keeps (traffic P L U org con) (ldapConfiguration s org con)"
  unfolding ldapConfiguration_def by (intro traffic_rules traffic_connectorToken [OF assms])

text \<open>A client of the connector has one of its base URLs.\<close>

lemma nativeClient_base:
  assumes "service_sends S s" and "nativeClient s org con w = (Inr cl, w')" and "urls_in U org con (db w)"
  obtains ty b credential configuration where "b \<in> U" "new_native ty b credential configuration (AllowHTTP s) = Inr cl"
  using wp_InrD [OF nativeClient_row [OF same_db_secrets [OF assms(1)]] assms(2)] urls_inD [OF assms(3)] by blast

lemma ldapConfiguration_base:
  assumes "service_sends S s" and "ldapConfiguration s org con w = (Inr cfg, w')" and "urls_in U org con (db w)"
  shows "URL cfg \<in> U"
  using wp_InrD [OF ldapConfiguration_row [OF same_db_secrets [OF assms(1)]] assms(2)] urls_inD [OF assms(3)]
  by (auto dest!: ldap_values_url)

lemma traffic_bnd_at:
  assumes m: "keeps (traffic P L U org con) m"
    and k: "\<And>w x w'. m w = (Inr x, w') \<Longrightarrow> urls_in U org con (db w) \<Longrightarrow> keeps (traffic P L U org con) (k x)"
  shows "keeps (traffic P L U org con) (bnd m k)"
proof (rule keepsI)
  fix w
  obtain r t where r: "m w = (r, t)" by (cases "m w")
  have t: "traffic P L U org con w t" using m r by (rule keepsD)
  show "traffic P L U org con w (snd (bnd m k w))"
  proof (cases "urls_in U org con (db w)")
    case True
    then have "\<And>x. r = Inr x \<Longrightarrow> traffic P L U org con t (snd (k x t))" using k r by (auto simp: keeps_def)
    with t show ?thesis using traffic.frame_trans r by (cases r) (auto simp: bnd_def)
  qed (simp add: traffic_def)
qed

lemma traffic_native_reads:
  assumes "new_native ty b credential configuration allowHTTP = Inr cl" and "b \<in> U"
  shows "keeps (traffic (reads_at S U) L V org con) (Client.ListUsers cl)"
    "keeps (traffic (reads_at S U) L V org con) (Client.ListGroups cl)"
proof -
  obtain http where c: "native_client http cl" "\<And>q. NativeHttp.on_origin http q \<Longrightarrow> on_base b q"
    using new_native_contract [OF assms(1)] by metis
  show "keeps (traffic (reads_at S U) L V org con) (Client.ListUsers cl)"
    "keeps (traffic (reads_at S U) L V org con) (Client.ListGroups cl)"
    using c(2) assms(2)
    by (auto intro!: traffic_sends sends_mono [OF native_client.reads_ListUsers [OF c(1)]]
        sends_mono [OF native_client.reads_ListGroups [OF c(1)]] intro: reads_atI)
qed

lemma traffic_scim_reads:
  assumes "Scim.New b tok allowHTTP = Inr cl" and "b \<in> U"
  shows "keeps (traffic (reads_at S U) L V org con) (Scim.ListUsers cl n)"
    "keeps (traffic (reads_at S U) L V org con) (Scim.ListGroups cl n)"
  using Scim_New_base [OF assms(1)] assms(2)
  by (auto intro!: traffic_sends sends_mono [OF scim_reads(2)] sends_mono [OF scim_reads(3)] intro: reads_atI)

lemma traffic_scan_string:
  assumes "\<And>b. x = Some b \<Longrightarrow> keeps (traffic P L U org con) (k b)"
  shows "keeps (traffic P L U org con) (bnd (scan_string x) k)"
proof (cases x)
  case None
  then have "bnd (scan_string x) k = fail (DBError ''cannot scan NULL into *string'')"
    by (auto simp: fun_eq_iff bnd_def scan_string_def fail_def)
  then show ?thesis by (simp add: traffic.keeps_fail)
next
  case (Some b)
  then have "bnd (scan_string x) k = k b" by (auto simp: fun_eq_iff bnd_def scan_string_def ret_def)
  then show ?thesis using assms [OF Some] by simp
qed

lemma traffic_SyncConnector:
  assumes S: "service_sends S s"
  shows "keeps (traffic (reads_at S U) (ldap_reads_at U) U org con) (SyncConnector s org con req)"
proof -
  have own: "\<And>q. S q \<Longrightarrow> reads_at S U q" by (simp add: reads_at_def)
  note run = traffic_open_run traffic_tx traffic_bodies traffic_or_failSync [OF S own] traffic_connectorToken [OF S own]
  have scim: "keeps (traffic (reads_at S U) (ldap_reads_at U) U org con) (SyncSCIM s org con req)"
    unfolding SyncSCIM_def
    by (intro traffic_find traffic_scan_string traffic.keeps_bnd run)
      (auto intro!: traffic.keeps_combinators traffic_scim_reads simp: coalesce_empty_def liftE_def)
  have ldap: "keeps (traffic (reads_at S U) (ldap_reads_at U) U org con) (SyncLDAP s org con req cfg)" if "URL cfg \<in> U" for cfg
    unfolding SyncLDAP_def
    by (intro traffic_find traffic.keeps_bnd run)
      (use that in \<open>auto intro!: traffic.keeps_combinators traffic_ldap_reads simp: liftE_def dest: Ldap_New_url\<close>)
  have native: "keeps (traffic (reads_at S U) (ldap_reads_at U) U org con) (SyncNative s org con req)"
    unfolding SyncNative_def
    by (intro traffic_find traffic.keeps_bnd run traffic_nativeClient [OF S own])
      (auto intro!: traffic_native_reads elim!: nativeClient_base [OF S])
  have "keeps (traffic (reads_at S U) (ldap_reads_at U) U org con) (bnd (ldapConfiguration s org con) (SyncLDAP s org con req))"
    by (rule traffic_bnd_at [OF traffic_ldapConfiguration [OF S own]]) (auto intro: ldap ldapConfiguration_base [OF S])
  then show ?thesis unfolding SyncConnector_def connector_type_def
    by (intro traffic.keeps_if traffic.keeps_fail scim native traffic.keeps_bnd [OF traffic_query_row])
qed

text \<open>
  C10: A synchronization only reads at the provider. Whatever it returns, every HTTP request it sent is a
  GET or HEAD to the scheme and host of the base URL stored for this very connector of this tenant,
  except for the requests of the secret store and the notifier themselves, and every LDAP operation is
  a bind to that URL or a search. So neither pagination links nor redirects of a provider can lead a
  synchronization to another host or make it write.
\<close>

theorem sync_only_reads:
  assumes "service_sends S s" and "SyncConnector s org con req w = (r, w')"
  shows "\<exists>qs ops. sent w' = sent w @ qs \<and> ldap_log w' = ldap_log w @ ops \<and>
    list_all (\<lambda>q. S q \<or> is_read q \<and> (\<exists>c \<in> set (connectors (db w)).
       c_org c = org \<and> c_id c = con \<and> on_base (coalesce_empty (c_base_url c)) q)) qs \<and>
    list_all (\<lambda>op. (\<exists>base filt tree attrs. op = LdapSearch base filt tree attrs) \<or> (\<exists>dn pw. \<exists>c \<in> set (connectors (db w)).
       c_org c = org \<and> c_id c = con \<and> op = LdapBind (coalesce_empty (c_base_url c)) dn pw)) ops"
proof -
  let ?U = "{b. \<exists>c \<in> set (connectors (db w)). c_org c = org \<and> c_id c = con \<and> b = coalesce_empty (c_base_url c)}"
  have "urls_in ?U org con (db w)" by (auto simp: urls_in_def url_of_def list_all_iff)
  with keepsD [OF traffic_SyncConnector [OF assms(1), of ?U org con req] assms(2)]
  obtain qs ops where "sent w' = sent w @ qs" "ldap_log w' = ldap_log w @ ops" and qs: "list_all (reads_at S ?U) qs"
    and ops: "list_all (ldap_reads_at ?U) ops" by (auto simp: traffic_def)
  moreover have "list_all (\<lambda>q. S q \<or> is_read q \<and> (\<exists>c \<in> set (connectors (db w)).
       c_org c = org \<and> c_id c = con \<and> on_base (coalesce_empty (c_base_url c)) q)) qs"
    using qs by (auto simp: reads_at_def elim!: list.pred_mono_strong)
  moreover have "list_all (\<lambda>op. (\<exists>base filt tree attrs. op = LdapSearch base filt tree attrs) \<or> (\<exists>dn pw. \<exists>c \<in> set (connectors (db w)).
       c_org c = org \<and> c_id c = con \<and> op = LdapBind (coalesce_empty (c_base_url c)) dn pw)) ops"
    using ops by (auto simp: ldap_reads_at_def elim!: list.pred_mono_strong split: ldap_op.splits, blast)
  ultimately show ?thesis by blast
qed

theorem sync_only_reads_witness:
  "\<exists>r w' ops. SyncConnector sample_service ''org-1'' ''conn-1'' ''req'' (sample_net sample_tenant) = (r, w') \<and>
     ldap_log w' = [] @ ops \<and>
     list_all (\<lambda>op. (\<exists>base filt tree attrs. op = LdapSearch base filt tree attrs) \<or> (\<exists>dn pw. \<exists>c \<in> set [sample_ldap].
       c_org c = ''org-1'' \<and> c_id c = ''conn-1'' \<and> op = LdapBind (coalesce_empty (c_base_url c)) dn pw)) ops"
proof -
  let ?sync = "SyncConnector sample_service ''org-1'' ''conn-1'' ''req'' (sample_net sample_tenant)"
  have s: "service_sends (\<lambda>_. False) sample_service" by (simp add: service_sends_def secrets_keep_def sample_service_def)
  have run: "?sync = (fst ?sync, snd ?sync)" by simp
  have w: "ldap_log (sample_net sample_tenant) = []" "connectors (db (sample_net sample_tenant)) = [sample_ldap]"
    by (simp_all add: sample_net_def sample_world_def world.defs sample_tenant_def)
  from sync_only_reads [OF s run] show ?thesis unfolding w by (intro exI [of _ "fst ?sync"] exI [of _ "snd ?sync"]) auto
qed

section \<open>A remote action\<close>

text \<open>The writes of an action: requests to the connector's own host, and replacements at the account's own entry.\<close>

definition writes_at :: "(http_request \<Rightarrow> bool) \<Rightarrow> string set \<Rightarrow> http_request \<Rightarrow> bool" where
  "writes_at S U q \<longleftrightarrow> S q \<or> (\<exists>b \<in> U. on_base b q)"

definition ldap_writes_at :: "string set \<Rightarrow> string \<Rightarrow> ldap_op \<Rightarrow> bool" where
  "ldap_writes_at U ext op = (case op of LdapBind url dn pw \<Rightarrow> url \<in> U | LdapSearch base filt tree attrs \<Rightarrow> base = ext
     | LdapReplace dn attribute v \<Rightarrow> dn = ext | LdapDelete dn attribute v \<Rightarrow> False)"

lemma writes_atI: "on_base b q \<Longrightarrow> b \<in> U \<Longrightarrow> writes_at S U q"
  by (auto simp: writes_at_def)

lemma traffic_ldap_writes:
  assumes "URL cl \<in> U"
  shows "keeps (traffic P (ldap_writes_at U ext) V org con) (Ldap.DisableUser cl ext)"
    "keeps (traffic P (ldap_writes_at U ext) V org con) (Ldap.GetUser cl ext)"
  unfolding Ldap.DisableUser_def Ldap.GetUser_def dial_def ldap_ok_def
  by (intro traffic_rules traffic_ldap_do, simp_all add: ldap_writes_at_def assms)+

lemma traffic_native_writes:
  assumes "new_native ty b credential configuration allowHTTP = Inr cl" and "b \<in> U"
  shows "keeps (traffic (writes_at S U) L V org con) (Client.DisableUser cl ext)"
    "keeps (traffic (writes_at S U) L V org con) (Client.GetUser cl ext)"
proof -
  obtain http where c: "native_client http cl" "\<And>q. NativeHttp.on_origin http q \<Longrightarrow> on_base b q"
    using new_native_contract [OF assms(1)] by metis
  show "keeps (traffic (writes_at S U) L V org con) (Client.DisableUser cl ext)"
    "keeps (traffic (writes_at S U) L V org con) (Client.GetUser cl ext)"
    using c(2) assms(2)
    by (auto intro!: traffic_sends sends_mono [OF native_client.stays_DisableUser [OF c(1)]]
        sends_mono [OF native_client.stays_GetUser [OF c(1)]] intro: writes_atI)
qed

lemma traffic_scim_writes:
  assumes "Scim.New b tok allowHTTP = Inr cl" and "b \<in> U"
  shows "keeps (traffic (writes_at S U) L V org con) (Scim.DisableUser cl ext)"
    "keeps (traffic (writes_at S U) L V org con) (Scim.GetUser cl ext)"
  using Scim_New_base [OF assms(1)] assms(2)
  by (auto intro!: traffic_sends sends_mono [OF scim_writes] sends_mono [OF scim_reads(4)] intro: writes_atI)

text \<open>\<open>confirmed s org con d ty base ext w'\<close>: the last thing that happened is that the connector's client, after it
  disabled the account, read it back as inactive.\<close>

inductive confirmed ::
  "Service \<Rightarrow> string \<Rightarrow> string \<Rightarrow> store \<Rightarrow> string \<Rightarrow> string \<Rightarrow> string \<Rightarrow> store networld \<Rightarrow> bool"
  for s org con d where
  by_scim: "confirmed s org con d ''SCIM_2_0'' base ext w'"
  if "Scim.New base tok (AllowHTTP s) = Inr cl" "Scim.DisableUser cl ext w1 = (Inr (), w2)"
    "Scim.GetUser cl ext w2 = (Inr u, w')" "\<not> su_Active u"
| by_ldap: "confirmed s org con d ''LDAP_DIRECTORY'' base ext w'"
  if "find_connector org con (\<lambda>c. c_type c = ''LDAP_DIRECTORY'') d = Some c"
    "ldap_values (coalesce_empty (c_base_url c)) (c_configuration c) = Some cfg" "Ldap.New (cfg\<lparr>Password := pw\<rparr>) = Inr cl"
    "Ldap.DisableUser cl ext w1 = (Inr (), w2)" "Ldap.GetUser cl ext w2 = (Inr e, w')" "IsDisabled e"
| by_native: "confirmed s org con d ty base ext w'"
  if "find_connector org con (\<lambda>c. c_type c \<in> set native_types) d = Some c"
    "new_native (c_type c) (coalesce_empty (c_base_url c)) credential configuration (AllowHTTP s) = Inr cl"
    "Client.DisableUser cl ext w1 = (Inr (), w2)" "Client.GetUser cl ext w2 = (Inr p, w')" "\<not> pu_Active p"

lemma bnd_InrD: "bnd m k w = (Inr y, w') \<Longrightarrow> \<exists>x t. m w = (Inr x, t) \<and> k x t = (Inr y, w')"
  by (auto elim: bnd_InrE)

lemma remote_confirmed:
  assumes sec: "secrets_keep (on_db (=)) s" and run: "executeRemoteAction s org con ty base ext act w = (Inr True, w')"
  shows "confirmed s org con (db w) ty base ext w'"
proof -
  consider (scim) "ty = ''SCIM_2_0''" | (ldap) "ty = ''LDAP_DIRECTORY''" "act = ''DISABLE_ACCOUNT''" | (native) "ty \<in> set native_types"
      "ty \<noteq> ''SCIM_2_0''" "ty \<noteq> ''LDAP_DIRECTORY''"
    using run by (auto simp: executeRemoteAction_def fail_def split: if_splits)
  then show ?thesis
  proof cases
    case scim
    then show ?thesis using run unfolding executeRemoteAction_def
      by (auto dest!: bnd_InrD simp: liftE_def ret_def intro: confirmed.by_scim)
  next
    case ldap
    then show ?thesis using run unfolding executeRemoteAction_def
      by (auto dest!: bnd_InrD wp_InrD [OF ldapConfiguration_row [OF sec]] simp: liftE_def ret_def intro: confirmed.by_ldap)
  next
    case native
    then show ?thesis using run unfolding executeRemoteAction_def
      by (auto dest!: bnd_InrD wp_InrD [OF nativeClient_row [OF sec]] simp: ret_def intro: confirmed.by_native)
  qed
qed

text \<open>Binding the client that the connector's row gives, for a relation that its operations keep.\<close>

lemma unchanged_bnd_native:
  assumes "secrets_keep (on_db (=)) s"
    and "\<And>ty b credential configuration cl. new_native ty b credential configuration (AllowHTTP s) = Inr cl \<Longrightarrow> keeps (on_db (=)) (k cl)"
  shows "keeps (on_db (=)) (bnd (nativeClient s org con) k)"
proof (rule keepsI)
  fix w
  show "on_db (=) w (snd (bnd (nativeClient s org con) k w))"
  proof (cases "nativeClient s org con w")
    case (Pair r t)
    then have t: "db t = db w" using keepsD [OF keeps_nativeClient [OF assms(1)]] by (force simp: on_db_def)
    show ?thesis
    proof (cases r)
      case (Inr cl)
      with Pair have "keeps (on_db (=)) (k cl)" using wp_InrD [OF nativeClient_row [OF assms(1)]] assms(2) by metis
      with Pair Inr t show ?thesis by (simp add: bnd_def keeps_def on_db_def)
    qed (use Pair t in \<open>simp add: bnd_def on_db_def\<close>)
  qed
qed

lemma unchanged_remote:
  assumes "secrets_keep (on_db (=)) s"
  shows "keeps (on_db (=)) (executeRemoteAction s org con ty base ext act)"
proof -
  have native: "keeps (on_db (=)) (bnd (nativeClient s org con) (\<lambda>cl. bnd (Client.DisableUser cl ext) (\<lambda>_.
      bnd (Client.GetUser cl ext) (\<lambda>observed. ret (\<not> pu_Active observed)))))"
    by (intro unchanged_bnd_native assms unchanged_rules keeps_native_lists, assumption+)
  show ?thesis unfolding executeRemoteAction_def
    by (intro native unchanged_rules keeps_connectorToken keeps_ldapConfiguration assms keeps_ldap_client
        sends_same_db [OF scim_writes] sends_same_db [OF scim_reads(4)])
qed

lemma traffic_remote:
  assumes S: "service_sends S s" and U: "base \<in> U"
  shows "keeps (traffic (writes_at S U) (ldap_writes_at U ext) U org con) (executeRemoteAction s org con ty base ext act)"
proof -
  have own: "\<And>q. S q \<Longrightarrow> writes_at S U q" by (simp add: writes_at_def)
  have native: "keeps (traffic (writes_at S U) (ldap_writes_at U ext) U org con) (bnd (nativeClient s org con) (\<lambda>cl.
      bnd (Client.DisableUser cl ext) (\<lambda>_. bnd (Client.GetUser cl ext) (\<lambda>observed. ret (\<not> pu_Active observed)))))"
    by (rule traffic_bnd_at [OF traffic_nativeClient [OF S own]])
      (assumption, erule nativeClient_base [OF S], assumption, intro traffic.keeps_combinators traffic_native_writes, assumption+)
  have ldap: "keeps (traffic (writes_at S U) (ldap_writes_at U ext) U org con) (bnd (ldapConfiguration s org con) (\<lambda>cfg.
      bnd (liftE (Ldap.New cfg)) (\<lambda>cl. bnd (Ldap.DisableUser cl ext) (\<lambda>_. bnd (Ldap.GetUser cl ext) (\<lambda>observed. ret (IsDisabled observed))))))"
    by (rule traffic_bnd_at [OF traffic_ldapConfiguration [OF S own]])
      (auto intro!: keeps_liftE_bnd [OF traffic.state_frame_axioms] traffic.keeps_combinators traffic_ldap_writes
        dest!: Ldap_New_url ldapConfiguration_base [OF S])
  have scim: "keeps (traffic (writes_at S U) (ldap_writes_at U ext) U org con) (bnd (connectorToken s org con) (\<lambda>tok.
      bnd (liftE (Scim.New base tok (AllowHTTP s))) (\<lambda>cl.
      bnd (Scim.DisableUser cl ext) (\<lambda>_. bnd (Scim.GetUser cl ext) (\<lambda>observed. ret (\<not> su_Active observed))))))"
    by (intro traffic.keeps_bnd [OF traffic_connectorToken [OF S own]] keeps_liftE_bnd [OF traffic.state_frame_axioms])
      (auto intro!: traffic.keeps_combinators traffic_scim_writes U)
  show ?thesis unfolding executeRemoteAction_def by (intro traffic.keeps_if traffic.keeps_fail scim ldap native)
qed


text \<open>A directory in which disabling an entry works: it is read as disabled afterwards.\<close>

definition disabling_directory :: "nat \<Rightarrow> ldap_op \<Rightarrow> ldap_error + Entry list" where
  "disabling_directory n op = (case op of
     LdapSearch base filt tree attrs \<Rightarrow>
       Inr [\<lparr>DN = base, Attributes = [(''userAccountControl'', [if n < 8 then ''512'' else ''514''])]\<rparr>]
   | _ \<Rightarrow> Inr [])"

definition sample_uac :: connector_row where
  "sample_uac = sample_ldap\<lparr>c_configuration := JObj [(''SearchBase'', JStr ''dc=x''), (''UserFilter'', JStr ''(u=*)''),
     (''GroupFilter'', JStr ''(g=*)''), (''DisableStrategy'', JStr ''ACTIVE_DIRECTORY_UAC'')]\<rparr>"

definition sample_uac_world :: "store networld" where
  "sample_uac_world = (sample_net (sample_tenant\<lparr>connectors := [sample_uac]\<rparr>))\<lparr>directory := disabling_directory\<rparr>"


section \<open>Dialers\<close>


end
