(* ===== verification/EndToEnd.thy ===== *)
theory EndToEnd
  imports Traffic
begin

text \<open>
  The components put together: the offboarding run with the service's own \<open>executeRemoteAction\<close> as the
  remote action, the server's notifier and secret stores as its parts. What the lifecycle assumes of
  them is discharged here.
\<close>

section \<open>The server's notifier and secret stores\<close>

definition webhook_only :: "Webhook option \<Rightarrow> http_request \<Rightarrow> bool" where
  "webhook_only wh q \<longleftrightarrow> (\<exists>n. wh = Some n \<and> q_url q = wh_endpoint n \<and> q_method q = ''POST'')"

interpretation outside: state_frame "outside S" for S
proof
  fix s t u
  show "outside S s s" using notifies.db_refl by (simp add: outside_def)
  show "outside S s t \<Longrightarrow> outside S t u \<Longrightarrow> outside S s u"
    unfolding outside_def using notifies.db_trans by (metis append.assoc list_all_append)
qed

lemma outside_sends: "keeps (sends S) m \<Longrightarrow> keeps (outside S) m"
  using notifies.db_refl by (auto simp: keeps_def sends_def outside_def)

lemma outside_exec:
  assumes "stmt_keeps only_notifies st"
  shows "keeps (outside S) (exec st)"
proof (rule keepsI)
  fix w
  show "outside S w (snd (exec st w))"
    by (rule exec_cases [of st w]) (use assms notifies.db_refl in \<open>auto simp: outside_def stmt_keeps_def\<close>)
qed

lemma outside_InApp: "keeps (outside S) (InApp e)"
  unfolding InApp_def sql_insert_notification_def
  by (intro outside_exec notifies.stmt_keeps_upd) (auto simp: only_notifies_def)

lemma outside_webhook: "keeps (outside (webhook_only (Some n))) (webhook_notify n e)"
  unfolding webhook_notify_def
  by (intro outside.keeps_combinators outside_sends [OF sends_time_now] outside_sends [OF sends_round_trip])
    (simp add: webhook_only_def webhook_request_def Let_def)

lemma outside_server_notifier:
  assumes "server_notifier wh = Some n"
  shows "keeps (outside (webhook_only wh)) (n e)"
proof -
  have "n = Fanout (Some InApp # (case wh of None \<Rightarrow> [] | Some n \<Rightarrow> [Some (webhook_notify n)]))"
    using assms by (simp add: server_notifier_def)
  then show ?thesis
    by (cases wh) (auto simp: Fanout_def fanout_each_def intro!: outside.keeps_combinators outside_InApp outside_webhook)
qed

lemma vault_stays: "keeps (sends (\<lambda>q. same_origin (v_origin v) (q_url q))) (vault_Decrypt v c)"
proof -
  have stable: "redirect_stable (rp_origin (v_policy v)) (\<lambda>q. same_origin (v_origin v) (q_url q))"
    by (simp add: redirect_stable_def v_policy_def redirect_request_def)
  have "keeps (sends (\<lambda>q. same_origin (v_origin v) (q_url q))) (v_call v (v_request v operation input) n err)" for operation input n err
  proof (induction n arbitrary: err)
    case 0
    show ?case by (simp add: sends.keeps_fail)
  next
    case (Suc n)
    show ?case unfolding v_call.simps Let_def
      by (intro sends.keeps_combinators sends_http_do [OF stable] Suc.IH)
        (simp add: v_request_def v_endpoint_def same_origin_def)
  qed
  then show ?thesis unfolding vault_Decrypt_def by (intro sends.keeps_combinators)
qed

text \<open>The service as the server builds it.\<close>

definition server_service :: "Service \<Rightarrow> (string \<Rightarrow> string \<Rightarrow> string \<Rightarrow> string option) \<Rightarrow> VaultTransitStore option \<Rightarrow> Webhook option \<Rightarrow> bool" where
  "server_service s unseal vault wh \<longleftrightarrow> NotifierOf s = server_notifier wh \<and>
     (case vault of Some v \<Rightarrow> Secrets s = Some (vault_Decrypt v)
      | None \<Rightarrow> \<exists>st. Secrets s = Some (\<lambda>c. liftE (aes_Decrypt unseal st c)))"

definition own_requests :: "VaultTransitStore option \<Rightarrow> Webhook option \<Rightarrow> http_request \<Rightarrow> bool" where
  "own_requests vault wh q \<longleftrightarrow> webhook_only wh q \<or> (\<exists>v. vault = Some v \<and> same_origin (v_origin v) (q_url q))"

lemma outside_mono: "keeps (outside S) m \<Longrightarrow> (\<And>q. S q \<Longrightarrow> S' q) \<Longrightarrow> keeps (outside S') m"
  unfolding keeps_def outside_def by (metis (mono_tags, lifting) list.pred_mono_strong)

lemma server_service_sends:
  assumes "server_service s unseal vault wh"
  shows "service_sends (own_requests vault wh) s"
  unfolding service_sends_def secrets_keep_def
proof (intro conjI allI impI)
  fix Decrypt c assume d: "Secrets s = Some Decrypt"
  show "keeps (sends (own_requests vault wh)) (Decrypt c)"
  proof (cases vault)
    case None
    with d assms show ?thesis by (auto simp: server_service_def intro: sends.keeps_liftE)
  next
    case (Some v)
    with d assms have "Decrypt = vault_Decrypt v" by (simp add: server_service_def)
    then show ?thesis using Some by (auto intro: sends_mono [OF vault_stays] simp: own_requests_def)
  qed
next
  fix n e assume "NotifierOf s = Some n"
  then have "server_notifier wh = Some n" using assms by (simp add: server_service_def)
  from outside_server_notifier [OF this] show "keeps (outside (own_requests vault wh)) (n e)"
    by (rule outside_mono) (simp add: own_requests_def)
qed

lemma service_sends_ok: "service_sends S s \<Longrightarrow> service_ok s org"
  using same_db_secrets by (auto simp: service_ok_def service_sends_def notifier_keeps_def keeps_def outside_def on_db_def)

section \<open>What a run says about the accounts\<close>

lemma lifecycle_same_accounts:
  "stmt_keeps same_accounts (sql_start_case org cid)" "stmt_keeps same_accounts (sql_start_action org aid)"
  "stmt_keeps same_accounts (sql_finish_action outcome summary org aid)"
  "stmt_keeps same_accounts (sql_insert_evidence org cid av outcome summary)" "stmt_keeps same_accounts (sql_verifying org cid)"
  "stmt_keeps same_accounts (sql_insert_snapshot org cid v status)"
  "stmt_keeps same_accounts (sql_complete_case org cid final status v)"
  "stmt_keeps same_accounts (sql_insert_event org cid ty summary meta)"
  unfolding sql_start_case_def
  by (auto simp: stmt_keeps_def same_accounts_def upd_def run_statements Let_def)

lemma keeps_verify_accounts:
  assumes "notifier_keeps (on_db only_notifies) org notify"
  shows "keeps (on_db same_accounts) (verify_case notify org cid failed)"
  unfolding verify_case_def count_case_def record_verdict_def Let_def
  by (intro kept_accounts.world.keeps_combinators kept_accounts.keeps_database kept_accounts.keeps_exec lifecycle_same_accounts
      keeps_send_event_weaken [OF kept_accounts.db_frame_axioms assms])
    (simp add: same_accounts_def)

text \<open>
  An account was observed inactive for a case when an action of the case for this account, at a
  connector \<open>con\<close>, was confirmed there for the account's external id.
\<close>

definition observed_inactive :: "Service \<Rightarrow> string \<Rightarrow> string \<Rightarrow> store \<Rightarrow> account_row \<Rightarrow> bool" where
  "observed_inactive s org cid d0 a \<longleftrightarrow> (\<exists>r \<in> set (actions d0). la_org r = org \<and> la_case r = cid \<and> la_account r = Some (a_id a) \<and>
     (\<exists>con ty base d w'. la_connector r = Some con \<and> confirmed s org con d ty base (a_external a) w'))"

text \<open>Every account is as it was, or was disabled by this run after it was observed.\<close>

definition run_accounts :: "Service \<Rightarrow> string \<Rightarrow> string \<Rightarrow> store \<Rightarrow> store \<Rightarrow> bool" where
  "run_accounts s org cid d0 d \<longleftrightarrow> map a_id (accounts d) = map a_id (accounts d0) \<and>
     (\<forall>a \<in> set (accounts d). \<exists>a0 \<in> set (accounts d0). a_id a0 = a_id a \<and> account_key a0 = account_key a \<and>
        (a = a0 \<or> a_org a = org \<and> a_status a = ''DISABLED'' \<and> observed_inactive s org cid d0 a))"

text \<open>The view of an action fits the account it is about.\<close>

definition view_fits :: "string \<Rightarrow> string \<Rightarrow> store \<Rightarrow> action_view \<Rightarrow> bool" where
  "view_fits org cid d0 v \<longleftrightarrow>
     (\<exists>r \<in> set (actions d0). la_org r = org \<and> la_case r = cid \<and> la_account r = Some (av_accountID v) \<and> la_connector r = Some (av_connectorID v)) \<and>
     (\<forall>a \<in> set (accounts d0). a_org a = org \<longrightarrow> a_id a = av_accountID v \<longrightarrow> a_external a = av_externalID v)"

lemma run_accounts_refl: "run_accounts s org cid d d"
  by (auto simp: run_accounts_def)

lemma run_accounts_same: "same_accounts d d' \<Longrightarrow> run_accounts s org cid d0 d \<Longrightarrow> run_accounts s org cid d0 d'"
  by (simp add: same_accounts_def run_accounts_def)

lemma run_accounts_disabled:
  assumes r: "run_accounts s org cid d0 d" and v: "view_fits org cid d0 v"
    and c: "confirmed s org (av_connectorID v) d1 ty base (av_externalID v) w1"
    and st: "sql_account_disabled org (av_accountID v) now gen d = Inr (u, d')"
  shows "run_accounts s org cid d0 d'"
proof -
  let ?P = "\<lambda>a. a_org a = org \<and> a_id a = av_accountID v"
  let ?f = "\<lambda>a. a\<lparr>a_status := ''DISABLED'', a_last_seen := now, a_updated := now\<rparr>"
  have d': "accounts d' = update_where ?P ?f (accounts d)" using st by (auto simp: sql_account_disabled_def upd_def)
  have "\<exists>a0 \<in> set (accounts d0). a_id a0 = a_id b \<and> account_key a0 = account_key b \<and>
        (b = a0 \<or> a_org b = org \<and> a_status b = ''DISABLED'' \<and> observed_inactive s org cid d0 b)" if mem: "b \<in> set (accounts d')" for b
  proof -
    obtain a where a: "a \<in> set (accounts d)" and b: "b = (if ?P a then ?f a else a)"
      using mem by (auto simp: d' set_update_where)
    obtain a0 where a0: "a0 \<in> set (accounts d0)" "a_id a0 = a_id a" "account_key a0 = account_key a"
        "a = a0 \<or> a_org a = org \<and> a_status a = ''DISABLED'' \<and> observed_inactive s org cid d0 a"
      using r a unfolding run_accounts_def by blast
    show ?thesis
    proof (cases "?P a")
      case True
      then have "a_external a0 = av_externalID v" using v a0(1-3) by (auto simp: view_fits_def account_key_def)
      then have "observed_inactive s org cid d0 b"
        using v c a0(2,3) True b by (fastforce simp: view_fits_def observed_inactive_def account_key_def)
      then show ?thesis using a0(1-3) True b by (intro bexI [of _ a0]) (simp_all add: account_key_def)
    qed (use a0 b in auto)
  qed
  moreover have "map a_id (accounts d') = map a_id (accounts d0)"
    using r unfolding d' by (simp add: run_accounts_def map_update_where)
  ultimately show ?thesis by (simp add: run_accounts_def)
qed

lemma wp_keeps_run:
  assumes "keeps (on_db same_accounts) m" and "run_accounts s org cid d0 (db w)"
  shows "wp m (\<lambda>_ w'. run_accounts s org cid d0 (db w')) (\<lambda>_ w'. run_accounts s org cid d0 (db w')) w"
  by (rule wp_carried [OF assms(1), where P = "run_accounts s org cid d0"]) (use run_accounts_same assms(2) in auto)

lemma wp_action_outcome:
  assumes sec: "secrets_keep (on_db (=)) s" and v: "view_fits org cid d0 v" and r: "run_accounts s org cid d0 (db w)"
  shows "wp (action_outcome (executeRemoteAction s) org v failed) (\<lambda>_ w'. run_accounts s org cid d0 (db w'))
    (\<lambda>_ w'. run_accounts s org cid d0 (db w')) w"
proof (cases "av_typ v = ''DISABLE_ACCOUNT'' \<or> av_typ v = ''REMOVE_MEMBERSHIP''")
  case False
  then have "keeps (on_db same_accounts) (action_outcome (executeRemoteAction s) org v failed)"
    unfolding action_outcome_def by (auto intro!: kept_accounts.world.keeps_combinators kept_accounts.keeps_database)
  then show ?thesis using r by (rule wp_keeps_run)
next
  case True
  let ?I = "\<lambda>_ w'. run_accounts s org cid d0 (db w')"
  have disabled: "wp (bnd (exec (sql_account_disabled org (av_accountID v))) (\<lambda>_. ret x)) ?I ?I t"
    if "db t = db w" "confirmed s org (av_connectorID v) d1 ty base (av_externalID v) w1"
    for t :: "store networld" and d1 ty base w1 and x :: "string \<times> string \<times> string list"
    unfolding wp_bnd wp_ret by (rule wp_exec_db) (use run_accounts_disabled [OF r v that(2)] r that(1) in auto)
  show ?thesis unfolding action_outcome_def if_P [OF True] wp_bnd wp_attempt
  proof (rule wpI)
    fix x t assume run: "executeRemoteAction s org (av_connectorID v) (av_connectorType v) (av_baseURL v) (av_externalID v) (av_typ v) w = (Inr x, t)"
    then have t: "db t = db w" using keepsD [OF unchanged_remote [OF sec]] by (force simp: on_db_def)
    have "x \<Longrightarrow> confirmed s org (av_connectorID v) (db w) (av_connectorType v) (av_baseURL v) (av_externalID v) t"
      using remote_confirmed [OF sec] run by (cases x) auto
    then show "wp (case Inr x of Inl e \<Rightarrow> ret (''FAILED'', ''Provider action or post-write read failed'', List.insert (av_connectorID v) failed)
        | Inr True \<Rightarrow> bnd (exec (sql_account_disabled org (av_accountID v))) (\<lambda>_.
             ret (''SUCCEEDED'', ''Provider was re-read and access was observed disabled or removed'', failed))
        | Inr False \<Rightarrow> ret (''FAILED'', ''Provider accepted the change but reconciliation still observed active access'', failed)) ?I ?I t"
      using t r disabled by (cases x) (auto simp: wp_ret)
  next
    fix e t assume run: "executeRemoteAction s org (av_connectorID v) (av_connectorType v) (av_baseURL v) (av_externalID v) (av_typ v) w = (Inl e, t)"
    then have t: "db t = db w" using keepsD [OF unchanged_remote [OF sec]] by (force simp: on_db_def)
    with r show "wp (case Inl e of Inl e \<Rightarrow> ret (''FAILED'', ''Provider action or post-write read failed'', List.insert (av_connectorID v) failed)
        | Inr True \<Rightarrow> bnd (exec (sql_account_disabled org (av_accountID v))) (\<lambda>_.
             ret (''SUCCEEDED'', ''Provider was re-read and access was observed disabled or removed'', failed))
        | Inr False \<Rightarrow> ret (''FAILED'', ''Provider accepted the change but reconciliation still observed active access'', failed)) ?I ?I t"
      by (simp add: wp_ret)
  qed
qed

lemma wp_execute_action:
  assumes sec: "secrets_keep (on_db (=)) s" and v: "view_fits org cid d0 v" and r: "run_accounts s org cid d0 (db w)"
  shows "wp (execute_action (executeRemoteAction s) org cid failed v) (\<lambda>_ w'. run_accounts s org cid d0 (db w'))
    (\<lambda>_ w'. run_accounts s org cid d0 (db w')) w"
proof (cases "av_status v = ''SUCCEEDED''")
  case False
  note kept = wp_keeps_run [OF kept_accounts.keeps_exec]
  show ?thesis unfolding execute_action_def if_not_P [OF False]
    by (rule wp_seqI [OF kept], rule lifecycle_same_accounts, rule r,
        rule wp_seqI [OF wp_action_outcome [OF sec v]], assumption, simp only: wp_case_prod split: prod.split, intro allI impI,
        rule wp_seqI [OF kept], rule lifecycle_same_accounts, assumption,
        rule wp_seqI [OF kept], rule lifecycle_same_accounts, assumption, simp add: wp_ret)
qed (simp add: execute_action_def wp_ret r)

lemma scan_all_mem: "scan_all f rs = Inr vs \<Longrightarrow> v \<in> set vs \<Longrightarrow> \<exists>r \<in> set rs. f r = Inr v"
  by (induction rs arbitrary: vs) (auto split: sum.splits)

lemma some_row: "Some i \<in> set (case xs of [] \<Rightarrow> [None] | y # ys \<Rightarrow> map Some (y # ys)) \<Longrightarrow> i \<in> set xs"
  by (cases xs) auto

lemma view_account_row: "Some i \<in> set (view_accounts org r d) \<Longrightarrow> i \<in> set (accounts d) \<and> Some (a_id i) = la_account r"
  unfolding view_accounts_def using some_row by fastforce

lemma scanned_views_fit:
  assumes "account_keys d" and "scan_all scan_action (take n (action_rows org cid d)) = Inr vs" and "v \<in> set vs"
  shows "view_fits org cid d v"
proof -
  obtain row where row: "row \<in> set (action_rows org cid d)" "scan_action row = Inr v"
    using scan_all_mem [OF assms(2,3)] set_take_subset by fastforce
  then obtain r i c where r: "row = (r, Some i, Some c)" "la_connector r = Some (av_connectorID v)" "la_account r = Some (av_accountID v)"
    "av_externalID v = a_external i"
    by (auto simp: scan_action_def split: prod.splits option.splits)
  have mem: "r \<in> set (actions d)" "la_org r = org" "la_case r = cid"
    using row(1) r(1) by (auto simp: action_rows_def case_actions_def)
  have i: "i \<in> set (accounts d)" "a_id i = av_accountID v"
    using row(1) r(1,3) by (auto simp: action_rows_def dest: view_account_row)
  have "a_external a = a_external i" if "a \<in> set (accounts d)" "a_id a = av_accountID v" for a
    using assms(1) that i distinct_map_eq [of a_id "accounts d" a i] by (auto simp: account_keys_def)
  then show ?thesis using mem r by (auto simp: view_fits_def)
qed

lemma wp_run_accounts:
  assumes sec: "secrets_keep (on_db (=)) s" and n: "notifier_keeps (on_db only_notifies) org notify" and keys: "account_keys (db w)"
  shows "wp (run_case (executeRemoteAction s) notify org cid) (\<lambda>_ w'. run_accounts s org cid (db w) (db w'))
    (\<lambda>_ w'. run_accounts s org cid (db w) (db w')) w"
proof -
  let ?I = "\<lambda>_ w'. run_accounts s org cid (db w) (db w')"
  have rest: "wp (bnd (liftE (scan_all scan_action (take m (action_rows org cid (db w))))) (\<lambda>actions.
      bnd (fold_comp (execute_action (executeRemoteAction s) org cid) [] actions) (\<lambda>failedSystems.
      verify_case notify org cid failedSystems))) ?I ?I t" if t: "db t = db w" for m and t :: "store networld"
  proof (cases "scan_all scan_action (take m (action_rows org cid (db w)))")
    case (Inl e)
    then show ?thesis using t by (simp add: wp_simps run_accounts_refl)
  next
    case (Inr vs)
    then have fit: "\<forall>v \<in> set vs. view_fits org cid (db w) v" using scanned_views_fit [OF keys] by blast
    have "wp (fold_comp (execute_action (executeRemoteAction s) org cid) [] vs)
        (\<lambda>_ u. run_accounts s org cid (db w) (db u) \<and> set [] \<subseteq> set vs) ?I t"
      by (rule wp_fold_comp [where I = "\<lambda>_ u rest. run_accounts s org cid (db w) (db u) \<and> set rest \<subseteq> set vs"])
        (use t run_accounts_refl fit in \<open>auto intro!: wp_mono [OF wp_execute_action [OF sec]]\<close>)
    then show ?thesis unfolding Inr wp_bnd wp_liftE sum.case
      by (rule wp_mono) (use wp_keeps_run [OF keeps_verify_accounts [OF n]] in auto)
  qed
  show ?thesis unfolding run_case_def
    by (rule wp_bndI, rule wp_query_rows)
      (use rest [of "w\<lparr>ticks := Suc (ticks w)\<rparr>"] rest [of "w\<lparr>ticks := Suc (ticks w)\<rparr>" "length (action_rows org cid (db w))"]
        run_accounts_refl in auto)
qed

lemma run_accounts_base:
  "accounts d1 = accounts d0 \<Longrightarrow> actions d1 = actions d0 \<Longrightarrow> run_accounts s org cid d1 d = run_accounts s org cid d0 d"
  by (simp add: run_accounts_def observed_inactive_def)


text \<open>A case of the sample tenant with one approved action, run against the directory above.\<close>

definition sample_e2e :: "store networld" where
  "sample_e2e = (sample_net (sample_tenant\<lparr>connectors := [sample_uac], links := [sample_link], cases := [sample_case ''APPROVED''],
     actions := [sample_action]\<rparr>))\<lparr>directory := disabling_directory\<rparr>"


end
