(* ===== verification/ReconcileProps.thy ===== *)
theory ReconcileProps
  imports Reconcile
begin

text \<open>
  What the import of people and the correlation pass promise: the import overwrites the roster of its
  source as a whole or not at all, and the correlation adds only links it can justify.
\<close>

section \<open>The roster after an import\<close>

text \<open>The abstract view of the people of one source, and what one row of the file says.\<close>

definition roster :: "string \<Rightarrow> string \<Rightarrow> store \<Rightarrow> string \<rightharpoonup> string \<times> string option \<times> string option \<times> string" where
  "roster org src d ext = map_option (\<lambda>p. (p_name p, p_email p, p_department p, p_status p)) (List.find (is_person_key org src ext) (people d))"

definition row_entry :: "Row \<Rightarrow> string \<times> string \<times> string option \<times> string option \<times> string" where
  "row_entry row = (RowEmployeeID row, RowDisplayName row, nullif_empty (RowEmail row), nullif_empty (RowDepartment row), RowStatus row)"

definition imported :: "string \<Rightarrow> string \<Rightarrow> Row list \<Rightarrow> store \<Rightarrow> store \<Rightarrow> bool" where
  "imported org src rows d d' \<longleftrightarrow> roster org src d' = roster org src d ++ map_of (rev (map row_entry rows)) \<and>
     filter (\<lambda>p. \<not> (p_org p = org \<and> p_source p = Some src)) (people d') = filter (\<lambda>p. \<not> (p_org p = org \<and> p_source p = Some src)) (people d) \<and>
     (\<exists>more. map p_id (people d') = map p_id (people d) @ more) \<and> d'\<lparr>people := []\<rparr> = d\<lparr>people := []\<rparr> \<and>
     list_all (\<lambda>row. valid_lifecycle (RowStatus row)) rows"

lemma imported_upsert:
  assumes i: "imported org src rows d0 d" and st: "sql_upsert_person org src row now gen d = Inr (n, d')"
  shows "imported org src (rows @ [row]) d0 d' \<and> n = 1"
proof -
  let ?P = "is_person_key org src (RowEmployeeID row)"
  let ?f = "\<lambda>p. p\<lparr>p_name := RowDisplayName row, p_email := nullif_empty (RowEmail row), p_department := nullif_empty (RowDepartment row),
            p_status := RowStatus row, p_updated := now\<rparr>"
  obtain more where more: "map p_id (people d) = map p_id (people d0) @ more" 
    and d: "d\<lparr>people := []\<rparr> = d0\<lparr>people := []\<rparr>"
    using i unfolding imported_def by blast
  have v: "valid_lifecycle (RowStatus row)" and n: "n = 1" using st by (auto simp: sql_upsert_person_def split: if_splits)
  have key: "is_person_key org src e (if ?P p then ?f p else p) = is_person_key org src e p" for e p
    by (simp add: is_person_key_def)
  have other: "?P p \<Longrightarrow> p_org p = org \<and> p_source p = Some src" for p by (simp add: is_person_key_def)
  show ?thesis
  proof (cases "\<exists>p \<in> set (people d). ?P p")
    case True
    then have d': "d' = d\<lparr>people := update_where ?P ?f (people d)\<rparr>" using st v by (simp add: sql_upsert_person_def)
    obtain q where q: "List.find ?P (people d) = Some q" using True by (metis find_None_iff not_None_eq)
    have "roster org src d' e = ((roster org src d)(fst (row_entry row) \<mapsto> snd (row_entry row))) e" for e
    proof (cases "List.find (is_person_key org src e) (people d)")
      case None
      then have "e \<noteq> RowEmployeeID row" using q by auto
      with None show ?thesis by (simp add: d' roster_def update_where_def find_map key row_entry_def)
    next
      case (Some p)
      then have "?P p \<longleftrightarrow> e = RowEmployeeID row" by (auto dest!: find_SomeD simp: is_person_key_def)
      with Some show ?thesis by (simp add: d' roster_def update_where_def find_map key row_entry_def)
    qed
    then have "roster org src d' = (roster org src d)(fst (row_entry row) \<mapsto> snd (row_entry row))" by blast
    then show ?thesis using i more v n d other unfolding imported_def d'
      by (simp add: map_update_where filter_update_where)
  next
    case False
    then obtain p where d': "d' = d\<lparr>people := people d @ [p]\<rparr>" and p: "is_person_key org src (RowEmployeeID row) p"
        "p_name p = RowDisplayName row" "p_email p = nullif_empty (RowEmail row)" "p_department p = nullif_empty (RowDepartment row)"
        "p_status p = RowStatus row"
      using st v by (auto simp: sql_upsert_person_def is_person_key_def split: if_splits)
    have "roster org src d' e = ((roster org src d)(fst (row_entry row) \<mapsto> snd (row_entry row))) e" for e
      using False p by (auto simp: d' roster_def find_append row_entry_def is_person_key_def find_None_iff split: option.split dest!: find_SomeD)
    then have "roster org src d' = (roster org src d)(fst (row_entry row) \<mapsto> snd (row_entry row))" by blast
    then show ?thesis using i more v n d p(1) unfolding imported_def d' by (simp add: is_person_key_def)
  qed
qed

lemma wp_import_body:
  "wp (import_body org src rows) (\<lambda>n w'. imported org src rows (db w) (db w') \<and> n = int (length rows)) (\<lambda>_ _. True) w"
proof -
  let ?I = "\<lambda>n t rest. \<exists>before. rows = before @ rest \<and> imported org src before (db w) (db t) \<and> n = int (length before)"
  have "wp (import_body org src rows) (\<lambda>n t. ?I n t []) (\<lambda>_ _. True) w" unfolding import_body_def
  proof (rule wp_fold_comp [where I = ?I])
    show "?I 0 w rows" by (simp add: imported_def)
    fix n t row rest assume "?I n t (row # rest)"
    then obtain before where b: "rows = before @ row # rest" "imported org src before (db w) (db t)" "n = int (length before)" by blast
    show "wp (bnd (exec (sql_upsert_person org src row)) (\<lambda>m. ret (n + m))) (\<lambda>n t. ?I n t rest) (\<lambda>_ _. True) t"
      unfolding wp_bnd wp_ret
      by (rule wp_exec_ok, rule exI [of _ "before @ [row]"]) (use b imported_upsert [OF b(2)] in auto)
  qed
  then show ?thesis by (rule wp_mono) auto
qed

text \<open>
  C22: An import of people takes effect as a whole or not at all. When it returns a count, the count is
  the number of rows and the roster of the source is exactly the old one overwritten by the rows, in
  their order; when it returns an error, nothing changed, or, if only the answer of the commit was
  lost, the whole import did. People of other sources and tenants keep their rows, no person is removed
  or gets another id, no other table is touched, and a row with an unknown status is never imported.
\<close>

theorem import_refines_roster:
  "case ImportPeople org src rows w of
     (Inr n, w') \<Rightarrow> n = int (length rows) \<and> imported org src rows (db w) (db w')
   | (Inl e, w') \<Rightarrow> db w' = db w \<or> imported org src rows (db w) (db w')"
proof -
  have "wp (ImportPeople org src rows) (\<lambda>n w'. imported org src rows (db w) (db w') \<and> n = int (length rows))
      (\<lambda>_ w'. db w' = db w \<or> (\<exists>n. imported org src rows (db w) (db w') \<and> n = int (length rows))) w"
    unfolding ImportPeople_def
    by (rule wp_tx_db [where Q = "\<lambda>n d'. imported org src rows (db w) d' \<and> n = int (length rows)"]) (metis wp_import_body)
  then show ?thesis by (auto simp: wp_def split: prod.splits sum.splits)
qed

section \<open>Links\<close>

text \<open>What allows the correlation to link an account to a person.\<close>

definition link_justified :: "Person list \<Rightarrow> acc \<Rightarrow> Person \<Rightarrow> bool" where
  "link_justified persons a p \<longleftrightarrow> external_match a p \<or> (\<exists>r. evaluate_pair (emailCounts persons) a p = Some r \<and> Automatic r)"

definition linked_accounts_of :: "string \<Rightarrow> store \<Rightarrow> string list" where
  "linked_accounts_of org d = map l_account (filter (\<lambda>l. l_org l = org) (links d))"

text \<open>
  The links only grow, by links for accounts that had none, each justified; an account never has two
  links when it had not.
\<close>

definition links_grow :: "string \<Rightarrow> acc list \<Rightarrow> Person list \<Rightarrow> store \<Rightarrow> store \<Rightarrow> bool" where
  "links_grow org accs persons d d' \<longleftrightarrow> (\<exists>new. links d' = links d @ new \<and>
     (\<forall>l \<in> set new. l_org l = org \<and> l_type l = ''AUTOMATIC'' \<and> l_account l \<notin> set (linked_accounts_of org d) \<and>
        (\<exists>a \<in> set accs. \<exists>p \<in> set persons. l_account l = ac_id' a \<and> l_person l = PersonID p \<and> link_justified persons a p)) \<and>
     distinct (map l_account new))"

interpretation links_grow: db_frame "links_grow org accs persons" for org accs persons
proof
  fix d d' d''
  show "links_grow org accs persons d d" by (simp add: links_grow_def)
  assume 1: "links_grow org accs persons d d'" and 2: "links_grow org accs persons d' d''"
  from 1 obtain new where n: "links d' = links d @ new" "distinct (map l_account new)"
    and new: "\<forall>l \<in> set new. l_org l = org \<and> l_type l = ''AUTOMATIC'' \<and> l_account l \<notin> set (linked_accounts_of org d) \<and>
        (\<exists>a \<in> set accs. \<exists>p \<in> set persons. l_account l = ac_id' a \<and> l_person l = PersonID p \<and> link_justified persons a p)"
    unfolding links_grow_def by blast
  from 2 obtain new' where n': "links d'' = links d' @ new'" "distinct (map l_account new')"
    and new': "\<forall>l \<in> set new'. l_org l = org \<and> l_type l = ''AUTOMATIC'' \<and> l_account l \<notin> set (linked_accounts_of org d') \<and>
        (\<exists>a \<in> set accs. \<exists>p \<in> set persons. l_account l = ac_id' a \<and> l_person l = PersonID p \<and> link_justified persons a p)"
    unfolding links_grow_def by blast
  have old: "set (linked_accounts_of org d') = set (linked_accounts_of org d) \<union> l_account ` set new"
    using n(1) new by (auto simp: linked_accounts_of_def)
  have "l_account l \<notin> l_account ` set new" if "l \<in> set new'" for l using new' that unfolding old by simp
  then have "l_account ` set new \<inter> l_account ` set new' = {}" unfolding disjoint_iff by (metis imageE)
  then have "distinct (map l_account (new @ new'))" using n(2) n'(2) by simp
  moreover have "\<forall>l \<in> set (new @ new'). l_org l = org \<and> l_type l = ''AUTOMATIC'' \<and> l_account l \<notin> set (linked_accounts_of org d) \<and>
        (\<exists>a \<in> set accs. \<exists>p \<in> set persons. l_account l = ac_id' a \<and> l_person l = PersonID p \<and> link_justified persons a p)"
    unfolding set_append ball_Un using new new' [unfolded old] by (intro conjI ballI) simp_all
  ultimately show "links_grow org accs persons d d''"
    unfolding links_grow_def n' n(1) append.assoc by blast
qed

lemma insert_link_grows:
  assumes "a \<in> set accs" and "p \<in> set persons" and "link_justified persons a p"
  shows "stmt_keeps (links_grow org accs persons) (sql_insert_link org (PersonID p) (ac_id' a) confidence reason)"
  using assms by (auto simp: stmt_keeps_def sql_insert_link_def links_grow_def linked_accounts_of_def split: if_splits)

lemma other_statements_grow:
  "stmt_keeps (links_grow org accs persons) (sql_insert_candidate org' person acct conf reasons)"
  "stmt_keeps (links_grow org accs persons) (sql_insert_orphan org' acct con reason)"
  "stmt_keeps (links_grow org accs persons) (sql_insert_duplicates org')"
  by (auto simp: stmt_keeps_def sql_insert_candidate_def sql_insert_orphan_def sql_insert_duplicates_def upd_def
      links_grow_def split: if_splits)

lemma match_people_grows:
  assumes "a \<in> set accs" and "set ps \<subseteq> set persons"
  shows "keeps (on_db (links_grow org accs persons)) (match_people org (emailCounts persons) a ps candidate
    :: ((store, 'z) world_scheme, bool \<times> bool) comp)"
  using assms(2)
proof (induction ps arbitrary: candidate)
  case Nil
  show ?case by (simp add: links_grow.world.keeps_ret)
next
  case (Cons p ps)
  have link: "link_justified persons a p \<Longrightarrow>
      stmt_keeps (links_grow org accs persons) (sql_insert_link org (PersonID p) (ac_id' a) confidence reason)" for confidence reason
    using Cons.prems by (intro insert_link_grows assms(1)) auto
  have rest: "keeps (on_db (links_grow org accs persons)) (match_people org (emailCounts persons) a ps c
      :: ((store, 'z) world_scheme, bool \<times> bool) comp)" for c
    using Cons by simp
  show ?case
  proof (cases "external_match a p")
    case True
    then show ?thesis unfolding match_people.simps if_P [OF True]
      by (intro links_grow.world.keeps_combinators links_grow.keeps_exec link) (simp add: link_justified_def)
  next
    case False
    show ?thesis
    proof (cases "evaluate_pair (emailCounts persons) a p")
      case None
      then show ?thesis using False by (simp add: links_grow.world.keeps_fail)
    next
      case (Some r)
      then have "Automatic r \<Longrightarrow> link_justified persons a p" by (simp add: link_justified_def)
      then show ?thesis unfolding match_people.simps if_not_P [OF False] Some option.case
        by (intro links_grow.world.keeps_combinators links_grow.keeps_exec link other_statements_grow rest)
    qed
  qed
qed

text \<open>
  C21: The correlation links only what it can justify. Whatever happens to its statements, a correlation
  run only adds links: each new link belongs to the tenant, is marked AUTOMATIC, joins an account of the
  connector that was read with a person that was read, had an exact authoritative external identifier
  or an automatic result of the evaluation in its favour, with the uniqueness of the e-mail address
  counted over the persons read; no account that had a link gets another, and none gets two.
\<close>

theorem links_only_justified:
  "\<exists>m n. links_grow org (take m (sql_accounts org con (db w))) (take n (sql_people org (db w))) (db w) (db (snd (correlate org con w)))"
proof (rule query_rows_cases [of "sql_accounts org con" w])
  let ?w = "w\<lparr>ticks := Suc (ticks w)\<rparr>"
  fix e assume "query_rows (sql_accounts org con) w = (Inl e, ?w)"
  then show ?thesis by (simp add: correlate_def bnd_def links_grow.db_refl)
next
  let ?w = "w\<lparr>ticks := Suc (ticks w)\<rparr>"
  fix m err assume a: "query_rows (sql_accounts org con) w = (Inr (take m (sql_accounts org con (db w)), err), ?w)"
  let ?accs = "take m (sql_accounts org con (db w))"
  show ?thesis
  proof (rule query_rows_cases [of "sql_people org" ?w])
    fix e assume "query_rows (sql_people org) ?w = (Inl e, ?w\<lparr>ticks := Suc (ticks ?w)\<rparr>)"
    with a show ?thesis by (simp add: correlate_def bnd_def links_grow.db_refl)
  next
    fix n err' assume p: "query_rows (sql_people org) ?w = (Inr (take n (sql_people org (db ?w)), err'), ?w\<lparr>ticks := Suc (ticks ?w)\<rparr>)"
    let ?ps = "take n (sql_people org (db w))"
    let ?rest = "bnd (fold_comp (correlate_account org con ?ps) 0 ?accs) (\<lambda>found. bnd (exec (sql_insert_duplicates org)) (\<lambda>_. ret found))"
    have "keeps (on_db (links_grow org ?accs ?ps)) (?rest :: ((store, 'a) world_scheme, int) comp)"
      unfolding correlate_account_def
      by (intro links_grow.world.keeps_fold_mem links_grow.world.keeps_combinators match_people_grows
          links_grow.keeps_exec other_statements_grow) auto
    from this [unfolded keeps_def on_db_def, THEN spec, of "?w\<lparr>ticks := Suc (ticks ?w)\<rparr>"]
    have "links_grow org ?accs ?ps (db w) (db (snd (?rest (?w\<lparr>ticks := Suc (ticks ?w)\<rparr>))))" by simp
    moreover have "correlate org con w = ?rest (?w\<lparr>ticks := Suc (ticks ?w)\<rparr>)"
      using a p by (simp add: correlate_def bnd_def)
    ultimately show ?thesis by metis
  qed
qed

end
