(* ===== verification/Rbac.thy ===== *)
theory Rbac
  imports Main
begin

text \<open>
  \<open>backend/internal/rbac/rbac.go\<close>: the role table and the permission check every handler of the
  HTTP API goes through.
\<close>

definition rolePermissions :: "(string \<times> string list) list" where
  "rolePermissions =
    [(''OWNER'', [''*'']),
     (''IDENTITY_ADMIN'', [''person.read'', ''person.manage'', ''connector.read'', ''connector.manage'',
        ''connector.sync'', ''identity.read'', ''identity.link'', ''identity.unlink'', ''lifecycle.read'',
        ''lifecycle.plan'']),
     (''SECURITY_ADMIN'', [''person.read'', ''identity.read'', ''connector.read'', ''lifecycle.read'',
        ''lifecycle.plan'', ''lifecycle.approve'', ''lifecycle.execute'', ''evidence.read'', ''audit.read'',
        ''settings.manage'']),
     (''ACCESS_REVIEWER'', [''person.read'', ''identity.read'', ''access_review.read'', ''access_review.decide'']),
     (''OPERATOR'', [''person.read'', ''identity.read'', ''connector.read'', ''connector.sync'',
        ''lifecycle.read'', ''lifecycle.execute'']),
     (''AUDITOR'', [''person.read'', ''connector.read'', ''identity.read'', ''lifecycle.read'',
        ''access_review.read'', ''evidence.read'', ''audit.read'']),
     (''VIEWER'', [''person.read'', ''connector.read'', ''identity.read'', ''lifecycle.read'', ''access_review.read''])]"

text \<open>A missing key of a Go map of booleans reads as \<open>false\<close>, also through a missing inner map.\<close>

definition role_has :: "string \<Rightarrow> string \<Rightarrow> bool" where
  "role_has role permission =
    (case map_of rolePermissions role of None \<Rightarrow> False | Some ps \<Rightarrow> permission \<in> set ps)"

fun Allowed :: "string list \<Rightarrow> string \<Rightarrow> bool" where
  "Allowed [] permission = False"
| "Allowed (role # roles) permission =
    (if role_has role ''*'' \<or> role_has role permission then True else Allowed roles permission)"

lemma Allowed_iff: "Allowed roles permission \<longleftrightarrow> (\<exists>role \<in> set roles. role_has role ''*'' \<or> role_has role permission)"
  by (induction roles) auto

text \<open>The roles that grant a permission, computed from the table.\<close>

definition granting :: "string \<Rightarrow> string list" where
  "granting permission = map fst (filter (\<lambda>(_, ps). ''*'' \<in> set ps \<or> permission \<in> set ps) rolePermissions)"

lemma distinct_roles: "distinct (map fst rolePermissions)"
  by (simp add: rolePermissions_def)

lemma role_has_iff: "role_has role permission \<longleftrightarrow> (\<exists>ps. (role, ps) \<in> set rolePermissions \<and> permission \<in> set ps)"
proof -
  have "role_has role permission \<longleftrightarrow> (\<exists>ps. map_of rolePermissions role = Some ps \<and> permission \<in> set ps)"
    by (simp add: role_has_def split: option.split)
  then show ?thesis by (simp only: map_of_eq_Some_iff [OF distinct_roles])
qed

lemma mem_granting: "role \<in> set (granting permission) \<longleftrightarrow> role_has role ''*'' \<or> role_has role permission"
  by (force simp: granting_def role_has_iff)

lemma Allowed_granting: "Allowed roles permission \<longleftrightarrow> (\<exists>role \<in> set (granting permission). role \<in> set roles)"
  by (auto simp: Allowed_iff mem_granting)

text \<open>
  Approval and execution. Exactly the owner and the security administrator may approve an
  offboarding plan; exactly these two and the operator may execute one; and only the owner and the
  identity administrator may change a connector, its credentials or its write switch.
\<close>

theorem lifecycle_permissions:
  "(Allowed roles ''lifecycle.approve'' \<longleftrightarrow> ''OWNER'' \<in> set roles \<or> ''SECURITY_ADMIN'' \<in> set roles) \<and>
   (Allowed roles ''lifecycle.execute'' \<longleftrightarrow>
      ''OWNER'' \<in> set roles \<or> ''SECURITY_ADMIN'' \<in> set roles \<or> ''OPERATOR'' \<in> set roles) \<and>
   (Allowed roles ''connector.manage'' \<longleftrightarrow> ''OWNER'' \<in> set roles \<or> ''IDENTITY_ADMIN'' \<in> set roles)"
  unfolding Allowed_granting by (simp add: granting_def rolePermissions_def)

end
