(* ===== verification/RateLimit.thy ===== *)
theory RateLimit
  imports Database Sha256
begin

text \<open>
  \<open>backend/internal/ratelimit/postgres.go\<close>: the fixed-window rate limiter shared by all API
  instances through one table. Times are nanoseconds since the epoch.
\<close>

section \<open>The table and the operations\<close>

record rate_limit_window =
  request_count :: int
  expires_at :: tstamp

text \<open>The table, by its primary key \<open>(key_hash, window_started_at)\<close>.\<close>

type_synonym rate_limit_windows = "string \<times> tstamp \<Rightarrow> rate_limit_window option"

abbreviation Second :: int where "Second \<equiv> 1000000000"
abbreviation Minute :: int where "Minute \<equiv> 60 * Second"

definition max_int32 :: int where "max_int32 = 2 ^ 31 - 1"

text \<open>The \<open>INSERT \<dots> ON CONFLICT DO UPDATE \<dots> RETURNING request_count\<close> statement.\<close>

definition rl_upsert :: "string \<Rightarrow> tstamp \<Rightarrow> tstamp \<Rightarrow> (rate_limit_windows, int) stmt" where
  "rl_upsert key_hash started expires now gen d = (case d (key_hash, started) of
     None \<Rightarrow> Inr (1, d((key_hash, started) \<mapsto> \<lparr>request_count = 1, expires_at = expires\<rparr>))
   | Some r \<Rightarrow>
       if request_count r + 1 > max_int32 then Inl (DBError ''integer out of range'')
       else Inr (request_count r + 1,
         d((key_hash, started) \<mapsto> \<lparr>request_count = request_count r + 1, expires_at = max (expires_at r) expires\<rparr>)))"

definition window_start :: "tstamp \<Rightarrow> int \<Rightarrow> tstamp" where
  "window_start now window =
    (let windowSeconds = quot window Second in quot (now div Second) windowSeconds * windowSeconds * Second)"

definition Allow ::
  "bool \<Rightarrow> string \<Rightarrow> int \<Rightarrow> int \<Rightarrow> ((rate_limit_windows, 'z) world_scheme, bool \<times> int) comp" where
  "Allow db_nil key limit window =
    (if db_nil then fail (Errorf ''distributed rate limiter database is unavailable'')
     else if key = [] \<or> limit < 1 \<or> window < Second then fail (Errorf ''invalid rate limit parameters'')
     else bnd time_now (\<lambda>now.
       (let started = window_start now window; expires = started + window in
        bnd (exec (rl_upsert (Sum256 key) started expires)) (\<lambda>count.
        bnd time_now (\<lambda>t.
          (let retry = (if expires - t < 0 then 0 else expires - t)
           in ret (count \<le> limit, retry)))))))"

definition Cleanup :: "((rate_limit_windows, 'z) world_scheme, unit) comp" where
  "Cleanup = exec (upd (\<lambda>now gen d. ((), \<lambda>k. case d k of None \<Rightarrow> None
     | Some r \<Rightarrow> if expires_at r < now - 5 * Minute then None else Some r)))"

section \<open>Sequences of calls\<close>

text \<open>
  The limiter's clients: any sequence of \<open>Allow\<close> and \<open>Cleanup\<close> calls. Each call is one atomic
  statement, so that concurrent calls of several instances are such a sequence.
\<close>

datatype rl_op = OpAllow string int int | OpCleanup

definition run_op :: "rl_op \<Rightarrow> (rate_limit_windows, 'z) world_scheme \<Rightarrow> bool \<times> (rate_limit_windows, 'z) world_scheme" where
  "run_op opn w = (case opn of
     OpAllow key limit window \<Rightarrow> (case Allow False key limit window w of
         (Inl _, t) \<Rightarrow> (False, t) | (Inr (ok, _), t) \<Rightarrow> (ok, t))
   | OpCleanup \<Rightarrow> (False, snd (Cleanup w)))"

text \<open>How many of the calls for \<open>key\<close> with this limit and window size, made in the window that
  starts at \<open>s\<close>, were allowed.\<close>

fun allowed_in :: "string \<Rightarrow> int \<Rightarrow> int \<Rightarrow> tstamp \<Rightarrow> rl_op list \<Rightarrow> (rate_limit_windows, 'z) world_scheme \<Rightarrow> nat" where
  "allowed_in key limit window s [] w = 0"
| "allowed_in key limit window s (opn # ops) w = (case run_op opn w of (ok, w') \<Rightarrow>
     (if ok \<and> opn = OpAllow key limit window \<and> window_start (clock w (ticks w)) window = s then 1 else 0) +
     allowed_in key limit window s ops w')"

text \<open>No cleanup of the sequence runs more than five minutes after the window has expired.\<close>

fun cleanups_before :: "tstamp \<Rightarrow> rl_op list \<Rightarrow> (rate_limit_windows, 'z) world_scheme \<Rightarrow> bool" where
  "cleanups_before t [] w = True"
| "cleanups_before t (opn # ops) w =
     ((opn = OpCleanup \<longrightarrow> now_of w \<le> t) \<and> cleanups_before t ops (snd (run_op opn w)))"

text \<open>Calls for the same stored key use one window size, as the API's fixed buckets do.\<close>

definition same_window :: "string \<Rightarrow> int \<Rightarrow> rl_op \<Rightarrow> bool" where
  "same_window key window opn = (case opn of
     OpAllow k _ wd \<Rightarrow> Sum256 k = Sum256 key \<longrightarrow> wd = window | OpCleanup \<Rightarrow> True)"

section \<open>The bound\<close>

definition rl_count :: "rate_limit_windows \<Rightarrow> string \<Rightarrow> tstamp \<Rightarrow> int" where
  "rl_count d h s = (case d (h, s) of None \<Rightarrow> 0 | Some r \<Rightarrow> request_count r)"

definition rl_live :: "rate_limit_windows \<Rightarrow> string \<Rightarrow> tstamp \<Rightarrow> tstamp \<Rightarrow> bool" where
  "rl_live d h s e \<longleftrightarrow> (\<forall>r. d (h, s) = Some r \<longrightarrow> 0 < request_count r \<and> e \<le> expires_at r)"

lemma rl_upsert_Inr:
  "rl_upsert h s e now gen d = Inr (n, d') \<Longrightarrow>
     n = rl_count d h s + 1 \<and> rl_count d' h s = n \<and>
     (\<forall>k. k \<noteq> (h, s) \<longrightarrow> d' k = d k) \<and> (rl_live d h s e' \<longrightarrow> e' \<le> e \<longrightarrow> rl_live d' h s e')"
  by (auto simp: rl_upsert_def rl_count_def rl_live_def split: option.splits if_splits)

lemma Allow_cases:
  obtains (kept) "db (snd (run_op (OpAllow key limit window) w)) = db w" "\<not> fst (run_op (OpAllow key limit window) w)"
  | (counted) n where "rl_upsert (Sum256 key) (window_start (clock w (ticks w)) window)
        (window_start (clock w (ticks w)) window + window)
        (now_of (w\<lparr>ticks := Suc (ticks w)\<rparr>)) (fresh w (Suc (ticks w))) (db w) =
          Inr (n, db (snd (run_op (OpAllow key limit window) w)))"
      "fst (run_op (OpAllow key limit window) w) \<Longrightarrow> n \<le> limit" "Second \<le> window"
proof (cases "key = [] \<or> limit < 1 \<or> window < Second")
  case True
  then show thesis by (intro kept) (auto simp: run_op_def Allow_def fail_def)
next
  case False
  let ?w = "w\<lparr>ticks := Suc (ticks w)\<rparr>"
  let ?st = "rl_upsert (Sum256 key) (window_start (clock w (ticks w)) window)
        (window_start (clock w (ticks w)) window + window)"
  note unf = run_op_def Allow_def bnd_def time_now_def ret_def Let_def
  show thesis
  proof (rule exec_cases [of ?st ?w])
    fix e assume "exec ?st ?w = (Inl e, ?w\<lparr>ticks := Suc (ticks ?w)\<rparr>)"
    then show thesis using False by (intro kept) (auto simp: unf)
  next
    fix e x d assume "?st (now_of ?w) (fresh ?w (ticks ?w)) (db ?w) = Inr (x, d)"
      "exec ?st ?w = (Inl e, ?w\<lparr>ticks := Suc (ticks ?w), db := d\<rparr>)"
    then show thesis using False by (intro counted [of x]) (auto simp: unf)
  next
    fix x d assume "?st (now_of ?w) (fresh ?w (ticks ?w)) (db ?w) = Inr (x, d)"
      "exec ?st ?w = (Inr x, ?w\<lparr>ticks := Suc (ticks ?w), db := d\<rparr>)"
    then show thesis using False by (intro counted [of x]) (auto simp: unf)
  qed
qed

lemma Cleanup_db:
  "db (snd (Cleanup w)) = db w \<or>
   db (snd (Cleanup w)) = (\<lambda>k. case db w k of None \<Rightarrow> None
     | Some r \<Rightarrow> if expires_at r < now_of w - 5 * Minute then None else Some r)"
  unfolding Cleanup_def
  by (rule exec_cases [of "upd (\<lambda>now gen d. ((), \<lambda>k. case d k of None \<Rightarrow> None
     | Some r \<Rightarrow> if expires_at r < now - 5 * Minute then None else Some r))" w]) (auto simp: upd_def)

text \<open>One step: the counter of the window never goes back, stays live, and an allowed call of the
  window finds it below the limit.\<close>

lemma run_op_count:
  assumes live: "rl_live (db w) h s (s + window)" and h: "h = Sum256 key"
    and cleanup: "opn = OpCleanup \<longrightarrow> now_of w \<le> s + window + 5 * Minute"
    and same: "same_window key window opn"
    and step: "run_op opn w = (ok, w')"
  shows "rl_live (db w') h s (s + window)" and "rl_count (db w) h s \<le> rl_count (db w') h s"
    and "ok \<and> opn = OpAllow key limit window \<and> window_start (clock w (ticks w)) window = s \<Longrightarrow>
      rl_count (db w') h s = rl_count (db w) h s + 1 \<and> rl_count (db w') h s \<le> limit"
proof -
  have "rl_live (db w') h s (s + window) \<and> rl_count (db w) h s \<le> rl_count (db w') h s \<and>
    (ok \<and> opn = OpAllow key limit window \<and> window_start (clock w (ticks w)) window = s \<longrightarrow>
      rl_count (db w') h s = rl_count (db w) h s + 1 \<and> rl_count (db w') h s \<le> limit)"
  proof (cases opn)
    case OpCleanup
    with step have "\<not> ok" and w': "w' = snd (Cleanup w)" by (auto simp: run_op_def)
    have "db w' (h, s) = db w (h, s)"
      using Cleanup_db [of w] live cleanup OpCleanup unfolding w' rl_live_def
      by (fastforce split: option.splits)
    with \<open>\<not> ok\<close> live show ?thesis by (simp add: rl_count_def rl_live_def)
  next
    case (OpAllow key' limit' window')
    let ?s = "window_start (clock w (ticks w)) window'"
    show ?thesis
    proof (rule Allow_cases [of key' limit' window' w])
      assume "db (snd (run_op (OpAllow key' limit' window') w)) = db w" "\<not> fst (run_op (OpAllow key' limit' window') w)"
      with step OpAllow live show ?thesis by simp
    next
      fix n assume up: "rl_upsert (Sum256 key') ?s (?s + window')
        (now_of (w\<lparr>ticks := Suc (ticks w)\<rparr>)) (fresh w (Suc (ticks w))) (db w) =
          Inr (n, db (snd (run_op (OpAllow key' limit' window') w)))"
        and le: "fst (run_op (OpAllow key' limit' window') w) \<Longrightarrow> n \<le> limit'"
      show ?thesis
      proof (cases "(Sum256 key', ?s) = (h, s)")
        case True
        then have "window' = window" using same OpAllow h by (simp add: same_window_def)
        with True up have up': "rl_upsert h s (s + window)
            (now_of (w\<lparr>ticks := Suc (ticks w)\<rparr>)) (fresh w (Suc (ticks w))) (db w) = Inr (n, db w')"
          using step OpAllow by simp
        from rl_upsert_Inr [OF this, of "s + window"] live le step OpAllow
        show ?thesis by auto
      next
        case False
        moreover have "\<forall>k. k \<noteq> (Sum256 key', ?s) \<longrightarrow> db w' k = db w k"
          using rl_upsert_Inr [OF up] step OpAllow by (simp del: prod.inject)
        ultimately have "db w' (h, s) = db w (h, s)" by metis
        with False h OpAllow live show ?thesis by (auto simp: rl_count_def rl_live_def)
      qed
    qed
  qed
  then show "rl_live (db w') h s (s + window)" and "rl_count (db w) h s \<le> rl_count (db w') h s"
    and "ok \<and> opn = OpAllow key limit window \<and> window_start (clock w (ticks w)) window = s \<Longrightarrow>
      rl_count (db w') h s = rl_count (db w) h s + 1 \<and> rl_count (db w') h s \<le> limit" by blast+
qed

lemma allowed_in_bound:
  assumes "rl_live (db w) (Sum256 key) s (s + window)"
    and "cleanups_before (s + window + 5 * Minute) ops w" and "list_all (same_window key window) ops"
  shows "int (allowed_in key limit window s ops w) \<le> max 0 (limit - rl_count (db w) (Sum256 key) s)"
  using assms
proof (induction ops arbitrary: w)
  case Nil
  then show ?case by simp
next
  case (Cons opn ops)
  obtain ok w' where step: "run_op opn w = (ok, w')" by (cases "run_op opn w")
  note one = run_op_count [OF Cons.prems(1) refl _ _ step]
  have cl: "opn = OpCleanup \<longrightarrow> now_of w \<le> s + window + 5 * Minute" and sw: "same_window key window opn"
    and rest: "cleanups_before (s + window + 5 * Minute) ops w'" "list_all (same_window key window) ops"
    using Cons.prems step by auto
  have "int (allowed_in key limit window s ops w') \<le> max 0 (limit - rl_count (db w') (Sum256 key) s)"
    by (rule Cons.IH) (use one(1) [OF cl sw] rest in auto)
  with step one(2) [OF cl sw] one(3) [OF cl sw, of limit] show ?case by (auto split: if_splits)
qed

text \<open>
  C36: The limit holds across instances. Start with no row for the key's window, and let any number
  of \<open>Allow\<close> calls, interleaved with calls for other keys, failed database calls, lost
  acknowledgements and cleanups that do not run after the window's rows may be deleted, follow:
  at most \<open>limit\<close> calls for the key are allowed in the window.
\<close>

theorem rate_limit_holds:
  assumes "db w (Sum256 key, s) = None" and "0 \<le> limit"
    and "cleanups_before (s + window + 5 * Minute) ops w"
    and "list_all (same_window key window) ops"
  shows "int (allowed_in key limit window s ops w) \<le> limit"
  using allowed_in_bound [of w key s window ops limit] assms by (simp add: rl_live_def rl_count_def)

theorem rate_limit_holds_witness:
  "int (allowed_in ''login:10.0.0.7'' 2 Minute 0
      [OpCleanup, OpAllow ''login:10.0.0.7'' 2 Minute, OpAllow ''api:s1'' 100 Minute,
       OpAllow ''login:10.0.0.7'' 2 Minute, OpAllow ''login:10.0.0.7'' 2 Minute]
      \<lparr>db = (\<lambda>_. None), ticks = 0, faults = (\<lambda>n. if n = 2 then AckLost ''timeout'' else NoFault),
       clock = (\<lambda>n. int n * Second), fresh = (\<lambda>_ _. []), txnow = None\<rparr>) \<le> 2"
  by (rule rate_limit_holds) (simp_all add: now_of_def same_window_def)

end
