(* ===== verification/Auth.thy ===== *)
theory Auth
  imports SecretStore RateLimit
begin

text \<open>
  \<open>backend/internal/auth\<close>: password hashes (\<open>password.go\<close>) and time-based one-time passwords
  (\<open>totp.go\<close>). The \<open>argon2\<close> package is a parameter; SHA-1, HMAC, base32 and the scanning of the
  hash parameters are those of Go's standard library.
\<close>

unbundle bit_operations_syntax

section \<open>Passwords\<close>

text \<open>\<open>argon2.IDKey(password, salt, time, memory, threads, keyLen)\<close>.\<close>

type_synonym argon2 = "string \<Rightarrow> string \<Rightarrow> nat \<Rightarrow> nat \<Rightarrow> nat \<Rightarrow> nat \<Rightarrow> string"

text \<open>The salt is what \<open>rand.Read\<close> gave, \<open>None\<close> its error.\<close>

definition HashPassword :: "argon2 \<Rightarrow> string option \<Rightarrow> string \<Rightarrow> error + string" where
  "HashPassword IDKey random password =
    (if length password < 12 then Inl (Errorf ''password must contain at least 12 characters'')
     else (case random of
        None \<Rightarrow> Inl (Errorf ''random source failed'')
      | Some salt \<Rightarrow>
          Inr (''$argon2id$v=19$m=65536,t=3,p=2$'' @ b64_encode std_alphabet False salt @ ''$'' @
             b64_encode std_alphabet False (IDKey password salt 3 (64 * 1024) 2 32))))"

text \<open>
  \<open>fmt.Sscanf\<close> with literal characters and \<open>%d\<close> into unsigned variables of \<open>bits\<close> bits: white space before
  a number is skipped, a line break there is an error, the input after the last verb is not looked at.
\<close>

fun skip_space :: "string \<Rightarrow> string option" where
  "skip_space [] = Some []"
| "skip_space (c # s) = (if c = CHR 0x0A then None
     else if c = CHR 0x0D \<and> s \<noteq> [] \<and> hd s = CHR 0x0A then None
     else if is_space c then skip_space s else Some (c # s))"

definition scan_uint :: "nat \<Rightarrow> string \<Rightarrow> (nat \<times> string) option" where
  "scan_uint bits s = (case skip_space s of None \<Rightarrow> None
     | Some t \<Rightarrow> (let ds = takeWhile is_digit t in
         if ds = [] \<or> 2 ^ bits \<le> digits_value ds then None else Some (digits_value ds, dropWhile is_digit t)))"

fun scan_literal :: "string \<Rightarrow> string \<Rightarrow> string option" where
  "scan_literal [] s = Some s"
| "scan_literal (c # cs) s = (case s of [] \<Rightarrow> None | d # t \<Rightarrow> if c = d then scan_literal cs t else None)"

definition scan_field :: "string \<Rightarrow> nat \<Rightarrow> string \<Rightarrow> (nat \<times> string) option" where
  "scan_field literal bits s = Option.bind (scan_literal literal s) (scan_uint bits)"

definition scan_parameters :: "string \<Rightarrow> (nat \<times> nat \<times> nat) option" where
  "scan_parameters s =
    (case scan_field ''m='' 32 s of None \<Rightarrow> None
     | Some (mem, s1) \<Rightarrow>
       (case scan_field '',t='' 32 s1 of None \<Rightarrow> None
        | Some (iterations, s2) \<Rightarrow>
          (case scan_field '',p='' 8 s2 of None \<Rightarrow> None
           | Some (parallelism, _) \<Rightarrow> Some (mem, iterations, parallelism))))"

definition VerifyPassword :: "argon2 \<Rightarrow> string \<Rightarrow> string \<Rightarrow> bool" where
  "VerifyPassword IDKey encoded password =
    (let parts = Split encoded CHR ''$'' in
     if length parts \<noteq> 6 \<or> parts ! 1 \<noteq> ''argon2id'' then False
     else (case scan_parameters (parts ! 3) of None \<Rightarrow> False
        | Some (mem, iterations, parallelism) \<Rightarrow>
          (case (b64_decode std_alphabet False (parts ! 4), b64_decode std_alphabet False (parts ! 5)) of
             (Some salt, Some expected) \<Rightarrow>
               IDKey password salt iterations mem parallelism (length expected mod 2 ^ 32) = expected
           | _ \<Rightarrow> False)))"

section \<open>SHA-1 and HMAC\<close>

definition rotl :: "nat \<Rightarrow> w32 \<Rightarrow> w32" where
  "rotl n x = push_bit n x OR drop_bit (32 - n) x"

fun sha1_schedule :: "nat \<Rightarrow> w32 list \<Rightarrow> w32 list" where
  "sha1_schedule 0 ws = ws"
| "sha1_schedule (Suc k) ws = sha1_schedule k (rotl 1 (ws ! 2 XOR ws ! 7 XOR ws ! 13 XOR ws ! 15) # ws)"

definition sha1_mix :: "nat \<Rightarrow> w32 \<Rightarrow> w32 \<Rightarrow> w32 \<Rightarrow> w32" where
  "sha1_mix t b c d =
    (if t < 20 then ((b AND c) OR ((NOT b) AND d)) + 0x5A827999
     else if t < 40 then (b XOR c XOR d) + 0x6ED9EBA1
     else if t < 60 then ((b AND c) OR (b AND d) OR (c AND d)) + 0x8F1BBCDC
     else (b XOR c XOR d) + 0xCA62C1D6)"

definition sha1_round :: "w32 list \<Rightarrow> nat \<times> w32 \<Rightarrow> w32 list" where
  "sha1_round st tw = (case st of [a, b, c, d, e] \<Rightarrow>
     [rotl 5 a + sha1_mix (fst tw) b c d + e + snd tw, a, rotl 30 b, c, d] | _ \<Rightarrow> st)"

definition sha1_block :: "w32 list \<Rightarrow> w32 list \<Rightarrow> w32 list" where
  "sha1_block hs blk = map2 (+) hs (foldl sha1_round hs (zip [0..<80] (rev (sha1_schedule 64 (rev blk)))))"

fun sha1_blocks :: "nat \<Rightarrow> w32 list \<Rightarrow> w32 list \<Rightarrow> w32 list" where
  "sha1_blocks 0 hs ws = hs"
| "sha1_blocks (Suc k) hs ws = sha1_blocks k (sha1_block hs (take 16 ws)) (drop 16 ws)"

definition Sum1 :: "string \<Rightarrow> string" where
  "Sum1 s = (let ws = be_words (sha_pad s) in
     concat (map (\<lambda>w. map char_of (be_bytes 4 (unat w)))
       (sha1_blocks (length ws div 16) [0x67452301, 0xEFCDAB89, 0x98BADCFE, 0x10325476, 0xC3D2E1F0] ws)))"

definition hmac_block :: "string \<Rightarrow> string" where
  "hmac_block k = (let k' = (if 64 < length k then Sum1 k else k) in k' @ replicate (64 - length k') (CHR 0x00))"

definition hmac_sha1 :: "string \<Rightarrow> string \<Rightarrow> string" where
  "hmac_sha1 k msg = Sum1 (xor_bytes 92 (hmac_block k) @ Sum1 (xor_bytes 54 (hmac_block k) @ msg))"

section \<open>Base32\<close>

definition b32_alphabet :: string where
  "b32_alphabet = ''ABCDEFGHIJKLMNOPQRSTUVWXYZ234567''"

fun quintets :: "string \<Rightarrow> nat list" where
  "quintets (a # b # c # d # e # s) =
     [byte_of a div 8, byte_of a mod 8 * 4 + byte_of b div 64, byte_of b div 2 mod 32, byte_of b mod 2 * 16 + byte_of c div 16,
      byte_of c mod 16 * 2 + byte_of d div 128, byte_of d div 4 mod 32, byte_of d mod 4 * 8 + byte_of e div 32,
      byte_of e mod 32] @ quintets s"
| "quintets [a, b, c, d] =
     [byte_of a div 8, byte_of a mod 8 * 4 + byte_of b div 64, byte_of b div 2 mod 32, byte_of b mod 2 * 16 + byte_of c div 16,
      byte_of c mod 16 * 2 + byte_of d div 128, byte_of d div 4 mod 32, byte_of d mod 4 * 8]"
| "quintets [a, b, c] =
     [byte_of a div 8, byte_of a mod 8 * 4 + byte_of b div 64, byte_of b div 2 mod 32, byte_of b mod 2 * 16 + byte_of c div 16,
      byte_of c mod 16 * 2]"
| "quintets [a, b] = [byte_of a div 8, byte_of a mod 8 * 4 + byte_of b div 64, byte_of b div 2 mod 32, byte_of b mod 2 * 16]"
| "quintets [a] = [byte_of a div 8, byte_of a mod 8 * 4]"
| "quintets [] = []"

definition b32_encode :: "string \<Rightarrow> string" where
  "b32_encode s = map ((!) b32_alphabet) (quintets s)"

text \<open>
  Decoding without padding. A last group of one, three or six digits is no whole number of bytes: the decoder
  produces nothing for it and reports no error.
\<close>

fun b32_bytes :: "nat list \<Rightarrow> nat list" where
  "b32_bytes (a # b # c # d # e # f # g # h # s) =
     [a * 8 + b div 4, b mod 4 * 64 + c * 2 + d div 16, d mod 16 * 16 + e div 2, e mod 2 * 128 + f * 4 + g div 8,
      g mod 8 * 32 + h] @ b32_bytes s"
| "b32_bytes [a, b, c, d, e, f, g] =
     [a * 8 + b div 4, b mod 4 * 64 + c * 2 + d div 16, d mod 16 * 16 + e div 2, e mod 2 * 128 + f * 4 + g div 8]"
| "b32_bytes [a, b, c, d, e] = [a * 8 + b div 4, b mod 4 * 64 + c * 2 + d div 16, d mod 16 * 16 + e div 2]"
| "b32_bytes [a, b, c, d] = [a * 8 + b div 4, b mod 4 * 64 + c * 2 + d div 16]"
| "b32_bytes [a, b] = [a * 8 + b div 4]"
| "b32_bytes _ = []"

definition b32_decode :: "string \<Rightarrow> string option" where
  "b32_decode s = map_option (\<lambda>ds. map char_of (b32_bytes ds))
     (those (map (index_of b32_alphabet) (filter (\<lambda>c. c \<noteq> CHR 0x0D \<and> c \<noteq> CHR 0x0A) s)))"

section \<open>One-time passwords\<close>

definition NewTOTPSecret :: "string option \<Rightarrow> error + string" where
  "NewTOTPSecret random = (case random of None \<Rightarrow> Inl (Errorf ''random source failed'') | Some raw \<Rightarrow> Inr (b32_encode raw))"

text \<open>\<open>%06d\<close>\<close>

definition six_digits :: "nat \<Rightarrow> string" where
  "six_digits n = (let t = nat_text n in replicate (6 - length t) (CHR ''0'') @ t)"

definition totp_value :: "string \<Rightarrow> w32" where
  "totp_value mac =
    (let at = (\<lambda>i. word_of_nat (of_char (mac ! i)) :: w32);
         off = unat (at (length mac - 1) AND 0x0F) in
     push_bit 24 (at off AND 0x7F) OR push_bit 16 (at (off + 1) AND 0xFF) OR push_bit 8 (at (off + 2) AND 0xFF) OR
       (at (off + 3) AND 0xFF))"

definition totp_code :: "string \<Rightarrow> int \<Rightarrow> string" where
  "totp_code key counter =
    (let buf = map char_of (be_bytes 8 (nat (counter mod 2 ^ 64))) in
     six_digits (unat (totp_value (hmac_sha1 key buf) mod 1000000)))"

definition VerifyTOTP :: "string \<Rightarrow> string \<Rightarrow> tstamp \<Rightarrow> bool" where
  "VerifyTOTP secret code now =
    (case b32_decode (ToUpper (TrimSpace secret)) of
       None \<Rightarrow> False
     | Some key \<Rightarrow>
       if length code \<noteq> 6 then False
       else (let counter = quot (now div 1000000000) 30 in
         list_ex (\<lambda>skew. totp_code key (counter + skew) = code) [- 1, 0, 1]))"


section \<open>Password hashes\<close>

lemma b64_no_dollar: "CHR ''$'' \<notin> set (b64_encode std_alphabet False s)"
proof -
  have "set (b64_encode std_alphabet False s) \<subseteq> set std_alphabet"
    using sextets_less [of s] alphabets_ok(1) by (auto simp: encode_sextets alphabet_ok_def list_all_iff)
  moreover have "CHR ''$'' \<notin> set std_alphabet" by (simp add: std_alphabet_def)
  ultimately show ?thesis by blast
qed

lemma Split_fresh: "c \<notin> set s \<Longrightarrow> Split s c = [s]"
  by (induction s) auto

lemma Split_append: "c \<notin> set s \<Longrightarrow> Split (s @ c # t) c = s # Split t c"
  by (induction s) auto

lemma scan_stored_parameters: "scan_parameters ''m=65536,t=3,p=2'' = Some (65536, 3, 2)"
  by (simp add: scan_parameters_def scan_field_def scan_uint_def is_digit_def is_space_def digits_value_def digit_value_def)

lemma stored_hash_parts:
  assumes "HashPassword IDKey (Some salt) password = Inr encoded"
  shows "Split encoded CHR ''$'' = [[], ''argon2id'', ''v=19'', ''m=65536,t=3,p=2'', b64_encode std_alphabet False salt,
    b64_encode std_alphabet False (IDKey password salt 3 65536 2 32)]"
proof -
  have "encoded = [] @ CHR ''$'' # ''argon2id'' @ CHR ''$'' # ''v=19'' @ CHR ''$'' # ''m=65536,t=3,p=2'' @ CHR ''$'' #
      b64_encode std_alphabet False salt @ CHR ''$'' # b64_encode std_alphabet False (IDKey password salt 3 65536 2 32)"
    using assms by (simp add: HashPassword_def split: if_splits)
  then show ?thesis by (simp only: Split_append Split_fresh b64_no_dollar not_False_eq_True) (simp add: Split_append Split_fresh b64_no_dollar)
qed

lemma stored_hash_verifies:
  assumes "HashPassword IDKey (Some salt) password = Inr encoded" and "length (IDKey password salt 3 65536 2 32) = 32"
  shows "VerifyPassword IDKey encoded candidate \<longleftrightarrow> IDKey candidate salt 3 65536 2 32 = IDKey password salt 3 65536 2 32"
  using assms(2) unfolding VerifyPassword_def stored_hash_parts [OF assms(1)] Let_def
  by (simp add: scan_stored_parameters b64_roundtrip [OF alphabets_ok(1)])

text \<open>
  C26: A stored password hash accepts exactly the passwords that Argon2id maps to the same key under the
  stored salt and parameters, in particular the password it was made from: the parameters, the salt and the
  key survive the text form of the hash. The only fact used of \<open>argon2.IDKey\<close> is that it returns as many
  bytes as asked for.
\<close>

theorem password_hash_accepts:
  assumes "HashPassword IDKey (Some salt) password = Inr encoded"
    and "length (IDKey password salt 3 65536 2 32) = 32"
  shows "(VerifyPassword IDKey encoded candidate \<longleftrightarrow>
      IDKey candidate salt 3 65536 2 32 = IDKey password salt 3 65536 2 32) \<and> VerifyPassword IDKey encoded password"
  using assms by (simp add: stored_hash_verifies)

section \<open>Base32 round trip\<close>

lemma byte1_regroup: "b < 256 \<Longrightarrow> b div 64 * 64 + b div 2 mod 32 * 2 + b mod 2 = (b::nat)"
proof -
  have "b div 2 = b div 64 * 32 + b div 2 mod 32" by (simp add: div_mult2_eq [of b 2 32, simplified])
  moreover have "b = b div 2 * 2 + b mod 2" by simp
  ultimately show "b < 256 \<Longrightarrow> ?thesis" by linarith
qed

lemma byte3_regroup: "d < 256 \<Longrightarrow> d div 128 * 128 + d div 4 mod 32 * 4 + d mod 4 = (d::nat)"
proof -
  have "d div 4 = d div 128 * 32 + d div 4 mod 32" by (simp add: div_mult2_eq [of d 4 32, simplified])
  moreover have "d = d div 4 * 4 + d mod 4" by simp
  ultimately show "d < 256 \<Longrightarrow> ?thesis" by linarith
qed

lemma b32_regroup:
  assumes "a < 256" "b < 256" "c < 256" "d < 256" "e < (256::nat)"
  shows "a div 8 * 8 + (a mod 8 * 4 + b div 64) div 4 = a"
    "(a mod 8 * 4 + b div 64) mod 4 * 64 + b div 2 mod 32 * 2 + (b mod 2 * 16 + c div 16) div 16 = b"
    "(b mod 2 * 16 + c div 16) mod 16 * 16 + (c mod 16 * 2 + d div 128) div 2 = c"
    "(c mod 16 * 2 + d div 128) mod 2 * 128 + d div 4 mod 32 * 4 + (d mod 4 * 8 + e div 32) div 8 = d"
    "(d mod 4 * 8 + e div 32) mod 8 * 32 + e mod 32 = e"
  using div_less [of b 4 64] div_less [of c 16 16] div_less [of d 2 128] div_less [of e 8 32] assms
    byte1_regroup [of b] byte3_regroup [of d]
  by (simp_all only: digit mult_numeral_1_right numeral_times_numeral semiring_norm) simp_all

lemma b32_bound:
  assumes "a < 256" "b < (256::nat)"
  shows "a div 8 < 32" "a mod 8 * 4 + b div 64 < 32" "a mod 2 * 16 + b div 16 < 32" "a mod 16 * 2 + b div 128 < 32"
    "a mod 4 * 8 + b div 32 < 32"
  using assms div_less [of b 4 64] div_less [of b 16 16] div_less [of b 2 128] div_less [of b 8 32] div_less [of a 32 8]
    mod_less_divisor [of 8 a] mod_less_divisor [of 2 a] mod_less_divisor [of 16 a] mod_less_divisor [of 4 a]
  by simp_all

lemmas byte_regroup = b32_regroup [OF of_char_less_256 of_char_less_256 of_char_less_256 of_char_less_256 of_char_less_256]

lemma byte_regroup_last:
  "byte_of a div 8 * 8 + byte_of a mod 8 * 4 div 4 = byte_of a"
  "(byte_of a mod 8 * 4 + byte_of b div 64) mod 4 * 64 + byte_of b div 2 mod 32 * 2 + byte_of b mod 2 * 16 div 16 = byte_of b"
  "(byte_of b mod 2 * 16 + byte_of c div 16) mod 16 * 16 + byte_of c mod 16 * 2 div 2 = byte_of c"
  "(byte_of c mod 16 * 2 + byte_of d div 128) mod 2 * 128 + byte_of d div 4 mod 32 * 4 + byte_of d mod 4 * 8 div 8 = byte_of d"
  using b32_regroup(1) [of "byte_of a" 0 0 0 0] b32_regroup(2) [of "byte_of a" "byte_of b" 0 0 0]
    b32_regroup(3) [of 0 "byte_of b" "byte_of c" 0 0] b32_regroup(4) [of 0 0 "byte_of c" "byte_of d" 0]
  by (simp_all only: div_0 add_0_right zero_less_numeral of_char_less_256 simp_thms)

lemma bytes_quintets: "b32_bytes (quintets s) = map byte_of s"
  by (induction s rule: quintets.induct)
    (simp_all only: quintets.simps append_Cons append_Nil b32_bytes.simps byte_regroup byte_regroup_last list.map)


lemma quintets_less: "list_all (\<lambda>n. n < 32) (quintets s)"
proof -
  have "byte_of x div 2 mod 32 < 32 \<and> byte_of x div 4 mod 32 < 32 \<and> byte_of x mod 32 < 32" for x by simp
  note more = this [THEN conjunct1] this [THEN conjunct2, THEN conjunct1] this [THEN conjunct2, THEN conjunct2]
  note ends = b32_bound [OF of_char_less_256, of 0, unfolded div_0 add_0_right, OF zero_less_numeral]
  show ?thesis
    by (induction s rule: quintets.induct)
      (simp_all only: quintets.simps append_Cons append_Nil list.pred_inject b32_bound [OF of_char_less_256 of_char_less_256]
        more ends simp_thms)
qed

text \<open>The letters and digits of the alphabet are none of the characters that \<open>VerifyTOTP\<close> trims or changes.\<close>

lemma b32_alphabet_plain:
  "length b32_alphabet = 32" "distinct b32_alphabet"
  "c \<in> set b32_alphabet \<Longrightarrow> upper_char c = c \<and> \<not> is_space c \<and> c \<noteq> CHR 0x0D \<and> c \<noteq> CHR 0x0A"
  by (simp_all add: b32_alphabet_def) (auto simp: upper_char_def is_space_def)

lemma b32_encode_chars: "set (b32_encode s) \<subseteq> set b32_alphabet"
  using quintets_less [of s] by (auto simp: b32_encode_def b32_alphabet_plain(1) list_all_iff)

lemma b32_roundtrip: "b32_decode (ToUpper (TrimSpace (b32_encode s))) = Some s"
proof -
  note plain = b32_alphabet_plain(3) [OF subsetD [OF b32_encode_chars]]
  have "TrimSpace (b32_encode s) = b32_encode s"
    by (rule TrimSpace_fix) (metis plain hd_in_set last_in_set)
  moreover have "ToUpper (b32_encode s) = b32_encode s"
    unfolding ToUpper_def by (rule map_idI) (use plain in blast)
  moreover have "filter (\<lambda>c. c \<noteq> CHR 0x0D \<and> c \<noteq> CHR 0x0A) (b32_encode s) = b32_encode s"
    by (rule filter_True) (use plain in blast)
  moreover have "those (map (index_of b32_alphabet) (map ((!) b32_alphabet) ns)) = Some ns" if "list_all (\<lambda>n. n < 32) ns" for ns
    using that by (induction ns) (simp_all add: index_of_nth b32_alphabet_plain)
  note this [OF quintets_less [of s]]
  ultimately show ?thesis by (simp add: b32_decode_def bytes_quintets comp_def) (simp add: b32_encode_def bytes_quintets comp_def)
qed


section \<open>One-time passwords after RFC 4226 and RFC 6238\<close>

text \<open>
  The reference: dynamic truncation reads four bytes as a big-endian number, drops its top bit and takes six
  decimal digits; the moving factor is the number of 30-second steps since the epoch.
\<close>

definition rfc_truncate :: "string \<Rightarrow> nat" where
  "rfc_truncate mac = foldl (\<lambda>n c. n * 256 + byte_of c) 0 (take 4 (drop (byte_of (last mac) mod 16) mac)) mod 2 ^ 31"

definition rfc_hotp :: "string \<Rightarrow> nat \<Rightarrow> string" where
  "rfc_hotp key c = (let n = rfc_truncate (hmac_sha1 key (map char_of (be_bytes 8 c))) mod 10 ^ 6 in
     map (\<lambda>i. digit_char (n div 10 ^ i mod 10)) [5, 4, 3, 2, 1, 0])"

definition rfc_step :: "tstamp \<Rightarrow> nat" where
  "rfc_step now = nat (now div 1000000000 div 30)"

lemma length_Sum1: "length (Sum1 s) = 20"
proof -
  have "length (foldl sha1_round hs xs) = length hs" for hs xs
    by (induction xs arbitrary: hs) (auto simp: sha1_round_def split: list.split)
  then have "length (sha1_block hs ws) = length hs" for hs ws by (simp add: sha1_block_def)
  then have "length (sha1_blocks k hs ws) = length hs" for k hs ws
    by (induction k arbitrary: hs ws) auto
  then show ?thesis
    unfolding Sum1_def Let_def by (subst length_concat_const [where n = 4]) auto
qed

lemma push_or: "x < 2 ^ n \<Longrightarrow> push_bit n y OR x = 2 ^ n * y + (x::nat)"
proof -
  assume "x < 2 ^ n"
  then have "take_bit n x = x" by (simp add: take_bit_nat_eq_self_iff)
  then have x: "bit x m \<Longrightarrow> m < n" for m using bit_take_bit_iff [of n x m] by simp
  have "push_bit n y AND x = 0"
    by (rule bit_eqI) (use x in \<open>fastforce simp: bit_and_iff bit_push_bit_iff\<close>)
  then show ?thesis by (simp add: disjunctive_add_eq_or [symmetric] push_bit_eq_mult mult.commute)
qed

lemma and_masks: "a AND 127 = a mod 128" "a AND 255 = a mod 256" "a AND 15 = a mod (16::nat)"
  using take_bit_eq_mask [of 7 a] take_bit_eq_mask [of 8 a] take_bit_eq_mask [of 4 a]
  by (simp_all add: mask_eq_exp_minus_1 take_bit_eq_mod)

lemma four_bytes:
  assumes "b < 256" "c < 256" "d < (256::nat)"
  shows "push_bit 24 (a AND 127) OR push_bit 16 (b AND 255) OR push_bit 8 (c AND 255) OR (d AND 255) =
     (((a * 256 + b) * 256 + c) * 256 + d) mod 2 ^ 31"
proof -
  define m where "m = a mod 128"
  define r where "r = 2 ^ 24 * m + (2 ^ 16 * b + (2 ^ 8 * c + d))"
  have m: "m < 128" and a: "a = 128 * (a div 128) + m" by (simp_all add: m_def)
  have "r < 2 ^ 31" using m assms by (simp add: r_def)
  moreover have "((a * 256 + b) * 256 + c) * 256 + d = r + 2 ^ 31 * (a div 128)"
    by (subst a) (simp add: r_def algebra_simps)
  ultimately have "(((a * 256 + b) * 256 + c) * 256 + d) mod 2 ^ 31 = r" by (simp only: mod_mult_self2 mod_less)
  moreover have "push_bit 24 (a mod 128) OR push_bit 16 b OR push_bit 8 c OR d = r"
    using assms by (simp add: push_or r_def m_def)
  ultimately show ?thesis using assms by (simp add: and_masks)
qed

lemma take4_drop:
  assumes "k + 3 < length xs"
  shows "take 4 (drop k xs) = [xs ! k, xs ! (k + 1), xs ! (k + 2), xs ! (k + 3)]"
proof -
  have "take 4 (drop k xs) = map (\<lambda>i. xs ! (k + i)) [0..<4]"
    using assms by (intro nth_equalityI) simp_all
  then show ?thesis by (simp add: upt_rec numeral_eq_Suc)
qed

text \<open>The index into the digest stays in its bounds, and the bit operations compute the truncation of the RFC.\<close>

lemma totp_value_truncate:
  assumes "length mac = 20"
  shows "unat (totp_value mac) = rfc_truncate mac"
proof -
  define off where "off = byte_of (last mac) mod 16"
  let ?b = "\<lambda>i. byte_of (mac ! i)"
  have "mac \<noteq> []" using assms by auto
  then have last: "mac ! (length mac - 1) = last mac" by (simp add: last_conv_nth)
  have "unat (word_of_nat (byte_of c) AND 0x0F :: w32) = byte_of c mod 16" for c
  proof -
    have "(word_of_nat (byte_of c) AND 0x0F :: w32) = word_of_nat (byte_of c AND 15)" by (simp add: of_nat_and_eq)
    then show ?thesis by (simp add: and_masks unat_of_nat)
  qed
  then have off: "unat (word_of_nat (byte_of (mac ! (length mac - 1))) AND 0x0F :: w32) = off"
    by (simp only: last off_def)
  have "totp_value mac = word_of_nat (push_bit 24 (?b off AND 127) OR push_bit 16 (?b (off + 1) AND 255) OR
      push_bit 8 (?b (off + 2) AND 255) OR (?b (off + 3) AND 255))"
    unfolding totp_value_def Let_def off by (simp add: of_nat_or_eq of_nat_and_eq push_bit_of_nat)
  also have "\<dots> = word_of_nat ((((?b off * 256 + ?b (off + 1)) * 256 + ?b (off + 2)) * 256 + ?b (off + 3)) mod 2 ^ 31)"
    by (simp only: four_bytes of_char_less_256)
  finally have tv: "totp_value mac = word_of_nat ((((?b off * 256 + ?b (off + 1)) * 256 + ?b (off + 2)) * 256 + ?b (off + 3)) mod 2 ^ 31)" .
  have "off + 3 < length mac" using assms by (simp add: off_def)
  from take4_drop [OF this]
  have "rfc_truncate mac = (((?b off * 256 + ?b (off + 1)) * 256 + ?b (off + 2)) * 256 + ?b (off + 3)) mod 2 ^ 31"
    by (simp add: rfc_truncate_def off_def)
  moreover have "x mod 2 ^ 31 mod 2 ^ 32 = x mod (2 ^ 31 :: nat)" for x
    by (rule mod_less) (simp add: order_less_trans [OF mod_less_divisor])
  ultimately show ?thesis by (simp only: tv unat_of_nat) simp
qed


lemma zero_padded_text:
  "n < 10 ^ Suc k \<Longrightarrow> replicate (Suc k - length (nat_text n)) (digit_char 0) @ nat_text n =
     map (\<lambda>i. digit_char (n div 10 ^ i mod 10)) (rev [0..<Suc k])"
proof (induction k arbitrary: n)
  case 0
  then show ?case by (simp add: nat_text.simps)
next
  case (Suc k)
  have upt: "rev [0..<Suc (Suc k)] = map Suc (rev [0..<Suc k]) @ [0]"
    by (simp only: upt_conv_Cons [of 0] zero_less_Suc map_Suc_upt [symmetric] rev.simps rev_map simp_thms)
  have shift: "map (\<lambda>i. digit_char (n div 10 ^ i mod 10)) (rev [0..<Suc (Suc k)]) =
      map (\<lambda>i. digit_char (n div 10 div 10 ^ i mod 10)) (rev [0..<Suc k]) @ [digit_char (n mod 10)]"
    by (simp only: upt map_append map_map comp_def power_Suc div_mult2_eq list.map power_0 div_by_1)
  show ?case
  proof (cases "n < 10")
    case True
    then have "n div 10 = 0" by simp
    then have "map (\<lambda>i. digit_char (n div 10 div 10 ^ i mod 10)) (rev [0..<Suc k]) = replicate (Suc k) (digit_char 0)"
      by (simp only: div_0 mod_0 map_replicate_const length_rev length_upt diff_zero)
    with True show ?thesis unfolding shift by (subst (1 2) nat_text.simps) simp
  next
    case False
    have "n div 10 < 10 ^ Suc k" using Suc.prems by (simp add: less_mult_imp_div_less)
    note IH = Suc.IH [OF this]
    from False have "nat_text n = nat_text (n div 10) @ [digit_char (n mod 10)]" by (subst nat_text.simps) simp
    then show ?thesis unfolding shift IH [symmetric] by simp
  qed
qed

lemma six_digits_rfc: "n < 10 ^ 6 \<Longrightarrow> six_digits n = map (\<lambda>i. digit_char (n div 10 ^ i mod 10)) [5, 4, 3, 2, 1, 0]"
proof -
  have "CHR ''0'' = digit_char 0" by code_simp
  moreover have "rev [0..<6] = [5, 4, 3, 2, 1, 0 :: nat]" by (simp add: upt_rec)
  ultimately show "n < 10 ^ 6 \<Longrightarrow> ?thesis"
    using zero_padded_text [of n 5] by (simp only: six_digits_def Let_def) simp
qed

lemma totp_code_rfc: "counter < 2 ^ 64 \<Longrightarrow> totp_code key (int counter) = rfc_hotp key counter"
proof -
  assume "counter < 2 ^ 64"
  then have "nat (int counter mod 2 ^ 64) = counter" by (simp add: nat_mod_distrib nat_power_eq)
  moreover have "unat (totp_value (hmac_sha1 key msg) mod 1000000) = rfc_truncate (hmac_sha1 key msg) mod 10 ^ 6" for msg
    by (simp add: unat_mod totp_value_truncate hmac_sha1_def length_Sum1)
  ultimately show ?thesis
    unfolding totp_code_def rfc_hotp_def Let_def by (simp only: six_digits_rfc mod_less_divisor zero_less_power zero_less_numeral)
qed

text \<open>
  C16: One-time passwords are those of the standards. For a secret that \<open>NewTOTPSecret\<close> made of the random
  bytes \<open>raw\<close>, \<open>VerifyTOTP\<close> accepts exactly the three RFC 6238 codes of the key \<open>raw\<close> for the current time step and
  its two neighbours: the secret survives its base32 text, the digest is never indexed out of its bounds,
  and the bit operations on 32-bit words compute the dynamic truncation of RFC 4226. The time is after the
  first step of the epoch and before the counter leaves 64 bits.
\<close>

theorem totp_is_rfc6238:
  assumes "NewTOTPSecret (Some raw) = Inr secret" and "30 * Second \<le> now" and "now < 2 ^ 63 * Second"
  shows "VerifyTOTP secret code now \<longleftrightarrow>
    code \<in> {rfc_hotp raw (rfc_step now - 1), rfc_hotp raw (rfc_step now), rfc_hotp raw (rfc_step now + 1)}"
proof -
  define t where "t = rfc_step now"
  have "now div Second * Second \<le> now" by (simp add: minus_mod_eq_div_mult [symmetric])
  then have sec: "30 \<le> now div Second" "now div Second < 2 ^ 63"
    using assms(2,3) zdiv_mono1 [of "30 * Second" now Second] by simp_all
  then have q: "quot (now div Second) 30 = int t" by (simp add: t_def rfc_step_def)
  have "1 \<le> now div Second div 30" "now div Second div 30 \<le> now div Second"
    using sec(1) zdiv_mono1 [of 30 "now div Second" 30] zdiv_mono2 [of "now div Second" 1 30] by simp_all
  then have t: "1 \<le> t" "t + 1 < 2 ^ 64" using sec(2) by (auto simp: t_def rfc_step_def nat_less_iff)
  have steps: "totp_code raw (int t + - 1) = rfc_hotp raw (t - 1)" "totp_code raw (int t + 0) = rfc_hotp raw t"
    "totp_code raw (int t + 1) = rfc_hotp raw (t + 1)"
    using totp_code_rfc [of "t - 1" raw] totp_code_rfc [of t raw] totp_code_rfc [of "t + 1" raw] t
    by (simp_all add: of_nat_diff add.commute)
  have six: "length (rfc_hotp raw c) = 6" for c by (simp add: rfc_hotp_def Let_def)
  have "b32_decode (ToUpper (TrimSpace secret)) = Some raw"
    using assms(1) by (auto simp: NewTOTPSecret_def b32_roundtrip)
  then show ?thesis unfolding VerifyTOTP_def t_def [symmetric] q Let_def list_ex_iff
    using six steps by auto
qed

text \<open>The secret of the test vectors of RFC 4226, one minute after the epoch.\<close>

theorem totp_is_rfc6238_witness:
  "NewTOTPSecret (Some ''12345678901234567890'') = Inr (b32_encode ''12345678901234567890'') \<and>
   30 * Second \<le> (60 * Second :: int) \<and>
   VerifyTOTP (b32_encode ''12345678901234567890'') (rfc_hotp ''12345678901234567890'' 1) (60 * Second)"
  using totp_is_rfc6238 [of "''12345678901234567890''" "b32_encode ''12345678901234567890''" "60 * Second"
      "rfc_hotp ''12345678901234567890'' 1"]
  by (simp add: NewTOTPSecret_def rfc_step_def)

text \<open>With a key derivation that returns the password padded to 32 bytes.\<close>

theorem password_hash_accepts_witness:
  "HashPassword (\<lambda>p salt t m par n. take n (p @ replicate n CHR ''x'')) (Some ''salt'') ''correct horse battery'' =
     Inr (''$argon2id$v=19$m=65536,t=3,p=2$'' @ b64_encode std_alphabet False ''salt'' @ ''$'' @
        b64_encode std_alphabet False (take 32 (''correct horse battery'' @ replicate 32 CHR ''x''))) \<and>
   VerifyPassword (\<lambda>p salt t m par n. take n (p @ replicate n CHR ''x''))
     (''$argon2id$v=19$m=65536,t=3,p=2$'' @ b64_encode std_alphabet False ''salt'' @ ''$'' @
        b64_encode std_alphabet False (take 32 (''correct horse battery'' @ replicate 32 CHR ''x''))) ''correct horse battery''"
  using password_hash_accepts [of "\<lambda>p salt t m par n. take n (p @ replicate n CHR ''x'')" "''salt''" "''correct horse battery''"]
  by (simp add: HashPassword_def)

end
