(* ===== verification/AccessReview.thy ===== *)
theory AccessReview
  imports Samples
begin

text \<open>
  \<open>DecideReview\<close> of \<open>backend/internal/assurance/service.go\<close>: the decision on one item of an access
  review campaign. A revocation is only proposed, as an event of the outbox that requires approval.
\<close>

definition find_review_item :: "string \<Rightarrow> string \<Rightarrow> store \<Rightarrow> (string \<times> string) option" where
  "find_review_item org item d =
    (case [(ai_campaign i, ac_reviewer c). i \<leftarrow> items d, ai_org i = org \<and> ai_id i = item,
         c \<leftarrow> campaigns d, ac_id c = ai_campaign i \<and> ac_org c = org] of [] \<Rightarrow> None | r # _ \<Rightarrow> Some r)"

text \<open>\<open>access_review_decisions\<close> is unique per item.\<close>

definition sql_insert_decision :: "string \<Rightarrow> string \<Rightarrow> string \<Rightarrow> string \<Rightarrow> string \<Rightarrow> (store, unit) stmt" where
  "sql_insert_decision org item user decision comment now gen d =
    (if \<exists>r \<in> set (decisions d). ad_item r = item then Inl (DBError ''duplicate key'')
     else Inr ((), d\<lparr>decisions := decisions d @ [\<lparr>ad_org = org, ad_item = item, ad_reviewer = user, ad_decision = decision,
       ad_comment = comment, ad_created = now\<rparr>]\<rparr>))"

definition sql_item_decided :: "string \<Rightarrow> string \<Rightarrow> (store, unit) stmt" where
  "sql_item_decided org item = upd (\<lambda>now gen d. ((), d\<lparr>items :=
     update_where (\<lambda>i. ai_org i = org \<and> ai_id i = item) (\<lambda>i. i\<lparr>ai_status := ''DECIDED''\<rparr>) (items d)\<rparr>))"

definition sql_propose_revocation :: "string \<Rightarrow> string \<Rightarrow> string \<Rightarrow> (store, unit) stmt" where
  "sql_propose_revocation org item campaign = upd (\<lambda>now gen d. ((), d\<lparr>outbox := outbox d @
     [\<lparr>ob_org = org, ob_type = ''ACCESS_REVIEW_REVOCATION_PROPOSED'',
       ob_payload = JObj [(''itemId'', JStr item), (''campaignId'', JStr campaign), (''requiresApproval'', JBool True)]\<rparr>]\<rparr>))"

definition sql_complete_campaign :: "string \<Rightarrow> string \<Rightarrow> (store, unit) stmt" where
  "sql_complete_campaign org campaign = upd (\<lambda>now gen d. ((), d\<lparr>campaigns :=
     update_where (\<lambda>c. ac_org c = org \<and> ac_id c = campaign \<and>
         \<not> (\<exists>i \<in> set (items d). ai_org i = org \<and> ai_campaign i = ac_id c \<and> ai_status i \<noteq> ''DECIDED''))
       (\<lambda>c. c\<lparr>ac_status := ''COMPLETED'', ac_completed := Some now\<rparr>) (campaigns d)\<rparr>))"

definition valid_decision :: "string \<Rightarrow> bool" where
  "valid_decision decision \<longleftrightarrow> decision \<in> set [''KEEP'', ''REVOKE'', ''NEEDS_INFORMATION'', ''NOT_APPLICABLE'']"

definition decide_body :: "string \<Rightarrow> string \<Rightarrow> string \<Rightarrow> string \<Rightarrow> string \<Rightarrow> ((store, 'z) world_scheme, unit) comp" where
  "decide_body orgID itemID userID decision comment =
    bnd (query_row (find_review_item orgID itemID)) (\<lambda>(campaignID, assignedReviewer).
    if assignedReviewer \<noteq> userID then fail (Errorf ''review decision requires the assigned reviewer'')
    else bnd (exec (sql_insert_decision orgID itemID userID decision comment)) (\<lambda>_.
         bnd (exec (sql_item_decided orgID itemID)) (\<lambda>_.
         bnd (if decision = ''REVOKE'' then exec (sql_propose_revocation orgID itemID campaignID) else ret ()) (\<lambda>_.
         bnd (exec (sql_audit orgID userID ''access_review.decision'' ''access_review_item'' itemID
                (JObj [(''decision'', JStr decision)]) ''access-review-decision'')) (\<lambda>_.
         exec (sql_complete_campaign orgID campaignID))))))"

definition DecideReview :: "string \<Rightarrow> string \<Rightarrow> string \<Rightarrow> string \<Rightarrow> string \<Rightarrow> ((store, 'z) world_scheme, unit) comp" where
  "DecideReview orgID itemID userID decision comment =
    (if \<not> valid_decision decision then fail (Errorf ''invalid review decision'')
     else tx (decide_body orgID itemID userID decision comment))"

section \<open>What a decision does\<close>

definition decision_of :: "tstamp \<Rightarrow> string \<Rightarrow> string \<Rightarrow> string \<Rightarrow> string \<Rightarrow> string \<Rightarrow> decision_row" where
  "decision_of now org item user decision comment = \<lparr>ad_org = org, ad_item = item, ad_reviewer = user, ad_decision = decision, ad_comment = comment,
     ad_created = now\<rparr>"

definition revocation_proposal :: "string \<Rightarrow> string \<Rightarrow> string \<Rightarrow> outbox_row" where
  "revocation_proposal org item campaign = \<lparr>ob_org = org, ob_type = ''ACCESS_REVIEW_REVOCATION_PROPOSED'',
     ob_payload = JObj [(''itemId'', JStr item), (''campaignId'', JStr campaign), (''requiresApproval'', JBool True)]\<rparr>"

text \<open>The decision is recorded: once, by the reviewer the campaign assigns, and with it the item; nothing that
  grants or removes access changes.\<close>

definition decided :: "string \<Rightarrow> string \<Rightarrow> string \<Rightarrow> string \<Rightarrow> string \<Rightarrow> store \<Rightarrow> store \<Rightarrow> bool" where
  "decided org item user decision comment d d' \<longleftrightarrow> (\<exists>campaign.
     find_review_item org item d = Some (campaign, user) \<and>
     (\<forall>r \<in> set (decisions d). ad_item r \<noteq> item) \<and>
     (\<exists>now. decisions d' = decisions d @ [decision_of now org item user decision comment]) \<and>
     items d' = update_where (\<lambda>i. ai_org i = org \<and> ai_id i = item) (\<lambda>i. i\<lparr>ai_status := ''DECIDED''\<rparr>) (items d) \<and>
     outbox d' = outbox d @ (if decision = ''REVOKE'' then [revocation_proposal org item campaign] else []) \<and>
     (\<forall>c \<in> set (campaigns d'). c \<in> set (campaigns d) \<or> ac_org c = org \<and> ac_id c = campaign \<and>
        (\<forall>i \<in> set (items d'). ai_org i = org \<longrightarrow> ai_campaign i = campaign \<longrightarrow> ai_status i = ''DECIDED'')) \<and>
     accounts d' = accounts d \<and> grants d' = grants d \<and> entitlements d' = entitlements d \<and> links d' = links d)"

text \<open>Without its guard: what follows the insertion of the decision.\<close>

definition after_decision :: "string \<Rightarrow> string \<Rightarrow> string \<Rightarrow> string \<Rightarrow> store \<Rightarrow> store \<Rightarrow> bool" where
  "after_decision org item decision campaign d d' \<longleftrightarrow> decisions d' = decisions d \<and>
     items d' = update_where (\<lambda>i. ai_org i = org \<and> ai_id i = item) (\<lambda>i. i\<lparr>ai_status := ''DECIDED''\<rparr>) (items d) \<and>
     outbox d' = outbox d @ (if decision = ''REVOKE'' then [revocation_proposal org item campaign] else []) \<and>
     campaigns d' = campaigns d \<and> accounts d' = accounts d \<and> grants d' = grants d \<and> entitlements d' = entitlements d \<and> links d' = links d"

lemma wp_after_decision:
  "wp (bnd (exec (sql_item_decided org item)) (\<lambda>_.
       bnd (if decision = ''REVOKE'' then exec (sql_propose_revocation org item campaign) else ret ()) (\<lambda>_.
       exec (sql_audit org user ev ty item meta request))))
     (\<lambda>_ w'. after_decision org item decision campaign (db w) (db w')) (\<lambda>_ _. True) w"
proof (cases "decision = ''REVOKE''")
  case True
  show ?thesis unfolding if_P [OF True] sql_item_decided_def sql_propose_revocation_def sql_audit_def
    by (rule wp_bndI, rule wp_upd_ok, rule wp_bndI, rule wp_upd_ok, rule wp_upd_ok)
      (simp add: after_decision_def True revocation_proposal_def)
next
  case False
  show ?thesis unfolding if_not_P [OF False] sql_item_decided_def sql_audit_def wp_bnd wp_ret
    by (rule wp_upd_ok, rule wp_upd_ok) (simp add: after_decision_def False)
qed

lemma completed_campaign:
  assumes "sql_complete_campaign org campaign now gen d = Inr (u, d')" and "c \<in> set (campaigns d')"
  shows "c \<in> set (campaigns d) \<or> ac_org c = org \<and> ac_id c = campaign \<and>
    (\<forall>i \<in> set (items d'). ai_org i = org \<longrightarrow> ai_campaign i = campaign \<longrightarrow> ai_status i = ''DECIDED'')"
  using assms by (auto simp: sql_complete_campaign_def upd_def set_update_where split: if_splits)

lemma completion_keeps:
  assumes "sql_complete_campaign org campaign now gen d = Inr (u, d')"
  shows "decisions d' = decisions d" "items d' = items d" "outbox d' = outbox d" "accounts d' = accounts d" "grants d' = grants d"
    "entitlements d' = entitlements d" "links d' = links d"
  using assms by (auto simp: sql_complete_campaign_def upd_def)

lemma bnd_assoc: "bnd (bnd m k) k' = bnd m (\<lambda>x. bnd (k x) k')"
  by (auto simp: fun_eq_iff bnd_def split: prod.split sum.split)

lemma wp_record_decision:
  assumes x: "find_review_item org item (db w) = Some (campaign, user)"
  shows "wp (bnd (exec (sql_insert_decision org item user decision comment)) (\<lambda>_.
         bnd (exec (sql_item_decided org item)) (\<lambda>_.
         bnd (if decision = ''REVOKE'' then exec (sql_propose_revocation org item campaign) else ret ()) (\<lambda>_.
         bnd (exec (sql_audit org user ev ty item meta request)) (\<lambda>_.
         exec (sql_complete_campaign org campaign))))))
    (\<lambda>_ w'. decided org item user decision comment (db w) (db w')) (\<lambda>_ _. True) w"
proof (rule wp_bndI, rule wp_exec_ok)
  fix now gen u d
  assume st: "sql_insert_decision org item user decision comment now gen (db w) = Inr (u, d)"
  let ?w = "w\<lparr>ticks := Suc (ticks w), db := d\<rparr>"
  have d: "d = (db w)\<lparr>decisions := decisions (db w) @ [decision_of now org item user decision comment]\<rparr>"
    "\<forall>r \<in> set (decisions (db w)). ad_item r \<noteq> item"
    using st by (auto simp: sql_insert_decision_def decision_of_def split: if_splits)
  have last: "wp (exec (sql_complete_campaign org campaign)) (\<lambda>_ w'. decided org item user decision comment (db w) (db w')) (\<lambda>_ _. True) t"
    if t: "after_decision org item decision campaign (db ?w) (db t)" for t :: "(store, 'a) world_scheme"
  proof (rule wp_exec_ok)
    fix now gen u d' assume c: "sql_complete_campaign org campaign now gen (db t) = Inr (u, d')"
    show "decided org item user decision comment (db w) (db (t\<lparr>ticks := Suc (ticks t), db := d'\<rparr>))"
      unfolding decided_def
      by (rule exI [of _ campaign]) (use x d t completed_campaign [OF c] completion_keeps [OF c] in \<open>simp add: after_decision_def; blast\<close>)
  qed
  have "wp (bnd (bnd (exec (sql_item_decided org item)) (\<lambda>_.
       bnd (if decision = ''REVOKE'' then exec (sql_propose_revocation org item campaign) else ret ()) (\<lambda>_.
       exec (sql_audit org user ev ty item meta request)))) (\<lambda>_. exec (sql_complete_campaign org campaign)))
     (\<lambda>_ w'. decided org item user decision comment (db w) (db w')) (\<lambda>_ _. True) ?w"
    by (rule wp_seqI [OF wp_after_decision last])
  then show "wp (bnd (exec (sql_item_decided org item)) (\<lambda>_.
         bnd (if decision = ''REVOKE'' then exec (sql_propose_revocation org item campaign) else ret ()) (\<lambda>_.
         bnd (exec (sql_audit org user ev ty item meta request)) (\<lambda>_.
         exec (sql_complete_campaign org campaign)))))
    (\<lambda>_ w'. decided org item user decision comment (db w) (db w')) (\<lambda>_ _. True) ?w"
    unfolding bnd_assoc .
qed

lemma wp_decide_body:
  "wp (decide_body org item user decision comment) (\<lambda>_ w'. decided org item user decision comment (db w) (db w')) (\<lambda>_ _. True) w"
  unfolding decide_body_def
proof (rule wp_bndI, rule wp_query_row_ok, simp only: wp_case_prod split: prod.split, intro allI impI)
  fix x campaign reviewer and t :: "(store, 'a) world_scheme"
  assume x: "find_review_item org item (db w) = Some x" "x = (campaign, reviewer)" and t: "db t = db w"
  show "wp (if reviewer \<noteq> user then fail (Errorf ''review decision requires the assigned reviewer'')
      else bnd (exec (sql_insert_decision org item user decision comment)) (\<lambda>_.
         bnd (exec (sql_item_decided org item)) (\<lambda>_.
         bnd (if decision = ''REVOKE'' then exec (sql_propose_revocation org item campaign) else ret ()) (\<lambda>_.
         bnd (exec (sql_audit org user ''access_review.decision'' ''access_review_item'' item
                (JObj [(''decision'', JStr decision)]) ''access-review-decision'')) (\<lambda>_.
         exec (sql_complete_campaign org campaign))))))
      (\<lambda>_ w'. decided org item user decision comment (db w) (db w')) (\<lambda>_ _. True) t"
    using wp_record_decision [of org item t campaign user] x t by (simp add: wp_fail)
qed

text \<open>
  C23: A review decision counts once and changes no access. When \<open>DecideReview\<close> returns without an error,
  the decision is one of the four values, it was made by the reviewer whom the campaign assigns, the item
  had no decision before, and exactly this decision was recorded and the item marked; a revocation is
  only proposed, as one event that asks for approval, and a campaign changes only to be completed, when
  all of its items are decided. Accounts, grants, entitlements and links are untouched. On an error
  nothing changed, except that a lost commit answer means that all of this happened.
\<close>

theorem review_decision_once:
  "case DecideReview org item user decision comment w of
     (Inr u, w') \<Rightarrow> valid_decision decision \<and> decided org item user decision comment (db w) (db w')
   | (Inl e, w') \<Rightarrow> db w' = db w \<or> valid_decision decision \<and> decided org item user decision comment (db w) (db w')"
proof (cases "valid_decision decision")
  case True
  have "wp (tx (decide_body org item user decision comment)) (\<lambda>_ w'. decided org item user decision comment (db w) (db w'))
      (\<lambda>_ w'. db w' = db w \<or> (\<exists>u :: unit. decided org item user decision comment (db w) (db w'))) w"
    by (rule wp_tx_db [where Q = "\<lambda>_ d'. decided org item user decision comment (db w) d'"]) (metis wp_decide_body)
  then show ?thesis using True by (auto simp: DecideReview_def wp_def split: prod.splits sum.splits)
qed (simp add: DecideReview_def fail_def)

end
