(* ===== verification/ApiBase.thy ===== *)
theory ApiBase
  imports Rbac RateLimit Queue Sync SecretStore Auth Notifier AccessReview CsvSource
begin

text \<open>
  The ground of the HTTP API: the whole database (the tables of the assurance service, of the job queue and of
  the rate limiter, and those only the API uses), computations on a part of it, requests, answers, and the helpers
  of \<open>backend/internal/httpapi/server.go\<close> that every handler uses.
\<close>

section \<open>The database\<close>

record org_row =
  og_id :: string
  og_name :: string
  og_created :: tstamp
  og_updated :: tstamp

record user_row =
  us_id :: string
  us_org :: string
  us_email :: string
  us_name :: string
  us_password :: string
  us_mfa_secret :: "string option"
  us_mfa_enabled :: bool
  us_disabled :: bool
  us_created :: tstamp
  us_updated :: tstamp

record role_row =
  ro_id :: string
  ro_name :: string

record user_role_row =
  ur_org :: string
  ur_user :: string
  ur_role :: string

record session_row =
  se_id :: string
  se_org :: string
  se_user :: string
  se_token :: string
  se_csrf :: string
  se_expires :: tstamp
  se_revoked :: "tstamp option"
  se_created :: tstamp
  se_last_seen :: tstamp

record settings_row =
  os_org :: string
  os_audit :: int
  os_evidence :: int
  os_reconciliation :: int
  os_report :: int
  os_domains :: json
  os_updated :: tstamp

record application_row =
  ap_id :: string
  ap_org :: string
  ap_name :: string
  ap_description :: "string option"
  ap_owner_name :: "string option"
  ap_owner_email :: "string option"
  ap_criticality :: string
  ap_connector :: string
  ap_enabled :: bool
  ap_created :: tstamp

record report_row =
  rp_org :: string
  rp_case :: string
  rp_type :: string
  rp_by :: string
  rp_hash :: string
  rp_generated :: tstamp
  rp_id :: string
  rp_status :: string

record apidb =
  core :: store
  job_table :: jobs
  limit_table :: rate_limit_windows
  organizations :: "org_row list"
  users :: "user_row list"
  roles :: "role_row list"
  user_roles :: "user_role_row list"
  sessions :: "session_row list"
  settings :: "settings_row list"
  applications :: "application_row list"
  reports :: "report_row list"
  schema_migrations :: "string list option"

type_synonym 'a api = "(apidb networld, 'a) comp"

section \<open>Computations on a part of the database\<close>

text \<open>The same world around another database state.\<close>

definition with_db :: "'e \<Rightarrow> 'd networld \<Rightarrow> 'e networld" where
  "with_db d w = \<lparr>db = d, ticks = ticks w, faults = faults w, clock = clock w, fresh = fresh w, txnow = txnow w,
     net = net w, sent = sent w, cancelled = cancelled w, waited = waited w, http_date = http_date w,
     directory = directory w, ldap_log = ldap_log w, ParseDN = ParseDN w\<rparr>"

definition zoom :: "('d \<Rightarrow> 'e) \<Rightarrow> ('e \<Rightarrow> 'd \<Rightarrow> 'd) \<Rightarrow> ('e networld, 'a) comp \<Rightarrow> ('d networld, 'a) comp" where
  "zoom get put m w = (case m (with_db (get (db w)) w) of (r, t) \<Rightarrow> (r, with_db (put (db t) (db w)) t))"

definition stmt_on :: "('d \<Rightarrow> 'e) \<Rightarrow> ('e \<Rightarrow> 'd \<Rightarrow> 'd) \<Rightarrow> ('e, 'a) stmt \<Rightarrow> ('d, 'a) stmt" where
  "stmt_on get put st now gen d = (case st now gen (get d) of Inl e \<Rightarrow> Inl e | Inr (x, c) \<Rightarrow> Inr (x, put c d))"

definition put_core :: "store \<Rightarrow> apidb \<Rightarrow> apidb" where "put_core c d = d\<lparr>core := c\<rparr>"
definition put_jobs :: "jobs \<Rightarrow> apidb \<Rightarrow> apidb" where "put_jobs c d = d\<lparr>job_table := c\<rparr>"
definition put_limits :: "rate_limit_windows \<Rightarrow> apidb \<Rightarrow> apidb" where "put_limits c d = d\<lparr>limit_table := c\<rparr>"

abbreviation service :: "(store networld, 'a) comp \<Rightarrow> 'a api" where "service m \<equiv> zoom core put_core m"
abbreviation on_core :: "(store, 'a) stmt \<Rightarrow> (apidb, 'a) stmt" where "on_core st \<equiv> stmt_on core put_core st"

text \<open>The laws of a part: reading what was put, putting what was read, putting twice.\<close>

locale db_part =
  fixes get :: "'d \<Rightarrow> 'e" and put :: "'e \<Rightarrow> 'd \<Rightarrow> 'd"
  assumes get_put: "get (put c d) = c"
    and put_get: "put (get d) d = d"
    and put_put: "put c (put c' d) = put c d"
begin

lemma wp_zoom:
  "wp (zoom get put m) Q E w =
     wp m (\<lambda>x t. Q x (with_db (put (db t) (db w)) t)) (\<lambda>e t. E e (with_db (put (db t) (db w)) t)) (with_db (get (db w)) w)"
  by (simp add: wp_def zoom_def split: prod.split sum.split)

lemma zoom_db: "get (db (snd (zoom get put m w))) = db (snd (m (with_db (get (db w)) w)))"
  by (simp add: zoom_def with_db_def get_put split: prod.split)

text \<open>A relation of the parts gives one of the whole when the rest stays as it is.\<close>

definition on_part :: "('e \<Rightarrow> 'e \<Rightarrow> bool) \<Rightarrow> 'd \<Rightarrow> 'd \<Rightarrow> bool" where
  "on_part R d d' \<longleftrightarrow> R (get d) (get d') \<and> d' = put (get d') d"

lemma keeps_zoom:
  assumes "keeps (on_db R) m"
  shows "keeps (on_db (on_part R)) (zoom get put m)"
proof (rule keepsI)
  fix w
  obtain r t where m: "m (with_db (get (db w)) w) = (r, t)" by fastforce
  from keepsD [OF assms m] have "R (get (db w)) (db t)" by (simp add: on_db_def with_db_def)
  with m show "on_db (on_part R) w (snd (zoom get put m w))"
    by (simp add: zoom_def on_db_def on_part_def with_db_def get_put)
qed

lemma stmt_keeps_on:
  "stmt_keeps R st \<Longrightarrow> stmt_keeps (on_part R) (stmt_on get put st)"
  by (auto simp: stmt_keeps_def stmt_on_def on_part_def get_put split: sum.splits prod.splits)

end

interpretation core_part: db_part core put_core
  by unfold_locales (simp_all add: put_core_def)

interpretation jobs_part: db_part job_table put_jobs
  by unfold_locales (simp_all add: put_jobs_def)

interpretation limits_part: db_part limit_table put_limits
  by unfold_locales (simp_all add: put_limits_def)

section \<open>Requests and answers\<close>

text \<open>
  A request as the handlers see it. The body is given by its size and the JSON values it holds, each with the
  position at which it ends; \<open>r_clean\<close> says that only white space follows the last of them; \<open>r_form\<close> is what
  the multipart parser makes of it, the values and the content of the file. \<open>r_reqid\<close> is the value the middleware
  puts into the context, \<open>r_stay\<close> the number of seconds after which the client of a stream has left.
\<close>

record http_in =
  r_method :: string
  r_path :: string
  r_query :: "(string \<times> string) list"
  r_header :: "(string \<times> string) list"
  r_cookie :: "(string \<times> string) list"
  r_remote :: string
  r_size :: nat
  r_values :: "(json \<times> nat) list"
  r_clean :: bool
  r_form :: "((string \<times> string) list \<times> string option) option"
  r_reqid :: string
  r_stay :: nat

record cookie =
  ck_name :: string
  ck_value :: string
  ck_http_only :: bool
  ck_secure :: bool
  ck_max_age :: int

record reply =
  a_code :: int
  a_header :: "(string \<times> string) list"
  a_cookies :: "cookie list"
  a_body :: "json option"
  a_raw_body :: string

definition writeJSON :: "int \<Rightarrow> json \<Rightarrow> reply" where
  "writeJSON status v = \<lparr>a_code = status, a_header = [(''Content-Type'', ''application/json'')], a_cookies = [], a_body = Some v,
     a_raw_body = []\<rparr>"

definition writeError :: "int \<Rightarrow> string \<Rightarrow> string \<Rightarrow> string \<Rightarrow> reply" where
  "writeError status code message reqID =
     writeJSON status (JObj [(''error'', JObj [(''code'', JStr code), (''message'', JStr message), (''requestId'', JStr reqID)])])"

definition noContent :: "int \<Rightarrow> reply" where
  "noContent status = \<lparr>a_code = status, a_header = [], a_cookies = [], a_body = None, a_raw_body = []\<rparr>"

definition internal :: "http_in \<Rightarrow> reply" where
  "internal r = writeError 500 ''INTERNAL_ERROR'' ''The request could not be completed.'' (r_reqid r)"

definition lifecycleError :: "http_in \<Rightarrow> error \<Rightarrow> reply" where
  "lifecycleError r e =
    (if Contains (error_text e) ''FORBIDDEN_STATE''
     then writeError 409 ''FORBIDDEN_STATE'' ''The lifecycle case is not in the required state.'' (r_reqid r)
     else internal r)"

text \<open>
  \<open>x, err := m(); if err != nil { answer(err); return }\<close>: the continuation runs with the result, an error ends the
  handler with its answer.
\<close>

definition or_reply :: "'a api \<Rightarrow> (error \<Rightarrow> reply) \<Rightarrow> ('a \<Rightarrow> reply api) \<Rightarrow> reply api" where
  "or_reply m answer k = bnd (attempt m) (\<lambda>res. case res of Inl e \<Rightarrow> ret (answer e) | Inr x \<Rightarrow> k x)"

text \<open>
  \<open>decodeJSON\<close>: the body is cut at the limit, the first value is decoded into a struct whose fields are all that is
  allowed, and nothing may follow.
\<close>

definition known_keys :: "string list \<Rightarrow> (string \<times> json) list \<Rightarrow> bool" where
  "known_keys names kvs = list_all (\<lambda>(k, v). list_ex (EqualFold k) names) kvs"

definition decodeJSON :: "nat \<Rightarrow> string list \<Rightarrow> ((string \<times> json) list \<Rightarrow> 'a option) \<Rightarrow> http_in \<Rightarrow> reply + 'a" where
  "decodeJSON limit names dec r =
    (case (case r_values r of [] \<Rightarrow> None
       | (v, e) # _ \<Rightarrow> if limit < e then None
           else Option.bind (object_fields v) (\<lambda>kvs. if known_keys names kvs then dec kvs else None)) of
       None \<Rightarrow> Inl (writeError 400 ''INVALID_JSON'' ''The request body is invalid.'' (r_reqid r))
     | Some x \<Rightarrow>
       if length (r_values r) = 1 \<and> r_clean r \<and> r_size r \<le> limit then Inr x
       else Inl (writeError 400 ''INVALID_JSON'' ''Only one JSON value is allowed.'' (r_reqid r)))"

definition with_body ::
  "nat \<Rightarrow> string list \<Rightarrow> ((string \<times> json) list \<Rightarrow> 'a option) \<Rightarrow> http_in \<Rightarrow> ('a \<Rightarrow> reply api) \<Rightarrow> reply api" where
  "with_body limit names dec r k = (case decodeJSON limit names dec r of Inl a \<Rightarrow> ret a | Inr x \<Rightarrow> k x)"

definition query_get :: "http_in \<Rightarrow> string \<Rightarrow> string" where
  "query_get r name = (case map_of (r_query r) name of None \<Rightarrow> [] | Some v \<Rightarrow> v)"

text \<open>\<open>pagination\<close>: \<open>strconv.Atoi\<close> returns 0 with a syntax error and the nearest bound with a range error.\<close>

definition atoi_or :: "string \<Rightarrow> int" where
  "atoi_or s = (case Atoi s of Some i \<Rightarrow> i
     | None \<Rightarrow>
       (case s of [] \<Rightarrow> 0
        | c # t \<Rightarrow> if c = CHR ''-'' then (if unsigned_text t = None then 0 else - (2 ^ 63))
            else if c = CHR ''+'' then (if unsigned_text t = None then 0 else 2 ^ 63 - 1)
            else if unsigned_text s = None then 0 else 2 ^ 63 - 1))"

definition pagination :: "http_in \<Rightarrow> int \<times> int" where
  "pagination r =
    (let limit = atoi_or (query_get r ''limit''); offset = atoi_or (query_get r ''offset'');
         limit1 = (if limit < 1 then 50 else limit) in
     (if limit1 > 200 then 200 else limit1, if offset < 0 then 0 else offset))"

section \<open>The server\<close>

text \<open>
  What the server is configured with, and the third-party functions and the random source it calls: \<open>randomBytes t n\<close>
are the n bytes the random source gives at the t-th call (\<open>None\<close>: an error), \<open>uuidParse\<close> tells which texts
  \<open>uuid.Parse\<close> accepts, \<open>pgUuid\<close> which PostgreSQL accepts for a column of type \<open>uuid\<close>, \<open>mailParse\<close> which \<open>mail.ParseAddress\<close> accepts. \<open>poolFate t\<close> is what becomes of a job that is
  submitted to a worker pool at the t-th call: the queue is full or stopped, the request ends before the job, or the
  job's result is awaited; \<open>None\<close> is a server without pools. \<open>csvErrorText\<close> is the message of \<open>encoding/csv\<close> for an
  error, with the positions that the reader's model leaves out. \<open>pgCollate\<close> gives the key by which the collation of the
  database compares a text, \<open>canFlush\<close> tells whether the response writer is an \<open>http.Flusher\<close>.
\<close>

datatype pool_fate = PoolRefused | RequestGone | PoolDone

record Server =
  Assurance :: Service
  Encrypt :: "string \<Rightarrow> string api"
  Decrypt :: "string \<Rightarrow> string api"
  Health :: "(unit api) option"
  providerName :: string
  AllowedOrigin :: string
  SecureCookies :: bool
  RequirePrivilegedMFA :: bool
  MaxCSVBytes :: int
  DistributedQueueOf :: "(apidb networld) DistributedQueue option"
  JobMode :: string
  RateLimiter :: bool
  trustedProxies :: "(nat list \<times> nat) list"
  poolFate :: "(nat \<Rightarrow> pool_fate) option"
  IDKeyOf :: argon2
  randomBytes :: "nat \<Rightarrow> nat \<Rightarrow> string option"
  uuidParse :: "string \<Rightarrow> bool"
  pgUuid :: "string \<Rightarrow> bool"
  mailParse :: "string \<Rightarrow> bool"
  csvErrorText :: "csv_error \<Rightarrow> string"
  pgCollate :: "string \<Rightarrow> string"
  canFlush :: bool

definition random_read :: "Server \<Rightarrow> nat \<Rightarrow> (string option) api" where
  "random_read s n w = (Inr (randomBytes s (ticks w) n), w\<lparr>ticks := Suc (ticks w)\<rparr>)"

text \<open>A statement whose argument is compared with or stored in a column of type \<open>uuid\<close>.\<close>

definition uuid_arg :: "Server \<Rightarrow> string \<Rightarrow> 'a api \<Rightarrow> 'a api" where
  "uuid_arg s v m = (if pgUuid s v then m else fail (DBError ''invalid input syntax for type uuid''))"

text \<open>\<open>randomToken\<close> ignores the error of the random source; its buffer is zero then.\<close>

definition randomToken :: "Server \<Rightarrow> nat \<Rightarrow> string api" where
  "randomToken s n = bnd (random_read s n) (\<lambda>b.
     ret (b64_encode url_alphabet False (case b of None \<Rightarrow> replicate n (CHR 0x00) | Some raw \<Rightarrow> raw)))"


text \<open>\<open>runBounded\<close>: the job runs in the pool; when the request ends first it still runs, but its result is lost.\<close>

definition runBounded :: "Server \<Rightarrow> 'a api \<Rightarrow> 'a api" where
  "runBounded s job w = (case poolFate s of None \<Rightarrow> job w
     | Some fate \<Rightarrow> (case fate (ticks w) of
         PoolRefused \<Rightarrow> fail (Errorf ''worker queue is full'') w
       | RequestGone \<Rightarrow> bnd (attempt job) (\<lambda>_. fail CtxErr) w
       | PoolDone \<Rightarrow> job w))"

end
