(* ===== verification/Sessions.thy ===== *)
theory Sessions
  imports ApiBase
begin

text \<open>
  The users, sessions and roles of \<open>backend/internal/database/database.go\<close>: authentication, the life of a session,
  the change of a password, the audit trail and the creation of the first owner.
\<close>

section \<open>Sessions\<close>

record Session =
  SessionID :: string
  SessionOrg :: string
  SessionUser :: string
  SessionEmail :: string
  SessionName :: string
  SessionRoles :: "string list"
  SessionCSRF :: string
  SessionExpires :: tstamp

definition find_login :: "string \<Rightarrow> apidb \<Rightarrow> user_row option" where
  "find_login email d = List.find (\<lambda>u. ToLower (us_email u) = ToLower email \<and> \<not> us_disabled u) (users d)"

text \<open>The join of \<open>user_roles\<close> with \<open>roles\<close>.\<close>

definition role_names :: "string \<Rightarrow> string \<Rightarrow> apidb \<Rightarrow> string list" where
  "role_names org user d = [ro_name r. ur \<leftarrow> user_roles d, ur_org ur = org \<and> ur_user ur = user, r \<leftarrow> roles d, ro_id r = ur_role ur]"

definition Authenticate :: "argon2 \<Rightarrow> string \<Rightarrow> string \<Rightarrow> Session api" where
  "Authenticate IDKey email password =
    bnd (attempt (query_row (find_login email))) (\<lambda>res. case res of
       Inl _ \<Rightarrow> fail (Errorf ''invalid credentials'')
     | Inr u \<Rightarrow>
       if \<not> VerifyPassword IDKey (us_password u) password then fail (Errorf ''invalid credentials'')
       else bnd (query_rows (role_names (us_org u) (us_id u))) (\<lambda>(rs, err).
         case err of Some e \<Rightarrow> fail e
         | None \<Rightarrow> ret \<lparr>SessionID = [], SessionOrg = us_org u, SessionUser = us_id u, SessionEmail = us_email u,
             SessionName = us_name u, SessionRoles = rs, SessionCSRF = [], SessionExpires = zero_time\<rparr>))"

definition new_session_row :: "Session \<Rightarrow> string \<Rightarrow> string \<Rightarrow> tstamp \<Rightarrow> session_row" where
  "new_session_row s tokenHash csrfHash now = \<lparr>se_id = SessionID s, se_org = SessionOrg s, se_user = SessionUser s,
     se_token = tokenHash, se_csrf = csrfHash, se_expires = SessionExpires s, se_revoked = None, se_created = now, se_last_seen = now\<rparr>"

definition sql_insert_session :: "Session \<Rightarrow> string \<Rightarrow> string \<Rightarrow> (apidb, unit) stmt" where
  "sql_insert_session s tokenHash csrfHash now gen d =
    (if \<exists>x \<in> set (sessions d). se_id x = SessionID s \<or> se_token x = tokenHash then Inl (DBError ''duplicate key'')
     else Inr ((), d\<lparr>sessions := sessions d @ [new_session_row s tokenHash csrfHash now]\<rparr>))"

definition CreateSession :: "Session \<Rightarrow> string \<Rightarrow> string \<Rightarrow> tstamp \<Rightarrow> Session api" where
  "CreateSession base tokenHash csrfHash expires =
    bnd new_uuid (\<lambda>sid.
    (let s = base\<lparr>SessionID := sid, SessionCSRF := csrfHash, SessionExpires := expires\<rparr> in
     bnd (exec (sql_insert_session s tokenHash csrfHash)) (\<lambda>_. ret s)))"

text \<open>
  A session is live while it is neither revoked nor expired and its user, of the same organization, is not
  disabled. \<open>array_agg(r.name ORDER BY r.name)\<close> sorts the role names.
\<close>

definition session_user :: "session_row \<Rightarrow> user_row \<Rightarrow> bool" where
  "session_user x u \<longleftrightarrow> us_id u = se_user x \<and> us_org u = se_org x"

definition live_session :: "tstamp \<Rightarrow> apidb \<Rightarrow> session_row \<Rightarrow> user_row \<Rightarrow> bool" where
  "live_session now d x u \<longleftrightarrow> x \<in> set (sessions d) \<and> u \<in> set (users d) \<and> session_user x u \<and>
     se_revoked x = None \<and> now < se_expires x \<and> \<not> us_disabled u"

definition session_of :: "apidb \<Rightarrow> session_row \<Rightarrow> user_row \<Rightarrow> Session" where
  "session_of d x u = \<lparr>SessionID = se_id x, SessionOrg = se_org x, SessionUser = se_user x, SessionEmail = us_email u,
     SessionName = us_name u, SessionRoles = sort (role_names (se_org x) (se_user x) d), SessionCSRF = se_csrf x,
     SessionExpires = se_expires x\<rparr>"

definition sql_session_by_token :: "string \<Rightarrow> (apidb, Session) stmt" where
  "sql_session_by_token h now gen d =
    (case [session_of d x u. x \<leftarrow> sessions d, se_token x = h \<and> se_revoked x = None \<and> now < se_expires x,
         u \<leftarrow> users d, session_user x u \<and> \<not> us_disabled u] of
       [] \<Rightarrow> Inl ErrNoRows | s # _ \<Rightarrow> Inr (s, d))"

definition SessionByToken :: "string \<Rightarrow> Session api" where
  "SessionByToken tok = exec (sql_session_by_token (Sum256 tok))"

definition sql_revoke_session :: "string \<Rightarrow> string \<Rightarrow> (apidb, int) stmt" where
  "sql_revoke_session org sid = upd (\<lambda>now gen d.
    (let P = (\<lambda>x. se_org x = org \<and> se_id x = sid \<and> se_revoked x = None) in
     (count_where P (sessions d), d\<lparr>sessions := update_where P (\<lambda>x. x\<lparr>se_revoked := Some now\<rparr>) (sessions d)\<rparr>)))"

definition RevokeSession :: "string \<Rightarrow> string \<Rightarrow> unit api" where
  "RevokeSession orgID sessionID = bnd (exec (sql_revoke_session orgID sessionID)) (\<lambda>n.
     if n = 0 then fail ErrNoRows else ret ())"

section \<open>Passwords\<close>

definition find_user :: "string \<Rightarrow> string \<Rightarrow> apidb \<Rightarrow> user_row option" where
  "find_user org user d = List.find (\<lambda>u. us_org u = org \<and> us_id u = user) (users d)"

definition sql_set_password :: "string \<Rightarrow> string \<Rightarrow> string \<Rightarrow> (apidb, unit) stmt" where
  "sql_set_password hash org user = upd (\<lambda>now gen d. ((), d\<lparr>users := update_where (\<lambda>u. us_org u = org \<and> us_id u = user)
     (\<lambda>u. u\<lparr>us_password := hash, us_updated := now\<rparr>) (users d)\<rparr>))"

definition sql_revoke_sessions :: "string \<Rightarrow> string \<Rightarrow> (apidb, unit) stmt" where
  "sql_revoke_sessions org user = upd (\<lambda>now gen d. ((), d\<lparr>sessions := update_where (\<lambda>x. se_org x = org \<and> se_user x = user)
     (\<lambda>x. x\<lparr>se_revoked := Some now\<rparr>) (sessions d)\<rparr>))"

definition ChangePassword :: "Server \<Rightarrow> string \<Rightarrow> string \<Rightarrow> string \<Rightarrow> string \<Rightarrow> unit api" where
  "ChangePassword s orgID userID current new =
    bnd (query_row (\<lambda>d. map_option us_password (find_user orgID userID d))) (\<lambda>hash.
    if \<not> VerifyPassword (IDKeyOf s) hash current then fail (Errorf ''current password is incorrect'')
    else bnd (random_read s 16) (\<lambda>salt.
         bnd (liftE (HashPassword (IDKeyOf s) salt new)) (\<lambda>newHash.
         tx (bnd (exec (sql_set_password newHash orgID userID)) (\<lambda>_. exec (sql_revoke_sessions orgID userID))))))"

section \<open>Audit\<close>

definition Audit :: "Server \<Rightarrow> string \<Rightarrow> string \<Rightarrow> string \<Rightarrow> string \<Rightarrow> string \<Rightarrow> json \<Rightarrow> string \<Rightarrow> unit api" where
  "Audit s orgID userID eventType resourceType resourceID metadata reqID =
     uuid_arg s resourceID (exec (on_core (sql_audit orgID userID eventType resourceType resourceID metadata reqID)))"

section \<open>Bootstrap\<close>

definition find_by_email :: "string \<Rightarrow> apidb \<Rightarrow> user_row option" where
  "find_by_email email d = List.find (\<lambda>u. ToLower (us_email u) = ToLower email) (users d)"

text \<open>\<open>ORDER BY created_at LIMIT 1\<close>\<close>

definition demo_organization :: "apidb \<Rightarrow> string option" where
  "demo_organization d = (case sort_key og_created (filter (\<lambda>g. og_name g = ''IdentityMesh Demo'') (organizations d)) of
     [] \<Rightarrow> None | g # _ \<Rightarrow> Some (og_id g))"

definition sql_insert_organization :: "(apidb, string) stmt" where
  "sql_insert_organization now gen d =
    (if \<exists>g \<in> set (organizations d). og_id g = gen 0 then Inl (DBError ''duplicate key'')
     else Inr (gen 0, d\<lparr>organizations := organizations d @
       [\<lparr>og_id = gen 0, og_name = ''IdentityMesh Demo'', og_created = now, og_updated = now\<rparr>]\<rparr>))"

text \<open>The two unique keys of \<open>users\<close>: \<open>(organization_id, email)\<close>, which the statement names as its conflict, and the
  index on \<open>lower(email)\<close>, which is an error.\<close>

definition email_taken :: "string \<Rightarrow> apidb \<Rightarrow> bool" where
  "email_taken email d \<longleftrightarrow> (\<exists>u \<in> set (users d). ToLower (us_email u) = ToLower email)"

definition new_user :: "string \<Rightarrow> string \<Rightarrow> string \<Rightarrow> string \<Rightarrow> string \<Rightarrow> tstamp \<Rightarrow> user_row" where
  "new_user uid org email name hash now = \<lparr>us_id = uid, us_org = org, us_email = email, us_name = name, us_password = hash,
     us_mfa_secret = None, us_mfa_enabled = False, us_disabled = False, us_created = now, us_updated = now\<rparr>"

definition sql_insert_owner :: "string \<Rightarrow> string \<Rightarrow> string \<Rightarrow> (apidb, string) stmt" where
  "sql_insert_owner org email hash now gen d =
    (case List.find (\<lambda>u. us_org u = org \<and> us_email u = ToLower email) (users d) of
       Some u \<Rightarrow> Inr (us_id u, d)
     | None \<Rightarrow>
       if email_taken email d \<or> (\<exists>u \<in> set (users d). us_id u = gen 0) then Inl (DBError ''users_email_global_unique_idx'')
       else Inr (gen 0, d\<lparr>users := users d @ [new_user (gen 0) org (ToLower email) ''Demo Owner'' hash now]\<rparr>))"

definition sql_grant_role :: "string \<Rightarrow> string \<Rightarrow> string \<Rightarrow> (apidb, unit) stmt" where
  "sql_grant_role org user role = upd (\<lambda>now gen d. ((), d\<lparr>user_roles := user_roles d @
     filter (\<lambda>ur. ur \<notin> set (user_roles d))
       (map (\<lambda>r. \<lparr>ur_org = org, ur_user = user, ur_role = ro_id r\<rparr>) (filter (\<lambda>r. ro_name r = role) (roles d)))\<rparr>))"

definition advisory_lock :: "(apidb, unit) stmt" where
  "advisory_lock = upd (\<lambda>now gen d. ((), d))"

definition bootstrap_body :: "string \<Rightarrow> string \<Rightarrow> unit api" where
  "bootstrap_body email hash =
    bnd (exec advisory_lock) (\<lambda>_.
    bnd (attempt (query_row (find_by_email email))) (\<lambda>found. case found of
       Inr _ \<Rightarrow> ret ()
     | Inl e \<Rightarrow>
       if e \<noteq> ErrNoRows then fail e
       else bnd (attempt (query_row demo_organization)) (\<lambda>org.
         bnd (case org of Inr i \<Rightarrow> ret i
            | Inl e' \<Rightarrow> if e' = ErrNoRows then exec sql_insert_organization else fail e') (\<lambda>orgID.
         bnd (exec (sql_insert_owner orgID email hash)) (\<lambda>userID.
         exec (sql_grant_role orgID userID ''OWNER''))))))"

definition Bootstrap :: "Server \<Rightarrow> string \<Rightarrow> string \<Rightarrow> unit api" where
  "Bootstrap s email password =
    (if email = [] \<or> password = [] then ret ()
     else bnd (random_read s 16) (\<lambda>salt.
          bnd (liftE (HashPassword (IDKeyOf s) salt password)) (\<lambda>hash.
          tx (bootstrap_body email hash))))"

section \<open>Migrations\<close>

text \<open>
  \<open>Migrate\<close>: the entries of the directory in the order of their names. \<open>script\<close> is the effect of the SQL text of a file,
  one implicit transaction; \<open>de_raw\<close> is the text, \<open>None\<close> a file that cannot be read. \<open>listing\<close> is what \<open>os.ReadDir\<close> returns.
\<close>

record dir_entry =
  de_name :: string
  de_dir :: bool
  de_raw :: "string option"

definition is_migration :: "dir_entry \<Rightarrow> bool" where
  "is_migration x \<longleftrightarrow> \<not> de_dir x \<and> HasSuffix (de_name x) ''.sql''"

definition version_of :: "dir_entry \<Rightarrow> string" where
  "version_of x = TrimSuffix (de_name x) ''.sql''"

definition is_applied :: "string \<Rightarrow> bool api" where
  "is_applied version =
    bnd (query_row (\<lambda>d. Some (schema_migrations d \<noteq> None))) (\<lambda>exists.
    if \<not> exists then ret False
    else query_row (\<lambda>d. Some (case schema_migrations d of None \<Rightarrow> False | Some vs \<Rightarrow> version \<in> set vs)))"

definition migrate_entry :: "(string \<Rightarrow> (apidb, unit) stmt) \<Rightarrow> dir_entry \<Rightarrow> unit api" where
  "migrate_entry script x =
    bnd (is_applied (version_of x)) (\<lambda>applied.
    if applied then ret ()
    else (case de_raw x of
        None \<Rightarrow> fail (Errorf ''read migration'')
      | Some raw \<Rightarrow> bnd (attempt (exec (script raw))) (\<lambda>res. case res of
            Inl e \<Rightarrow> fail (Errorf (''migration '' @ de_name x @ '': '' @ error_text e))
          | Inr _ \<Rightarrow> ret ())))"

fun migrate_entries :: "(string \<Rightarrow> (apidb, unit) stmt) \<Rightarrow> dir_entry list \<Rightarrow> unit api" where
  "migrate_entries script [] = ret ()"
| "migrate_entries script (x # xs) =
    bnd (if is_migration x then migrate_entry script x else ret ()) (\<lambda>_. migrate_entries script xs)"

definition Migrate :: "(string \<Rightarrow> (apidb, unit) stmt) \<Rightarrow> dir_entry list option \<Rightarrow> unit api" where
  "Migrate script listing =
    bnd (exec advisory_lock) (\<lambda>_. bnd (attempt (case listing of
         None \<Rightarrow> fail (Errorf ''open migrations'')
       | Some entries \<Rightarrow> migrate_entries script (sort_key de_name entries))) (\<lambda>res.
    bnd (ignore (exec advisory_lock)) (\<lambda>_. liftE res)))"

end
