(* ===== verification/ApiAuth.thy ===== *)
theory ApiAuth
  imports Sessions
begin

text \<open>
  The gate of the API in \<open>backend/internal/httpapi/server.go\<close>: the middleware, the client address, the rate limit, the
  session and the CSRF check, login, logout, passwords and the second factor.
\<close>

section \<open>Client addresses\<close>

text \<open>
  \<open>net.ParseCIDR\<close> and \<open>IPNet.Contains\<close>. An IPv4 network is the network of the mapped addresses; a network with a
  shorter prefix than that contains no IPv4 address.
\<close>

definition ip_number :: "nat list \<Rightarrow> nat" where
  "ip_number ip = foldl (\<lambda>n g. n * 65536 + g) 0 ip"

definition cut_at :: "char \<Rightarrow> string \<Rightarrow> (string \<times> string) option" where
  "cut_at c s = (if c \<in> set s then Some (takeWhile (\<lambda>x. x \<noteq> c) s, tl (dropWhile (\<lambda>x. x \<noteq> c) s)) else None)"

definition ParseCIDR :: "string \<Rightarrow> (nat list \<times> nat) option" where
  "ParseCIDR s =
    (case cut_at (CHR ''/'') s of None \<Rightarrow> None
     | Some (addr, bits) \<Rightarrow>
       (case (ParseIP addr, unsigned_text bits) of
          (Some ip, Some n) \<Rightarrow>
            if CHR '':'' \<in> set addr then (if n \<le> 128 then Some (ip, n) else None)
            else (if n \<le> 32 then Some (ip, 96 + n) else None)
        | _ \<Rightarrow> None))"

definition net_contains :: "nat list \<times> nat \<Rightarrow> nat list \<Rightarrow> bool" where
  "net_contains nw ip \<longleftrightarrow> ip_number (fst nw) div 2 ^ (128 - snd nw) = ip_number ip div 2 ^ (128 - snd nw) \<and>
     (To4 ip = None \<or> 96 \<le> snd nw)"

definition new_proxies :: "string list \<Rightarrow> (nat list \<times> nat) list" where
  "new_proxies cidrs = concat (map (\<lambda>v. case ParseCIDR (TrimSpace v) of None \<Rightarrow> [] | Some n \<Rightarrow> [n]) cidrs)"

definition isTrustedProxy :: "Server \<Rightarrow> nat list option \<Rightarrow> bool" where
  "isTrustedProxy s ip = list_ex (\<lambda>nw. case ip of None \<Rightarrow> False | Some a \<Rightarrow> net_contains nw a) (trustedProxies s)"

text \<open>\<open>net.SplitHostPort\<close>, of which only the host is used.\<close>

definition split_host :: "string \<Rightarrow> string option" where
  "split_host s =
    (case cut_last (CHR '':'') s of
       None \<Rightarrow> None
     | Some (before, port) \<Rightarrow>
       if s \<noteq> [] \<and> hd s = CHR ''['' then
         (case cut_at (CHR '']'') s of None \<Rightarrow> None
          | Some (h, rest) \<Rightarrow>
            if rest = CHR '':'' # port \<and> CHR ''['' \<notin> set (tl s) \<and> CHR '']'' \<notin> set rest then Some (tl h) else None)
       else if CHR '':'' \<in> set before \<or> CHR ''['' \<in> set s \<or> CHR '']'' \<in> set s then None else Some before)"

text \<open>\<open>IP.String\<close>: dotted for IPv4, and for IPv6 the groups in hexadecimal with the first longest run of zeros left out.\<close>

definition hex_nat :: "nat \<Rightarrow> string" where
  "hex_nat n = (let t = map hex_digit [n div 4096 mod 16, n div 256 mod 16, n div 16 mod 16, n mod 16];
       u = dropWhile (\<lambda>c. c = CHR ''0'') t in if u = [] then ''0'' else u)"

definition zero_run :: "nat list \<Rightarrow> nat \<Rightarrow> nat" where
  "zero_run ip i = length (takeWhile (\<lambda>g. g = 0) (drop i ip))"

definition longest_run :: "nat list \<Rightarrow> (nat \<times> nat) option" where
  "longest_run ip = foldl (\<lambda>best i. let l = zero_run ip i in
      if 2 \<le> l \<and> (case best of None \<Rightarrow> True | Some (_, l') \<Rightarrow> l' < l) then Some (i, l) else best) None [0..<length ip]"

definition ip_text :: "nat list \<Rightarrow> string" where
  "ip_text ip = (case To4 ip of
     Some (a, b) \<Rightarrow> Join (map nat_text [a div 256, a mod 256, b div 256, b mod 256]) ''.''
   | None \<Rightarrow>
     (case longest_run ip of
        None \<Rightarrow> Join (map hex_nat ip) '':''
      | Some (i, l) \<Rightarrow> Join (map hex_nat (take i ip)) '':'' @ ''::'' @ Join (map hex_nat (drop (i + l) ip)) '':''))"

text \<open>The forwarded addresses from the last to the first: the first one that parses and is no trusted proxy.\<close>

fun forwarded_client :: "Server \<Rightarrow> string list \<Rightarrow> string option" where
  "forwarded_client s [] = None"
| "forwarded_client s (part # parts) =
    (case ParseIP (TrimSpace part) of
       None \<Rightarrow> forwarded_client s parts
     | Some ip \<Rightarrow> if \<not> isTrustedProxy s (Some ip) then Some (ip_text ip) else forwarded_client s parts)"

definition peer_host :: "http_in \<Rightarrow> string" where
  "peer_host r = (case split_host (r_remote r) of None \<Rightarrow> r_remote r | Some h \<Rightarrow> h)"

definition clientIP :: "Server \<Rightarrow> http_in \<Rightarrow> string" where
  "clientIP s r =
    (let host = peer_host r in
     if \<not> isTrustedProxy s (ParseIP host) then host
     else (case forwarded_client s (rev (Split (header_get ''X-Forwarded-For'' (r_header r)) (CHR '',''))) of
        None \<Rightarrow> host | Some c \<Rightarrow> c))"

section \<open>The rate limit\<close>

definition rate_key :: "Server \<Rightarrow> Session option \<Rightarrow> http_in \<Rightarrow> string" where
  "rate_key s sess r = clientIP s r @ '':'' @ r_path r @
    (case sess of None \<Rightarrow> [] | Some x \<Rightarrow> if SessionOrg x \<noteq> [] then '':'' @ SessionOrg x @ '':'' @ SessionUser x else [])"

definition retry_seconds :: "int \<Rightarrow> int" where
  "retry_seconds retry = max 1 ((retry + Second div 2) div Second)"

definition unavailable :: "http_in \<Rightarrow> reply" where
  "unavailable r = writeError 503 ''RATE_LIMITER_UNAVAILABLE'' ''Request protection is temporarily unavailable.'' (r_reqid r)"

definition rate :: "Server \<Rightarrow> int \<Rightarrow> int \<Rightarrow> Session option \<Rightarrow> reply api \<Rightarrow> http_in \<Rightarrow> reply api" where
  "rate s limit window sess handler r =
    (if \<not> RateLimiter s then ret (unavailable r)
     else or_reply (zoom limit_table put_limits (Allow False (rate_key s sess r) limit window)) (\<lambda>_. unavailable r) (\<lambda>(allowed, retry).
       if \<not> allowed then ret ((writeError 429 ''RATE_LIMITED'' ''Too many requests. Try again later.'' (r_reqid r))
           \<lparr>a_header := [(''Retry-After'', Itoa (retry_seconds retry)), (''Content-Type'', ''application/json'')]\<rparr>)
       else handler))"

section \<open>Session and CSRF\<close>

definition authenticated :: "(Session \<Rightarrow> reply api) \<Rightarrow> http_in \<Rightarrow> reply api" where
  "authenticated handler r =
    (case map_of (r_cookie r) ''identitymesh_session'' of
       None \<Rightarrow> ret (writeError 401 ''UNAUTHENTICATED'' ''Authentication is required.'' (r_reqid r))
     | Some tok \<Rightarrow>
       or_reply (SessionByToken tok)
         (\<lambda>_. writeError 401 ''SESSION_INVALID'' ''The session is expired or revoked.'' (r_reqid r)) handler)"

definition safe_method :: "http_in \<Rightarrow> bool" where
  "safe_method r \<longleftrightarrow> r_method r \<in> set [''GET'', ''HEAD'', ''OPTIONS'']"

definition csrf_valid :: "Session \<Rightarrow> http_in \<Rightarrow> bool" where
  "csrf_valid session r = (let t = header_get ''X-CSRF-Token'' (r_header r) in t \<noteq> [] \<and> Sum256 t = SessionCSRF session)"

definition foreign_origin :: "Server \<Rightarrow> http_in \<Rightarrow> bool" where
  "foreign_origin s r = (let origin = header_get ''Origin'' (r_header r) in origin \<noteq> [] \<and> origin \<noteq> AllowedOrigin s)"

definition csrf :: "Server \<Rightarrow> (Session \<Rightarrow> reply api) \<Rightarrow> http_in \<Rightarrow> Session \<Rightarrow> reply api" where
  "csrf s handler r session =
    (if safe_method r then handler session
     else if \<not> csrf_valid session r
     then ret (writeError 403 ''CSRF_VALIDATION_FAILED'' ''The request could not be validated.'' (r_reqid r))
     else if foreign_origin s r
     then ret (writeError 403 ''ORIGIN_NOT_ALLOWED'' ''The request origin is not allowed.'' (r_reqid r))
     else handler session)"

definition require :: "string \<Rightarrow> (Session \<Rightarrow> reply api) \<Rightarrow> http_in \<Rightarrow> Session \<Rightarrow> reply api" where
  "require permission handler r session =
    (if \<not> Allowed (SessionRoles session) permission
     then ret (writeError 403 ''FORBIDDEN'' ''You do not have permission to perform this operation.'' (r_reqid r))
     else handler session)"

section \<open>Login\<close>

definition privilegedRoles :: "string list \<Rightarrow> bool" where
  "privilegedRoles rs = list_ex (\<lambda>role. role \<in> set [''OWNER'', ''IDENTITY_ADMIN'', ''SECURITY_ADMIN'', ''OPERATOR'']) rs"

definition decode_login :: "(string \<times> json) list \<Rightarrow> (string \<times> string \<times> string) option" where
  "decode_login kv = do { e \<leftarrow> str_field ''Email'' kv; p \<leftarrow> str_field ''Password'' kv; t \<leftarrow> str_field ''TOTP'' kv; Some (e, p, t) }"

text \<open>The second factor: \<open>None\<close> lets the login go on, an answer ends it.\<close>

definition second_factor :: "Server \<Rightarrow> http_in \<Rightarrow> bool \<Rightarrow> string option \<Rightarrow> string \<Rightarrow> (reply option) api" where
  "second_factor s r enabled cipher code =
    (if \<not> enabled then ret None
     else (case cipher of
        None \<Rightarrow> ret (Some (writeError 401 ''MFA_CONFIGURATION_INVALID'' ''MFA configuration is incomplete.'' (r_reqid r)))
      | Some c \<Rightarrow>
        bnd (attempt (Decrypt s c)) (\<lambda>secret. bnd time_now (\<lambda>now.
        ret (case secret of
           Inr x \<Rightarrow> if VerifyTOTP x code now then None
             else Some (writeError 401 ''MFA_REQUIRED'' ''A valid multi-factor authentication code is required.'' (r_reqid r))
         | Inl _ \<Rightarrow> Some (writeError 401 ''MFA_REQUIRED'' ''A valid multi-factor authentication code is required.'' (r_reqid r)))))))"

definition user_json :: "Session \<Rightarrow> json" where
  "user_json x = JObj [(''id'', JStr (SessionUser x)), (''email'', JStr (SessionEmail x)), (''displayName'', JStr (SessionName x)),
     (''roles'', JArr (map JStr (SessionRoles x)))]"

definition session_cookie :: "Server \<Rightarrow> string \<Rightarrow> int \<Rightarrow> cookie" where
  "session_cookie s v age = \<lparr>ck_name = ''identitymesh_session'', ck_value = v, ck_http_only = True, ck_secure = SecureCookies s,
     ck_max_age = age\<rparr>"

definition open_session :: "Server \<Rightarrow> http_in \<Rightarrow> Session \<Rightarrow> reply api" where
  "open_session s r base =
    bnd (randomToken s 32) (\<lambda>tok. bnd (randomToken s 32) (\<lambda>csrfTok. bnd time_now (\<lambda>now.
    or_reply (CreateSession base (Sum256 tok) (Sum256 csrfTok) (now + 8 * 3600 * Second))
      (\<lambda>_. writeError 500 ''SESSION_CREATE_FAILED'' ''The session could not be created.'' (r_reqid r)) (\<lambda>x.
    bnd (ignore (Audit s (SessionOrg x) (SessionUser x) ''auth.login'' ''session'' (SessionID x)
        (JObj [(''email'', JStr (SessionEmail x))]) (r_reqid r))) (\<lambda>_.
    ret ((writeJSON 200 (JObj [(''user'', user_json x), (''csrfToken'', JStr csrfTok),
         (''expiresAt'', JStr (FormatRFC3339Nano (SessionExpires x)))]))\<lparr>a_cookies := [session_cookie s tok (8 * 60 * 60)]\<rparr>))))))"

definition login :: "Server \<Rightarrow> http_in \<Rightarrow> reply api" where
  "login s r =
    with_body (32 * 1024) [''Email'', ''Password'', ''TOTP''] decode_login r (\<lambda>(email, password, code).
    or_reply (Authenticate (IDKeyOf s) email password)
      (\<lambda>_. writeError 401 ''INVALID_CREDENTIALS'' ''Email or password is incorrect.'' (r_reqid r)) (\<lambda>x.
    or_reply (query_row (\<lambda>d. map_option (\<lambda>u. (us_mfa_enabled u, us_mfa_secret u)) (find_user (SessionOrg x) (SessionUser x) d)))
      (\<lambda>_. internal r) (\<lambda>(enabled, cipher).
    if RequirePrivilegedMFA s \<and> privilegedRoles (SessionRoles x) \<and> \<not> enabled
    then ret (writeError 403 ''MFA_ENROLLMENT_REQUIRED'' ''MFA enrollment is required for this privileged role.'' (r_reqid r))
    else bnd (second_factor s r enabled cipher code) (\<lambda>stop. case stop of
       Some answer \<Rightarrow> ret answer
     | None \<Rightarrow> open_session s r x))))"

section \<open>Handlers of the own account\<close>

definition logout :: "Server \<Rightarrow> Session \<Rightarrow> http_in \<Rightarrow> reply api" where
  "logout s session r =
    bnd (ignore (RevokeSession (SessionOrg session) (SessionID session))) (\<lambda>_.
    bnd (ignore (Audit s (SessionOrg session) (SessionUser session) ''auth.logout'' ''session'' (SessionID session) (JObj []) (r_reqid r))) (\<lambda>_.
    ret ((noContent 204)\<lparr>a_cookies := [session_cookie s [] (- 1)]\<rparr>)))"

definition changePassword :: "Server \<Rightarrow> Session \<Rightarrow> http_in \<Rightarrow> reply api" where
  "changePassword s session r =
    with_body (16 * 1024) [''CurrentPassword'', ''NewPassword'']
      (\<lambda>kv. do { c \<leftarrow> str_field ''CurrentPassword'' kv; n \<leftarrow> str_field ''NewPassword'' kv; Some (c, n) }) r (\<lambda>(current, new).
    or_reply (ChangePassword s (SessionOrg session) (SessionUser session) current new)
      (\<lambda>e. writeError 400 ''PASSWORD_CHANGE_FAILED'' (error_text e) (r_reqid r)) (\<lambda>_. ret (noContent 204)))"

definition sql_enroll_mfa :: "string \<Rightarrow> string \<Rightarrow> string \<Rightarrow> (apidb, unit) stmt" where
  "sql_enroll_mfa cipher org user = upd (\<lambda>now gen d. ((), d\<lparr>users := update_where (\<lambda>u. us_org u = org \<and> us_id u = user)
     (\<lambda>u. u\<lparr>us_mfa_secret := Some cipher, us_mfa_enabled := False, us_updated := now\<rparr>) (users d)\<rparr>))"

definition mfaEnroll :: "Server \<Rightarrow> Session \<Rightarrow> http_in \<Rightarrow> reply api" where
  "mfaEnroll s session r =
    bnd (random_read s 20) (\<lambda>raw.
    or_reply (liftE (NewTOTPSecret raw)) (\<lambda>_. internal r) (\<lambda>secret.
    or_reply (Encrypt s secret) (\<lambda>_. internal r) (\<lambda>ciphertext.
    or_reply (exec (sql_enroll_mfa ciphertext (SessionOrg session) (SessionUser session))) (\<lambda>_. internal r) (\<lambda>_.
    ret (writeJSON 200 (JObj [(''otpauthURI'', JStr (''otpauth://totp/IdentityMesh:'' @ SessionEmail session @ ''?secret='' @ secret @
      ''&issuer=IdentityMesh'')), (''secret'', JStr secret)]))))))"

definition sql_enable_mfa :: "string \<Rightarrow> string \<Rightarrow> (apidb, unit) stmt" where
  "sql_enable_mfa org user = upd (\<lambda>now gen d. ((), d\<lparr>users := update_where (\<lambda>u. us_org u = org \<and> us_id u = user)
     (\<lambda>u. u\<lparr>us_mfa_enabled := True, us_updated := now\<rparr>) (users d)\<rparr>))"

definition mfaConfirm :: "Server \<Rightarrow> Session \<Rightarrow> http_in \<Rightarrow> reply api" where
  "mfaConfirm s session r =
    with_body (4 * 1024) [''Code''] (str_field ''Code'') r (\<lambda>code.
    bnd (attempt (query_row (\<lambda>d. map_option us_mfa_secret (find_user (SessionOrg session) (SessionUser session) d)))) (\<lambda>found.
    case found of
      Inr (Some ciphertext) \<Rightarrow>
        bnd (attempt (Decrypt s ciphertext)) (\<lambda>secret. bnd time_now (\<lambda>now.
        (case secret of Inr x \<Rightarrow>
           if VerifyTOTP x code now then
             or_reply (exec (sql_enable_mfa (SessionOrg session) (SessionUser session))) (\<lambda>_. internal r) (\<lambda>_.
             bnd (ignore (Audit s (SessionOrg session) (SessionUser session) ''auth.mfa_enabled'' ''user'' (SessionUser session)
               (JObj []) (r_reqid r))) (\<lambda>_. ret (noContent 204)))
           else ret (writeError 400 ''MFA_CODE_INVALID'' ''The MFA code is invalid.'' (r_reqid r))
         | Inl _ \<Rightarrow> ret (writeError 400 ''MFA_CODE_INVALID'' ''The MFA code is invalid.'' (r_reqid r)))))
    | _ \<Rightarrow> ret (writeError 400 ''MFA_NOT_ENROLLED'' ''Start MFA enrollment first.'' (r_reqid r))))"

definition sql_revoke_own_session :: "string \<Rightarrow> string \<Rightarrow> string \<Rightarrow> (apidb, int) stmt" where
  "sql_revoke_own_session org user sid = upd (\<lambda>now gen d.
    (let P = (\<lambda>x. se_org x = org \<and> se_user x = user \<and> se_id x = sid \<and> se_revoked x = None) in
     (count_where P (sessions d), d\<lparr>sessions := update_where P (\<lambda>x. x\<lparr>se_revoked := Some now\<rparr>) (sessions d)\<rparr>)))"

definition revokeSession :: "Server \<Rightarrow> Session \<Rightarrow> http_in \<Rightarrow> reply api" where
  "revokeSession s session r =
    (let sid = TrimPrefix (r_path r) ''/api/v1/auth/sessions/'' in
     or_reply (uuid_arg s sid (exec (sql_revoke_own_session (SessionOrg session) (SessionUser session) sid))) (\<lambda>_. internal r) (\<lambda>n.
     if n = 0 then ret (writeError 404 ''SESSION_NOT_FOUND'' ''The active session was not found.'' (r_reqid r))
     else bnd (ignore (Audit s (SessionOrg session) (SessionUser session) ''auth.session_revoked'' ''session'' sid
         (JObj [(''current'', JBool (sid = SessionID session))]) (r_reqid r))) (\<lambda>_. ret (noContent 204))))"

end
