(* ===== verification/ApiRouter.thy ===== *)
theory ApiRouter
  imports ApiAuth
begin

text \<open>
  The routes of \<open>backend/internal/httpapi/server.go\<close>: the table of the function \<open>api\<close> in its order, with the
  permission and the rate limit of each route, the mux, and the middleware around it. The handlers are an argument
  here; \<open>ApiServer\<close> gives the code's own.
\<close>

section \<open>The table\<close>

datatype path_test = Exact string | Prefix string | Suffix string | Within string string

fun path_matches :: "path_test \<Rightarrow> string \<Rightarrow> bool" where
  "path_matches (Exact p) path = (path = p)"
| "path_matches (Prefix p) path = HasPrefix path p"
| "path_matches (Suffix q) path = HasSuffix path q"
| "path_matches (Within p q) path = (HasPrefix path p \<and> HasSuffix path q)"

datatype (plugins only: code) route =
    AuthMe | Logout | AuthPassword | MfaEnroll | MfaConfirm | SessionList | SessionRevoke
  | DashboardR | PeopleList | PersonGet | ConnectorList | ConnectorCreate | ConnectorSyncs | ConnectorDetail
  | ConnectorUpdate | ConnectorTest | ConnectorSync | CsvPreview | CsvApply | IdentityList | CandidateList
  | CandidateAccept | CandidateReject | ApplicationList | ApplicationCreate | EntitlementList | GrantList | ReconciliationList
  | FindingList | FindingUpdate | CaseCreate | CaseList | CaseEvents | CaseGet | CasePlan | CaseApprove | CaseExecute
  | CaseCancel | ReviewList | ReviewCreate | ReviewDetail | ReviewDecide | AuditList | EvidenceList | ReportList
  | ReportGenerate | ReportPdf | UserList | UserCreate | SettingsGet | SettingsUpdate

definition api_routes :: "(string \<times> path_test \<times> route) list" where
  "api_routes =
    [(''GET'', Exact ''/auth/me'', AuthMe),
     (''POST'', Exact ''/auth/logout'', Logout),
     (''POST'', Exact ''/auth/password'', AuthPassword),
     (''POST'', Exact ''/auth/mfa/enroll'', MfaEnroll),
     (''POST'', Exact ''/auth/mfa/confirm'', MfaConfirm),
     (''GET'', Exact ''/auth/sessions'', SessionList),
     (''DELETE'', Prefix ''/auth/sessions/'', SessionRevoke),
     (''GET'', Exact ''/dashboard'', DashboardR),
     (''GET'', Exact ''/people'', PeopleList),
     (''GET'', Prefix ''/people/'', PersonGet),
     (''GET'', Exact ''/connectors'', ConnectorList),
     (''POST'', Exact ''/connectors'', ConnectorCreate),
     (''GET'', Within ''/connectors/'' ''/syncs'', ConnectorSyncs),
     (''GET'', Prefix ''/connectors/'', ConnectorDetail),
     (''PATCH'', Prefix ''/connectors/'', ConnectorUpdate),
     (''POST'', Within ''/connectors/'' ''/test'', ConnectorTest),
     (''POST'', Within ''/connectors/'' ''/sync'', ConnectorSync),
     (''POST'', Exact ''/csv-import/preview'', CsvPreview),
     (''POST'', Exact ''/csv-import/apply'', CsvApply),
     (''GET'', Exact ''/identities'', IdentityList),
     (''GET'', Exact ''/correlation-candidates'', CandidateList),
     (''POST'', Within ''/correlation-candidates/'' ''/accept'', CandidateAccept),
     (''POST'', Within ''/correlation-candidates/'' ''/reject'', CandidateReject),
     (''GET'', Exact ''/applications'', ApplicationList),
     (''POST'', Exact ''/applications'', ApplicationCreate),
     (''GET'', Exact ''/entitlements'', EntitlementList),
     (''GET'', Exact ''/access-grants'', GrantList),
     (''GET'', Exact ''/reconciliation'', ReconciliationList),
     (''GET'', Exact ''/findings'', FindingList),
     (''PATCH'', Prefix ''/findings/'', FindingUpdate),
     (''POST'', Exact ''/lifecycle-cases'', CaseCreate),
     (''GET'', Exact ''/lifecycle-cases'', CaseList),
     (''GET'', Within ''/lifecycle-cases/'' ''/events'', CaseEvents),
     (''GET'', Prefix ''/lifecycle-cases/'', CaseGet),
     (''POST'', Suffix ''/plan'', CasePlan),
     (''POST'', Suffix ''/approve'', CaseApprove),
     (''POST'', Suffix ''/execute'', CaseExecute),
     (''POST'', Suffix ''/cancel'', CaseCancel),
     (''GET'', Exact ''/access-reviews'', ReviewList),
     (''POST'', Exact ''/access-reviews'', ReviewCreate),
     (''GET'', Prefix ''/access-reviews/'', ReviewDetail),
     (''POST'', Within ''/access-review-items/'' ''/decision'', ReviewDecide),
     (''GET'', Exact ''/audit'', AuditList),
     (''GET'', Exact ''/evidence'', EvidenceList),
     (''GET'', Exact ''/reports'', ReportList),
     (''POST'', Prefix ''/reports/offboarding/'', ReportGenerate),
     (''GET'', Within ''/reports/offboarding/'' ''.pdf'', ReportPdf),
     (''GET'', Exact ''/users'', UserList),
     (''POST'', Exact ''/users'', UserCreate),
     (''GET'', Exact ''/settings'', SettingsGet),
     (''PATCH'', Exact ''/settings'', SettingsUpdate)]"

definition route_of :: "string \<Rightarrow> string \<Rightarrow> route option" where
  "route_of meth path = map_option (\<lambda>(_, _, rt). rt)
     (List.find (\<lambda>(m, t, _). meth = m \<and> path_matches t path) api_routes)"

text \<open>The permission that \<open>s.require\<close> names for the route; the routes of the own account have none.\<close>

primrec permission_of :: "route \<Rightarrow> string option" where
  "permission_of AuthMe = None" | "permission_of Logout = None" | "permission_of AuthPassword = None"
| "permission_of MfaEnroll = None" | "permission_of MfaConfirm = None" | "permission_of SessionList = None"
| "permission_of SessionRevoke = None"
| "permission_of DashboardR = Some ''person.read''" | "permission_of PeopleList = Some ''person.read''"
| "permission_of PersonGet = Some ''person.read''"
| "permission_of ConnectorList = Some ''connector.read''" | "permission_of ConnectorCreate = Some ''connector.manage''"
| "permission_of ConnectorSyncs = Some ''connector.read''" | "permission_of ConnectorDetail = Some ''connector.read''"
| "permission_of ConnectorUpdate = Some ''connector.manage''" | "permission_of ConnectorTest = Some ''connector.manage''"
| "permission_of ConnectorSync = Some ''connector.sync''"
| "permission_of CsvPreview = Some ''person.manage''" | "permission_of CsvApply = Some ''person.manage''"
| "permission_of IdentityList = Some ''identity.read''" | "permission_of CandidateList = Some ''identity.read''"
| "permission_of CandidateAccept = Some ''identity.link''" | "permission_of CandidateReject = Some ''identity.link''"
| "permission_of ApplicationList = Some ''identity.read''" | "permission_of ApplicationCreate = Some ''connector.manage''"
| "permission_of EntitlementList = Some ''identity.read''" | "permission_of GrantList = Some ''identity.read''"
| "permission_of ReconciliationList = Some ''connector.read''" | "permission_of FindingList = Some ''identity.read''"
| "permission_of FindingUpdate = Some ''identity.link''"
| "permission_of CaseCreate = Some ''lifecycle.plan''" | "permission_of CaseList = Some ''lifecycle.read''"
| "permission_of CaseEvents = Some ''lifecycle.read''" | "permission_of CaseGet = Some ''lifecycle.read''"
| "permission_of CasePlan = Some ''lifecycle.plan''" | "permission_of CaseApprove = Some ''lifecycle.approve''"
| "permission_of CaseExecute = Some ''lifecycle.execute''" | "permission_of CaseCancel = Some ''lifecycle.plan''"
| "permission_of ReviewList = Some ''access_review.read''" | "permission_of ReviewCreate = Some ''access_review.manage''"
| "permission_of ReviewDetail = Some ''access_review.read''" | "permission_of ReviewDecide = Some ''access_review.decide''"
| "permission_of AuditList = Some ''audit.read''" | "permission_of EvidenceList = Some ''evidence.read''"
| "permission_of ReportList = Some ''evidence.read''" | "permission_of ReportGenerate = Some ''evidence.read''"
| "permission_of ReportPdf = Some ''evidence.read''"
| "permission_of UserList = Some ''user.manage''" | "permission_of UserCreate = Some ''user.manage''"
| "permission_of SettingsGet = Some ''settings.manage''" | "permission_of SettingsUpdate = Some ''settings.manage''"

text \<open>The calls per minute that \<open>s.rate\<close> allows for the route.\<close>

definition rate_of :: "route \<Rightarrow> int option" where
  "rate_of rt = (case rt of ConnectorTest \<Rightarrow> Some 10 | ConnectorSync \<Rightarrow> Some 10 | CsvPreview \<Rightarrow> Some 10
     | CsvApply \<Rightarrow> Some 6 | CaseExecute \<Rightarrow> Some 8 | _ \<Rightarrow> None)"

section \<open>Dispatch\<close>

type_synonym handlers = "route \<Rightarrow> Session \<Rightarrow> http_in \<Rightarrow> reply api"

definition limited :: "Server \<Rightarrow> handlers \<Rightarrow> route \<Rightarrow> http_in \<Rightarrow> Session \<Rightarrow> reply api" where
  "limited s h rt r session = (case rate_of rt of None \<Rightarrow> h rt session r
     | Some limit \<Rightarrow> rate s limit Minute (Some session) (h rt session r) r)"

definition api :: "Server \<Rightarrow> handlers \<Rightarrow> http_in \<Rightarrow> Session \<Rightarrow> reply api" where
  "api s h r session =
    (case route_of (r_method r) (TrimPrefix (r_path r) ''/api/v1'') of
       None \<Rightarrow> ret (writeError 404 ''NOT_FOUND'' ''The requested resource was not found.'' (r_reqid r))
     | Some rt \<Rightarrow>
       (case permission_of rt of
          None \<Rightarrow> limited s h rt r session
        | Some permission \<Rightarrow> require permission (limited s h rt r) r session))"

section \<open>Readiness\<close>

definition migrated :: "apidb \<Rightarrow> bool" where
  "migrated d \<longleftrightarrow> (case schema_migrations d of None \<Rightarrow> False
     | Some vs \<Rightarrow> length (filter (\<lambda>v. v \<in> set [''001_initial'', ''002_product_completion'', ''003_production_platform'']) vs) = 3)"

definition ready :: "Server \<Rightarrow> http_in \<Rightarrow> reply api" where
  "ready s r =
    or_reply (query_row (\<lambda>d. Some ())) (\<lambda>_. writeError 503 ''NOT_READY'' ''PostgreSQL is unavailable.'' (r_reqid r)) (\<lambda>_.
    bnd (attempt (query_row (\<lambda>d. Some (migrated d)))) (\<lambda>m.
    if m \<noteq> Inr True then ret (writeError 503 ''MIGRATIONS_PENDING'' ''Database migrations are not current.'' (r_reqid r))
    else or_reply (case Health s of None \<Rightarrow> ret () | Some check \<Rightarrow> check)
      (\<lambda>_. writeError 503 ''SECRET_STORE_NOT_READY'' ''The external secret store is unavailable.'' (r_reqid r)) (\<lambda>_.
      ret (writeJSON 200 (JObj [(''database'', JBool True), (''migrations'', JBool True), (''secretStore'', JBool True),
        (''status'', JStr ''ready'')])))))"

section \<open>The mux and the middleware\<close>

text \<open>
  \<open>http.ServeMux\<close>: a path that \<open>path.Clean\<close> would change is redirected; the segments of a pattern are compared with the
  unescaped segments of the request's path. A pattern for GET also takes HEAD.
\<close>

definition segments :: "string \<Rightarrow> string list" where
  "segments p = map (\<lambda>q. case url_unescape encodePathSegment q of None \<Rightarrow> q | Some v \<Rightarrow> v) (Split (tl p) (CHR ''/''))"

definition clean_segments :: "string list \<Rightarrow> bool" where
  "clean_segments qs = (list_all (\<lambda>q. q \<noteq> [] \<and> q \<noteq> ''.'' \<and> q \<noteq> ''..'') (butlast qs) \<and> (qs = [] \<or> last qs \<noteq> ''.'' \<and> last qs \<noteq> ''..''))"

definition is_clean :: "string \<Rightarrow> bool" where
  "is_clean p \<longleftrightarrow> p \<noteq> [] \<and> hd p = CHR ''/'' \<and> clean_segments (Split (tl p) (CHR ''/''))"

datatype target = Redirected | HealthCheck | Ready | Login | ApiCall | NotAllowed | NotFound

definition mux_target :: "string \<Rightarrow> string \<Rightarrow> target" where
  "mux_target meth escaped =
    (if \<not> is_clean escaped then Redirected
     else (let p = segments escaped; get = (meth = ''GET'' \<or> meth = ''HEAD'') in
       if p = [''health''] then (if get then HealthCheck else NotAllowed)
       else if p = [''ready''] then (if get then Ready else NotAllowed)
       else if p = [''api'', ''v1''] then Redirected
       else if p = [''api'', ''v1'', ''auth'', ''login''] \<and> meth = ''POST'' then Login
       else if take 2 p = [''api'', ''v1''] then ApiCall
       else NotFound))"

definition mux :: "Server \<Rightarrow> handlers \<Rightarrow> string \<Rightarrow> http_in \<Rightarrow> reply api" where
  "mux s h escaped r = (case mux_target (r_method r) escaped of
     Redirected \<Rightarrow> ret (noContent 307)
   | HealthCheck \<Rightarrow> ret (writeJSON 200 (JObj [(''status'', JStr ''ok'')]))
   | Ready \<Rightarrow> ready s r
   | Login \<Rightarrow> rate s 10 Minute None (login s r) r
   | ApiCall \<Rightarrow> authenticated (csrf s (api s h r) r) r
   | NotAllowed \<Rightarrow> ret (noContent 405)
   | NotFound \<Rightarrow> ret (noContent 404))"

definition security_headers :: "Server \<Rightarrow> http_in \<Rightarrow> string \<Rightarrow> (string \<times> string) list" where
  "security_headers s r reqID =
    [(''X-Request-ID'', reqID), (''X-Content-Type-Options'', ''nosniff''), (''Referrer-Policy'', ''no-referrer''),
     (''Content-Security-Policy'', ''default-src 'none'; frame-ancestors 'none'' @ [CHR 0x27])] @
    (let origin = header_get ''Origin'' (r_header r) in
     if origin \<noteq> [] \<and> origin = AllowedOrigin s
     then [(''Access-Control-Allow-Origin'', origin), (''Access-Control-Allow-Credentials'', ''true''),
       (''Access-Control-Allow-Headers'', ''Content-Type, X-CSRF-Token, X-Request-ID''),
       (''Access-Control-Allow-Methods'', ''GET, POST, PATCH, DELETE, OPTIONS'')]
     else [])"

text \<open>\<open>serve\<close> is \<open>middleware(mux)\<close>; the request comes with the escaped form of its path.\<close>

definition serve :: "Server \<Rightarrow> handlers \<Rightarrow> string \<Rightarrow> http_in \<Rightarrow> reply api" where
  "serve s h escaped r =
    (let given = header_get ''X-Request-ID'' (r_header r) in
     bnd (if uuidParse s given then ret given else new_uuid) (\<lambda>reqID.
     bnd (if r_method r = ''OPTIONS'' then ret (noContent 204) else mux s h escaped (r\<lparr>r_reqid := reqID\<rparr>)) (\<lambda>a.
     ret (a\<lparr>a_header := security_headers s r reqID @ a_header a\<rparr>))))"

end
