(* ===== verification/ApiLifecycle.thy ===== *)
theory ApiLifecycle
  imports ApiRouter
begin

text \<open>
  The handlers of \<open>backend/internal/httpapi/server.go\<close> and \<open>product.go\<close> that call the assurance service: offboarding
  cases, synchronization, the CSV import and review decisions.
\<close>

section \<open>Cases\<close>

definition createCase :: "Server \<Rightarrow> Session \<Rightarrow> http_in \<Rightarrow> reply api" where
  "createCase s session r =
    with_body (16 * 1024) [''PersonID''] (str_field ''PersonID'') r (\<lambda>person.
    if \<not> uuidParse s person then ret (writeError 400 ''INVALID_PERSON_ID'' ''A valid person UUID is required.'' (r_reqid r))
    else or_reply (service (CreateCase (SessionOrg session) person (SessionUser session)))
      (\<lambda>e. if e = ErrNoRows
        then writeError 404 ''PERSON_NOT_FOUND'' ''The person was not found in the authorized organization.'' (r_reqid r)
        else internal r) (\<lambda>cid.
      bnd (ignore (Audit s (SessionOrg session) (SessionUser session) ''offboarding.created'' ''lifecycle_case'' cid
        (JObj [(''personId'', JStr person)]) (r_reqid r))) (\<lambda>_.
      ret (writeJSON 201 (JObj [(''id'', JStr cid), (''status'', JStr ''DRAFT'')])))))"

definition caseIDFromAction :: "string \<Rightarrow> string \<Rightarrow> string" where
  "caseIDFromAction path action = TrimSuffix (TrimPrefix path ''/api/v1/lifecycle-cases/'') (''/'' @ action)"

definition planned_json :: "plannedAction \<Rightarrow> json" where
  "planned_json a = JObj [(''account'', JStr (pa_username a)), (''action'', JStr (pa_action a)), (''connector'', JStr (pa_name a)),
     (''observedState'', JStr (pa_state a)), (''writeEnabled'', JBool (pa_write a))]"

definition planCase :: "Server \<Rightarrow> Session \<Rightarrow> http_in \<Rightarrow> reply api" where
  "planCase s session r =
    or_reply (uuid_arg s (caseIDFromAction (r_path r) ''plan'')
        (service (PlanCase (SessionOrg session) (caseIDFromAction (r_path r) ''plan'') (SessionUser session))))
      (lifecycleError r) (\<lambda>preview.
    ret (writeJSON 200 (JObj [(''actions'', JArr (map planned_json preview)), (''status'', JStr ''AWAITING_APPROVAL'')])))"

definition approveCase :: "Server \<Rightarrow> Session \<Rightarrow> http_in \<Rightarrow> reply api" where
  "approveCase s session r =
    (let cid = caseIDFromAction (r_path r) ''approve'' in
     or_reply (uuid_arg s cid (service (ApproveCase (SessionOrg session) cid (SessionUser session)))) (lifecycleError r) (\<lambda>_.
     bnd (ignore (Audit s (SessionOrg session) (SessionUser session) ''offboarding.approved'' ''lifecycle_case'' cid (JObj []) (r_reqid r))) (\<lambda>_.
     ret (writeJSON 200 (JObj [(''status'', JStr ''APPROVED'')])))))"

definition queue_unavailable :: "http_in \<Rightarrow> reply" where
  "queue_unavailable r = writeError 503 ''JOB_QUEUE_UNAVAILABLE'' ''The distributed job queue is unavailable.'' (r_reqid r)"

definition job_reply :: "string \<times> bool \<Rightarrow> reply" where
  "job_reply j = writeJSON 202 (JObj [(''created'', JBool (snd j)), (''jobId'', JStr (fst j)), (''status'', JStr ''QUEUED'')])"

definition executeAndVerify :: "Server \<Rightarrow> string \<Rightarrow> string \<Rightarrow> string \<Rightarrow> (store networld, VerificationStatus) comp" where
  "executeAndVerify s org cid user =
     ExecuteAndVerify (executeRemoteAction (Assurance s)) (NotifierOf (Assurance s)) org cid user"

definition executeCase :: "Server \<Rightarrow> Session \<Rightarrow> http_in \<Rightarrow> reply api" where
  "executeCase s session r =
    (let cid = caseIDFromAction (r_path r) ''execute'' in
     if JobMode s = ''DISTRIBUTED'' then
       (case DistributedQueueOf s of
          None \<Rightarrow> ret (queue_unavailable r)
        | Some q \<Rightarrow>
          or_reply (zoom job_table put_jobs (Enqueue q (SessionOrg session) ''LIFECYCLE_EXECUTE''
              (Inr (Marshal (JObj [(''actorUserId'', JStr (SessionUser session)), (''caseId'', JStr cid), (''requestId'', JStr (r_reqid r))])))
              (''lifecycle-execute:'' @ cid) 200)) (\<lambda>_. internal r) (\<lambda>j.
          bnd (ignore (Audit s (SessionOrg session) (SessionUser session) ''offboarding.queued'' ''lifecycle_case'' cid
            (JObj [(''jobId'', JStr (fst j))]) (r_reqid r))) (\<lambda>_. ret (job_reply j))))
     else
       or_reply (runBounded s (uuid_arg s cid (service (executeAndVerify s (SessionOrg session) cid (SessionUser session))))) (lifecycleError r) (\<lambda>status.
       ret (writeJSON 200 (JObj [(''verificationStatus'', JStr (verification_text status))]))))"

definition cancelCaseHandler :: "Server \<Rightarrow> Session \<Rightarrow> http_in \<Rightarrow> reply api" where
  "cancelCaseHandler s session r =
    (let cid = caseIDFromAction (r_path r) ''cancel'' in
     or_reply (uuid_arg s cid (service (cancelCase (SessionOrg session) cid (SessionUser session) (r_reqid r)))) (\<lambda>_. internal r) (\<lambda>found.
     ret (if found then writeJSON 200 (JObj [(''id'', JStr cid), (''status'', JStr ''CANCELLED'')])
       else writeError 409 ''FORBIDDEN_STATE'' ''Only a case that has not started can be cancelled.'' (r_reqid r))))"

definition case_action_json :: "case_action_view \<Rightarrow> json" where
  "case_action_json a = JObj [(''connector'', JStr (cv_connector a)), (''id'', JStr (cv_id a)), (''status'', JStr (cv_status a)),
     (''summary'', cv_summary a), (''type'', JStr (cv_type a)), (''username'', JStr (cv_username a))]"

definition case_json :: "case_view \<Rightarrow> json" where
  "case_json c = JObj [(''actions'', JArr (map case_action_json (gc_actions c))),
     (''createdAt'', JStr (FormatRFC3339Nano (gc_createdAt c))), (''id'', JStr (gc_id c)), (''personId'', JStr (gc_personId c)),
     (''status'', JStr (gc_status c)), (''summary'', gc_summary c), (''verificationStatus'', JStr (gc_verification c))]"

definition getCase :: "Server \<Rightarrow> Session \<Rightarrow> http_in \<Rightarrow> reply api" where
  "getCase s session r =
    or_reply (uuid_arg s (TrimPrefix (r_path r) ''/api/v1/lifecycle-cases/'')
        (service (GetCase (SessionOrg session) (TrimPrefix (r_path r) ''/api/v1/lifecycle-cases/'')))) (\<lambda>_. internal r)
      (\<lambda>c. ret (writeJSON 200 (case_json c)))"

section \<open>Synchronization\<close>

definition sql_queue_sync :: "string \<Rightarrow> string \<Rightarrow> (store, unit) stmt" where
  "sql_queue_sync org con = upd (\<lambda>now gen d. ((), d\<lparr>connectors := update_where (\<lambda>c. c_org c = org \<and> c_id c = con)
     (\<lambda>c. c\<lparr>c_last_sync_status := ''QUEUED'', c_updated_at := now\<rparr>) (connectors d)\<rparr>))"

definition sync_json :: "SyncResult \<Rightarrow> json" where
  "sync_json x = JObj [(''runId'', JStr (RunID x)), (''accountsDiscovered'', JNum (AccountsDiscovered x)),
     (''groupsDiscovered'', JNum (GroupsDiscovered x)), (''findingsCreated'', JNum (FindingsCreated x)), (''status'', JStr (SyncStatus x))]"

definition syncConnector :: "Server \<Rightarrow> Session \<Rightarrow> http_in \<Rightarrow> reply api" where
  "syncConnector s session r =
    (let con = TrimSuffix (TrimPrefix (r_path r) ''/api/v1/connectors/'') ''/sync'' in
     if JobMode s = ''DISTRIBUTED'' then
       (case DistributedQueueOf s of
          None \<Rightarrow> ret (queue_unavailable r)
        | Some q \<Rightarrow>
          or_reply (zoom job_table put_jobs (Enqueue q (SessionOrg session) ''CONNECTOR_SYNC''
              (Inr (Marshal (JObj [(''actorUserId'', JStr (SessionUser session)), (''connectorId'', JStr con), (''requestId'', JStr (r_reqid r))])))
              (''connector-sync:'' @ con @ '':'' @ r_reqid r) 100)) (\<lambda>_. internal r) (\<lambda>j.
          bnd (ignore (uuid_arg s con (exec (on_core (sql_queue_sync (SessionOrg session) con))))) (\<lambda>_.
          bnd (ignore (Audit s (SessionOrg session) (SessionUser session) ''connector.sync_queued'' ''connector'' con
            (JObj [(''jobId'', JStr (fst j))]) (r_reqid r))) (\<lambda>_. ret (job_reply j)))))
     else
       or_reply (runBounded s (uuid_arg s con (service (SyncConnector (Assurance s) (SessionOrg session) con (r_reqid r)))))
         (\<lambda>_. writeError 502 ''CONNECTOR_SYNC_FAILED'' ''The identity connector could not be synchronized.'' (r_reqid r)) (\<lambda>x.
       bnd (ignore (Audit s (SessionOrg session) (SessionUser session) ''connector.sync_completed'' ''connector'' con (sync_json x) (r_reqid r))) (\<lambda>_.
       ret (writeJSON 200 (sync_json x)))))"

definition testConnector :: "Server \<Rightarrow> Session \<Rightarrow> http_in \<Rightarrow> reply api" where
  "testConnector s session r =
    (let con = TrimSuffix (TrimPrefix (r_path r) ''/api/v1/connectors/'') ''/test'' in
     or_reply (uuid_arg s con (service (Sync.TestConnection (Assurance s) (SessionOrg session) con)))
       (\<lambda>_. writeError 502 ''CONNECTOR_TEST_FAILED'' ''The expected connector endpoint could not be authenticated and read.'' (r_reqid r)) (\<lambda>_.
     bnd (ignore (Audit s (SessionOrg session) (SessionUser session) ''connector.test_succeeded'' ''connector'' con (JObj []) (r_reqid r))) (\<lambda>_.
     ret (writeJSON 200 (JObj [(''status'', JStr ''SUCCEEDED''), (''writeAttempted'', JBool False)])))))"

section \<open>The CSV import\<close>

definition csv_mapping :: Mapping where
  "csv_mapping = \<lparr>MapEmployeeID = ''employee_id'', MapDisplayName = ''display_name'', MapEmail = ''email'',
     MapDepartment = ''department'', MapManagerID = ''manager_id'', MapStatus = ''status''\<rparr>"

text \<open>The file is in memory or in a temporary file when the form is parsed, so that reading it ends; a number of rows
  as large as the file bounds the loop.\<close>

definition csv_preview :: "Server \<Rightarrow> string \<Rightarrow> (preview_error + Preview) option" where
  "csv_preview s content = ParsePreview (length content + 2) (content, AtEOF) csv_mapping (MaxCSVBytes s) 10000"

definition with_form ::
  "Server \<Rightarrow> http_in \<Rightarrow> ((string \<times> string) list \<Rightarrow> string option \<Rightarrow> reply api) \<Rightarrow> reply api" where
  "with_form s r k = (case (if MaxCSVBytes s < int (r_size r) then None else r_form r) of
     None \<Rightarrow> ret (writeError 413 ''CSV_TOO_LARGE'' ''The CSV exceeds the configured size limit.'' (r_reqid r))
   | Some (vals, content) \<Rightarrow> k vals content)"

definition row_json :: "Row \<Rightarrow> json" where
  "row_json x = JObj [(''Number'', JNum (RowNumber x)), (''EmployeeID'', JStr (RowEmployeeID x)), (''DisplayName'', JStr (RowDisplayName x)),
     (''Email'', JStr (RowEmail x)), (''Department'', JStr (RowDepartment x)), (''ManagerID'', JStr (RowManagerID x)), (''Status'', JStr (RowStatus x))]"

definition row_error_text :: "Server \<Rightarrow> row_error \<Rightarrow> string" where
  "row_error_text s e = (case e of
     RowUnreadable n err \<Rightarrow> ''row '' @ Itoa n @ '': '' @ csvErrorText s err
   | RowFieldsRequired n \<Rightarrow> ''row '' @ Itoa n @ '': employee_id and display_name are required''
   | RowInvalidStatus n \<Rightarrow> ''row '' @ Itoa n @ '': invalid lifecycle status'')"

definition preview_error_text :: "Server \<Rightarrow> preview_error \<Rightarrow> string" where
  "preview_error_text s e = (case e of
     PositiveLimitsRequired \<Rightarrow> ''positive limits are required''
   | HeaderUnreadable err \<Rightarrow> ''read UTF-8 CSV header: '' @ csvErrorText s err
   | RequiredColumnMissing c \<Rightarrow> ''required mapped column '' @ [CHR 0x22] @ c @ [CHR 0x22] @ '' is missing'')"

definition csvPreview :: "Server \<Rightarrow> http_in \<Rightarrow> reply api" where
  "csvPreview s r =
    with_form s r (\<lambda>vals content. case content of
      None \<Rightarrow> ret (writeError 400 ''CSV_REQUIRED'' ''A CSV file is required.'' (r_reqid r))
    | Some text \<Rightarrow>
      ret (case csv_preview s text of
         Some (Inr p) \<Rightarrow> writeJSON 200 (JObj [(''Rows'', JArr (map row_json (Rows p))), (''Errors'', JArr (map (\<lambda>e. JStr (row_error_text s e)) (Errors p))),
            (''Truncated'', JBool (Truncated p))])
       | Some (Inl e) \<Rightarrow> writeError 400 ''CSV_INVALID'' (preview_error_text s e) (r_reqid r)
       | None \<Rightarrow> internal r))"

definition csv_source_enabled :: "string \<Rightarrow> string \<Rightarrow> store \<Rightarrow> bool" where
  "csv_source_enabled org src d = list_ex (\<lambda>c. c_org c = org \<and> c_id c = src \<and> c_type c = ''CSV_AUTHORITATIVE_SOURCE'' \<and> c_enabled c) (connectors d)"

definition form_value :: "string \<Rightarrow> (string \<times> string) list \<Rightarrow> string" where
  "form_value name vals = (case map_of vals name of None \<Rightarrow> [] | Some v \<Rightarrow> v)"

definition csvApply :: "Server \<Rightarrow> Session \<Rightarrow> http_in \<Rightarrow> reply api" where
  "csvApply s session r =
    with_form s r (\<lambda>vals content.
    if form_value ''confirmed'' vals \<noteq> ''true''
    then ret (writeError 409 ''CSV_CONFIRMATION_REQUIRED'' ''Preview and explicit confirmation are required before applying an import.'' (r_reqid r))
    else (let src = form_value ''sourceConnectorId'' vals in
      if \<not> uuidParse s src
      then ret (writeError 400 ''INVALID_SOURCE_CONNECTOR'' ''A valid authoritative source connector is required.'' (r_reqid r))
      else bnd (attempt (query_row (\<lambda>d. Some (csv_source_enabled (SessionOrg session) src (core d))))) (\<lambda>valid.
        if valid \<noteq> Inr True
        then ret (writeError 404 ''SOURCE_CONNECTOR_NOT_FOUND'' ''The authoritative source connector was not found.'' (r_reqid r))
        else (case content of
            None \<Rightarrow> ret (writeError 400 ''CSV_REQUIRED'' ''A CSV file is required.'' (r_reqid r))
          | Some text \<Rightarrow>
            (case csv_preview s text of
               Some (Inr p) \<Rightarrow>
                 if Errors p \<noteq> [] \<or> Truncated p
                 then ret (writeError 400 ''CSV_VALIDATION_FAILED''
                   ''The CSV must pass preview validation without truncation before it can be applied.'' (r_reqid r))
                 else or_reply (service (ImportPeople (SessionOrg session) src (Rows p))) (\<lambda>_. internal r) (\<lambda>count.
                   bnd (ignore (Audit s (SessionOrg session) (SessionUser session) ''person.imported'' ''connector'' src
                     (JObj [(''rows'', JNum count)]) (r_reqid r))) (\<lambda>_.
                   ret (writeJSON 200 (JObj [(''applied'', JNum count), (''sourceConnectorId'', JStr src)]))))
             | _ \<Rightarrow> ret (writeError 400 ''CSV_VALIDATION_FAILED''
                 ''The CSV must pass preview validation without truncation before it can be applied.'' (r_reqid r)))))))"

section \<open>Review decisions\<close>

definition reviewDecision :: "Server \<Rightarrow> Session \<Rightarrow> http_in \<Rightarrow> reply api" where
  "reviewDecision s session r =
    (let item = TrimSuffix (TrimPrefix (r_path r) ''/api/v1/access-review-items/'') ''/decision'' in
     with_body (16 * 1024) [''Decision'', ''Comment'']
       (\<lambda>kv. do { d \<leftarrow> str_field ''Decision'' kv; c \<leftarrow> str_field ''Comment'' kv; Some (d, c) }) r (\<lambda>(decision, comment).
     or_reply (if valid_decision decision then uuid_arg s item (service (DecideReview (SessionOrg session) item (SessionUser session) decision comment))
         else service (DecideReview (SessionOrg session) item (SessionUser session) decision comment))
       (\<lambda>e. writeError 400 ''REVIEW_DECISION_FAILED'' (error_text e) (r_reqid r)) (\<lambda>_.
     ret (writeJSON 201 (JObj [(''decision'', JStr decision), (''externalActionExecuted'', JBool False),
       (''requiresApproval'', JBool (decision = ''REVOKE''))])))))"

end
