(* ===== verification/ApiAdmin.thy ===== *)
theory ApiAdmin
  imports ApiLifecycle
begin

text \<open>
  The handlers of \<open>backend/internal/httpapi/server.go\<close> and \<open>product.go\<close> that change the configuration of an
  organization: connectors, candidates, applications, findings, access reviews, users and settings.
\<close>

section \<open>Connector configurations\<close>

definition connector_types :: "string list" where
  "connector_types = [''CSV_AUTHORITATIVE_SOURCE'', ''SCIM_2_0'', ''LDAP_DIRECTORY'', ''ENTRA_ID'', ''OKTA'', ''GOOGLE_WORKSPACE'', ''GITHUB'']"

definition write_types :: "string list" where
  "write_types = [''SCIM_2_0'', ''LDAP_DIRECTORY'', ''ENTRA_ID'', ''OKTA'', ''GOOGLE_WORKSPACE'', ''GITHUB'']"

definition allowed_capabilities :: "string list" where
  "allowed_capabilities = [''DISCOVER_USERS'', ''DISCOVER_GROUPS'', ''DISCOVER_MEMBERSHIPS'', ''DISCOVER_ENTITLEMENTS'',
     ''DISABLE_ACCOUNT'', ''ENABLE_ACCOUNT'', ''REMOVE_MEMBERSHIP'', ''ADD_MEMBERSHIP'']"

definition discovery :: "string list" where
  "discovery = [''DISCOVER_USERS'', ''DISCOVER_GROUPS'', ''DISCOVER_MEMBERSHIPS'', ''DISCOVER_ENTITLEMENTS'']"

definition capability_table :: "(string \<times> string list) list" where
  "capability_table =
    [(''CSV_AUTHORITATIVE_SOURCE'', []),
     (''SCIM_2_0'', discovery @ [''DISABLE_ACCOUNT'', ''ENABLE_ACCOUNT'', ''REMOVE_MEMBERSHIP'', ''ADD_MEMBERSHIP'']),
     (''LDAP_DIRECTORY'', discovery @ [''DISABLE_ACCOUNT'', ''REMOVE_MEMBERSHIP'']),
     (''ENTRA_ID'', discovery @ [''DISABLE_ACCOUNT'']),
     (''OKTA'', discovery @ [''DISABLE_ACCOUNT'']),
     (''GOOGLE_WORKSPACE'', discovery @ [''DISABLE_ACCOUNT'']),
     (''GITHUB'', discovery @ [''REMOVE_MEMBERSHIP''])]"

definition connectorCapabilityAllowed :: "string \<Rightarrow> string \<Rightarrow> bool" where
  "connectorCapabilityAllowed typ capability =
    (case map_of capability_table typ of None \<Rightarrow> False | Some cs \<Rightarrow> capability \<in> set cs)"

fun capabilities_ok :: "string \<Rightarrow> string list \<Rightarrow> string list \<Rightarrow> bool" where
  "capabilities_ok typ seen [] = True"
| "capabilities_ok typ seen (c # cs) =
    (if c \<notin> set allowed_capabilities \<or> \<not> connectorCapabilityAllowed typ c \<or> c \<in> set seen then False
     else capabilities_ok typ (c # seen) cs)"

text \<open>A Go map keeps the last of equal keys; \<open>None\<close> is the nil map.\<close>

type_synonym configuration = "(string \<times> json) list option"

definition config_get :: "configuration \<Rightarrow> string \<Rightarrow> json option" where
  "config_get values key = (case values of None \<Rightarrow> None | Some kvs \<Rightarrow> map_of (rev kvs) key)"

definition stringConfig :: "configuration \<Rightarrow> string \<Rightarrow> string" where
  "stringConfig values key = (case config_get values key of Some (JStr v) \<Rightarrow> TrimSpace v | _ \<Rightarrow> [])"

text \<open>A decimal text as mantissa and exponent; the rounding to a 64-bit float is not modelled.\<close>

definition decimal_parts :: "string \<Rightarrow> int \<times> int" where
  "decimal_parts t =
    (let neg = (t \<noteq> [] \<and> hd t = CHR ''-''); body = (if neg then tl t else t);
         mant = takeWhile (\<lambda>c. c \<notin> set ''eE'') body; ex = drop (length mant + 1) body;
         whole = takeWhile (\<lambda>c. c \<noteq> CHR ''.'') mant; frac = drop (length whole + 1) mant;
         m = int (digits_value (whole @ frac)); e = (case Atoi ex of None \<Rightarrow> 0 | Some i \<Rightarrow> i)
     in (if neg then - m else m, e - int (length frac)))"

definition scaled_less :: "int \<times> int \<Rightarrow> int \<Rightarrow> bool" where
  "scaled_less p b = (if 0 \<le> snd p then fst p * 10 ^ nat (snd p) < b else fst p < b * 10 ^ nat (- snd p))"

definition scaled_greater :: "int \<times> int \<Rightarrow> int \<Rightarrow> bool" where
  "scaled_greater p b = (if 0 \<le> snd p then fst p * 10 ^ nat (snd p) > b else fst p > b * 10 ^ nat (- snd p))"

definition page_size_bad :: "configuration \<Rightarrow> bool" where
  "page_size_bad values = (case config_get values ''pageSize'' of
     Some (JNum i) \<Rightarrow> i < 1 \<or> 5000 < i
   | Some (JReal t) \<Rightarrow> scaled_less (decimal_parts t) 1 \<or> scaled_greater (decimal_parts t) 5000
   | _ \<Rightarrow> False)"

definition bad_filter :: "string \<Rightarrow> bool" where
  "bad_filter f \<longleftrightarrow> \<not> HasPrefix f ''('' \<or> \<not> HasSuffix f '')'' \<or> ContainsAny f [CHR 0x00, CHR 0x0D, CHR 0x0A]"

definition validateLDAPConfiguration :: "configuration \<Rightarrow> string option" where
  "validateLDAPConfiguration values =
    (if values = None then Some ''LDAP search configuration is required''
     else (case List.find (\<lambda>key. stringConfig values key = []) [''bindDN'', ''searchBase'', ''userFilter'', ''groupFilter''] of
        Some key \<Rightarrow> Some (''LDAP '' @ key @ '' is required'')
      | None \<Rightarrow>
        (case List.find (\<lambda>key. bad_filter (stringConfig values key)) [''userFilter'', ''groupFilter''] of
           Some key \<Rightarrow> Some (''LDAP '' @ key @ '' is invalid'')
         | None \<Rightarrow>
           if page_size_bad values then Some ''LDAP pageSize must be between 1 and 5000''
           else if stringConfig values ''disableStrategy'' \<notin> set [[], ''PPOLICY_LOCK'', ''ACTIVE_DIRECTORY_UAC'']
           then Some ''LDAP disableStrategy must be PPOLICY_LOCK or ACTIVE_DIRECTORY_UAC''
           else if stringConfig values ''membershipAttribute'' \<notin> set [[], ''member'', ''uniqueMember'', ''memberUid'']
           then Some ''LDAP membershipAttribute must be member, uniqueMember or memberUid''
           else None)))"

definition validateLDAPWriteConfiguration :: "configuration \<Rightarrow> string list \<Rightarrow> string option" where
  "validateLDAPWriteConfiguration values caps =
    (if ''DISABLE_ACCOUNT'' \<in> set caps \<and> stringConfig values ''disableStrategy'' = []
     then Some ''LDAP DISABLE_ACCOUNT requires an explicit disableStrategy''
     else if ''REMOVE_MEMBERSHIP'' \<in> set caps \<and> stringConfig values ''membershipAttribute'' = []
     then Some ''LDAP REMOVE_MEMBERSHIP requires an explicit membershipAttribute''
     else None)"

definition unsafe_name :: "string \<Rightarrow> bool" where
  "unsafe_name v \<longleftrightarrow> v = [] \<or> ContainsAny v (''/?#'' @ [CHR 0x5C, CHR 0x00, CHR 0x0D, CHR 0x0A])"

definition validateNativeConfiguration :: "string \<Rightarrow> configuration \<Rightarrow> string option" where
  "validateNativeConfiguration typ values =
    (if typ = ''GOOGLE_WORKSPACE'' \<and> unsafe_name (stringConfig values ''customer'') then Some ''Google Workspace customer is required''
     else if typ = ''GITHUB'' \<and> unsafe_name (stringConfig values ''organization'') then Some ''GitHub organization is required''
     else None)"

definition left_text :: "error + 'a \<Rightarrow> string option" where
  "left_text x = (case x of Inl e \<Rightarrow> Some (error_text e) | Inr _ \<Rightarrow> None)"

definition validateNativeURL :: "string \<Rightarrow> bool \<Rightarrow> string option" where
  "validateNativeURL baseURL allowHTTP = left_text (NativeHttp.New baseURL [] allowHTTP)"

definition ldap_url_bad :: "string \<Rightarrow> bool" where
  "ldap_url_bad baseURL = (case Parse baseURL of None \<Rightarrow> True
     | Some u \<Rightarrow> u_host u = [] \<or> u_scheme u \<noteq> ''ldap'' \<and> u_scheme u \<noteq> ''ldaps'' \<or> u_user u \<noteq> None \<or> u_query u \<noteq> [] \<or> u_fragment u \<noteq> [])"

definition ldap_url_error :: "http_in \<Rightarrow> reply" where
  "ldap_url_error r = writeError 400 ''INVALID_CONNECTOR_URL''
     ''LDAP base URL must use ldap or ldaps without embedded credentials, query or fragment.'' (r_reqid r)"

text \<open>The first problem of a list of checks.\<close>

fun first_problem :: "reply option list \<Rightarrow> reply option" where
  "first_problem [] = None"
| "first_problem (p # ps) = (case p of Some a \<Rightarrow> Some a | None \<Rightarrow> first_problem ps)"

definition problem :: "bool \<Rightarrow> reply \<Rightarrow> reply option" where
  "problem b a = (if b then Some a else None)"

definition invalid :: "http_in \<Rightarrow> string \<Rightarrow> string option \<Rightarrow> reply option" where
  "invalid r code msg = map_option (\<lambda>m. writeError 400 code m (r_reqid r)) msg"

section \<open>createConnector\<close>

record connector_in =
  ci_name :: string
  ci_type :: string
  ci_base :: string
  ci_env :: string
  ci_cred :: string
  ci_caps :: "string list option"
  ci_write :: bool
  ci_conf :: configuration

definition as_strings :: "json \<Rightarrow> string list option" where
  "as_strings = as_list (\<lambda>j. if j = JNull then Some [] else as_string j)"

abbreviation caps_field :: "(string \<times> json) list \<Rightarrow> string list option option" where
  "caps_field \<equiv> decode_field (\<lambda>j. map_option Some (as_strings j)) ''Capabilities'' None"

abbreviation conf_field :: "(string \<times> json) list \<Rightarrow> configuration option" where
  "conf_field \<equiv> decode_field (\<lambda>j. map_option Some (object_fields j)) ''Configuration'' None"

definition decode_connector :: "(string \<times> json) list \<Rightarrow> connector_in option" where
  "decode_connector kv = do {
     n \<leftarrow> str_field ''Name'' kv; t \<leftarrow> str_field ''Type'' kv; b \<leftarrow> str_field ''BaseURL'' kv; e \<leftarrow> str_field ''Environment'' kv;
     c \<leftarrow> str_field ''Credential'' kv; caps \<leftarrow> caps_field kv; w \<leftarrow> bool_field ''WriteEnabled'' kv; conf \<leftarrow> conf_field kv;
     Some \<lparr>ci_name = n, ci_type = t, ci_base = b, ci_env = e, ci_cred = c, ci_caps = caps, ci_write = w, ci_conf = conf\<rparr> }"

definition caps_of :: "string list option \<Rightarrow> string list" where
  "caps_of x = (case x of None \<Rightarrow> [] | Some cs \<Rightarrow> cs)"

definition create_problem :: "Server \<Rightarrow> http_in \<Rightarrow> connector_in \<Rightarrow> reply option" where
  "create_problem s r i = first_problem
    [problem (ci_name i = [] \<or> ci_type i \<notin> set connector_types)
       (writeError 400 ''INVALID_CONNECTOR'' ''Connector name and supported type are required.'' (r_reqid r)),
     problem (\<not> capabilities_ok (ci_type i) [] (caps_of (ci_caps i)))
       (writeError 400 ''INVALID_CONNECTOR_CAPABILITY'' ''Connector capabilities must be known and unique.'' (r_reqid r)),
     problem (ci_write i \<and> ci_type i \<notin> set write_types)
       (writeError 400 ''WRITE_NOT_SUPPORTED'' ''This connector type cannot be write-enabled.'' (r_reqid r)),
     problem (ci_write i \<and> ''DISABLE_ACCOUNT'' \<notin> set (caps_of (ci_caps i)) \<and> ''REMOVE_MEMBERSHIP'' \<notin> set (caps_of (ci_caps i)))
       (writeError 400 ''WRITE_CAPABILITY_REQUIRED'' ''Write enablement requires an explicit supported write capability.'' (r_reqid r)),
     (if ci_type i = ''SCIM_2_0'' then invalid r ''INVALID_CONNECTOR_URL'' (left_text (Scim.New (ci_base i) [] (AllowHTTP (Assurance s)))) else None),
     problem (ci_type i = ''LDAP_DIRECTORY'' \<and> ldap_url_bad (ci_base i)) (ldap_url_error r),
     (if ci_type i = ''LDAP_DIRECTORY'' then invalid r ''INVALID_LDAP_CONFIGURATION'' (validateLDAPConfiguration (ci_conf i)) else None),
     (if ci_type i = ''LDAP_DIRECTORY'' \<and> ci_write i
      then invalid r ''INVALID_LDAP_WRITE_CONFIGURATION'' (validateLDAPWriteConfiguration (ci_conf i) (caps_of (ci_caps i))) else None),
     (if ci_type i \<in> set native_types
      then invalid r ''INVALID_CONNECTOR_URL'' (validateNativeURL (ci_base i) (AllowHTTP (Assurance s))) else None),
     (if ci_type i \<in> set native_types
      then invalid r ''INVALID_CONNECTOR_CONFIGURATION'' (validateNativeConfiguration (ci_type i) (ci_conf i)) else None)]"

text \<open>\<open>json.Marshal\<close> of a nil slice or map is \<open>null\<close>.\<close>

definition caps_json :: "string list option \<Rightarrow> json" where
  "caps_json x = (case x of None \<Rightarrow> JNull | Some cs \<Rightarrow> JArr (map JStr cs))"

definition conf_json :: "configuration \<Rightarrow> json" where
  "conf_json x = (case x of None \<Rightarrow> JNull | Some kvs \<Rightarrow> JObj kvs)"

definition sql_insert_connector :: "string \<Rightarrow> string \<Rightarrow> connector_in \<Rightarrow> (store, unit) stmt" where
  "sql_insert_connector con org i now gen d =
    (if \<exists>c \<in> set (connectors d). c_id c = con \<or> c_org c = org \<and> c_name c = ci_name i then Inl (DBError ''duplicate key'')
     else Inr ((), d\<lparr>connectors := connectors d @
       [\<lparr>c_id = con, c_org = org, c_name = ci_name i, c_type = ci_type i, c_base_url = nullif_empty (ci_base i), c_enabled = True,
         c_read_enabled = True, c_write_enabled = ci_write i, c_capabilities = caps_json (ci_caps i),
         c_configuration = conf_json (ci_conf i), c_last_sync_at = None, c_last_sync_status = ''UNKNOWN'', c_updated_at = now,
         c_environment = ci_env i, c_sync_interval = ''MANUAL''\<rparr>]\<rparr>))"

definition sql_insert_credential :: "string \<Rightarrow> string \<Rightarrow> string \<Rightarrow> string \<Rightarrow> (store, unit) stmt" where
  "sql_insert_credential org con cipher provider now gen d =
    (if \<exists>c \<in> set (credentials d). cc_connector c = con then Inl (DBError ''duplicate key'')
     else Inr ((), d\<lparr>credentials := credentials d @
       [\<lparr>cc_org = org, cc_connector = con, cc_ciphertext = cipher, cc_provider = provider, cc_key_version = 1\<rparr>]\<rparr>))"

definition create_connector_body :: "Server \<Rightarrow> string \<Rightarrow> string \<Rightarrow> connector_in \<Rightarrow> unit api" where
  "create_connector_body s con org i =
    bnd (exec (on_core (sql_insert_connector con org i))) (\<lambda>_.
    if ci_cred i = [] then ret ()
    else bnd (Encrypt s (ci_cred i)) (\<lambda>encrypted.
         exec (on_core (sql_insert_credential org con encrypted (providerName s)))))"

definition createConnector :: "Server \<Rightarrow> Session \<Rightarrow> http_in \<Rightarrow> reply api" where
  "createConnector s session r =
    with_body (64 * 1024) [''Name'', ''Type'', ''BaseURL'', ''Environment'', ''Credential'', ''Capabilities'', ''WriteEnabled'', ''Configuration'']
      decode_connector r (\<lambda>i.
    case create_problem s r i of
      Some answer \<Rightarrow> ret answer
    | None \<Rightarrow>
      bnd new_uuid (\<lambda>con.
      or_reply (tx (create_connector_body s con (SessionOrg session) i)) (\<lambda>_. internal r) (\<lambda>_.
      bnd (ignore (Audit s (SessionOrg session) (SessionUser session) ''connector.created'' ''connector'' con
        (JObj [(''type'', JStr (ci_type i)), (''writeEnabled'', JBool (ci_write i))]) (r_reqid r))) (\<lambda>_.
      ret (writeJSON 201 (JObj [(''id'', JStr con)]))))))"

section \<open>updateConnector\<close>

record connector_patch =
  cp_name :: string
  cp_base :: string
  cp_env :: string
  cp_cred :: string
  cp_interval :: string
  cp_enabled :: "bool option"
  cp_read :: "bool option"
  cp_write :: "bool option"
  cp_caps :: "string list option"
  cp_conf :: configuration

abbreviation flag_field :: "string \<Rightarrow> (string \<times> json) list \<Rightarrow> bool option option" where
  "flag_field name \<equiv> decode_field (\<lambda>j. map_option Some (as_bool j)) name None"

definition decode_patch :: "(string \<times> json) list \<Rightarrow> connector_patch option" where
  "decode_patch kv = do {
     n \<leftarrow> str_field ''Name'' kv; b \<leftarrow> str_field ''BaseURL'' kv; e \<leftarrow> str_field ''Environment'' kv;
     c \<leftarrow> str_field ''Credential'' kv; iv \<leftarrow> str_field ''SyncInterval'' kv; en \<leftarrow> flag_field ''Enabled'' kv;
     rd \<leftarrow> flag_field ''ReadEnabled'' kv; wr \<leftarrow> flag_field ''WriteEnabled'' kv; caps \<leftarrow> caps_field kv; conf \<leftarrow> conf_field kv;
     Some \<lparr>cp_name = n, cp_base = b, cp_env = e, cp_cred = c, cp_interval = iv, cp_enabled = en, cp_read = rd, cp_write = wr,
       cp_caps = caps, cp_conf = conf\<rparr> }"

definition effective_caps :: "connector_row \<Rightarrow> connector_patch \<Rightarrow> string list" where
  "effective_caps c i = (case cp_caps i of Some cs \<Rightarrow> cs
     | None \<Rightarrow> (case as_strings (c_capabilities c) of None \<Rightarrow> [] | Some cs \<Rightarrow> cs))"

definition effective_conf :: "connector_row \<Rightarrow> connector_patch \<Rightarrow> configuration" where
  "effective_conf c i = (case cp_conf i of Some kvs \<Rightarrow> Some kvs
     | None \<Rightarrow> (case c_configuration c of JObj kvs \<Rightarrow> Some kvs | JNull \<Rightarrow> None | _ \<Rightarrow> Some []))"

definition effective_write :: "connector_row \<Rightarrow> connector_patch \<Rightarrow> bool" where
  "effective_write c i = (case cp_write i of None \<Rightarrow> c_write_enabled c | Some b \<Rightarrow> b)"

definition update_problem :: "Server \<Rightarrow> http_in \<Rightarrow> connector_row \<Rightarrow> connector_patch \<Rightarrow> reply option" where
  "update_problem s r c i = first_problem
    [(if cp_base i \<noteq> [] \<and> c_type c = ''SCIM_2_0''
      then invalid r ''INVALID_CONNECTOR_URL'' (left_text (Scim.New (cp_base i) [] (AllowHTTP (Assurance s)))) else None),
     problem (cp_base i \<noteq> [] \<and> c_type c = ''LDAP_DIRECTORY'' \<and> ldap_url_bad (cp_base i)) (ldap_url_error r),
     (if cp_base i \<noteq> [] \<and> c_type c \<in> set native_types
      then invalid r ''INVALID_CONNECTOR_URL'' (validateNativeURL (cp_base i) (AllowHTTP (Assurance s))) else None),
     (if c_type c = ''LDAP_DIRECTORY'' \<and> cp_conf i \<noteq> None
      then invalid r ''INVALID_LDAP_CONFIGURATION'' (validateLDAPConfiguration (cp_conf i)) else None),
     (if c_type c \<in> set native_types \<and> cp_conf i \<noteq> None
      then invalid r ''INVALID_CONNECTOR_CONFIGURATION'' (validateNativeConfiguration (c_type c) (cp_conf i)) else None),
     problem (cp_write i = Some True \<and> c_type c \<notin> set write_types)
       (writeError 400 ''WRITE_NOT_SUPPORTED'' ''This connector type cannot be write-enabled.'' (r_reqid r)),
     problem (cp_interval i \<notin> set [[], ''MANUAL'', ''HOURLY'', ''DAILY''])
       (writeError 400 ''INVALID_SYNC_INTERVAL'' ''Sync interval must be MANUAL, HOURLY or DAILY.'' (r_reqid r)),
     problem (\<not> capabilities_ok (c_type c) [] (caps_of (cp_caps i)))
       (writeError 400 ''INVALID_CONNECTOR_CAPABILITY'' ''Connector capabilities must be known and unique.'' (r_reqid r)),
     problem (cp_write i = Some True \<and> ''DISABLE_ACCOUNT'' \<notin> set (effective_caps c i) \<and> ''REMOVE_MEMBERSHIP'' \<notin> set (effective_caps c i))
       (writeError 400 ''WRITE_CAPABILITY_REQUIRED'' ''Write enablement requires a supported write capability.'' (r_reqid r)),
     (if c_type c = ''LDAP_DIRECTORY'' \<and> effective_write c i
      then invalid r ''INVALID_LDAP_WRITE_CONFIGURATION'' (validateLDAPWriteConfiguration (effective_conf c i) (effective_caps c i)) else None)]"

definition or_keep :: "'a option \<Rightarrow> 'a \<Rightarrow> 'a" where
  "or_keep x y = (case x of None \<Rightarrow> y | Some v \<Rightarrow> v)"

definition patched :: "connector_patch \<Rightarrow> tstamp \<Rightarrow> connector_row \<Rightarrow> connector_row" where
  "patched i now c = c\<lparr>c_name := or_keep (nullif_empty (cp_name i)) (c_name c),
     c_base_url := (case nullif_empty (cp_base i) of None \<Rightarrow> c_base_url c | Some b \<Rightarrow> Some b),
     c_environment := or_keep (nullif_empty (cp_env i)) (c_environment c), c_enabled := or_keep (cp_enabled i) (c_enabled c),
     c_read_enabled := or_keep (cp_read i) (c_read_enabled c), c_write_enabled := or_keep (cp_write i) (c_write_enabled c),
     c_capabilities := or_keep (map_option (\<lambda>cs. JArr (map JStr cs)) (cp_caps i)) (c_capabilities c),
     c_configuration := or_keep (map_option JObj (cp_conf i)) (c_configuration c),
     c_sync_interval := or_keep (nullif_empty (cp_interval i)) (c_sync_interval c), c_updated_at := now\<rparr>"

definition sql_update_connector :: "string \<Rightarrow> string \<Rightarrow> connector_patch \<Rightarrow> (store, unit) stmt" where
  "sql_update_connector org con i now gen d =
    (if cp_name i \<noteq> [] \<and> (\<exists>c \<in> set (connectors d). c_org c = org \<and> c_id c = con) \<and>
         (\<exists>c \<in> set (connectors d). c_org c = org \<and> c_id c \<noteq> con \<and> c_name c = cp_name i)
     then Inl (DBError ''duplicate key'')
     else Inr ((), d\<lparr>connectors := update_where (\<lambda>c. c_org c = org \<and> c_id c = con) (patched i now) (connectors d)\<rparr>))"

definition sql_upsert_credential :: "string \<Rightarrow> string \<Rightarrow> string \<Rightarrow> string \<Rightarrow> (store, unit) stmt" where
  "sql_upsert_credential org con cipher provider = upd (\<lambda>now gen d.
    ((), if \<exists>c \<in> set (credentials d). cc_connector c = con
      then d\<lparr>credentials := update_where (\<lambda>c. cc_connector c = con)
        (\<lambda>c. c\<lparr>cc_ciphertext := cipher, cc_provider := provider, cc_key_version := cc_key_version c + 1\<rparr>) (credentials d)\<rparr>
      else d\<lparr>credentials := credentials d @
        [\<lparr>cc_org = org, cc_connector = con, cc_ciphertext = cipher, cc_provider = provider, cc_key_version = 1\<rparr>]\<rparr>))"

definition update_connector_body :: "Server \<Rightarrow> string \<Rightarrow> string \<Rightarrow> connector_patch \<Rightarrow> unit api" where
  "update_connector_body s con org i =
    bnd (exec (on_core (sql_update_connector org con i))) (\<lambda>_.
    if cp_cred i = [] then ret ()
    else bnd (Encrypt s (cp_cred i)) (\<lambda>cipher.
         exec (on_core (sql_upsert_credential org con cipher (providerName s)))))"

definition updateConnector :: "Server \<Rightarrow> Session \<Rightarrow> http_in \<Rightarrow> reply api" where
  "updateConnector s session r =
    (let con = TrimPrefix (r_path r) ''/api/v1/connectors/'' in
     with_body (64 * 1024) [''Name'', ''BaseURL'', ''Environment'', ''Credential'', ''SyncInterval'', ''Enabled'', ''ReadEnabled'',
         ''WriteEnabled'', ''Capabilities'', ''Configuration''] decode_patch r (\<lambda>i.
     or_reply (uuid_arg s con (query_row (\<lambda>d. find_connector (SessionOrg session) con (\<lambda>_. True) (core d))))
       (\<lambda>e. if e = ErrNoRows then writeError 404 ''CONNECTOR_NOT_FOUND'' ''The connector was not found.'' (r_reqid r) else internal r) (\<lambda>c.
     case update_problem s r c i of
       Some answer \<Rightarrow> ret answer
     | None \<Rightarrow>
       or_reply (tx (update_connector_body s con (SessionOrg session) i)) (\<lambda>_. internal r) (\<lambda>_.
       bnd (ignore (Audit s (SessionOrg session) (SessionUser session) ''connector.updated'' ''connector'' con
         (JObj [(''credentialChanged'', JBool (cp_cred i \<noteq> []))]) (r_reqid r))) (\<lambda>_.
       ret (writeJSON 200 (JObj [(''id'', JStr con), (''status'', JStr ''UPDATED'')])))))))"

end
