(* ===== verification/ApiProduct.thy ===== *)
theory ApiProduct
  imports ApiAdmin
begin

text \<open>
  The other handlers of \<open>backend/internal/httpapi/product.go\<close> that change the database: the review of correlation
  candidates, applications, findings, access reviews, users and the settings of an organization.
\<close>

section \<open>Correlation candidates\<close>

definition candidateID :: "string \<Rightarrow> string \<Rightarrow> string" where
  "candidateID path action = TrimSuffix (TrimPrefix path ''/api/v1/correlation-candidates/'') (''/'' @ action)"

definition find_candidate :: "string \<Rightarrow> string \<Rightarrow> store \<Rightarrow> candidate_row option" where
  "find_candidate org cand d = List.find (\<lambda>k. k_org k = org \<and> k_id k = cand) (candidates d)"

text \<open>The checks and the unique key of \<open>identity_links\<close>; there is no \<open>ON CONFLICT\<close> here.\<close>

definition sql_link_manually :: "string \<Rightarrow> string \<Rightarrow> candidate_row \<Rightarrow> (store, unit) stmt" where
  "sql_link_manually org user k now gen d =
    (if (\<exists>l \<in> set (links d). l_id l = gen 0 \<or> l_org l = org \<and> l_account l = k_account k) \<or>
        k_confidence k \<notin> set [''HIGH'', ''MEDIUM'', ''LOW'']
     then Inl (DBError ''constraint violation'')
     else Inr ((), d\<lparr>links := links d @ [\<lparr>l_id = gen 0, l_org = org, l_person = k_person k, l_account = k_account k,
       l_type = ''MANUAL'', l_confidence = k_confidence k, l_reason = ''Accepted correlation candidate after human review'',
       l_created_by = Some user\<rparr>]\<rparr>))"

definition sql_resolve_findings :: "string \<Rightarrow> string \<Rightarrow> (store, unit) stmt" where
  "sql_resolve_findings org acct = upd (\<lambda>now gen d. ((), d\<lparr>findings := update_where
     (\<lambda>f. f_org f = org \<and> f_account f = Some acct \<and> f_type f \<in> set [''ORPHAN_ACCOUNT'', ''UNRESOLVED_IDENTITY''] \<and> f_status f = ''OPEN'')
     (\<lambda>f. f\<lparr>f_status := ''RESOLVED'', f_resolved := Some now, f_last_observed := now\<rparr>) (findings d)\<rparr>))"

definition sql_review_candidate :: "string \<Rightarrow> string \<Rightarrow> string \<Rightarrow> string \<Rightarrow> (store, unit) stmt" where
  "sql_review_candidate decision user org cand = upd (\<lambda>now gen d. ((), d\<lparr>candidates := update_where
     (\<lambda>k. k_org k = org \<and> k_id k = cand)
     (\<lambda>k. k\<lparr>k_status := decision, k_reviewed_at := Some now, k_reviewed_by := Some user\<rparr>) (candidates d)\<rparr>))"

text \<open>The answers inside the transaction are errors of its body, since each of them rolls it back.\<close>

definition review_body :: "Session \<Rightarrow> http_in \<Rightarrow> string \<Rightarrow> bool \<Rightarrow> unit api" where
  "review_body session r cand accept =
    (let org = SessionOrg session; user = SessionUser session in
     bnd (query_row (\<lambda>d. find_candidate org cand (core d))) (\<lambda>k.
     if k_status k \<noteq> ''PENDING'' then fail (Errorf ''CANDIDATE_ALREADY_REVIEWED'')
     else
       bnd (if \<not> accept then ret () else
         bnd (attempt (exec (on_core (sql_link_manually org user k)))) (\<lambda>linked. case linked of
            Inl _ \<Rightarrow> fail (Errorf ''IDENTITY_ALREADY_LINKED'')
          | Inr _ \<Rightarrow> exec (on_core (sql_resolve_findings org (k_account k))))) (\<lambda>_.
       bnd (exec (on_core (sql_review_candidate (if accept then ''ACCEPTED'' else ''REJECTED'') user org cand))) (\<lambda>_.
       exec (on_core (sql_audit org user (if accept then ''correlation.accepted'' else ''correlation.rejected'') ''correlation_candidate'' cand
         (JObj [(''personId'', JStr (k_person k)), (''identityAccountId'', JStr (k_account k))]) (r_reqid r)))))))"

definition review_error :: "http_in \<Rightarrow> error \<Rightarrow> reply" where
  "review_error r e =
    (if e = ErrNoRows then writeError 404 ''CANDIDATE_NOT_FOUND'' ''The correlation candidate was not found.'' (r_reqid r)
     else if e = Errorf ''CANDIDATE_ALREADY_REVIEWED''
     then writeError 409 ''CANDIDATE_ALREADY_REVIEWED'' ''The correlation candidate has already been reviewed.'' (r_reqid r)
     else if e = Errorf ''IDENTITY_ALREADY_LINKED''
     then writeError 409 ''IDENTITY_ALREADY_LINKED'' ''The identity is already linked or could not be linked safely.'' (r_reqid r)
     else internal r)"

definition acceptOrRejectCandidate :: "Server \<Rightarrow> Session \<Rightarrow> http_in \<Rightarrow> string \<Rightarrow> bool \<Rightarrow> reply api" where
  "acceptOrRejectCandidate s session r cand accept =
    (if \<not> uuidParse s cand then ret (writeError 400 ''INVALID_ID'' ''A valid candidate UUID is required.'' (r_reqid r))
     else or_reply (tx (review_body session r cand accept)) (review_error r) (\<lambda>_.
       ret (writeJSON 200 (JObj [(''id'', JStr cand), (''status'', JStr (if accept then ''ACCEPTED'' else ''REJECTED''))]))))"

definition acceptCandidate :: "Server \<Rightarrow> Session \<Rightarrow> http_in \<Rightarrow> reply api" where
  "acceptCandidate s session r = acceptOrRejectCandidate s session r (candidateID (r_path r) ''accept'') True"

definition rejectCandidate :: "Server \<Rightarrow> Session \<Rightarrow> http_in \<Rightarrow> reply api" where
  "rejectCandidate s session r = acceptOrRejectCandidate s session r (candidateID (r_path r) ''reject'') False"

section \<open>Applications\<close>

record application_in =
  pi_name :: string
  pi_description :: string
  pi_owner :: string
  pi_email :: string
  pi_criticality :: string
  pi_connector :: string

definition decode_application :: "(string \<times> json) list \<Rightarrow> application_in option" where
  "decode_application kv = do {
     n \<leftarrow> str_field ''Name'' kv; t \<leftarrow> str_field ''Description'' kv; w \<leftarrow> str_field ''OwnerName'' kv;
     e \<leftarrow> str_field ''OwnerEmail'' kv; c \<leftarrow> str_field ''Criticality'' kv; x \<leftarrow> str_field ''ConnectorID'' kv;
     Some \<lparr>pi_name = TrimSpace n, pi_description = t, pi_owner = w, pi_email = e, pi_criticality = ToUpper c, pi_connector = x\<rparr> }"

definition sql_insert_application :: "string \<Rightarrow> string \<Rightarrow> application_in \<Rightarrow> (apidb, int) stmt" where
  "sql_insert_application app org i now gen d =
    (if find_connector org (pi_connector i) (\<lambda>_. True) (core d) = None then Inr (0, d)
     else if \<exists>a \<in> set (applications d). ap_id a = app then Inl (DBError ''duplicate key'')
     else Inr (1, d\<lparr>applications := applications d @
       [\<lparr>ap_id = app, ap_org = org, ap_name = pi_name i, ap_description = nullif_empty (pi_description i),
         ap_owner_name = nullif_empty (pi_owner i), ap_owner_email = nullif_empty (pi_email i), ap_criticality = pi_criticality i,
         ap_connector = pi_connector i, ap_enabled = True, ap_created = now\<rparr>]\<rparr>))"

definition createApplication :: "Server \<Rightarrow> Session \<Rightarrow> http_in \<Rightarrow> reply api" where
  "createApplication s session r =
    with_body (32 * 1024) [''Name'', ''Description'', ''OwnerName'', ''OwnerEmail'', ''Criticality'', ''ConnectorID''] decode_application r (\<lambda>i.
    if pi_name i = [] \<or> pi_criticality i \<notin> set [''LOW'', ''MEDIUM'', ''HIGH'']
    then ret (writeError 400 ''INVALID_APPLICATION'' ''Name and LOW, MEDIUM or HIGH criticality are required.'' (r_reqid r))
    else if pi_email i \<noteq> [] \<and> \<not> mailParse s (pi_email i)
    then ret (writeError 400 ''INVALID_EMAIL'' ''Owner email is invalid.'' (r_reqid r))
    else bnd new_uuid (\<lambda>app.
      or_reply (uuid_arg s (pi_connector i) (exec (sql_insert_application app (SessionOrg session) i))) (\<lambda>_. internal r) (\<lambda>n.
      if n = 0
      then ret (writeError 400 ''INVALID_CONNECTOR'' ''The application connector does not exist in this organization.'' (r_reqid r))
      else bnd (ignore (Audit s (SessionOrg session) (SessionUser session) ''application.created'' ''application'' app
          (JObj [(''name'', JStr (pi_name i))]) (r_reqid r))) (\<lambda>_.
        ret (writeJSON 201 (JObj [(''id'', JStr app)]))))))"

section \<open>Findings\<close>

definition finding_states :: "string list" where
  "finding_states = [''OPEN'', ''ACKNOWLEDGED'', ''RESOLVED'', ''ACCEPTED'', ''INCONCLUSIVE'']"

definition sql_update_finding :: "string \<Rightarrow> string \<Rightarrow> string \<Rightarrow> (store, int) stmt" where
  "sql_update_finding status org fid = upd (\<lambda>now gen d.
    (let P = (\<lambda>f. f_org f = org \<and> f_id f = fid) in
     (count_where P (findings d), d\<lparr>findings := update_where P
       (\<lambda>f. f\<lparr>f_status := status, f_resolved := (if status = ''RESOLVED'' then Some now else f_resolved f)\<rparr>) (findings d)\<rparr>)))"

definition updateFinding :: "Server \<Rightarrow> Session \<Rightarrow> http_in \<Rightarrow> reply api" where
  "updateFinding s session r =
    (let fid = TrimPrefix (r_path r) ''/api/v1/findings/'' in
     with_body (4 * 1024) [''Status''] (\<lambda>kv. map_option ToUpper (str_field ''Status'' kv)) r (\<lambda>status.
     if status \<notin> set finding_states
     then ret (writeError 400 ''INVALID_FINDING_STATUS'' ''The finding status is invalid.'' (r_reqid r))
     else or_reply (uuid_arg s fid (exec (on_core (sql_update_finding status (SessionOrg session) fid)))) (\<lambda>_. internal r) (\<lambda>n.
       if n = 0 then ret (writeError 404 ''FINDING_NOT_FOUND'' ''The finding was not found.'' (r_reqid r))
       else bnd (ignore (Audit s (SessionOrg session) (SessionUser session) ''finding.updated'' ''identity_finding'' fid
           (JObj [(''status'', JStr status)]) (r_reqid r))) (\<lambda>_.
         ret (writeJSON 200 (JObj [(''id'', JStr fid), (''status'', JStr status)]))))))"

section \<open>Access reviews\<close>

record review_in =
  vi_name :: string
  vi_description :: string
  vi_scope :: string
  vi_reviewer :: string
  vi_due :: string

definition decode_review :: "(string \<times> json) list \<Rightarrow> review_in option" where
  "decode_review kv = do {
     n \<leftarrow> str_field ''Name'' kv; t \<leftarrow> str_field ''Description'' kv; c \<leftarrow> str_field ''ScopeType'' kv;
     u \<leftarrow> str_field ''ReviewerUserID'' kv; x \<leftarrow> str_field ''DueAt'' kv;
     Some \<lparr>vi_name = n, vi_description = t, vi_scope = c, vi_reviewer = u, vi_due = x\<rparr> }"

definition reviewer_exists :: "string \<Rightarrow> string \<Rightarrow> apidb \<Rightarrow> bool" where
  "reviewer_exists org user d = list_ex (\<lambda>u. us_org u = org \<and> us_id u = user \<and> \<not> us_disabled u) (users d)"

text \<open>A \<open>timestamptz\<close> keeps whole microseconds.\<close>

definition sql_insert_campaign :: "string \<Rightarrow> string \<Rightarrow> review_in \<Rightarrow> tstamp \<Rightarrow> string \<Rightarrow> (store, unit) stmt" where
  "sql_insert_campaign camp org i due user now gen d =
    (if \<exists>c \<in> set (campaigns d). ac_id c = camp then Inl (DBError ''duplicate key'')
     else Inr ((), d\<lparr>campaigns := campaigns d @
       [\<lparr>ac_id = camp, ac_org = org, ac_reviewer = vi_reviewer i, ac_status = ''ACTIVE'', ac_completed = None, ac_title = vi_name i,
         ac_desc = nullif_empty (vi_description i), ac_scope = vi_scope i, ac_starts = Some now, ac_due = Some (due div 1000 * 1000),
         ac_created_by = user, ac_scope_config = JObj [], ac_created = now\<rparr>]\<rparr>))"

text \<open>The left join of the active grants with the links of their accounts.\<close>

definition grant_owners :: "string \<Rightarrow> grant_row \<Rightarrow> store \<Rightarrow> string option list" where
  "grant_owners org g d =
    (case filter (\<lambda>l. l_org l = org \<and> l_account l = g_account g) (links d) of
       [] \<Rightarrow> [None] | ls \<Rightarrow> map (\<lambda>l. Some (l_person l)) ls)"

definition grants_reviewed :: "string \<Rightarrow> store \<Rightarrow> (grant_row \<times> string option) list" where
  "grants_reviewed org d = concat (map (\<lambda>g. map (Pair g) (grant_owners org g d)) (filter (\<lambda>g. g_org g = org \<and> g_active g) (grants d)))"

definition sql_insert_items :: "string \<Rightarrow> string \<Rightarrow> (store, unit) stmt" where
  "sql_insert_items org camp now gen d =
    (let gs = grants_reviewed org d; ids = map gen [0..<length gs] in
     if \<not> distinct ids \<or> (\<exists>x \<in> set (items d). ai_id x \<in> set ids) then Inl (DBError ''duplicate key'')
     else Inr ((), d\<lparr>items := items d @ map (\<lambda>(i, g, p). \<lparr>ai_id = i, ai_org = org, ai_campaign = camp, ai_status = ''PENDING'',
       ai_person = p, ai_account = Some (g_account g), ai_entitlement = Some (g_entitlement g), ai_observed = now\<rparr>) (zip ids gs)\<rparr>))"

definition create_review_body :: "Server \<Rightarrow> Session \<Rightarrow> http_in \<Rightarrow> string \<Rightarrow> review_in \<Rightarrow> tstamp \<Rightarrow> unit api" where
  "create_review_body s session r camp i due =
    (let org = SessionOrg session; user = SessionUser session in
     bnd (attempt (uuid_arg s (vi_reviewer i) (query_row (\<lambda>d. Some (reviewer_exists org (vi_reviewer i) d))))) (\<lambda>found.
     if found \<noteq> Inr True then fail (Errorf ''INVALID_REVIEWER'')
     else bnd (exec (on_core (sql_insert_campaign camp org i due user))) (\<lambda>_.
          bnd (exec (on_core (sql_insert_items org camp))) (\<lambda>_.
          exec (on_core (sql_audit org user ''access_review.created'' ''access_review_campaign'' camp
            (JObj [(''scope'', JStr (vi_scope i))]) (r_reqid r)))))))"

definition createAccessReview :: "Server \<Rightarrow> Session \<Rightarrow> http_in \<Rightarrow> reply api" where
  "createAccessReview s session r =
    with_body (32 * 1024) [''Name'', ''Description'', ''ScopeType'', ''ReviewerUserID'', ''DueAt''] decode_review r (\<lambda>i.
    if TrimSpace (vi_name i) = [] \<or> vi_scope i \<noteq> ''ALL_ACTIVE_GRANTS''
    then ret (writeError 400 ''INVALID_REVIEW'' ''A name and ALL_ACTIVE_GRANTS scope are required.'' (r_reqid r))
    else bnd time_now (\<lambda>now. case ParseRFC3339 (vi_due i) of
       None \<Rightarrow> ret (writeError 400 ''INVALID_DUE_AT'' ''A future RFC3339 due date is required.'' (r_reqid r))
     | Some due \<Rightarrow>
       if \<not> now < due then ret (writeError 400 ''INVALID_DUE_AT'' ''A future RFC3339 due date is required.'' (r_reqid r))
       else bnd new_uuid (\<lambda>camp.
         or_reply (tx (create_review_body s session r camp i due))
           (\<lambda>e. if e = Errorf ''INVALID_REVIEWER''
             then writeError 400 ''INVALID_REVIEWER'' ''The reviewer does not exist in this organization.'' (r_reqid r) else internal r) (\<lambda>_.
         ret (writeJSON 201 (JObj [(''id'', JStr camp), (''status'', JStr ''ACTIVE'')]))))))"

section \<open>Users\<close>

record user_in =
  ui_email :: string
  ui_name :: string
  ui_password :: string
  ui_roles :: "string list"

definition decode_user :: "(string \<times> json) list \<Rightarrow> user_in option" where
  "decode_user kv = do {
     e \<leftarrow> str_field ''Email'' kv; n \<leftarrow> str_field ''DisplayName'' kv; p \<leftarrow> str_field ''Password'' kv;
     rs \<leftarrow> decode_field as_strings ''Roles'' [] kv;
     Some \<lparr>ui_email = e, ui_name = n, ui_password = p, ui_roles = (if rs = [] then [''VIEWER''] else rs)\<rparr> }"

definition role_list :: "string list" where
  "role_list = [''OWNER'', ''IDENTITY_ADMIN'', ''SECURITY_ADMIN'', ''ACCESS_REVIEWER'', ''OPERATOR'', ''AUDITOR'', ''VIEWER'']"

text \<open>The unique keys of \<open>users\<close> in the order of their creation; the first that is violated is the one in the error.\<close>

definition sql_insert_user :: "string \<Rightarrow> string \<Rightarrow> user_in \<Rightarrow> string \<Rightarrow> (apidb, unit) stmt" where
  "sql_insert_user uid org i hash now gen d =
    (if \<exists>u \<in> set (users d). us_id u = uid then Inl (DBError ''users_pkey'')
     else if \<exists>u \<in> set (users d). us_org u = org \<and> us_email u = ToLower (ui_email i) then Inl (DBError ''users_organization_id_email_key'')
     else if email_taken (ui_email i) d then Inl (DBError ''users_email_global_unique_idx'')
     else Inr ((), d\<lparr>users := users d @ [new_user uid org (ToLower (ui_email i)) (ui_name i) hash now]\<rparr>))"

definition sql_grant_roles :: "string \<Rightarrow> string \<Rightarrow> string list \<Rightarrow> (apidb, unit) stmt" where
  "sql_grant_roles org user names now gen d =
    (let new = map (\<lambda>r. \<lparr>ur_org = org, ur_user = user, ur_role = ro_id r\<rparr>) (filter (\<lambda>r. ro_name r \<in> set names) (roles d)) in
     if \<exists>x \<in> set new. x \<in> set (user_roles d) then Inl (DBError ''duplicate key'')
     else Inr ((), d\<lparr>user_roles := user_roles d @ new\<rparr>))"

definition create_user_body :: "Session \<Rightarrow> http_in \<Rightarrow> string \<Rightarrow> user_in \<Rightarrow> string \<Rightarrow> unit api" where
  "create_user_body session r uid i hash =
    bnd (exec (sql_insert_user uid (SessionOrg session) i hash)) (\<lambda>_.
    bnd (exec (sql_grant_roles (SessionOrg session) uid (ui_roles i))) (\<lambda>_.
    exec (on_core (sql_audit (SessionOrg session) (SessionUser session) ''user.created'' ''user'' uid
      (JObj [(''roles'', JArr (map JStr (ui_roles i)))]) (r_reqid r)))))"

definition createUser :: "Server \<Rightarrow> Session \<Rightarrow> http_in \<Rightarrow> reply api" where
  "createUser s session r =
    with_body (32 * 1024) [''Email'', ''DisplayName'', ''Password'', ''Roles''] decode_user r (\<lambda>i.
    if \<not> mailParse s (ui_email i) \<or> TrimSpace (ui_name i) = [] \<or> length (ui_password i) < 12
    then ret (writeError 400 ''INVALID_USER'' ''A valid email, display name and password of at least 12 characters are required.'' (r_reqid r))
    else if list_ex (\<lambda>role. role \<notin> set role_list) (ui_roles i)
    then ret (writeError 400 ''INVALID_ROLE'' ''One or more roles are invalid.'' (r_reqid r))
    else bnd (random_read s 16) (\<lambda>salt.
      or_reply (liftE (HashPassword (IDKeyOf s) salt (ui_password i))) (\<lambda>_. internal r) (\<lambda>hash.
      bnd new_uuid (\<lambda>uid.
      or_reply (tx (create_user_body session r uid i hash))
        (\<lambda>e. if Contains (error_text e) ''users_email_global_unique_idx''
          then writeError 409 ''EMAIL_ALREADY_EXISTS'' ''The email is already registered.'' (r_reqid r) else internal r) (\<lambda>_.
      ret (writeJSON 201 (JObj [(''id'', JStr uid)])))))))"

section \<open>Settings\<close>

definition default_settings :: "string \<Rightarrow> tstamp \<Rightarrow> settings_row" where
  "default_settings org now = \<lparr>os_org = org, os_audit = 365, os_evidence = 730, os_reconciliation = 180, os_report = 365,
     os_domains = JArr [], os_updated = now\<rparr>"

definition sql_ensure_settings :: "string \<Rightarrow> (apidb, unit) stmt" where
  "sql_ensure_settings org = upd (\<lambda>now gen d.
    ((), if \<exists>x \<in> set (settings d). os_org x = org then d else d\<lparr>settings := settings d @ [default_settings org now]\<rparr>))"

definition find_settings :: "string \<Rightarrow> apidb \<Rightarrow> (org_row \<times> settings_row) option" where
  "find_settings org d =
    (case (List.find (\<lambda>g. og_id g = org) (organizations d), List.find (\<lambda>x. os_org x = org) (settings d)) of
       (Some g, Some x) \<Rightarrow> Some (g, x) | _ \<Rightarrow> None)"

definition settings_json :: "string \<Rightarrow> org_row \<times> settings_row \<Rightarrow> json" where
  "settings_json org gx = JObj [(''auditRetentionDays'', JNum (os_audit (snd gx))), (''evidenceRetentionDays'', JNum (os_evidence (snd gx))),
     (''organizationId'', JStr org), (''organizationName'', JStr (og_name (fst gx))),
     (''reconciliationRetentionDays'', JNum (os_reconciliation (snd gx))), (''reportRetentionDays'', JNum (os_report (snd gx))),
     (''trustedEmailDomains'', os_domains (snd gx))]"

definition settingsHandler :: "Session \<Rightarrow> http_in \<Rightarrow> reply api" where
  "settingsHandler session r =
    (let org = SessionOrg session in
     or_reply (exec (sql_ensure_settings org)) (\<lambda>_. internal r) (\<lambda>_.
     or_reply (query_row (find_settings org)) (\<lambda>_. internal r) (\<lambda>gx.
     ret (writeJSON 200 (settings_json org gx)))))"

record settings_in =
  gi_name :: string
  gi_audit :: int
  gi_evidence :: int
  gi_reconciliation :: int
  gi_report :: int
  gi_domains :: "string list option"

definition decode_settings :: "(string \<times> json) list \<Rightarrow> settings_in option" where
  "decode_settings kv = do {
     n \<leftarrow> str_field ''OrganizationName'' kv; a \<leftarrow> int_field ''AuditRetentionDays'' kv; e \<leftarrow> int_field ''EvidenceRetentionDays'' kv;
     c \<leftarrow> int_field ''ReconciliationRetentionDays'' kv; p \<leftarrow> int_field ''ReportRetentionDays'' kv;
     ds \<leftarrow> decode_field (\<lambda>j. map_option Some (as_strings j)) ''TrustedEmailDomains'' None kv;
     Some \<lparr>gi_name = n, gi_audit = a, gi_evidence = e, gi_reconciliation = c, gi_report = p, gi_domains = ds\<rparr> }"

definition settings_ok :: "settings_in \<Rightarrow> bool" where
  "settings_ok i \<longleftrightarrow> TrimSpace (gi_name i) \<noteq> [] \<and> 30 \<le> gi_audit i \<and> gi_audit i \<le> 3650 \<and> 30 \<le> gi_evidence i \<and> gi_evidence i \<le> 3650 \<and>
     7 \<le> gi_reconciliation i \<and> gi_reconciliation i \<le> 3650 \<and> 30 \<le> gi_report i \<and> gi_report i \<le> 3650"

definition clean_domain :: "string \<Rightarrow> string" where
  "clean_domain x = ToLower (TrimSpace x)"

definition domain_bad :: "string \<Rightarrow> bool" where
  "domain_bad x \<longleftrightarrow> clean_domain x = [] \<or> ContainsAny (clean_domain x) ''/@: ''"

definition sql_rename_organization :: "string \<Rightarrow> string \<Rightarrow> (apidb, unit) stmt" where
  "sql_rename_organization name org = upd (\<lambda>now gen d. ((), d\<lparr>organizations := update_where (\<lambda>g. og_id g = org)
     (\<lambda>g. g\<lparr>og_name := name, og_updated := now\<rparr>) (organizations d)\<rparr>))"

definition settings_of :: "string \<Rightarrow> settings_in \<Rightarrow> tstamp \<Rightarrow> settings_row" where
  "settings_of org i now = \<lparr>os_org = org, os_audit = gi_audit i, os_evidence = gi_evidence i, os_reconciliation = gi_reconciliation i,
     os_report = gi_report i, os_domains = caps_json (map_option (map clean_domain) (gi_domains i)), os_updated = now\<rparr>"

definition sql_upsert_settings :: "string \<Rightarrow> settings_in \<Rightarrow> (apidb, unit) stmt" where
  "sql_upsert_settings org i = upd (\<lambda>now gen d.
    ((), if \<exists>x \<in> set (settings d). os_org x = org
      then d\<lparr>settings := update_where (\<lambda>x. os_org x = org) (\<lambda>_. settings_of org i now) (settings d)\<rparr>
      else d\<lparr>settings := settings d @ [settings_of org i now]\<rparr>))"

definition update_settings_body :: "Session \<Rightarrow> http_in \<Rightarrow> settings_in \<Rightarrow> unit api" where
  "update_settings_body session r i =
    (let org = SessionOrg session in
     bnd (exec (sql_rename_organization (gi_name i) org)) (\<lambda>_.
     bnd (exec (sql_upsert_settings org i)) (\<lambda>_.
     exec (on_core (sql_audit org (SessionUser session) ''settings.updated'' ''organization'' org
       (JObj [(''trustedDomainCount'', JNum (int (length (caps_of (gi_domains i)))))]) (r_reqid r))))))"

definition updateSettings :: "Session \<Rightarrow> http_in \<Rightarrow> reply api" where
  "updateSettings session r =
    with_body (32 * 1024) [''OrganizationName'', ''AuditRetentionDays'', ''EvidenceRetentionDays'', ''ReconciliationRetentionDays'',
        ''ReportRetentionDays'', ''TrustedEmailDomains''] decode_settings r (\<lambda>i.
    if \<not> settings_ok i
    then ret (writeError 400 ''INVALID_SETTINGS'' ''Organization name and retention periods are outside accepted bounds.'' (r_reqid r))
    else if list_ex domain_bad (caps_of (gi_domains i))
    then ret (writeError 400 ''INVALID_TRUSTED_DOMAIN'' ''Trusted email domains must be host names.'' (r_reqid r))
    else or_reply (tx (update_settings_body session r i)) (\<lambda>_. internal r) (\<lambda>_.
      ret (writeJSON 200 (JObj [(''status'', JStr ''UPDATED'')]))))"

end
