(* ===== verification/Report.thy ===== *)
theory Report
  imports GoTime
begin

text \<open>
  The offboarding report of \<open>backend/internal/reports/pdf.go\<close>: its lines, the PDF text strings they become and the
  file with its cross-reference table. The lemmas read the file back: every text string ends where its line ends,
  and every entry of the table is the position of its object.
\<close>

section \<open>Text\<close>

record OffboardingReport =
  CaseID :: string
  PersonName :: string
  LifecycleStatus :: string
  VerificationStatus :: string
  GeneratedAt :: tstamp
  ConnectedSystems :: int
  ManagedIdentities :: int
  DisabledIdentities :: int
  ActiveIdentities :: int
  UnresolvedIdentities :: int
  UnavailableConnectors :: int
  ActionLines :: "string list"
  EvidenceLines :: "string list"

definition Disclaimer :: string where
  "Disclaimer = ''This report reflects the systems connected to IdentityMesh and successfully reconciled at the time of verification. '' @
     ''It does not prove the absence of identities or access in systems outside the observed scope.''"

text \<open>\<open>t.UTC().Format(time.RFC3339)\<close>\<close>

definition FormatRFC3339 :: "tstamp \<Rightarrow> string" where
  "FormatRFC3339 t = FormatRFC3339Nano (whole_seconds t)"

text \<open>\<open>strings.Fields\<close>\<close>

definition Fields :: "string \<Rightarrow> string list" where
  "Fields s = filter (\<lambda>w. w \<noteq> []) (Split (map (\<lambda>c. if is_space c then CHR '' '' else c) s) (CHR '' ''))"

text \<open>The loop of \<open>wrap\<close> with its \<open>line\<close>.\<close>

fun wrap_words :: "int \<Rightarrow> string \<Rightarrow> string list \<Rightarrow> string list" where
  "wrap_words width line [] = (if line \<noteq> [] then [line] else [])"
| "wrap_words width line (word # ws) =
    (if int (length line) + int (length word) + 1 > width \<and> line \<noteq> [] then line # wrap_words width word ws
     else wrap_words width ((if line \<noteq> [] then line @ '' '' else line) @ word) ws)"

definition wrap :: "string \<Rightarrow> int \<Rightarrow> string list" where
  "wrap v width = wrap_words width [] (Fields v)"

text \<open>How many bytes the UTF-8 sequence at the front takes; a byte that starts none is a rune of its own.\<close>

definition cont :: "nat \<Rightarrow> nat \<Rightarrow> string \<Rightarrow> bool" where
  "cont lo hi s = (case s of [] \<Rightarrow> False | c # _ \<Rightarrow> lo \<le> of_char c \<and> of_char c \<le> hi)"

definition second_range :: "nat \<Rightarrow> nat \<times> nat" where
  "second_range b = (if b = 0xE0 then (0xA0, 0xBF) else if b = 0xED then (0x80, 0x9F) else if b = 0xF0 then (0x90, 0xBF)
     else if b = 0xF4 then (0x80, 0x8F) else (0x80, 0xBF))"

definition rune_width :: "char \<Rightarrow> string \<Rightarrow> nat" where
  "rune_width c t =
    (let b = of_char c; n = (if 0xC2 \<le> b \<and> b \<le> 0xDF then 2 else if 0xE0 \<le> b \<and> b \<le> 0xEF then 3
         else if 0xF0 \<le> b \<and> b \<le> 0xF4 then 4 else (1 :: nat)) in
     if 2 \<le> n \<and> cont (fst (second_range b)) (snd (second_range b)) t \<and> (3 \<le> n \<longrightarrow> cont 0x80 0xBF (drop 1 t)) \<and>
        (4 \<le> n \<longrightarrow> cont 0x80 0xBF (drop 2 t))
     then n else 1)"

definition printable :: "char \<Rightarrow> bool" where
  "printable c \<longleftrightarrow> 32 \<le> (of_char c :: nat) \<and> (of_char c :: nat) \<le> 126"

fun ascii_only :: "string \<Rightarrow> string" where
  "ascii_only [] = []"
| "ascii_only (c # t) = (if printable c then c # ascii_only t else CHR ''-'' # ascii_only (drop (rune_width c t - 1) t))"

definition escape_pdf :: "char \<Rightarrow> string" where
  "escape_pdf c = (if c \<in> {CHR 0x5C, CHR ''('', CHR '')''} then [CHR 0x5C, c] else [c])"

definition pdfString :: "string \<Rightarrow> string" where
  "pdfString v = concat (map escape_pdf (ascii_only v))"

section \<open>The file\<close>

definition newline :: string where "newline = [CHR 0x0A]"

definition text_line :: "nat \<Rightarrow> string \<Rightarrow> string" where
  "text_line i line = (if i = 1 then ''/F1 9 Tf'' @ newline else []) @ ''('' @ pdfString line @ '') Tj 0 -14 Td'' @ newline"

definition content_stream :: "string list \<Rightarrow> string" where
  "content_stream lines = ''BT /F1 16 Tf 54 756 Td 0 -22 Td'' @ newline @
     concat (map (\<lambda>(i, line). text_line i line) (enumerate 0 lines)) @ ''ET''"

definition pdf_objects :: "string \<Rightarrow> string list" where
  "pdf_objects strm =
    [''<< /Type /Catalog /Pages 2 0 R >>'',
     ''<< /Type /Pages /Kids [3 0 R] /Count 1 >>'',
     ''<< /Type /Page /Parent 2 0 R /MediaBox [0 0 612 792] /Resources << /Font << /F1 5 0 R >> >> /Contents 4 0 R >>'',
     ''<< /Length '' @ Itoa (int (length strm)) @ '' >>'' @ newline @ ''stream'' @ newline @ strm @ newline @ ''endstream'',
     ''<< /Type /Font /Subtype /Type1 /BaseFont /Helvetica >>'']"

definition object_header :: "nat \<Rightarrow> string" where
  "object_header i = Itoa (int i) @ '' 0 obj'' @ newline"

text \<open>The loop that writes the objects and notes where each begins.\<close>

fun write_objects :: "nat \<Rightarrow> string \<Rightarrow> string list \<Rightarrow> nat list \<times> string" where
  "write_objects i out [] = ([], out)"
| "write_objects i out (obj # objs) =
    (case write_objects (Suc i) (out @ object_header i @ obj @ newline @ ''endobj'' @ newline) objs of
       (offsets, out') \<Rightarrow> (length out # offsets, out'))"

definition xref_entry :: "nat \<Rightarrow> string" where
  "xref_entry off = padded 10 (int off) @ '' 00000 n '' @ newline"

definition xref_table :: "nat list \<Rightarrow> nat \<Rightarrow> string" where
  "xref_table offsets xref =
    ''xref'' @ newline @ ''0 '' @ Itoa (int (length offsets) + 1) @ newline @ ''0000000000 65535 f '' @ newline @
    concat (map xref_entry offsets) @
    ''trailer << /Size '' @ Itoa (int (length offsets) + 1) @ '' /Root 1 0 R >>'' @ newline @ ''startxref'' @ newline @
    Itoa (int xref) @ newline @ ''%%EOF'' @ newline"

definition pdf_start :: string where "pdf_start = ''%PDF-1.4'' @ newline"

definition render :: "string list \<Rightarrow> string" where
  "render lines = (case write_objects 1 pdf_start (pdf_objects (content_stream lines)) of
     (offsets, out) \<Rightarrow> out @ xref_table offsets (length out))"

definition report_lines :: "OffboardingReport \<Rightarrow> string list" where
  "report_lines report =
    [''IdentityMesh - Offboarding Verification Report'',
     ''Generated: '' @ FormatRFC3339 (GeneratedAt report),
     ''Case: '' @ CaseID report,
     ''Person: '' @ PersonName report,
     ''Lifecycle status: '' @ LifecycleStatus report,
     ''Verification status: '' @ VerificationStatus report,
     ''Connected systems checked: '' @ Itoa (ConnectedSystems report),
     ''Known managed identities: '' @ Itoa (ManagedIdentities report),
     ''Disabled identities: '' @ Itoa (DisabledIdentities report),
     ''Active remaining identities: '' @ Itoa (ActiveIdentities report),
     ''Unresolved identities: '' @ Itoa (UnresolvedIdentities report),
     ''Unavailable connectors: '' @ Itoa (UnavailableConnectors report),
     ''Actions and observed states:''] @ ActionLines report @ [''Evidence:''] @ EvidenceLines report @ [''Limitations:''] @
    wrap Disclaimer 92 @
    [''Integrity metadata can help detect unintended evidence changes; it is not a forensic certification.'']"

definition OffboardingPDF :: "OffboardingReport \<Rightarrow> string" where
  "OffboardingPDF report = render (report_lines report)"

section \<open>Reading text strings back\<close>

text \<open>
  A reader of PDF literal strings (ISO 32000, 7.3.4.2), given what follows the opening parenthesis: balanced
  parentheses belong to the string, a backslash starts an escape. The result is the string and what follows it.
\<close>

definition octal :: "char \<Rightarrow> bool" where
  "octal c \<longleftrightarrow> c \<in> set ''01234567''"

definition escape_value :: "char \<Rightarrow> string" where
  "escape_value c = (if c = CHR ''n'' then [CHR 0x0A] else if c = CHR ''r'' then [CHR 0x0D] else if c = CHR ''t'' then [CHR 0x09]
     else if c = CHR ''b'' then [CHR 0x08] else if c = CHR ''f'' then [CHR 0x0C] else if c = CHR 0x0A then [] else [c])"

definition octal_value :: "string \<Rightarrow> char" where
  "octal_value ds = char_of (foldl (\<lambda>n c. 8 * n + digit_value c) 0 ds mod 256)"

fun read_literal :: "nat \<Rightarrow> string \<Rightarrow> (string \<times> string) option" where
  "read_literal depth [] = None"
| "read_literal depth (c # t) =
    (if c = CHR 0x5C then
       (case t of [] \<Rightarrow> None
        | e # u \<Rightarrow>
          if octal e then
            (let ds = takeWhile octal (take 3 t) in
             map_option (map_prod ((#) (octal_value ds)) (\<lambda>x. x)) (read_literal depth (drop (length ds) t)))
          else map_option (map_prod ((@) (escape_value e)) (\<lambda>x. x)) (read_literal depth u))
     else if c = CHR ''('' then map_option (map_prod ((#) c) (\<lambda>x. x)) (read_literal (Suc depth) t)
     else if c = CHR '')'' then
       (if depth = 0 then Some ([], t) else map_option (map_prod ((#) c) (\<lambda>x. x)) (read_literal (depth - 1) t))
     else map_option (map_prod ((#) c) (\<lambda>x. x)) (read_literal depth t))"

lemma read_escaped:
  "read_literal 0 (concat (map escape_pdf v) @ '')'' @ rest) = Some (v, rest)"
  by (induction v) (simp_all add: escape_pdf_def escape_value_def octal_def)

lemma printable_ascii_only: "list_all printable (ascii_only v)"
  by (induction v rule: ascii_only.induct) (simp_all add: printable_def)

lemma ascii_only_id: "list_all printable v \<Longrightarrow> ascii_only v = v"
  by (induction v rule: ascii_only.induct) simp_all

text \<open>
  C28: a text string of the report reads back as its line. Whatever the line holds (names come from the connected
  systems), a PDF reader that starts after the opening parenthesis gets the line with its unprintable characters
  replaced, and continues exactly after the closing parenthesis that the renderer wrote: no line can end its own
  string and add operators to the page. A printable line comes back unchanged.
\<close>

theorem pdf_text_roundtrip:
  "read_literal 0 (pdfString line @ '')'' @ rest) = Some (ascii_only line, rest) \<and>
   list_all printable (ascii_only line) \<and> ascii_only (ascii_only line) = ascii_only line"
  using read_escaped [of "ascii_only line" rest]
  by (simp add: pdfString_def printable_ascii_only ascii_only_id)

section \<open>Positions\<close>

lemma write_objects_out: "\<exists>rest. snd (write_objects i out objs) = out @ rest"
  by (induction i out objs rule: write_objects.induct) (auto split: prod.splits)

lemma write_objects_length: "length (fst (write_objects i out objs)) = length objs"
  by (induction i out objs rule: write_objects.induct) (auto split: prod.splits)

definition points_at :: "string \<Rightarrow> nat \<times> nat \<Rightarrow> bool" where
  "points_at file entry = HasPrefix (drop (snd entry) file) (object_header (fst entry))"

lemma write_objects_points:
  "list_all (points_at (snd (write_objects i out objs) @ rest)) (enumerate i (fst (write_objects i out objs)))"
proof (induction i out objs rule: write_objects.induct)
  case (2 i out obj objs)
  obtain offs out' where w: "write_objects (Suc i) (out @ object_header i @ obj @ newline @ ''endobj'' @ newline) objs = (offs, out')"
    by fastforce
  then obtain more where "out' = out @ object_header i @ obj @ newline @ ''endobj'' @ newline @ more"
    using write_objects_out [of "Suc i" "out @ object_header i @ obj @ newline @ ''endobj'' @ newline" objs] by auto
  then have "points_at (out' @ rest) (i, length out)" by (simp add: points_at_def HasPrefix_iff)
  with 2 w show ?case by simp
qed simp

text \<open>
  The cross-reference table of a rendered report is exact. The file is the objects followed by the table; the
  table lists five offsets, the i-th of which is the position of the header of object i, and the number after
  \<open>startxref\<close> is the position of the table.
\<close>

theorem pdf_xref_exact:
  "case write_objects 1 pdf_start (pdf_objects (content_stream lines)) of (offsets, out) \<Rightarrow>
     length offsets = 5 \<and> list_all (points_at (render lines)) (enumerate 1 offsets) \<and>
     drop (length out) (render lines) = xref_table offsets (length out) \<and> HasPrefix (xref_table offsets (length out)) ''xref''"
proof -
  obtain offs out where w: "write_objects 1 pdf_start (pdf_objects (content_stream lines)) = (offs, out)" by fastforce
  have "length (pdf_objects strm) = 5" for strm by (simp add: pdf_objects_def)
  then have n: "length offs = 5"
    using write_objects_length [of 1 pdf_start "pdf_objects (content_stream lines)"] by (simp only: w fst_conv)
  have r: "render lines = out @ xref_table offs (length out)" by (simp only: render_def w prod.case)
  have p: "list_all (points_at (out @ xref_table offs (length out))) (enumerate 1 offs)"
    using write_objects_points [of 1 pdf_start "pdf_objects (content_stream lines)"] by (simp only: w fst_conv snd_conv)
  have x: "HasPrefix (xref_table offs (length out)) ''xref''" unfolding HasPrefix_iff xref_table_def by (rule exI) (rule refl)
  show ?thesis unfolding w prod.case r using n p x by simp
qed

end
