(* ===== verification/ApiReports.thy ===== *)
theory ApiReports
  imports ApiProduct Report
begin

text \<open>
  The reports of \<open>backend/internal/httpapi/product.go\<close>: what a report is made of, its record with the hash of the file,
  and the download.
\<close>

text \<open>\<open>ORDER BY v.created_at DESC LIMIT 1\<close>; the two times of a snapshot are those of one statement.\<close>

definition latest_snapshot :: "string \<Rightarrow> string \<Rightarrow> store \<Rightarrow> snapshot_row option" where
  "latest_snapshot org cid d =
    (case sort_key (\<lambda>v. - vs_observed v) (filter (\<lambda>v. vs_org v = org \<and> vs_case v = cid) (snapshots d)) of
       [] \<Rightarrow> None | v # _ \<Rightarrow> Some v)"

definition report_row_of :: "string \<Rightarrow> string \<Rightarrow> store \<Rightarrow> OffboardingReport option" where
  "report_row_of org cid d =
    (case find_case org cid d of None \<Rightarrow> None
     | Some c \<Rightarrow>
       (case (List.find (\<lambda>p. p_id p = lc_person c \<and> p_org p = org) (people d), latest_snapshot org cid d) of
          (Some p, Some v) \<Rightarrow> Some \<lparr>CaseID = cid, PersonName = p_name p, LifecycleStatus = p_status p,
            VerificationStatus = coalesce_empty (lc_verification c), GeneratedAt = vs_observed v, ConnectedSystems = vs_connected v,
            ManagedIdentities = vs_managed v, DisabledIdentities = vs_disabled v, ActiveIdentities = vs_active v,
            UnresolvedIdentities = vs_unresolved v, UnavailableConnectors = vs_failed v, ActionLines = [], EvidenceLines = []\<rparr>
        | _ \<Rightarrow> None))"

definition action_line :: "string \<Rightarrow> store \<Rightarrow> action_row \<Rightarrow> string" where
  "action_line org d r =
     (case Option.bind (la_connector r) (\<lambda>con. List.find (\<lambda>c. c_id c = con \<and> c_org c = org) (connectors d)) of
        None \<Rightarrow> ''Manual'' | Some c \<Rightarrow> c_name c) @ '' / '' @
     (case Option.bind (la_account r) (\<lambda>acc. List.find (\<lambda>a. a_id a = acc \<and> a_org a = org) (accounts d)) of
        None \<Rightarrow> ''Unresolved'' | Some a \<Rightarrow> a_username a) @ '': '' @ la_type r @ '' -> '' @ la_status r"

definition action_lines :: "string \<Rightarrow> string \<Rightarrow> store \<Rightarrow> string list" where
  "action_lines org cid d = map (action_line org d) (sort_key la_created (filter (\<lambda>r. la_org r = org \<and> la_case r = cid) (actions d)))"

text \<open>The time of an evidence row's statement is its \<open>source_timestamp\<close> and its \<open>created_at\<close>.\<close>

definition evidence_lines :: "string \<Rightarrow> string \<Rightarrow> store \<Rightarrow> string list" where
  "evidence_lines org cid d = map (\<lambda>e. le_type e @ '': '' @ le_summary e)
     (sort_key le_source_time (filter (\<lambda>e. le_org e = org \<and> le_case e = cid) (evidence d)))"

text \<open>The errors that end a stream of rows early are not read: the report is made of the rows that arrived.\<close>

definition buildOffboardingPDF :: "Server \<Rightarrow> string \<Rightarrow> string \<Rightarrow> (string \<times> string) api" where
  "buildOffboardingPDF s org cid =
    bnd (attempt (uuid_arg s cid (query_row (\<lambda>d. report_row_of org cid (core d))))) (\<lambda>found. case found of
       Inl e \<Rightarrow> fail (if e = ErrNoRows then Errorf ''verification snapshot required'' else e)
     | Inr report \<Rightarrow>
       bnd (query_rows (\<lambda>d. action_lines org cid (core d))) (\<lambda>(acts, _).
       bnd (query_rows (\<lambda>d. evidence_lines org cid (core d))) (\<lambda>(evs, _).
       (let pdf = OffboardingPDF (report\<lparr>ActionLines := acts, EvidenceLines := evs\<rparr>) in
        ret (pdf, EncodeToString (Sum256 pdf))))))"

definition report_error :: "http_in \<Rightarrow> error \<Rightarrow> reply" where
  "report_error r e = (if e = Errorf ''verification snapshot required''
     then writeError 409 ''REPORT_NOT_READY'' ''A verification snapshot is required before generating this report.'' (r_reqid r)
     else internal r)"

definition sql_insert_report :: "string \<Rightarrow> string \<Rightarrow> string \<Rightarrow> string \<Rightarrow> (apidb, unit) stmt" where
  "sql_insert_report org cid user hash = upd (\<lambda>now gen d.
    ((), if \<exists>x \<in> set (reports d). rp_org x = org \<and> rp_case x = cid \<and> rp_type x = ''OFFBOARDING_VERIFICATION'' \<and> rp_hash x = hash then d
      else d\<lparr>reports := reports d @ [\<lparr>rp_org = org, rp_case = cid, rp_type = ''OFFBOARDING_VERIFICATION'', rp_by = user, rp_hash = hash,
        rp_generated = now, rp_id = gen 0, rp_status = ''GENERATED''\<rparr>]\<rparr>))"

definition generateOffboardingReport :: "Server \<Rightarrow> Session \<Rightarrow> http_in \<Rightarrow> reply api" where
  "generateOffboardingReport s session r =
    (let cid = TrimPrefix (r_path r) ''/api/v1/reports/offboarding/''; org = SessionOrg session; user = SessionUser session in
     or_reply (buildOffboardingPDF s org cid) (report_error r) (\<lambda>(_, hash).
     or_reply (tx (bnd (exec (sql_insert_report org cid user hash)) (\<lambda>_.
         exec (on_core (sql_audit org user ''report.generated'' ''lifecycle_case'' cid
           (JObj [(''type'', JStr ''OFFBOARDING_VERIFICATION''), (''sha256'', JStr hash)]) (r_reqid r)))))) (\<lambda>_. internal r) (\<lambda>_.
     ret (writeJSON 201 (JObj [(''contentHash'', JStr hash), (''downloadURL'', JStr (''/api/v1/reports/offboarding/'' @ cid @ ''.pdf''))])))))"

definition offboardingPDF :: "Server \<Rightarrow> Session \<Rightarrow> http_in \<Rightarrow> reply api" where
  "offboardingPDF s session r =
    (let cid = TrimSuffix (TrimPrefix (r_path r) ''/api/v1/reports/offboarding/'') ''.pdf'' in
     or_reply (buildOffboardingPDF s (SessionOrg session) cid) (report_error r) (\<lambda>(pdf, hash).
     ret \<lparr>a_code = 200, a_header = [(''Content-Type'', ''application/pdf''),
         (''Content-Disposition'', ''attachment; filename='' @ [CHR 0x22] @ ''identitymesh-offboarding-'' @ cid @ ''.pdf'' @ [CHR 0x22]),
         (''X-Content-SHA256'', hash)],
       a_cookies = [], a_body = None, a_raw_body = pdf\<rparr>))"

end
