(* ===== verification/ApiReads.thy ===== *)
theory ApiReads
  imports ApiReports
begin

text \<open>
  The handlers of \<open>backend/internal/httpapi\<close> that only read, with their queries in \<open>backend/internal/database/database.go\<close>:
  lists with their filters, joins, order and pages, the details of a person, a connector and a review, the dashboard, and
  the stream of a case's events. A query is a function from the tables to the rows it selects, column by column.
\<close>

section \<open>SQL\<close>

text \<open>\<open>LEFT JOIN\<close>: the matching rows, or one row of nulls. \<open>LIMIT\<close> and \<open>OFFSET\<close>.\<close>

definition left_join :: "('r \<Rightarrow> bool) \<Rightarrow> 'r list \<Rightarrow> 'r option list" where
  "left_join P rows = (case filter P rows of [] \<Rightarrow> [None] | rs \<Rightarrow> map Some rs)"

definition page :: "int \<times> int \<Rightarrow> 'r list \<Rightarrow> 'r list" where
  "page lo rows = take (nat (fst lo)) (drop (nat (snd lo)) rows)"

text \<open>\<open>ORDER BY key\<close> of a text that may be null: nulls come last.\<close>

definition nulls_last :: "('r \<Rightarrow> string option) \<Rightarrow> 'r list \<Rightarrow> 'r list" where
  "nulls_last key rows = sort_key (\<lambda>r. case key r of None \<Rightarrow> [] | Some k \<Rightarrow> k) (filter (\<lambda>r. key r \<noteq> None) rows) @
     filter (\<lambda>r. key r = None) rows"

text \<open>
  \<open>LIKE\<close>: the percent sign stands for any text, the underscore for any character, and a backslash takes the next
  character as it is. \<open>search_matches q\<close> is \<open>q = '' OR column ILIKE '%'||q||'%' OR \<dots>\<close>; the text of the user is part of the
  pattern, with its wildcards.
\<close>

fun like :: "string \<Rightarrow> string \<Rightarrow> bool" where
  "like [] s = (s = [])"
| "like (p # ps) s =
    (if p = CHR ''%'' then list_ex (\<lambda>n. like ps (drop n s)) [0..<Suc (length s)]
     else if p = CHR 0x5C then (case ps of [] \<Rightarrow> False | c # cs \<Rightarrow> s \<noteq> [] \<and> hd s = c \<and> like cs (tl s))
     else s \<noteq> [] \<and> (p = CHR ''_'' \<or> hd s = p) \<and> like ps (tl s))"

definition ilike :: "string \<Rightarrow> string \<Rightarrow> bool" where
  "ilike pattern s = like (ToLower pattern) (ToLower s)"

definition search_matches :: "string \<Rightarrow> string option list \<Rightarrow> bool" where
  "search_matches q columns \<longleftrightarrow>
     q = [] \<or> list_ex (\<lambda>c. case c of None \<Rightarrow> False | Some t \<Rightarrow> ilike (''%'' @ q @ ''%'') t) columns"

text \<open>\<open>$n = '' OR column = $n\<close>, of a column that may be null.\<close>

definition chosen :: "string \<Rightarrow> string option \<Rightarrow> bool" where
  "chosen q column \<longleftrightarrow> q = [] \<or> column = Some q"

section \<open>The tables of an organization\<close>

abbreviation org_connectors :: "string \<Rightarrow> store \<Rightarrow> connector_row list" where
  "org_connectors org d \<equiv> filter (\<lambda>c. c_org c = org) (connectors d)"
abbreviation org_people :: "string \<Rightarrow> store \<Rightarrow> person_row list" where
  "org_people org d \<equiv> filter (\<lambda>p. p_org p = org) (people d)"
abbreviation org_accounts :: "string \<Rightarrow> store \<Rightarrow> account_row list" where
  "org_accounts org d \<equiv> filter (\<lambda>a. a_org a = org) (accounts d)"
abbreviation org_links :: "string \<Rightarrow> store \<Rightarrow> link_row list" where
  "org_links org d \<equiv> filter (\<lambda>l. l_org l = org) (links d)"
abbreviation org_entitlements :: "string \<Rightarrow> store \<Rightarrow> entitlement_row list" where
  "org_entitlements org d \<equiv> filter (\<lambda>e. e_org e = org) (entitlements d)"
abbreviation org_grants :: "string \<Rightarrow> store \<Rightarrow> grant_row list" where
  "org_grants org d \<equiv> filter (\<lambda>g. g_org g = org) (grants d)"
abbreviation org_cases :: "string \<Rightarrow> store \<Rightarrow> case_row list" where
  "org_cases org d \<equiv> filter (\<lambda>c. lc_org c = org) (cases d)"
abbreviation org_findings :: "string \<Rightarrow> store \<Rightarrow> finding_row list" where
  "org_findings org d \<equiv> filter (\<lambda>f. f_org f = org) (findings d)"
abbreviation org_campaigns :: "string \<Rightarrow> store \<Rightarrow> campaign_row list" where
  "org_campaigns org d \<equiv> filter (\<lambda>c. ac_org c = org) (campaigns d)"
abbreviation org_items :: "string \<Rightarrow> store \<Rightarrow> item_row list" where
  "org_items org d \<equiv> filter (\<lambda>i. ai_org i = org) (items d)"
abbreviation org_users :: "string \<Rightarrow> apidb \<Rightarrow> user_row list" where
  "org_users org d \<equiv> filter (\<lambda>u. us_org u = org) (users d)"

section \<open>Answers made of rows\<close>

definition jopt :: "('a \<Rightarrow> json) \<Rightarrow> 'a option \<Rightarrow> json" where
  "jopt f x = (case x of None \<Rightarrow> JNull | Some y \<Rightarrow> f y)"

definition jtime :: "tstamp \<Rightarrow> json" where
  "jtime t = JStr (FormatRFC3339Nano t)"

text \<open>
  \<open>writeRows\<close> and \<open>queryMaps\<close>: an object per row, whose keys \<open>encoding/json\<close> sorts. The columns arrive as values that
  \<open>normalizeDBValue\<close> shows as JSON; a value that can not be decoded does not occur with the types of these columns.
  \<open>writeRows\<close> does not look at \<open>rows.Err()\<close>.
\<close>

definition row_object :: "string list \<Rightarrow> json list \<Rightarrow> json" where
  "row_object ks values = JObj (sort_key fst (zip ks values))"

definition writeRows :: "string list \<Rightarrow> json list list \<Rightarrow> reply" where
  "writeRows ks rows = writeJSON 200 (JObj [(''items'', JArr (map (row_object ks) rows))])"

definition list_rows :: "http_in \<Rightarrow> string list \<Rightarrow> json list list api \<Rightarrow> reply api" where
  "list_rows r ks rows = or_reply rows (\<lambda>_. internal r) (\<lambda>vs. ret (writeRows ks vs))"

definition rows_of :: "(apidb \<Rightarrow> 'a list) \<Rightarrow> 'a list api" where
  "rows_of q = bnd (query_rows q) (\<lambda>(rows, _). ret rows)"

definition all_rows :: "(apidb \<Rightarrow> 'a list) \<Rightarrow> 'a list api" where
  "all_rows q = bnd (query_rows q) (\<lambda>(rows, err). case err of None \<Rightarrow> ret rows | Some e \<Rightarrow> fail e)"

definition queryMaps :: "string list \<Rightarrow> (apidb \<Rightarrow> json list list) \<Rightarrow> json api" where
  "queryMaps ks q = bnd (all_rows q) (\<lambda>rows. ret (JArr (map (row_object ks) rows)))"

section \<open>The dashboard\<close>

record Dashboard =
  People :: int
  ConnectedSystemsN :: int
  KnownIdentities :: int
  ActiveIdentitiesN :: int
  OrphanAccounts :: int
  UnresolvedIdentitiesN :: int
  TerminatedWithActive :: int
  PrivilegedAccounts :: int
  OffboardingsInProgress :: int
  OffboardingsFailed :: int
  RecentlyVerified :: int
  ConnectorsDegraded :: int
  AccessReviewsOverdue :: int

definition terminated_with_active :: "string \<Rightarrow> store \<Rightarrow> string list" where
  "terminated_with_active org d = remdups [p_id p. p \<leftarrow> org_people org d, p_status p = ''TERMINATED'',
     l \<leftarrow> org_links org d, l_person l = p_id p, a \<leftarrow> org_accounts org d, a_id a = l_account l \<and> a_status a = ''ACTIVE'']"

definition dashboard_of :: "string \<Rightarrow> tstamp \<Rightarrow> store \<Rightarrow> Dashboard" where
  "dashboard_of org now d =
    \<lparr>People = int (length (org_people org d)),
     ConnectedSystemsN = count_where c_enabled (org_connectors org d),
     KnownIdentities = int (length (org_accounts org d)),
     ActiveIdentitiesN = count_where (\<lambda>a. a_status a = ''ACTIVE'') (org_accounts org d),
     OrphanAccounts = count_where (\<lambda>a. \<not> list_ex (\<lambda>l. l_account l = a_id a) (org_links org d)) (org_accounts org d),
     UnresolvedIdentitiesN = count_where (\<lambda>k. k_status k = ''PENDING'') (filter (\<lambda>k. k_org k = org) (candidates d)),
     TerminatedWithActive = int (length (terminated_with_active org d)),
     PrivilegedAccounts = count_where a_privileged (org_accounts org d),
     OffboardingsInProgress = count_where (\<lambda>c. lc_status c \<in> set [''PLANNED'', ''AWAITING_APPROVAL'', ''APPROVED'', ''RUNNING'', ''VERIFYING''])
       (org_cases org d),
     OffboardingsFailed = count_where (\<lambda>c. lc_status c = ''FAILED'') (org_cases org d),
     RecentlyVerified = count_where (\<lambda>c. lc_verification c = Some ''VERIFIED'' \<and>
       (case lc_completed c of None \<Rightarrow> False | Some t \<Rightarrow> now - 30 * 24 * 3600 * Second < t)) (org_cases org d),
     ConnectorsDegraded = count_where (\<lambda>c. c_last_sync_status c \<in> set [''FAILED'', ''PARTIAL'']) (org_connectors org d),
     AccessReviewsOverdue = count_where (\<lambda>c. ac_status c \<in> set [''ACTIVE'', ''OVERDUE''] \<and>
       (case ac_due c of None \<Rightarrow> False | Some t \<Rightarrow> t < now)) (org_campaigns org d)\<rparr>"

definition DashboardQuery :: "string \<Rightarrow> Dashboard api" where
  "DashboardQuery orgID = exec (\<lambda>now gen d. Inr (dashboard_of orgID now (core d), d))"

definition dashboard_json :: "Dashboard \<Rightarrow> json" where
  "dashboard_json x = JObj [(''People'', JNum (People x)), (''ConnectedSystems'', JNum (ConnectedSystemsN x)),
     (''KnownIdentities'', JNum (KnownIdentities x)), (''ActiveIdentities'', JNum (ActiveIdentitiesN x)),
     (''OrphanAccounts'', JNum (OrphanAccounts x)), (''UnresolvedIdentities'', JNum (UnresolvedIdentitiesN x)),
     (''TerminatedWithActive'', JNum (TerminatedWithActive x)), (''PrivilegedAccounts'', JNum (PrivilegedAccounts x)),
     (''OffboardingsInProgress'', JNum (OffboardingsInProgress x)), (''OffboardingsFailed'', JNum (OffboardingsFailed x)),
     (''RecentlyVerified'', JNum (RecentlyVerified x)), (''ConnectorsDegraded'', JNum (ConnectorsDegraded x)),
     (''AccessReviewsOverdue'', JNum (AccessReviewsOverdue x))]"

definition dashboard :: "Session \<Rightarrow> http_in \<Rightarrow> reply api" where
  "dashboard session r = or_reply (DashboardQuery (SessionOrg session)) (\<lambda>_. internal r) (\<lambda>x. ret (writeJSON 200 (dashboard_json x)))"

section \<open>People\<close>

definition person_of :: "person_row \<Rightarrow> Person" where
  "person_of p = \<lparr>PersonID = p_id p, PersonOrganizationID = p_org p, ExternalPersonID = p_external p, PersonDisplayName = p_name p,
     PersonPrimaryEmail = coalesce_empty (p_email p), PersonEmployeeNumber = coalesce_empty (p_employee p),
     PersonDepartment = coalesce_empty (p_department p), PersonStatus = p_status p, PersonCreatedAt = p_created p, PersonUpdatedAt = p_updated p\<rparr>"

definition account_of :: "account_row \<Rightarrow> IdentityAccount" where
  "account_of a = \<lparr>AccountID = a_id a, AccountOrganizationID = a_org a, AccountConnectorID = a_connector a, ExternalAccountID = a_external a,
     AccountUsername = a_username a, AccountDisplayName = coalesce_empty (a_name a), AccountPrimaryEmail = coalesce_empty (a_email a),
     AccountEmployeeNumber = coalesce_empty (a_employee a), AccountActiveStatus = a_status a, AccountType = a_type a,
     AccountPrivileged = a_privileged a, AccountFirstSeenAt = a_first_seen a, AccountLastSeenAt = a_last_seen a\<rparr>"

definition person_json :: "Person \<Rightarrow> json" where
  "person_json p = JObj [(''ID'', JStr (PersonID p)), (''OrganizationID'', JStr (PersonOrganizationID p)),
     (''ExternalPersonID'', JStr (ExternalPersonID p)), (''DisplayName'', JStr (PersonDisplayName p)), (''PrimaryEmail'', JStr (PersonPrimaryEmail p)),
     (''EmployeeNumber'', JStr (PersonEmployeeNumber p)), (''Department'', JStr (PersonDepartment p)), (''Status'', JStr (PersonStatus p)),
     (''CreatedAt'', jtime (PersonCreatedAt p)), (''UpdatedAt'', jtime (PersonUpdatedAt p))]"

definition account_json :: "IdentityAccount \<Rightarrow> json" where
  "account_json a = JObj [(''ID'', JStr (AccountID a)), (''OrganizationID'', JStr (AccountOrganizationID a)),
     (''ConnectorID'', JStr (AccountConnectorID a)), (''ExternalAccountID'', JStr (ExternalAccountID a)), (''Username'', JStr (AccountUsername a)),
     (''DisplayName'', JStr (AccountDisplayName a)), (''PrimaryEmail'', JStr (AccountPrimaryEmail a)),
     (''EmployeeNumber'', JStr (AccountEmployeeNumber a)), (''ActiveStatus'', JStr (AccountActiveStatus a)), (''AccountType'', JStr (AccountType a)),
     (''Privileged'', JBool (AccountPrivileged a)), (''FirstSeenAt'', jtime (AccountFirstSeenAt a)), (''LastSeenAt'', jtime (AccountLastSeenAt a))]"

definition people_rows :: "Server \<Rightarrow> string \<Rightarrow> string \<Rightarrow> string \<Rightarrow> int \<times> int \<Rightarrow> store \<Rightarrow> Person list" where
  "people_rows s org q status lo d = map person_of (page lo (sort_key (\<lambda>p. pgCollate s (p_name p))
     (filter (\<lambda>p. chosen status (Some (p_status p)) \<and> search_matches q [Some (p_name p), p_email p, Some (p_external p)]) (org_people org d))))"

definition ListPeople :: "Server \<Rightarrow> string \<Rightarrow> string \<Rightarrow> string \<Rightarrow> int \<times> int \<Rightarrow> Person list api" where
  "ListPeople s orgID query status lo = all_rows (\<lambda>d. people_rows s orgID query status lo (core d))"

definition peopleHandler :: "Server \<Rightarrow> Session \<Rightarrow> http_in \<Rightarrow> reply api" where
  "peopleHandler s session r =
    or_reply (ListPeople s (SessionOrg session) (query_get r ''q'') (query_get r ''status'') (pagination r)) (\<lambda>_. internal r) (\<lambda>ps.
    ret (writeJSON 200 (JObj [(''items'', JArr (map person_json ps)), (''limit'', JNum (fst (pagination r))), (''offset'', JNum (snd (pagination r)))])))"

definition person_accounts :: "Server \<Rightarrow> string \<Rightarrow> string \<Rightarrow> store \<Rightarrow> IdentityAccount list" where
  "person_accounts s org pid d = map account_of (sort_key (\<lambda>a. pgCollate s (a_username a))
     [a. a \<leftarrow> org_accounts org d, l \<leftarrow> org_links org d, l_account l = a_id a \<and> l_person l = pid])"

definition GetPerson :: "Server \<Rightarrow> string \<Rightarrow> string \<Rightarrow> (Person \<times> IdentityAccount list) api" where
  "GetPerson s orgID pid =
    bnd (uuid_arg s pid (query_row (\<lambda>d. map_option person_of (List.find (\<lambda>p. p_id p = pid) (org_people orgID (core d)))))) (\<lambda>p.
    bnd (all_rows (\<lambda>d. person_accounts s orgID pid (core d))) (\<lambda>accs. ret (p, accs)))"

text \<open>The five queries of \<open>personRelated\<close>.\<close>

definition person_access :: "Server \<Rightarrow> string \<Rightarrow> string \<Rightarrow> store \<Rightarrow> json list list" where
  "person_access s org pid d = map (\<lambda>(a, g, e, c). [JStr (g_id g), JStr (e_name e), JStr (e_type e), JBool (e_privileged e),
       JBool (g_active g), JStr (g_source g), jtime (g_last_seen g), JStr (a_username a), JStr (c_name c)])
     (sort_key (\<lambda>(a, g, e, c). pgCollate s (e_name e))
       [(a, g, e, c). l \<leftarrow> org_links org d, l_person l = pid, a \<leftarrow> org_accounts org d, a_id a = l_account l,
          g \<leftarrow> org_grants org d, g_account g = a_id a, e \<leftarrow> org_entitlements org d, e_id e = g_entitlement g,
          c \<leftarrow> org_connectors org d, c_id c = a_connector a])"

definition person_findings :: "string \<Rightarrow> string \<Rightarrow> store \<Rightarrow> json list list" where
  "person_findings org pid d = map (\<lambda>f. [JStr (f_id f), JStr (f_type f), JStr (f_severity f), JStr (f_status f), JStr (f_reason f), jtime (f_last_observed f)])
     (sort_key (\<lambda>f. - f_last_observed f) (remdups
       [f. f \<leftarrow> org_findings org d, l \<leftarrow> left_join (\<lambda>l. Some (l_account l) = f_account f) (org_links org d),
          f_person f = Some pid \<or> map_option l_person l = Some pid]))"

definition person_cases :: "string \<Rightarrow> string \<Rightarrow> store \<Rightarrow> json list list" where
  "person_cases org pid d = map (\<lambda>c. [JStr (lc_id c), JStr (lc_type c), JStr (lc_status c), JStr (coalesce_empty (lc_verification c)),
       jtime (lc_created c), jopt jtime (lc_completed c)])
     (sort_key (\<lambda>c. - lc_created c) (filter (\<lambda>c. lc_person c = pid) (org_cases org d)))"

abbreviation org_evidence :: "string \<Rightarrow> store \<Rightarrow> evidence_row list" where
  "org_evidence org d \<equiv> filter (\<lambda>e. le_org e = org) (evidence d)"

definition person_evidence :: "string \<Rightarrow> string \<Rightarrow> store \<Rightarrow> json list list" where
  "person_evidence org pid d = map (\<lambda>e. [JStr (le_id e), JStr (le_type e), JStr (le_summary e), le_observed e, jtime (le_created e), JStr (le_hash e)])
     (take 100 (sort_key (\<lambda>e. - le_created e) (remdups
       [e. e \<leftarrow> org_evidence org d, c \<leftarrow> left_join (\<lambda>c. lc_id c = le_case e) (org_cases org d),
          l \<leftarrow> left_join (\<lambda>l. l_account l = le_account e) (org_links org d),
          le_person e = Some pid \<or> map_option lc_person c = Some pid \<or> map_option l_person l = Some pid])))"

abbreviation org_events :: "string \<Rightarrow> store \<Rightarrow> event_row list" where
  "org_events org d \<equiv> filter (\<lambda>e. ev_org e = org) (events d)"

definition person_timeline :: "string \<Rightarrow> string \<Rightarrow> store \<Rightarrow> json list list" where
  "person_timeline org pid d = map (\<lambda>e. [JStr (ev_type e), JStr (ev_summary e), jtime (ev_created e)])
     (take 100 (sort_key (\<lambda>e. - ev_created e)
       [e. e \<leftarrow> org_events org d, c \<leftarrow> org_cases org d, lc_id c = ev_case e \<and> lc_person c = pid]))"

definition personRelated :: "Server \<Rightarrow> string \<Rightarrow> string \<Rightarrow> (string \<times> json) list api" where
  "personRelated s orgID pid =
    bnd (queryMaps [''id'', ''entitlementName'', ''entitlementType'', ''privileged'', ''active'', ''source'', ''lastSeenAt'', ''username'', ''connectorName'']
      (\<lambda>d. person_access s orgID pid (core d))) (\<lambda>access.
    bnd (queryMaps [''id'', ''type'', ''severity'', ''status'', ''reason'', ''lastObservedAt''] (\<lambda>d. person_findings orgID pid (core d))) (\<lambda>found.
    bnd (queryMaps [''id'', ''type'', ''status'', ''verificationStatus'', ''createdAt'', ''completedAt''] (\<lambda>d. person_cases orgID pid (core d))) (\<lambda>lifecycle.
    bnd (queryMaps [''id'', ''type'', ''summary'', ''observedState'', ''createdAt'', ''integrityHash''] (\<lambda>d. person_evidence orgID pid (core d))) (\<lambda>ev.
    bnd (queryMaps [''type'', ''summary'', ''createdAt''] (\<lambda>d. person_timeline orgID pid (core d))) (\<lambda>timeline.
    ret [(''access'', access), (''evidence'', ev), (''findings'', found), (''lifecycle'', lifecycle), (''timeline'', timeline)])))))"

definition personHandler :: "Server \<Rightarrow> Session \<Rightarrow> http_in \<Rightarrow> reply api" where
  "personHandler s session r =
    (let pid = TrimPrefix (r_path r) ''/api/v1/people/''; org = SessionOrg session in
     if \<not> uuidParse s pid then ret (writeError 400 ''INVALID_ID'' ''A valid UUID is required.'' (r_reqid r))
     else or_reply (GetPerson s org pid)
       (\<lambda>e. if e = ErrNoRows then writeError 404 ''PERSON_NOT_FOUND'' ''The person was not found.'' (r_reqid r) else internal r) (\<lambda>(p, accs).
     or_reply (personRelated s org pid) (\<lambda>_. internal r) (\<lambda>related.
     ret (writeJSON 200 (JObj (sort_key fst (related @ [(''person'', person_json p), (''identities'', JArr (map account_json accs))])))))))"

section \<open>Connectors\<close>

definition connector_row_json :: "connector_row \<Rightarrow> json" where
  "connector_row_json c = JObj [(''baseURL'', JStr (coalesce_empty (c_base_url c))), (''capabilities'', c_capabilities c),
     (''enabled'', JBool (c_enabled c)), (''environment'', JStr (c_environment c)), (''id'', JStr (c_id c)),
     (''lastSyncAt'', jopt jtime (c_last_sync_at c)), (''lastSyncStatus'', JStr (c_last_sync_status c)), (''name'', JStr (c_name c)),
     (''readEnabled'', JBool (c_read_enabled c)), (''type'', JStr (c_type c)), (''writeEnabled'', JBool (c_write_enabled c))]"

definition ListConnectors :: "Server \<Rightarrow> string \<Rightarrow> connector_row list api" where
  "ListConnectors s orgID = all_rows (\<lambda>d. sort_key (\<lambda>c. pgCollate s (c_name c)) (org_connectors orgID (core d)))"

definition connectorsHandler :: "Server \<Rightarrow> Session \<Rightarrow> http_in \<Rightarrow> reply api" where
  "connectorsHandler s session r = or_reply (ListConnectors s (SessionOrg session)) (\<lambda>_. internal r) (\<lambda>cs.
     ret (writeJSON 200 (JObj [(''items'', JArr (map connector_row_json cs))])))"

definition connectorPathID :: "string \<Rightarrow> string \<Rightarrow> string" where
  "connectorPathID path suffix =
    (let value = TrimPrefix path ''/api/v1/connectors/'' in if suffix \<noteq> [] then TrimSuffix value (''/'' @ suffix) else value)"

definition connector_detail_json :: "string \<Rightarrow> connector_row \<times> bool \<Rightarrow> json" where
  "connector_detail_json con x = (case x of (c, configured) \<Rightarrow>
     JObj [(''baseURL'', JStr (coalesce_empty (c_base_url c))), (''capabilities'', c_capabilities c), (''configuration'', c_configuration c),
       (''credential'', JStr ''Configured''), (''credentialConfigured'', JBool configured), (''enabled'', JBool (c_enabled c)),
       (''environment'', JStr (c_environment c)), (''id'', JStr con), (''lastSyncAt'', jopt jtime (c_last_sync_at c)),
       (''lastSyncStatus'', JStr (c_last_sync_status c)), (''name'', JStr (c_name c)), (''readEnabled'', JBool (c_read_enabled c)),
       (''syncInterval'', JStr (c_sync_interval c)), (''type'', JStr (c_type c)), (''writeEnabled'', JBool (c_write_enabled c))])"

definition connector_detail :: "string \<Rightarrow> string \<Rightarrow> store \<Rightarrow> (connector_row \<times> bool) option" where
  "connector_detail org con d = map_option (\<lambda>c. (c, list_ex (\<lambda>k. cc_connector k = c_id c) (filter (\<lambda>k. cc_org k = org) (credentials d))))
     (List.find (\<lambda>c. c_id c = con) (org_connectors org d))"

definition connectorDetail :: "Server \<Rightarrow> Session \<Rightarrow> http_in \<Rightarrow> reply api" where
  "connectorDetail s session r =
    (let con = connectorPathID (r_path r) [] in
     or_reply (uuid_arg s con (query_row (\<lambda>d. connector_detail (SessionOrg session) con (core d))))
       (\<lambda>e. if e = ErrNoRows then writeError 404 ''CONNECTOR_NOT_FOUND'' ''The connector was not found.'' (r_reqid r) else internal r) (\<lambda>x.
     ret (writeJSON 200 (connector_detail_json con x))))"

definition sync_rows :: "string \<Rightarrow> string \<Rightarrow> int \<times> int \<Rightarrow> store \<Rightarrow> json list list" where
  "sync_rows org con lo d = map (\<lambda>y. [JStr (y_id y), JStr (y_trigger y), JStr (y_status y), JStr (y_request y), jtime (y_started y),
       jopt jtime (y_completed y), JNum (y_accounts y), JNum (y_groups y), jopt JStr (y_error y), y_summary y])
     (page lo (sort_key (\<lambda>y. - y_started y) (filter (\<lambda>y. y_connector y = con) (filter (\<lambda>y. y_org y = org) (syncs d)))))"

definition connectorSyncs :: "Server \<Rightarrow> Session \<Rightarrow> http_in \<Rightarrow> reply api" where
  "connectorSyncs s session r =
    (let con = connectorPathID (r_path r) ''syncs'' in
     list_rows r [''id'', ''triggerType'', ''status'', ''requestId'', ''startedAt'', ''completedAt'', ''accountsDiscovered'', ''groupsDiscovered'', ''errorCode'', ''summary'']
       (uuid_arg s con (rows_of (\<lambda>d. sync_rows (SessionOrg session) con (pagination r) (core d)))))"

section \<open>Identities and access\<close>

definition identity_rows :: "string \<Rightarrow> string \<Rightarrow> string \<Rightarrow> string \<Rightarrow> string \<Rightarrow> int \<times> int \<Rightarrow> store \<Rightarrow> json list list" where
  "identity_rows org con state link q lo d = map (\<lambda>(a, c, l, p). [JStr (a_id a), JStr (a_external a), JStr (a_username a),
       JStr (coalesce_empty (a_name a)), JStr (coalesce_empty (a_email a)), JStr (a_status a), JStr (a_type a), JBool (a_privileged a),
       jtime (a_first_seen a), jtime (a_last_seen a), JStr (c_id c), JStr (c_name c), JStr (c_type c),
       jopt (\<lambda>p. JStr (p_id p)) p, jopt (\<lambda>p. JStr (p_name p)) p])
     (page lo (sort_key (\<lambda>(a, c, l, p). - a_last_seen a)
       [(a, c, l, p). a \<leftarrow> org_accounts org d, c \<leftarrow> org_connectors org d, c_id c = a_connector a,
          l \<leftarrow> left_join (\<lambda>l. l_account l = a_id a) (org_links org d),
          p \<leftarrow> left_join (\<lambda>p. Some (p_id p) = map_option l_person l) (org_people org d),
          chosen con (Some (a_connector a)) \<and> chosen state (Some (a_status a)) \<and>
          (link = [] \<or> link = ''linked'' \<and> l \<noteq> None \<or> link = ''unlinked'' \<and> l = None) \<and>
          search_matches q [Some (a_username a), Some (a_external a), a_email a]]))"

definition identities :: "Session \<Rightarrow> http_in \<Rightarrow> reply api" where
  "identities session r =
    list_rows r [''id'', ''externalAccountId'', ''username'', ''displayName'', ''primaryEmail'', ''activeStatus'', ''accountType'', ''privileged'', ''firstSeenAt'',
        ''lastSeenAt'', ''connectorId'', ''connectorName'', ''connectorType'', ''personId'', ''personName'']
      (rows_of (\<lambda>d. identity_rows (SessionOrg session) (query_get r ''connector'') (query_get r ''state'') (query_get r ''link'') (query_get r ''q'')
        (pagination r) (core d)))"

definition candidate_rows :: "string \<Rightarrow> string \<Rightarrow> int \<times> int \<Rightarrow> store \<Rightarrow> json list list" where
  "candidate_rows org status lo d = map (\<lambda>(k, p, a, c). [JStr (k_id k), JStr (k_confidence k), k_reasons k, JStr (k_status k), jtime (k_created k),
       jopt jtime (k_reviewed_at k), JStr (p_id p), JStr (p_name p), JStr (a_id a), JStr (a_username a), jopt JStr (a_email a), JStr (c_name c)])
     (page lo (sort_key (\<lambda>(k, p, a, c). - k_created k)
       [(k, p, a, c). k \<leftarrow> filter (\<lambda>k. k_org k = org) (candidates d), p \<leftarrow> org_people org d, p_id p = k_person k,
          a \<leftarrow> org_accounts org d, a_id a = k_account k, c \<leftarrow> org_connectors org d, c_id c = a_connector a \<and> chosen status (Some (k_status k))]))"

definition correlationCandidates :: "Session \<Rightarrow> http_in \<Rightarrow> reply api" where
  "correlationCandidates session r =
    (let status = (if query_get r ''status'' = [] then ''PENDING'' else query_get r ''status'') in
     list_rows r [''id'', ''confidence'', ''reasons'', ''status'', ''createdAt'', ''reviewedAt'', ''personId'', ''personName'', ''identityAccountId'', ''username'',
         ''primaryEmail'', ''connectorName'']
       (rows_of (\<lambda>d. candidate_rows (SessionOrg session) status (pagination r) (core d))))"

definition application_rows :: "Server \<Rightarrow> string \<Rightarrow> int \<times> int \<Rightarrow> apidb \<Rightarrow> json list list" where
  "application_rows s org lo d = map (\<lambda>(p, c). [JStr (ap_id p), JStr (ap_name p), JStr (coalesce_empty (ap_description p)),
       JStr (coalesce_empty (ap_owner_name p)), JStr (coalesce_empty (ap_owner_email p)), JStr (ap_criticality p), JBool (ap_enabled p), jtime (ap_created p),
       jopt (\<lambda>c. JStr (c_id c)) c, jopt (\<lambda>c. JStr (c_name c)) c,
       JNum (count_where (\<lambda>a. a_connector a = ap_connector p) (org_accounts org (core d))),
       JNum (count_where (\<lambda>a. a_connector a = ap_connector p \<and> a_status a = ''ACTIVE'') (org_accounts org (core d)))])
     (page lo (sort_key (\<lambda>(p, c). pgCollate s (ap_name p))
       [(p, c). p \<leftarrow> filter (\<lambda>p. ap_org p = org) (applications d), c \<leftarrow> left_join (\<lambda>c. c_id c = ap_connector p) (org_connectors org (core d))]))"

definition applicationsHandler :: "Server \<Rightarrow> Session \<Rightarrow> http_in \<Rightarrow> reply api" where
  "applicationsHandler s session r =
    list_rows r [''id'', ''name'', ''description'', ''ownerName'', ''ownerEmail'', ''criticality'', ''enabled'', ''createdAt'', ''connectorId'', ''connectorName'',
        ''accounts'', ''activeAccounts'']
      (rows_of (application_rows s (SessionOrg session) (pagination r)))"

definition entitlement_rows :: "Server \<Rightarrow> string \<Rightarrow> string \<Rightarrow> string \<Rightarrow> int \<times> int \<Rightarrow> store \<Rightarrow> json list list" where
  "entitlement_rows s org con q lo d = map (\<lambda>(e, c). [JStr (e_id e), JStr (e_external e), JStr (e_name e), JStr (e_type e),
       JStr (coalesce_empty (e_description e)), JBool (e_privileged e), jtime (e_first_seen e), jtime (e_last_seen e), JStr (c_id c), JStr (c_name c),
       JNum (count_where (\<lambda>g. g_entitlement g = e_id e \<and> g_active g) (org_grants org d))])
     (page lo (sort_key (\<lambda>(e, c). pgCollate s (e_name e))
       [(e, c). e \<leftarrow> org_entitlements org d, c \<leftarrow> org_connectors org d,
          c_id c = e_connector e \<and> chosen con (Some (e_connector e)) \<and> search_matches q [Some (e_name e)]]))"

definition entitlementsHandler :: "Server \<Rightarrow> Session \<Rightarrow> http_in \<Rightarrow> reply api" where
  "entitlementsHandler s session r =
    list_rows r [''id'', ''externalId'', ''name'', ''type'', ''description'', ''privileged'', ''firstSeenAt'', ''lastSeenAt'', ''connectorId'', ''connectorName'',
        ''activeGrants'']
      (rows_of (\<lambda>d. entitlement_rows s (SessionOrg session) (query_get r ''connector'') (query_get r ''q'') (pagination r) (core d)))"

definition grant_rows :: "string \<Rightarrow> int \<times> int \<Rightarrow> store \<Rightarrow> json list list" where
  "grant_rows org lo d = map (\<lambda>(g, a, e, p). [JStr (g_id g), JStr (g_source g), jtime (g_first_seen g), jtime (g_last_seen g), JBool (g_active g),
       JStr (a_id a), JStr (a_username a), JStr (a_status a), JStr (e_id e), JStr (e_name e), JStr (e_type e), JBool (e_privileged e),
       jopt (\<lambda>p. JStr (p_id p)) p, jopt (\<lambda>p. JStr (p_name p)) p])
     (page lo (sort_key (\<lambda>(g, a, e, p). - g_last_seen g)
       [(g, a, e, p). g \<leftarrow> org_grants org d, a \<leftarrow> org_accounts org d, a_id a = g_account g, e \<leftarrow> org_entitlements org d, e_id e = g_entitlement g,
          l \<leftarrow> left_join (\<lambda>l. l_account l = a_id a) (org_links org d),
          p \<leftarrow> left_join (\<lambda>p. Some (p_id p) = map_option l_person l) (org_people org d)]))"

definition accessGrants :: "Session \<Rightarrow> http_in \<Rightarrow> reply api" where
  "accessGrants session r =
    list_rows r [''id'', ''source'', ''firstSeenAt'', ''lastSeenAt'', ''active'', ''identityAccountId'', ''username'', ''accountState'', ''entitlementId'',
        ''entitlementName'', ''entitlementType'', ''privileged'', ''personId'', ''personName'']
      (rows_of (\<lambda>d. grant_rows (SessionOrg session) (pagination r) (core d)))"

definition run_rows :: "string \<Rightarrow> string \<Rightarrow> string \<Rightarrow> int \<times> int \<Rightarrow> store \<Rightarrow> json list list" where
  "run_rows org con status lo d = map (\<lambda>(x, c). [JStr (r_id x), JStr (r_trigger x), JStr (r_status x), jtime (r_started x), jopt jtime (r_completed x),
       JNum (r_accounts x), JNum (r_changed x), JNum (r_groups x), JNum (r_memberships x), JNum (r_findings x), r_summary x, JStr (c_id c), JStr (c_name c)])
     (page lo (sort_key (\<lambda>(x, c). - r_started x)
       [(x, c). x \<leftarrow> filter (\<lambda>x. r_org x = org) (runs d), c \<leftarrow> org_connectors org d,
          c_id c = r_connector x \<and> chosen con (Some (r_connector x)) \<and> chosen status (Some (r_status x))]))"

definition reconciliationRuns :: "Session \<Rightarrow> http_in \<Rightarrow> reply api" where
  "reconciliationRuns session r =
    list_rows r [''id'', ''triggerType'', ''status'', ''startedAt'', ''completedAt'', ''accountsDiscovered'', ''accountsChanged'', ''groupsDiscovered'',
        ''membershipsChanged'', ''findingsCreated'', ''summary'', ''connectorId'', ''connectorName'']
      (rows_of (\<lambda>d. run_rows (SessionOrg session) (query_get r ''connector'') (query_get r ''status'') (pagination r) (core d)))"

definition finding_rows :: "string \<Rightarrow> string \<Rightarrow> string \<Rightarrow> int \<times> int \<Rightarrow> store \<Rightarrow> json list list" where
  "finding_rows org status severity lo d = map (\<lambda>(f, p, a, c). [JStr (f_id f), JStr (f_type f), JStr (f_severity f), JStr (f_status f), JStr (f_reason f),
       jtime (f_first_observed f), jtime (f_last_observed f), jopt jtime (f_resolved f), jopt (\<lambda>p. JStr (p_id p)) p, jopt (\<lambda>p. JStr (p_name p)) p,
       jopt (\<lambda>a. JStr (a_id a)) a, jopt (\<lambda>a. JStr (a_username a)) a, jopt (\<lambda>c. JStr (c_id c)) c, jopt (\<lambda>c. JStr (c_name c)) c])
     (page lo (sort_key (\<lambda>(f, p, a, c). - f_last_observed f)
       [(f, p, a, c). f \<leftarrow> org_findings org d, p \<leftarrow> left_join (\<lambda>p. Some (p_id p) = f_person f) (org_people org d),
          a \<leftarrow> left_join (\<lambda>a. Some (a_id a) = f_account f) (org_accounts org d),
          c \<leftarrow> left_join (\<lambda>c. Some (c_id c) = f_connector f) (org_connectors org d),
          chosen status (Some (f_status f)) \<and> chosen severity (Some (f_severity f))]))"

definition findingsHandler :: "Session \<Rightarrow> http_in \<Rightarrow> reply api" where
  "findingsHandler session r =
    list_rows r [''id'', ''type'', ''severity'', ''status'', ''reason'', ''firstObservedAt'', ''lastObservedAt'', ''resolvedAt'', ''personId'', ''personName'',
        ''identityAccountId'', ''username'', ''connectorId'', ''connectorName'']
      (rows_of (\<lambda>d. finding_rows (SessionOrg session) (query_get r ''status'') (query_get r ''severity'') (pagination r) (core d)))"

section \<open>Cases, reviews, reports and users\<close>

definition case_rows :: "string \<Rightarrow> string \<Rightarrow> string \<Rightarrow> int \<times> int \<Rightarrow> store \<Rightarrow> json list list" where
  "case_rows org status verification lo d = map (\<lambda>(c, p). [JStr (lc_id c), JStr (lc_type c), JStr (lc_status c), JStr (coalesce_empty (lc_verification c)),
       jopt jtime (lc_effective c), jtime (lc_created c), jopt jtime (lc_approved c), jopt jtime (lc_started c), jopt jtime (lc_completed c), lc_summary c,
       JStr (p_id p), JStr (p_name p), JStr (p_status p)])
     (page lo (sort_key (\<lambda>(c, p). - lc_created c)
       [(c, p). c \<leftarrow> org_cases org d, p \<leftarrow> org_people org d,
          p_id p = lc_person c \<and> chosen status (Some (lc_status c)) \<and> chosen verification (lc_verification c)]))"

definition lifecycleCases :: "Session \<Rightarrow> http_in \<Rightarrow> reply api" where
  "lifecycleCases session r =
    list_rows r [''id'', ''type'', ''status'', ''verificationStatus'', ''effectiveAt'', ''createdAt'', ''approvedAt'', ''startedAt'', ''completedAt'', ''summary'',
        ''personId'', ''personName'', ''personLifecycleStatus'']
      (rows_of (\<lambda>d. case_rows (SessionOrg session) (query_get r ''status'') (query_get r ''verification'') (pagination r) (core d)))"

definition review_rows :: "string \<Rightarrow> string \<Rightarrow> int \<times> int \<Rightarrow> apidb \<Rightarrow> json list list" where
  "review_rows org status lo d = map (\<lambda>(c, u). [JStr (ac_id c), JStr (ac_title c), JStr (coalesce_empty (ac_desc c)), JStr (ac_scope c), ac_scope_config c,
       JStr (ac_status c), jopt jtime (ac_starts c), jopt jtime (ac_due c), jopt jtime (ac_completed c), jtime (ac_created c), JStr (us_name u),
       JNum (count_where (\<lambda>i. ai_campaign i = ac_id c) (org_items org (core d))),
       JNum (count_where (\<lambda>i. ai_campaign i = ac_id c \<and> ai_status i = ''DECIDED'') (org_items org (core d)))])
     (page lo (sort_key (\<lambda>(c, u). - ac_created c)
       [(c, u). c \<leftarrow> org_campaigns org (core d), u \<leftarrow> org_users org d, us_id u = ac_reviewer c \<and> chosen status (Some (ac_status c))]))"

definition accessReviews :: "Session \<Rightarrow> http_in \<Rightarrow> reply api" where
  "accessReviews session r =
    list_rows r [''id'', ''name'', ''description'', ''scopeType'', ''scopeConfiguration'', ''status'', ''startsAt'', ''dueAt'', ''completedAt'', ''createdAt'',
        ''reviewerName'', ''items'', ''decidedItems'']
      (rows_of (review_rows (SessionOrg session) (query_get r ''status'') (pagination r)))"

text \<open>
  The values of \<open>accessReviewDetail\<close> do not pass \<open>normalizeDBValue\<close>: the id of an item is encoded as the sixteen bytes
  that the driver returns for a \<open>uuid\<close>.
\<close>

fun hex_pairs :: "string \<Rightarrow> int list" where
  "hex_pairs (a # b # t) = int (16 * (case unhex a of None \<Rightarrow> 0 | Some x \<Rightarrow> x) + (case unhex b of None \<Rightarrow> 0 | Some y \<Rightarrow> y)) # hex_pairs t"
| "hex_pairs _ = []"

definition uuid_bytes :: "string \<Rightarrow> json" where
  "uuid_bytes u = JArr (map JNum (hex_pairs (filter (\<lambda>c. c \<noteq> CHR ''-'') u)))"

definition review_item_rows :: "Server \<Rightarrow> string \<Rightarrow> string \<Rightarrow> store \<Rightarrow> json list list" where
  "review_item_rows s org camp d = map (\<lambda>(i, p, a, e, x). [uuid_bytes (ai_id i), JStr (ai_status i), jtime (ai_observed i),
       jopt (\<lambda>p. JStr (p_name p)) p, jopt (\<lambda>a. JStr (a_username a)) a, jopt (\<lambda>e. JStr (e_name e)) e, jopt (\<lambda>e. JBool (e_privileged e)) e,
       jopt (\<lambda>x. JStr (ad_decision x)) x, jopt (\<lambda>x. JStr (ad_comment x)) x, jopt (\<lambda>x. jtime (ad_created x)) x])
     (nulls_last (\<lambda>(i, p, a, e, x). map_option (\<lambda>e. pgCollate s (e_name e)) e)
     (nulls_last (\<lambda>(i, p, a, e, x). map_option (\<lambda>p. pgCollate s (p_name p)) p)
       [(i, p, a, e, x). i \<leftarrow> org_items org d, ai_campaign i = camp,
          p \<leftarrow> left_join (\<lambda>p. Some (p_id p) = ai_person i) (org_people org d),
          a \<leftarrow> left_join (\<lambda>a. Some (a_id a) = ai_account i) (org_accounts org d),
          e \<leftarrow> left_join (\<lambda>e. Some (e_id e) = ai_entitlement i) (org_entitlements org d),
          x \<leftarrow> left_join (\<lambda>x. ad_item x = ai_id i) (filter (\<lambda>x. ad_org x = org) (decisions d))]))"

definition find_review :: "string \<Rightarrow> string \<Rightarrow> apidb \<Rightarrow> (campaign_row \<times> user_row) option" where
  "find_review org camp d = (case [(c, u). c \<leftarrow> org_campaigns org (core d), ac_id c = camp, u \<leftarrow> org_users org d, us_id u = ac_reviewer c] of
     [] \<Rightarrow> None | x # _ \<Rightarrow> Some x)"

definition accessReviewDetail :: "Server \<Rightarrow> Session \<Rightarrow> http_in \<Rightarrow> reply api" where
  "accessReviewDetail s session r =
    (let camp = TrimPrefix (r_path r) ''/api/v1/access-reviews/''; org = SessionOrg session in
     or_reply (bnd (uuid_arg s camp (query_row (find_review org camp))) (\<lambda>(c, u). case ac_due c of
           None \<Rightarrow> fail (DBError ''cannot scan NULL into *time.Time'') | Some due \<Rightarrow> ret (c, u, due)))
       (\<lambda>e. if e = ErrNoRows then writeError 404 ''REVIEW_NOT_FOUND'' ''The access review was not found.'' (r_reqid r) else internal r) (\<lambda>(c, u, due).
     or_reply (rows_of (\<lambda>d. review_item_rows s org camp (core d))) (\<lambda>_. internal r) (\<lambda>rows.
     ret (writeJSON 200 (JObj [(''description'', JStr (coalesce_empty (ac_desc c))), (''dueAt'', jtime due), (''id'', JStr camp),
       (''items'', JArr (map (row_object [''id'', ''status'', ''observedAt'', ''personName'', ''username'', ''entitlementName'', ''privileged'', ''decision'',
          ''comment'', ''decidedAt'']) rows)),
       (''name'', JStr (ac_title c)), (''reviewerName'', JStr (us_name u)), (''scopeType'', JStr (ac_scope c)), (''status'', JStr (ac_status c))])))))"

definition audit_rows :: "string \<Rightarrow> int \<times> int \<Rightarrow> store \<Rightarrow> json list list" where
  "audit_rows org lo d = map (\<lambda>x. [JStr (au_id x), JStr (au_event x), JStr (au_resource_type x), JStr (au_resource x), au_metadata x, JStr (au_request x), jtime (au_time x)])
     (page lo (sort_key (\<lambda>x. - au_time x) (filter (\<lambda>x. au_org x = org) (audit d))))"

definition auditHandler :: "Session \<Rightarrow> http_in \<Rightarrow> reply api" where
  "auditHandler session r =
    list_rows r [''id'', ''eventType'', ''resourceType'', ''resourceId'', ''metadata'', ''requestId'', ''timestamp'']
      (rows_of (\<lambda>d. audit_rows (SessionOrg session) (pagination r) (core d)))"

definition evidence_rows :: "string \<Rightarrow> int \<times> int \<Rightarrow> store \<Rightarrow> json list list" where
  "evidence_rows org lo d = map (\<lambda>e. [JStr (le_id e), JStr (le_connector e), jopt JStr (le_person e), JStr (le_account e), JStr (le_case e), JStr (le_action e),
       JStr (le_type e), JStr (le_summary e), le_observed e, jtime (le_source_time e), jtime (le_created e), JStr (le_hash e)])
     (page lo (sort_key (\<lambda>e. - le_created e) (org_evidence org d)))"

definition evidenceHandler :: "Session \<Rightarrow> http_in \<Rightarrow> reply api" where
  "evidenceHandler session r =
    list_rows r [''id'', ''connectorId'', ''personId'', ''identityAccountId'', ''lifecycleCaseId'', ''actionId'', ''type'', ''summary'', ''observedState'',
        ''sourceTimestamp'', ''createdAt'', ''integrityHash'']
      (rows_of (\<lambda>d. evidence_rows (SessionOrg session) (pagination r) (core d)))"

definition report_rows :: "string \<Rightarrow> int \<times> int \<Rightarrow> apidb \<Rightarrow> json list list" where
  "report_rows org lo d = map (\<lambda>(x, c, p). [JStr (rp_id x), JStr (rp_type x), JStr (rp_status x), JStr (rp_hash x), jtime (rp_generated x), JStr (rp_case x),
       jopt (\<lambda>p. JStr (p_name p)) p, jopt JStr (Option.bind c lc_verification)])
     (page lo (sort_key (\<lambda>(x, c, p). - rp_generated x)
       [(x, c, p). x \<leftarrow> filter (\<lambda>x. rp_org x = org) (reports d), c \<leftarrow> left_join (\<lambda>c. lc_id c = rp_case x) (org_cases org (core d)),
          p \<leftarrow> left_join (\<lambda>p. Some (p_id p) = map_option lc_person c) (org_people org (core d))]))"

definition reportsHandler :: "Session \<Rightarrow> http_in \<Rightarrow> reply api" where
  "reportsHandler session r =
    list_rows r [''id'', ''type'', ''status'', ''contentHash'', ''generatedAt'', ''lifecycleCaseId'', ''personName'', ''verificationStatus'']
      (rows_of (report_rows (SessionOrg session) (pagination r)))"

definition user_rows :: "Server \<Rightarrow> string \<Rightarrow> int \<times> int \<Rightarrow> apidb \<Rightarrow> json list list" where
  "user_rows s org lo d = map (\<lambda>u. [JStr (us_id u), JStr (us_email u), JStr (us_name u), JBool (us_mfa_enabled u), JBool (us_disabled u), jtime (us_created u),
       jtime (us_updated u), JArr (map JStr (sort_key (pgCollate s) (role_names org (us_id u) d)))])
     (page lo (sort_key (\<lambda>u. pgCollate s (us_name u)) (org_users org d)))"

definition usersHandler :: "Server \<Rightarrow> Session \<Rightarrow> http_in \<Rightarrow> reply api" where
  "usersHandler s session r =
    list_rows r [''id'', ''email'', ''displayName'', ''mfaEnabled'', ''disabled'', ''createdAt'', ''updatedAt'', ''roles'']
      (rows_of (user_rows s (SessionOrg session) (pagination r)))"

definition session_rows :: "Session \<Rightarrow> tstamp \<Rightarrow> apidb \<Rightarrow> json list list" where
  "session_rows session now d = map (\<lambda>x. [JStr (se_id x), jtime (se_created x), jtime (se_last_seen x), jtime (se_expires x), JBool (se_id x = SessionID session)])
     (sort_key (\<lambda>x. - se_last_seen x) (filter (\<lambda>x. se_user x = SessionUser session \<and> se_revoked x = None \<and> now < se_expires x)
       (filter (\<lambda>x. se_org x = SessionOrg session) (sessions d))))"

text \<open>The query compares with \<open>now()\<close>, the time of its statement.\<close>

definition sessionsHandler :: "Session \<Rightarrow> http_in \<Rightarrow> reply api" where
  "sessionsHandler session r =
    list_rows r [''id'', ''createdAt'', ''lastSeenAt'', ''expiresAt'', ''current''] (\<lambda>w. rows_of (session_rows session (now_of w)) w)"

section \<open>The stream of a case's events\<close>

text \<open>
  \<open>caseEvents\<close> asks once a second for the events after the last one it sent, until the client leaves or a query
  fails. What arrives is written as it arrives; an interrupted result set is not noticed and the next round goes on
  after the last row.
\<close>

definition case_events :: "string \<Rightarrow> string \<Rightarrow> tstamp \<Rightarrow> store \<Rightarrow> event_row list" where
  "case_events org cid seen d = sort_key ev_created (filter (\<lambda>e. ev_case e = cid \<and> seen < ev_created e) (org_events org d))"

definition sse_message :: "event_row \<Rightarrow> string" where
  "sse_message e = ''event: lifecycle'' @ [CHR 0x0A] @ ''data: '' @
     Marshal (JObj [(''at'', jtime (ev_created e)), (''summary'', JStr (ev_summary e)), (''type'', JStr (ev_type e))]) @ [CHR 0x0A, CHR 0x0A]"

definition last_seen :: "tstamp \<Rightarrow> event_row list \<Rightarrow> tstamp" where
  "last_seen seen es = (if es = [] then seen else ev_created (List.last es))"

definition event_round :: "Server \<Rightarrow> string \<Rightarrow> string \<Rightarrow> tstamp \<Rightarrow> string \<Rightarrow> (tstamp \<Rightarrow> string \<Rightarrow> string api) \<Rightarrow> string api" where
  "event_round s org cid seen out k =
    bnd (attempt (uuid_arg s cid (rows_of (\<lambda>d. case_events org cid seen (core d))))) (\<lambda>res. case res of
       Inl _ \<Rightarrow> ret out
     | Inr es \<Rightarrow> k (last_seen seen es) (out @ concat (map sse_message es)))"

primrec event_stream :: "nat \<Rightarrow> Server \<Rightarrow> string \<Rightarrow> string \<Rightarrow> tstamp \<Rightarrow> string \<Rightarrow> string api" where
  "event_stream 0 s org cid seen out = event_round s org cid seen out (\<lambda>_ out'. ret out')"
| "event_stream (Suc n) s org cid seen out = event_round s org cid seen out (\<lambda>seen' out'. event_stream n s org cid seen' out')"

definition caseEvents :: "Server \<Rightarrow> Session \<Rightarrow> http_in \<Rightarrow> reply api" where
  "caseEvents s session r =
    (if \<not> canFlush s then
       ret (let a = writeError 500 ''SSE_UNAVAILABLE'' ''Streaming is unavailable.'' (r_reqid r) in a\<lparr>a_header := a_header a @ [(''Cache-Control'', ''no-cache'')]\<rparr>)
     else bnd (event_stream (r_stay r) s (SessionOrg session) (caseIDFromAction (r_path r) ''events'') zero_time []) (\<lambda>out.
       ret \<lparr>a_code = 200, a_header = [(''Content-Type'', ''text/event-stream''), (''Cache-Control'', ''no-cache'')], a_cookies = [], a_body = None,
         a_raw_body = out\<rparr>))"

end
