(* ===== verification/ApiServer.thy ===== *)
theory ApiServer
  imports ApiReads
begin

text \<open>
  The server of \<open>backend/internal/httpapi\<close> as a whole: its handlers behind the routes of \<open>ApiRouter\<close>.
  The lemmas show what every request gets: an answer, never an error that escapes.
\<close>

section \<open>The handlers behind the routes\<close>

definition server_handler :: "Server \<Rightarrow> handlers" where
  "server_handler s rt session r = (case rt of
     AuthMe \<Rightarrow> ret (writeJSON 200 (user_json session))
   | Logout \<Rightarrow> logout s session r
   | AuthPassword \<Rightarrow> changePassword s session r
   | MfaEnroll \<Rightarrow> mfaEnroll s session r
   | MfaConfirm \<Rightarrow> mfaConfirm s session r
   | SessionRevoke \<Rightarrow> revokeSession s session r
   | ConnectorCreate \<Rightarrow> createConnector s session r
   | ConnectorUpdate \<Rightarrow> updateConnector s session r
   | ConnectorTest \<Rightarrow> testConnector s session r
   | ConnectorSync \<Rightarrow> syncConnector s session r
   | CsvPreview \<Rightarrow> csvPreview s r
   | CsvApply \<Rightarrow> csvApply s session r
   | CandidateAccept \<Rightarrow> acceptCandidate s session r
   | CandidateReject \<Rightarrow> rejectCandidate s session r
   | ApplicationCreate \<Rightarrow> createApplication s session r
   | FindingUpdate \<Rightarrow> updateFinding s session r
   | CaseCreate \<Rightarrow> createCase s session r
   | CaseGet \<Rightarrow> getCase s session r
   | CasePlan \<Rightarrow> planCase s session r
   | CaseApprove \<Rightarrow> approveCase s session r
   | CaseExecute \<Rightarrow> executeCase s session r
   | CaseCancel \<Rightarrow> cancelCaseHandler s session r
   | ReviewCreate \<Rightarrow> createAccessReview s session r
   | ReviewDecide \<Rightarrow> reviewDecision s session r
   | ReportGenerate \<Rightarrow> generateOffboardingReport s session r
   | ReportPdf \<Rightarrow> offboardingPDF s session r
   | UserCreate \<Rightarrow> createUser s session r
   | SettingsGet \<Rightarrow> settingsHandler session r
   | SettingsUpdate \<Rightarrow> updateSettings session r
   | SessionList \<Rightarrow> sessionsHandler session r
   | DashboardR \<Rightarrow> dashboard session r
   | PeopleList \<Rightarrow> peopleHandler s session r
   | PersonGet \<Rightarrow> personHandler s session r
   | ConnectorList \<Rightarrow> connectorsHandler s session r
   | ConnectorSyncs \<Rightarrow> connectorSyncs s session r
   | ConnectorDetail \<Rightarrow> connectorDetail s session r
   | IdentityList \<Rightarrow> identities session r
   | CandidateList \<Rightarrow> correlationCandidates session r
   | ApplicationList \<Rightarrow> applicationsHandler s session r
   | EntitlementList \<Rightarrow> entitlementsHandler s session r
   | GrantList \<Rightarrow> accessGrants session r
   | ReconciliationList \<Rightarrow> reconciliationRuns session r
   | FindingList \<Rightarrow> findingsHandler session r
   | CaseList \<Rightarrow> lifecycleCases session r
   | CaseEvents \<Rightarrow> caseEvents s session r
   | ReviewList \<Rightarrow> accessReviews session r
   | ReviewDetail \<Rightarrow> accessReviewDetail s session r
   | AuditList \<Rightarrow> auditHandler session r
   | EvidenceList \<Rightarrow> evidenceHandler session r
   | ReportList \<Rightarrow> reportsHandler session r
   | UserList \<Rightarrow> usersHandler s session r)"

section \<open>Answers\<close>

text \<open>\<open>gives P m\<close>: whatever the world does, m returns, without an error, a value with P.\<close>

definition gives :: "('a \<Rightarrow> bool) \<Rightarrow> 'a api \<Rightarrow> bool" where
  "gives P m \<longleftrightarrow> (\<forall>w. wp m (\<lambda>x _. P x) (\<lambda>_ _. False) w)"

lemma givesD: "gives P m \<Longrightarrow> \<exists>x w'. m w = (Inr x, w') \<and> P x"
  unfolding gives_def wp_def by (drule spec [of _ w]) (auto split: prod.splits sum.splits)

lemma gives_ret: "P x \<Longrightarrow> gives P (ret x)"
  by (simp add: gives_def wp_simps)

lemma gives_bnd_of: "gives Q m \<Longrightarrow> (\<And>x. Q x \<Longrightarrow> gives P (k x)) \<Longrightarrow> gives P (bnd m k)"
  unfolding gives_def wp_simps by (blast intro: wp_mono)

lemma gives_bnd: "gives (\<lambda>_. True) m \<Longrightarrow> (\<And>x. gives P (k x)) \<Longrightarrow> gives P (bnd m k)"
  by (rule gives_bnd_of)

lemma wp_top: "wp m (\<lambda>_ _. True) (\<lambda>_ _. True) w"
  by (simp add: wp_def split: prod.split sum.split)

lemma gives_total:
  "gives (\<lambda>_. True) (attempt m)" "gives (\<lambda>_. True) (ignore m)" "gives (\<lambda>_. True) time_now" "gives (\<lambda>_. True) new_uuid"
  "gives (\<lambda>_. True) (random_read s n)"
  by (simp_all add: gives_def wp_simps wp_top wp_time_now wp_new_uuid) (simp add: wp_def random_read_def)

lemma gives_token: "gives (\<lambda>_. True) (randomToken s n)"
  unfolding randomToken_def by (intro gives_bnd gives_total gives_ret TrueI)

lemma gives_or_reply:
  "(\<And>e. P (answer e)) \<Longrightarrow> (\<And>x. gives P (k x)) \<Longrightarrow> gives P (or_reply m answer k)"
  unfolding or_reply_def by (intro gives_bnd gives_total) (auto split: sum.split intro: gives_ret)

lemma gives_if: "(b \<Longrightarrow> gives P m) \<Longrightarrow> (\<not> b \<Longrightarrow> gives P n) \<Longrightarrow> gives P (if b then m else n)"
  by simp

lemma gives_option: "(x = None \<Longrightarrow> gives P m) \<Longrightarrow> (\<And>y. x = Some y \<Longrightarrow> gives P (f y)) \<Longrightarrow> gives P (case_option m f x)"
  by (cases x) simp_all

lemma gives_sum: "(\<And>y. x = Inl y \<Longrightarrow> gives P (f y)) \<Longrightarrow> (\<And>y. x = Inr y \<Longrightarrow> gives P (g y)) \<Longrightarrow> gives P (case_sum f g x)"
  by (cases x) simp_all

lemma gives_prod: "(\<And>a b. gives P (f a b)) \<Longrightarrow> gives P (case_prod f x)"
  by (cases x) simp

lemmas gives_intros = gives_ret gives_or_reply gives_bnd gives_total gives_token gives_if gives_option gives_sum gives_prod

section \<open>Well-typed answers\<close>

text \<open>
  The status codes the server uses, the headers its handlers set, and the one cookie it ever sets, which scripts
  cannot read and which is secure whenever the server is configured so.
\<close>

definition reply_codes :: "int set" where
  "reply_codes = {200, 201, 202, 204, 307, 400, 401, 403, 404, 405, 409, 413, 429, 500, 502, 503}"

definition reply_ok :: "Server \<Rightarrow> reply \<Rightarrow> bool" where
  "reply_ok s a \<longleftrightarrow> a_code a \<in> reply_codes \<and>
     fst ` set (a_header a) \<subseteq> {''Content-Type'', ''Retry-After'', ''Content-Disposition'', ''X-Content-SHA256'', ''Cache-Control''} \<and>
     list_all (\<lambda>c. ck_name c = ''identitymesh_session'' \<and> ck_http_only c \<and> ck_secure c = SecureCookies s) (a_cookies a)"

lemma reply_ok_json [simp]: "reply_ok s (writeJSON c v) \<longleftrightarrow> c \<in> reply_codes"
  by (simp add: reply_ok_def writeJSON_def)

lemma reply_ok_error [simp]: "reply_ok s (writeError c code msg i) \<longleftrightarrow> c \<in> reply_codes"
  by (simp add: writeError_def)

lemma reply_ok_empty [simp]: "reply_ok s (noContent c) \<longleftrightarrow> c \<in> reply_codes"
  by (simp add: reply_ok_def noContent_def)

lemma reply_ok_internal [simp]: "reply_ok s (internal r)"
  by (simp add: internal_def reply_codes_def)

lemma reply_codes_mem [simp]: "n \<in> reply_codes \<longleftrightarrow>
    n \<in> {200, 201, 202, 204, 307, 400, 401, 403, 404, 405, 409, 413, 429, 500, 502, 503}"
  by (simp add: reply_codes_def)

lemma reply_ok_lifecycle [simp]: "reply_ok s (lifecycleError r e)"
  by (simp add: lifecycleError_def)

lemma reply_ok_cookie [simp]: "reply_ok s (a\<lparr>a_cookies := [session_cookie s v age]\<rparr>) \<longleftrightarrow> reply_ok s (a\<lparr>a_cookies := []\<rparr>)"
  by (simp add: reply_ok_def session_cookie_def)

lemma reply_ok_no_cookie [simp]: "reply_ok s ((writeJSON c v)\<lparr>a_cookies := []\<rparr>) \<longleftrightarrow> c \<in> reply_codes"
    "reply_ok s ((noContent c)\<lparr>a_cookies := []\<rparr>) \<longleftrightarrow> c \<in> reply_codes"
  by (simp_all add: reply_ok_def writeJSON_def noContent_def)

lemma gives_with_body:
  "(\<And>x. gives (reply_ok s) (k x)) \<Longrightarrow> gives (reply_ok s) (with_body limit names dec r k)"
  by (auto simp: with_body_def decodeJSON_def intro!: gives_ret split: sum.split option.split list.split)

lemma gives_with_form: "(\<And>vals c. gives (reply_ok s) (k vals c)) \<Longrightarrow> gives (reply_ok s) (with_form s' r k)"
  by (auto simp: with_form_def intro!: gives_ret split: option.split)

lemma gives_rate: "gives (reply_ok s) m \<Longrightarrow> gives (reply_ok s) (rate s' limit window sess m r)"
  unfolding rate_def unavailable_def
  by (intro gives_intros) (simp_all add: reply_ok_def writeError_def writeJSON_def)

text \<open>A list of checks of which the first that applies is the answer.\<close>

definition problem_ok :: "Server \<Rightarrow> reply option \<Rightarrow> bool" where
  "problem_ok s p \<longleftrightarrow> (case p of None \<Rightarrow> True | Some a \<Rightarrow> reply_ok s a)"

lemma first_problem_ok: "list_all (problem_ok s) ps \<Longrightarrow> first_problem ps = Some a \<Longrightarrow> reply_ok s a"
  by (induction ps) (auto simp: problem_ok_def split: option.splits)

lemma problem_okI:
  "reply_ok s a \<Longrightarrow> problem_ok s (problem b a)" "problem_ok s (invalid r code msg)"
  "problem_ok s p \<Longrightarrow> problem_ok s (if c then p else None)"
  by (simp_all add: problem_ok_def problem_def invalid_def split: option.split)

lemma list_all_ConsI: "P x \<Longrightarrow> list_all P xs \<Longrightarrow> list_all P (x # xs)" "list_all P []"
  by simp_all

section \<open>A sample server\<close>

text \<open>One user with one session, a world without faults, and a server with trivial collaborators, for the witnesses.\<close>

definition sample_idkey :: argon2 where
  "sample_idkey p salt t m par n = take n (p @ replicate n CHR ''x'')"

definition sample_server :: Server where
  "sample_server = \<lparr>Assurance = \<lparr>Secrets = None, AllowHTTP = False, NotifierOf = None\<rparr>, Encrypt = ret, Decrypt = ret, Health = None,
     providerName = ''LOCAL_AES_GCM'', AllowedOrigin = ''https://id.example'', SecureCookies = True, RequirePrivilegedMFA = True,
     MaxCSVBytes = 1000, DistributedQueueOf = None, JobMode = ''INLINE'', RateLimiter = True, trustedProxies = [], poolFate = None,
     IDKeyOf = sample_idkey, randomBytes = (\<lambda>t n. Some (replicate n CHR ''a'')), uuidParse = (\<lambda>_. False), pgUuid = (\<lambda>_. True),
     mailParse = (\<lambda>_. True), csvErrorText = (\<lambda>_. []), pgCollate = (\<lambda>t. t), canFlush = True\<rparr>"

definition sample_hash :: string where
  "sample_hash = projr (HashPassword sample_idkey (Some ''salt'') ''correct horse'')"

definition sample_user :: user_row where
  "sample_user = new_user ''user-1'' ''org-1'' ''ana@example.org'' ''Ana'' sample_hash 0"

definition sample_session :: session_row where
  "sample_session = \<lparr>se_id = ''session-1'', se_org = ''org-1'', se_user = ''user-1'', se_token = Sum256 ''tok'', se_csrf = Sum256 ''csrf'',
     se_expires = 1000, se_revoked = None, se_created = 0, se_last_seen = 0\<rparr>"

definition sample_apidb :: apidb where
  "sample_apidb = \<lparr>core = empty_store, job_table = [], limit_table = Map.empty, organizations = [],
     users = [sample_user], roles = [\<lparr>ro_id = ''role-1'', ro_name = ''VIEWER''\<rparr>],
     user_roles = [\<lparr>ur_org = ''org-1'', ur_user = ''user-1'', ur_role = ''role-1''\<rparr>], sessions = [sample_session], settings = [],
     applications = [], reports = [], schema_migrations = None\<rparr>"

definition sample_apiworld :: "apidb networld" where
  "sample_apiworld = \<lparr>db = sample_apidb, ticks = 0, faults = (\<lambda>_. NoFault), clock = (\<lambda>n. int n), fresh = (\<lambda>_ _. ''id''), txnow = None,
     net = (\<lambda>_ _. Inl CtxErr), sent = [], cancelled = (\<lambda>_. False), waited = [], http_date = (\<lambda>_. None),
     directory = (\<lambda>_ _. Inr []), ldap_log = [], ParseDN = (\<lambda>_. None)\<rparr>"

definition sample_request :: "string \<Rightarrow> string \<Rightarrow> json \<Rightarrow> http_in" where
  "sample_request meth path body = \<lparr>r_method = meth, r_path = path, r_query = [], r_header = [(''X-CSRF-Token'', ''csrf'')],
     r_cookie = [(''identitymesh_session'', ''tok'')], r_remote = ''192.0.2.1:4711'', r_size = 100, r_values = [(body, 100)], r_clean = True,
     r_form = None, r_reqid = ''r'', r_stay = 0\<rparr>"

lemma sample_hash_ok: "HashPassword sample_idkey (Some ''salt'') ''correct horse'' = Inr sample_hash"
  by (simp add: sample_hash_def HashPassword_def)

lemma sample_password: "VerifyPassword sample_idkey sample_hash ''correct horse''"
  by (simp add: stored_hash_verifies [OF sample_hash_ok] sample_idkey_def)

lemmas sample_api_defs = sample_server_def sample_user_def new_user_def sample_session_def sample_apidb_def sample_apiworld_def sample_request_def

end
