(* ===== verification/ApiTypes.thy ===== *)
theory ApiTypes
  imports ApiServer
begin

text \<open>Every handler of the server answers, and every answer is well typed.\<close>

lemma ok_second_factor:
  "gives (\<lambda>stop. case stop of None \<Rightarrow> True | Some a \<Rightarrow> reply_ok s a) (second_factor s' r enabled cipher code)"
  unfolding second_factor_def by (intro gives_intros) (simp_all split: sum.split)

lemma ok_open_session: "gives (reply_ok s) (open_session s r base)"
  unfolding open_session_def by (intro gives_intros) simp_all

lemma ok_login: "gives (reply_ok s) (login s r)"
  unfolding login_def
  by (intro gives_with_body gives_prod gives_or_reply gives_if gives_ret gives_bnd_of [OF ok_second_factor])
    (auto intro!: gives_ret ok_open_session split: option.splits)

lemma ok_own_account:
  "gives (reply_ok s) (logout s session r)"
  "gives (reply_ok s) (changePassword s session r)"
  "gives (reply_ok s) (mfaEnroll s session r)"
  "gives (reply_ok s) (mfaConfirm s session r)"
  "gives (reply_ok s) (revokeSession s session r)"
  unfolding logout_def changePassword_def mfaEnroll_def mfaConfirm_def revokeSession_def Let_def
  by (intro gives_with_body gives_intros; simp)+

lemma ok_cases:
  "gives (reply_ok s) (createCase s session r)"
  "gives (reply_ok s) (planCase s session r)"
  "gives (reply_ok s) (approveCase s session r)"
  "gives (reply_ok s) (executeCase s session r)"
  "gives (reply_ok s) (cancelCaseHandler s session r)"
  "gives (reply_ok s) (getCase s session r)"
  "gives (reply_ok s) (reviewDecision s session r)"
  unfolding createCase_def planCase_def approveCase_def executeCase_def cancelCaseHandler_def getCase_def reviewDecision_def Let_def
    queue_unavailable_def job_reply_def
  by (intro gives_with_body gives_intros; simp)+

lemma ok_syncs:
  "gives (reply_ok s) (syncConnector s session r)"
  "gives (reply_ok s) (testConnector s session r)"
  "gives (reply_ok s) (csvPreview s r)"
  "gives (reply_ok s) (csvApply s session r)"
  unfolding syncConnector_def testConnector_def csvPreview_def csvApply_def Let_def queue_unavailable_def job_reply_def
  by (intro gives_with_form gives_intros; simp split: option.split sum.split)+

lemma create_problem_ok: "create_problem s r i = Some a \<Longrightarrow> reply_ok s' a"
  unfolding create_problem_def
  by (erule first_problem_ok [rotated]) (intro list_all_ConsI problem_okI; simp add: ldap_url_error_def)

lemma update_problem_ok: "update_problem s r c i = Some a \<Longrightarrow> reply_ok s' a"
  unfolding update_problem_def
  by (erule first_problem_ok [rotated]) (intro list_all_ConsI problem_okI; simp add: ldap_url_error_def)

lemma ok_connectors:
  "gives (reply_ok s) (createConnector s session r)"
  "gives (reply_ok s) (updateConnector s session r)"
  unfolding createConnector_def updateConnector_def Let_def
  by (intro gives_with_body gives_intros; simp add: create_problem_ok update_problem_ok)+

lemma ok_product:
  "gives (reply_ok s) (acceptCandidate s session r)"
  "gives (reply_ok s) (rejectCandidate s session r)"
  "gives (reply_ok s) (createApplication s session r)"
  "gives (reply_ok s) (updateFinding s session r)"
  "gives (reply_ok s) (createAccessReview s session r)"
  "gives (reply_ok s) (createUser s session r)"
  "gives (reply_ok s) (settingsHandler session r)"
  "gives (reply_ok s) (updateSettings session r)"
  unfolding acceptCandidate_def rejectCandidate_def acceptOrRejectCandidate_def createApplication_def updateFinding_def
    createAccessReview_def createUser_def settingsHandler_def updateSettings_def review_error_def Let_def
  by (intro gives_with_body gives_intros; simp)+

lemma ok_reports:
  "gives (reply_ok s) (generateOffboardingReport s session r)"
  "gives (reply_ok s) (offboardingPDF s session r)"
  unfolding generateOffboardingReport_def offboardingPDF_def report_error_def Let_def
  by (intro gives_intros; simp add: reply_ok_def internal_def writeError_def writeJSON_def)+

lemma ok_list_rows: "gives (reply_ok s) (list_rows r ks rows)"
  unfolding list_rows_def writeRows_def by (intro gives_intros) simp_all

lemma ok_lists:
  "gives (reply_ok s) (sessionsHandler session r)"
  "gives (reply_ok s) (connectorSyncs s session r)"
  "gives (reply_ok s) (identities session r)"
  "gives (reply_ok s) (correlationCandidates session r)"
  "gives (reply_ok s) (applicationsHandler s session r)"
  "gives (reply_ok s) (entitlementsHandler s session r)"
  "gives (reply_ok s) (accessGrants session r)"
  "gives (reply_ok s) (reconciliationRuns session r)"
  "gives (reply_ok s) (findingsHandler session r)"
  "gives (reply_ok s) (lifecycleCases session r)"
  "gives (reply_ok s) (accessReviews session r)"
  "gives (reply_ok s) (auditHandler session r)"
  "gives (reply_ok s) (evidenceHandler session r)"
  "gives (reply_ok s) (reportsHandler session r)"
  "gives (reply_ok s) (usersHandler s session r)"
  unfolding sessionsHandler_def connectorSyncs_def identities_def correlationCandidates_def applicationsHandler_def entitlementsHandler_def
    accessGrants_def reconciliationRuns_def findingsHandler_def lifecycleCases_def accessReviews_def auditHandler_def evidenceHandler_def
    reportsHandler_def usersHandler_def Let_def
  by (rule ok_list_rows)+

lemma ok_details:
  "gives (reply_ok s) (dashboard session r)"
  "gives (reply_ok s) (peopleHandler s session r)"
  "gives (reply_ok s) (personHandler s session r)"
  "gives (reply_ok s) (connectorsHandler s session r)"
  "gives (reply_ok s) (connectorDetail s session r)"
  "gives (reply_ok s) (accessReviewDetail s session r)"
  unfolding dashboard_def peopleHandler_def personHandler_def connectorsHandler_def connectorDetail_def accessReviewDetail_def Let_def
  by (intro gives_intros; simp)+

lemma gives_event_stream: "gives (\<lambda>_. True) (event_stream n s org cid seen out)"
  by (induction n arbitrary: seen out) (auto simp: event_round_def intro!: gives_intros)

lemma ok_caseEvents: "gives (reply_ok s) (caseEvents s session r)"
  unfolding caseEvents_def Let_def
  by (intro gives_intros gives_event_stream) (simp_all add: reply_ok_def writeError_def writeJSON_def)

lemmas ok_handlers = ok_own_account ok_cases ok_syncs ok_connectors ok_product ok_reports ok_lists ok_details ok_caseEvents

lemma ok_server_handler: "gives (reply_ok s) (server_handler s rt session r)"
  unfolding server_handler_def by (cases rt; simp add: ok_handlers gives_ret)

lemma ok_mux:
  assumes "\<And>rt session r. gives (reply_ok s) (h rt session r)"
  shows "gives (reply_ok s) (mux s h escaped r)"
proof -
  have api: "gives (reply_ok s) (api s h r session)" for session
    unfolding api_def require_def limited_def by (intro gives_intros gives_rate assms; simp)
  show ?thesis unfolding mux_def ready_def authenticated_def csrf_def
    by (cases "mux_target (r_method r) escaped"; simp; intro gives_intros gives_rate ok_login api; simp)
qed


end
