(* ===== verification/ApiGate.thy ===== *)
theory ApiGate
  imports ApiTypes
begin

text \<open>
  What stands between a request and a handler: the session, the permission of the route and the CSRF check.
\<close>

section \<open>The gate\<close>

definition admitted :: "Server \<Rightarrow> http_in \<Rightarrow> Session \<Rightarrow> bool" where
  "admitted s r session \<longleftrightarrow> (\<exists>rt. route_of (r_method r) (TrimPrefix (r_path r) ''/api/v1'') = Some rt \<and>
     (case permission_of rt of None \<Rightarrow> True | Some p \<Rightarrow> Allowed (SessionRoles session) p)) \<and>
     (safe_method r \<or> csrf_valid session r \<and> \<not> foreign_origin s r)"

text \<open>A request that is not admitted is answered without its handler, and changes nothing.\<close>

lemma not_admitted:
  assumes "\<not> admitted s r session"
  shows "csrf s (api s h r) r session = csrf s (api s h' r) r session \<and> (\<exists>a. csrf s (api s h r) r session = ret a)"
  using assms unfolding admitted_def csrf_def api_def require_def by (auto split: option.splits)

lemma SessionByToken_result:
  assumes "SessionByToken tok w = (res, w')"
  shows "db w' = db w" and "res = Inr session \<Longrightarrow>
    \<exists>x u. se_token x = Sum256 tok \<and> live_session (now_of w) (db w) x u \<and> session = session_of (db w) x u"
proof -
  have st: "d' = d \<and> (\<exists>x u. se_token x = Sum256 tok \<and> live_session now d x u \<and> y = session_of d x u)"
    if st: "sql_session_by_token (Sum256 tok) now gen d = Inr (y, d')" for now gen d y d'
  proof -
    let ?L = "[session_of d x u. x \<leftarrow> sessions d, se_token x = Sum256 tok \<and> se_revoked x = None \<and> now < se_expires x,
      u \<leftarrow> users d, session_user x u \<and> \<not> us_disabled u]"
    from st have d: "d' = d" and "\<exists>ys. ?L = y # ys"
      unfolding sql_session_by_token_def by (auto split: list.splits simp del: concat.simps)
    then have "y \<in> set ?L" by (metis list.set_intros(1))
    then show ?thesis unfolding live_session_def d by (auto split: if_splits)
  qed
  from assms show "db w' = db w"
    unfolding SessionByToken_def exec_def by (auto simp: Let_def split: fault.splits sum.splits prod.splits dest: st)
  from assms show "res = Inr session \<Longrightarrow>
      \<exists>x u. se_token x = Sum256 tok \<and> live_session (now_of w) (db w) x u \<and> session = session_of (db w) x u"
    unfolding SessionByToken_def exec_def by (auto simp: Let_def split: fault.splits sum.splits prod.splits dest!: st)
qed


interpretation still: db_frame "(=) :: apidb \<Rightarrow> apidb \<Rightarrow> bool"
  by unfold_locales simp_all

lemma keeps_or_reply:
  "keeps (on_db (=)) m \<Longrightarrow> (\<And>x. keeps (on_db (=)) (k x)) \<Longrightarrow> keeps (on_db (=)) (or_reply m answer k)" for m :: "'a api"
  unfolding or_reply_def by (intro still.world.keeps_combinators) auto

lemma ready_still:
  assumes "case Health s of None \<Rightarrow> True | Some check \<Rightarrow> keeps (on_db (=)) check"
  shows "keeps (on_db (=)) (ready s r)"
proof -
  have "keeps (on_db (=)) (case Health s of None \<Rightarrow> ret () | Some check \<Rightarrow> check)"
    using assms by (auto split: option.splits intro: still.world.keeps_combinators)
  then show ?thesis unfolding ready_def
    by (intro keeps_or_reply still.world.keeps_bnd still.world.keeps_attempt still.world.keeps_ret still.world.keeps_if still.keeps_database)
qed

text \<open>
  An API call whose session is missing, dead or not admitted gets an answer that does not depend on the handlers, and
  leaves the database as it is.
\<close>

lemma authenticated_shut:
  assumes "\<And>tok x u. map_of (r_cookie r) ''identitymesh_session'' = Some tok \<Longrightarrow> se_token x = Sum256 tok \<Longrightarrow>
      live_session (now_of w) (db w) x u \<Longrightarrow> \<not> admitted s r (session_of (db w) x u)"
  shows "authenticated (csrf s (api s h r) r) r w = authenticated (csrf s (api s h' r) r) r w \<and>
    db (snd (authenticated (csrf s (api s h r) r) r w)) = db w"
proof (cases "map_of (r_cookie r) ''identitymesh_session''")
  case None
  then show ?thesis by (simp add: authenticated_def ret_def)
next
  case (Some tok)
  obtain res w1 where q: "SessionByToken tok w = (res, w1)" by fastforce
  show ?thesis
  proof (cases res)
    case (Inl e)
    with Some q SessionByToken_result(1) [OF q] show ?thesis
      by (simp add: authenticated_def or_reply_def bnd_def attempt_def ret_def)
  next
    case (Inr session)
    with assms Some SessionByToken_result(2) [OF q, of session] have "\<not> admitted s r session" by blast
    from not_admitted [OF this, of h h'] obtain a where
      "csrf s (api s h r) r session = ret a" "csrf s (api s h' r) r session = ret a" by metis
    with Some q Inr SessionByToken_result(1) [OF q] show ?thesis
      by (simp add: authenticated_def or_reply_def bnd_def attempt_def ret_def)
  qed
qed

text \<open>The request as the handlers see it differs from the one that arrived in its id only.\<close>

lemma admitted_reqid [simp]: "admitted s (r\<lparr>r_reqid := i\<rparr>) session = admitted s r session"
  by (simp add: admitted_def safe_method_def csrf_valid_def foreign_origin_def)

lemma mux_shut:
  assumes "case Health s of None \<Rightarrow> True | Some check \<Rightarrow> keeps (on_db (=)) check"
    and "\<And>tok x u. map_of (r_cookie r) ''identitymesh_session'' = Some tok \<Longrightarrow> se_token x = Sum256 tok \<Longrightarrow>
      live_session (now_of w) (db w) x u \<Longrightarrow> \<not> admitted s r (session_of (db w) x u)"
  shows "mux s h escaped r w = mux s h' escaped r w \<and>
    (mux_target (r_method r) escaped \<noteq> Login \<longrightarrow> db (snd (mux s h escaped r w)) = db w)"
  using authenticated_shut [of r w s, OF assms(2)] ready_still [OF assms(1), of r]
  unfolding mux_def by (cases "mux_target (r_method r) escaped") (auto simp: ret_def keeps_def on_db_def)

text \<open>
  C4: nothing behind the API is reached without a session, its permission and the CSRF check. If a request changes
  the database (other than by logging in), or if its answer depends on what a handler does, then its cookie holds
  the token of a session that is neither revoked nor expired, of a user of the same organization who is not
  disabled, whose roles have the permission of the route that the request names; and unless the method is
  safe the request carries the CSRF token of that session and no foreign origin. The health check of the secret store
  is assumed not to change the database.
\<close>

theorem api_gate:
  assumes "case Health s of None \<Rightarrow> True | Some check \<Rightarrow> keeps (on_db (=)) check" and "txnow w = None"
    and "mux_target (r_method r) escaped \<noteq> Login \<and> db (snd (serve s h escaped r w)) \<noteq> db w \<or>
      serve s h escaped r w \<noteq> serve s h' escaped r w"
  shows "\<exists>tok x u n. map_of (r_cookie r) ''identitymesh_session'' = Some tok \<and> se_token x = Sum256 tok \<and>
    live_session (clock w n) (db w) x u \<and>
    (\<exists>rt. route_of (r_method r) (TrimPrefix (r_path r) ''/api/v1'') = Some rt \<and>
      (case permission_of rt of None \<Rightarrow> True | Some p \<Rightarrow> Allowed (SessionRoles (session_of (db w) x u)) p)) \<and>
    (safe_method r \<or> csrf_valid (session_of (db w) x u) r \<and> \<not> foreign_origin s r)"
proof (rule ccontr)
  assume "\<not> ?thesis"
  then have none: "\<not> admitted s r (session_of (db w) x u)"
    if "map_of (r_cookie r) ''identitymesh_session'' = Some tok" "se_token x = Sum256 tok" "live_session (clock w n) (db w) x u"
    for tok x u n using that unfolding admitted_def by blast
  obtain reqID w1 where id: "(if uuidParse s (header_get ''X-Request-ID'' (r_header r))
      then ret (header_get ''X-Request-ID'' (r_header r)) else new_uuid) w = (Inr reqID, w1)"
    and w1: "db w1 = db w" "now_of w1 = clock w (ticks w1)"
    using assms(2) by (cases "uuidParse s (header_get ''X-Request-ID'' (r_header r))")
      (auto simp: ret_def new_uuid_def now_of_def)
  let ?r = "r\<lparr>r_reqid := reqID\<rparr>"
  have shut: "mux s h escaped ?r w1 = mux s h' escaped ?r w1 \<and>
      (mux_target (r_method r) escaped \<noteq> Login \<longrightarrow> db (snd (mux s h escaped ?r w1)) = db w1)"
  proof (rule mux_shut [OF assms(1), of ?r w1 h escaped h', simplified])
    fix tok x u
    assume "map_of (r_cookie r) ''identitymesh_session'' = Some tok" "se_token x = Sum256 tok" "live_session (now_of w1) (db w1) x u"
    then show "\<not> admitted s r (session_of (db w1) x u)" unfolding w1 by (rule none)
  qed
  have run: "serve s g escaped r w = bnd (if r_method r = ''OPTIONS'' then ret (noContent 204) else mux s g escaped ?r)
      (\<lambda>a. ret (a\<lparr>a_header := security_headers s r reqID @ a_header a\<rparr>)) w1" for g
    unfolding serve_def Let_def using id by (simp add: bnd_def)
  have same: "db (snd (bnd m (\<lambda>a. ret (g a)) w1)) = db (snd (m w1))" for m :: "reply api" and g :: "reply \<Rightarrow> reply"
    by (simp add: bnd_def ret_def split: prod.split sum.split)
  show False using assms(3) shut w1(1) unfolding run same
    by (cases "r_method r = ''OPTIONS''") (auto simp: bnd_def ret_def)
qed

lemma header_names_differ: "\<not> EqualFold ''X-CSRF-Token'' ''Origin''" "\<not> EqualFold ''X-CSRF-Token'' ''X-Request-ID''"
  by code_simp+

theorem api_gate_witness:
  "\<exists>tok x u n. map_of (r_cookie (sample_request ''POST'' ''/api/v1/auth/logout'' JNull)) ''identitymesh_session'' = Some tok \<and>
     se_token x = Sum256 tok \<and> live_session (clock sample_apiworld n) (db sample_apiworld) x u"
proof -
  let ?r = "sample_request ''POST'' ''/api/v1/auth/logout'' JNull"
  have "serve sample_server (\<lambda>_ _ _. ret (noContent 200)) ''/api/v1/auth/logout'' ?r sample_apiworld \<noteq>
      serve sample_server (\<lambda>_ _ _. ret (noContent 201)) ''/api/v1/auth/logout'' ?r sample_apiworld"
    by (simp add: serve_def mux_def mux_target_def is_clean_def clean_segments_def segments_def sample_api_defs Let_def new_uuid_def bnd_def
      header_get_def authenticated_def or_reply_def attempt_def SessionByToken_def exec_def sql_session_by_token_def session_user_def
      now_of_def csrf_def safe_method_def csrf_valid_def session_of_def foreign_origin_def api_def route_of_def api_routes_def limited_def rate_of_def
      ret_def noContent_def TrimPrefix_def HasPrefix_def header_names_differ)
  moreover have "case Health sample_server of None \<Rightarrow> True | Some check \<Rightarrow> keeps (on_db (=)) check" "txnow sample_apiworld = None"
    by (simp_all add: sample_server_def sample_apiworld_def)
  ultimately show ?thesis by (blast dest: api_gate [OF _ _ disjI2])
qed

end
