(* ===== verification/ApiLogin.thy ===== *)
theory ApiLogin
  imports ApiGate
begin

text \<open>
  The life of a session: what a login asks for before it opens one, and what ends it. The changes of a password and
  the logout are read from the tables they leave.
\<close>

section \<open>Steps that change nothing\<close>

definition calm :: "apidb networld \<Rightarrow> apidb networld \<Rightarrow> bool" where
  "calm w w' \<longleftrightarrow> db w' = db w \<and> clock w' = clock w"

interpretation calm: state_frame calm
  by unfold_locales (auto simp: calm_def)

lemma calm_tick [simp]: "calm w (w'\<lparr>ticks := n\<rparr>) \<longleftrightarrow> calm w w'"
  by (simp add: calm_def)

lemma calm_trans: "calm w w1 \<Longrightarrow> calm w1 w2 \<Longrightarrow> calm w w2"
  by (simp add: calm_def)

lemma wp_or_reply: "wp (or_reply m answer k) Q E w = wp m (\<lambda>x. wp (k x) Q E) (\<lambda>e. Q (answer e)) w"
  by (simp add: or_reply_def wp_bnd wp_attempt wp_ret [abs_def])

lemma wp_random_read: "wp (random_read s n) Q E w = Q (randomBytes s (ticks w) n) (w\<lparr>ticks := Suc (ticks w)\<rparr>)"
  by (simp add: wp_def random_read_def)

lemmas wp_api = wp_or_reply wp_time_now wp_new_uuid wp_random_read wp_simps

section \<open>Login\<close>

definition password_ok :: "argon2 \<Rightarrow> string \<Rightarrow> string \<Rightarrow> apidb \<Rightarrow> user_row \<Rightarrow> bool" where
  "password_ok IDKey email password d u \<longleftrightarrow> u \<in> set (users d) \<and> ToLower (us_email u) = ToLower email \<and> \<not> us_disabled u \<and>
     VerifyPassword IDKey (us_password u) password"

lemma find_login_user: "find_login email d = Some u \<Longrightarrow> u \<in> set (users d) \<and> ToLower (us_email u) = ToLower email \<and> \<not> us_disabled u"
  by (auto simp: find_login_def find_Some_iff)

lemma wp_Authenticate:
  "wp (Authenticate IDKey email password)
     (\<lambda>x w1. calm w w1 \<and> (\<exists>u. password_ok IDKey email password (db w) u \<and> SessionOrg x = us_org u \<and> SessionUser x = us_id u \<and>
        SessionRoles x = role_names (us_org u) (us_id u) (db w)))
     (\<lambda>_ w1. calm w w1) w"
  unfolding Authenticate_def wp_simps
  by (rule wp_query_row)
    (auto simp: wp_simps calm_def password_ok_def dest!: find_login_user intro!: wp_query_rows exI)

definition totp_shown :: "Server \<Rightarrow> string \<Rightarrow> (nat \<Rightarrow> tstamp) \<Rightarrow> string option \<Rightarrow> bool" where
  "totp_shown s code at cipher \<longleftrightarrow> (\<exists>c secret n w1 w2. cipher = Some c \<and> Decrypt s c w1 = (Inr secret, w2) \<and>
     VerifyTOTP secret code (at n))"

lemma wp_second_factor:
  assumes "\<And>c. keeps calm (Decrypt s c)"
  shows "wp (second_factor s r enabled cipher code)
     (\<lambda>stop w1. calm w w1 \<and> (stop = None \<longrightarrow> enabled \<longrightarrow> totp_shown s code (clock w) cipher)) (\<lambda>_ _. False) w"
proof (cases "\<not> enabled \<or> cipher = None")
  case True
  then show ?thesis by (auto simp: second_factor_def wp_simps calm_def)
next
  case False
  then obtain c where c: "enabled" "cipher = Some c" by auto
  obtain res w1 where dec: "Decrypt s c w = (res, w1)" by fastforce
  from keepsD [OF assms this] have "calm w w1" .
  with c dec show ?thesis
    by (cases res)
      (auto simp: second_factor_def bnd_def attempt_def time_now_def ret_def wp_def calm_def totp_shown_def split: if_splits)
qed

definition opens :: "string \<Rightarrow> string \<Rightarrow> tstamp \<Rightarrow> apidb \<Rightarrow> apidb \<Rightarrow> bool" where
  "opens org user expires d d' \<longleftrightarrow> (\<exists>row. sessions d' = sessions d @ [row] \<and> se_org row = org \<and> se_user row = user \<and>
     se_revoked row = None \<and> se_expires row = expires)"

definition same_sessions :: "apidb \<Rightarrow> apidb \<Rightarrow> bool" where
  "same_sessions d d' \<longleftrightarrow> sessions d' = sessions d"

interpretation same_sessions: db_frame same_sessions
  by unfold_locales (simp_all add: same_sessions_def)

lemma Audit_same_sessions: "keeps (on_db same_sessions) (Audit s org user event rtype rid meta req)"
  unfolding Audit_def uuid_arg_def
  by (intro same_sessions.world.keeps_combinators same_sessions.keeps_exec)
    (auto simp: stmt_keeps_def stmt_on_def same_sessions_def put_core_def split: sum.splits)

lemma insert_session_opens:
  "sql_insert_session x tokenHash csrfHash now gen d = Inr (y, d') \<Longrightarrow>
     opens (SessionOrg x) (SessionUser x) (SessionExpires x) d d'"
  by (auto simp: sql_insert_session_def new_session_row_def opens_def split: if_splits)

lemma wp_CreateSession:
  "wp (CreateSession base tokenHash csrfHash expires) (\<lambda>_ w'. opens (SessionOrg base) (SessionUser base) expires (db w) (db w'))
     (\<lambda>_ w'. db w' = db w \<or> opens (SessionOrg base) (SessionUser base) expires (db w) (db w')) w"
  unfolding CreateSession_def wp_api Let_def
  by (rule wp_exec_db) (auto simp: wp_simps dest!: insert_session_opens)

lemma wp_open_session:
  "wp (open_session s r x)
     (\<lambda>_ w'. sessions (db w') = sessions (db w) \<or> (\<exists>n. opens (SessionOrg x) (SessionUser x) (clock w n + 8 * 3600 * Second) (db w) (db w')))
     (\<lambda>_ _. False) w"
proof -
  let ?G = "\<lambda>d. sessions d = sessions (db w) \<or> (\<exists>n. opens (SessionOrg x) (SessionUser x) (clock w n + 8 * 3600 * Second) (db w) d)"
  have audit: "wp (Audit s org user event rtype rid meta req) (\<lambda>_ w'. ?G (db w')) (\<lambda>_ w'. ?G (db w')) w1"
    if "?G (db w1)" for w1 org user event rtype rid meta req
    by (rule wp_carried [OF Audit_same_sessions]) (use that in \<open>auto simp: same_sessions_def opens_def\<close>)
  show ?thesis unfolding open_session_def randomToken_def wp_api
  proof (rule wp_mono [OF wp_CreateSession], goal_cases)
    case (1 y t)
    then have "?G (db t)" by auto
    from audit [OF this] show ?case by (simp add: wp_api)
  qed auto
qed

definition second_factor_shown :: "Server \<Rightarrow> string \<Rightarrow> apidb networld \<Rightarrow> user_row \<Rightarrow> bool" where
  "second_factor_shown s code w u \<longleftrightarrow>
     (us_mfa_enabled u \<longrightarrow> totp_shown s code (clock w) (us_mfa_secret u)) \<and>
     (RequirePrivilegedMFA s \<and> privilegedRoles (role_names (us_org u) (us_id u) (db w)) \<longrightarrow> us_mfa_enabled u)"

lemma find_user_of:
  assumes "distinct (map us_id (users d))" and "u \<in> set (users d)" and "find_user (us_org u) (us_id u) d = Some v"
  shows "v = u"
  using assms unfolding find_user_def find_Some_iff by (metis distinct_map inj_on_def nth_mem)

definition login_ok :: "Server \<Rightarrow> string \<Rightarrow> string \<Rightarrow> string \<Rightarrow> apidb networld \<Rightarrow> apidb \<Rightarrow> bool" where
  "login_ok s email password code w d' \<longleftrightarrow> sessions d' = sessions (db w) \<or>
     (\<exists>u n. password_ok (IDKeyOf s) email password (db w) u \<and> second_factor_shown s code w u \<and>
        opens (us_org u) (us_id u) (clock w n + 8 * 3600 * Second) (db w) d')"

lemma login_ok_calm: "calm w w' \<Longrightarrow> login_ok s email password code w (db w')"
  by (simp add: login_ok_def calm_def)

lemma wp_open_session_ok:
  assumes "calm w w2" and "password_ok (IDKeyOf s) email password (db w) u" and "second_factor_shown s code w u"
    and "SessionOrg x = us_org u" "SessionUser x = us_id u"
  shows "wp (open_session s r x) (\<lambda>_ w'. login_ok s email password code w (db w')) (\<lambda>_ _. False) w2"
proof (rule wp_mono [OF wp_open_session], goal_cases)
  case (1 a t)
  with assms(1,4,5) have "sessions (db t) = sessions (db w) \<or>
      (\<exists>n. opens (us_org u) (us_id u) (clock w n + 8 * 3600 * Second) (db w) (db t))"
    by (simp add: calm_def)
  with assms(2,3) show ?case by (auto simp: login_ok_def)
qed simp

text \<open>The part of the handler after the user's second factor is known.\<close>

lemma wp_factors:
  assumes dec: "\<And>c. keeps calm (Decrypt s c)" and w1: "calm w w1"
    and u: "password_ok (IDKeyOf s) email password (db w) u"
    and x: "SessionOrg x = us_org u" "SessionUser x = us_id u" "SessionRoles x = role_names (us_org u) (us_id u) (db w)"
    and need: "\<not> (RequirePrivilegedMFA s \<and> privilegedRoles (SessionRoles x) \<and> \<not> us_mfa_enabled u)"
  shows "wp (bnd (second_factor s r (us_mfa_enabled u) (us_mfa_secret u) code)
      (\<lambda>stop. case stop of Some answer \<Rightarrow> ret answer | None \<Rightarrow> open_session s r x))
    (\<lambda>_ w'. login_ok s email password code w (db w')) (\<lambda>_ _. False) w1"
  unfolding wp_bnd
proof (rule wp_mono [OF wp_second_factor [OF dec]], goal_cases)
  case (1 stop w2)
  with w1 have w2: "calm w w2" by (auto intro: calm_trans)
  show ?case
  proof (cases stop)
    case None
    with 1 need x w1 have "second_factor_shown s code w u" by (auto simp: second_factor_shown_def calm_def)
    from wp_open_session_ok [OF w2 u this x(1,2)] None show ?thesis by simp
  next
    case (Some a)
    with w2 show ?thesis by (simp add: wp_simps login_ok_calm)
  qed
qed simp

lemma wp_login:
  assumes dec: "\<And>c. keeps calm (Decrypt s c)" and ids: "distinct (map us_id (users (db w)))"
    and body: "decodeJSON (32 * 1024) [''Email'', ''Password'', ''TOTP''] decode_login r = Inr (email, password, code)"
  shows "wp (login s r) (\<lambda>_ w'. login_ok s email password code w (db w')) (\<lambda>_ _. False) w"
  unfolding login_def with_body_def body sum.case prod.case wp_or_reply
proof (rule wp_mono [OF wp_Authenticate], goal_cases)
  case (1 x w1)
  then obtain u where w1: "calm w w1" and u: "password_ok (IDKeyOf s) email password (db w) u" and
    x: "SessionOrg x = us_org u" "SessionUser x = us_id u" "SessionRoles x = role_names (us_org u) (us_id u) (db w)" by blast
  show ?case
  proof (rule wp_query_row, goal_cases)
    case (1 y)
    with w1 x u have y: "y = (us_mfa_enabled u, us_mfa_secret u)"
      by (auto simp: calm_def password_ok_def dest: find_user_of [OF ids])
    have "calm w (w1\<lparr>ticks := Suc (ticks w1)\<rparr>)" using w1 by simp
    from wp_factors [OF dec this u x, where r = r] login_ok_calm [OF this] show ?case
      by (simp add: y wp_if wp_ret)
  qed (use w1 in \<open>simp add: login_ok_calm\<close>)
qed (simp add: login_ok_calm)

text \<open>
  C5: a session is opened only after every factor was shown. If a login changes the sessions at all, then the body
  gave the email and the password of a user who is not disabled; when the user has enabled the second factor, the
  code was valid, at some instant of the login, for the secret that the store decrypted for the user; when the
  server demands the second factor of privileged roles and the user has such a role, the user has enabled it; and
  the change is one new session of that user, not revoked, that ends eight hours later. User ids are assumed
  unique (the primary key), and decryption is assumed not to write to the database or turn the clock.
\<close>

theorem login_needs_factors:
  assumes "\<And>c. keeps calm (Decrypt s c)" and "distinct (map us_id (users (db w)))"
    and "login s r w = (res, w')" and "sessions (db w') \<noteq> sessions (db w)"
  shows "\<exists>email password code u n.
    decodeJSON (32 * 1024) [''Email'', ''Password'', ''TOTP''] decode_login r = Inr (email, password, code) \<and>
    u \<in> set (users (db w)) \<and> ToLower (us_email u) = ToLower email \<and> \<not> us_disabled u \<and>
    VerifyPassword (IDKeyOf s) (us_password u) password \<and>
    (us_mfa_enabled u \<longrightarrow> (\<exists>c secret m w1 w2. us_mfa_secret u = Some c \<and> Decrypt s c w1 = (Inr secret, w2) \<and>
       VerifyTOTP secret code (clock w m))) \<and>
    (RequirePrivilegedMFA s \<and> privilegedRoles (role_names (us_org u) (us_id u) (db w)) \<longrightarrow> us_mfa_enabled u) \<and>
    opens (us_org u) (us_id u) (clock w n + 8 * 3600 * Second) (db w) (db w')"
proof (cases "decodeJSON (32 * 1024) [''Email'', ''Password'', ''TOTP''] decode_login r")
  case (Inl a)
  with assms(3,4) show ?thesis by (auto simp: login_def with_body_def ret_def)
next
  case (Inr triple)
  obtain email password code where t: "triple = (email, password, code)" by (metis prod_cases3)
  from wp_login [OF assms(1,2) Inr [unfolded t]] assms(3,4) obtain u n where
    "password_ok (IDKeyOf s) email password (db w) u" "second_factor_shown s code w u"
    "opens (us_org u) (us_id u) (clock w n + 8 * 3600 * Second) (db w) (db w')"
    by (auto simp: wp_def login_ok_def split: sum.splits)
  with Inr t show ?thesis unfolding password_ok_def second_factor_shown_def totp_shown_def by blast
qed

section \<open>The end of sessions\<close>

definition password_changed :: "string \<Rightarrow> string \<Rightarrow> string \<Rightarrow> tstamp \<Rightarrow> apidb \<Rightarrow> apidb" where
  "password_changed org user hash t d = d\<lparr>
     users := update_where (\<lambda>u. us_org u = org \<and> us_id u = user) (\<lambda>u. u\<lparr>us_password := hash, us_updated := t\<rparr>) (users d),
     sessions := update_where (\<lambda>x. se_org x = org \<and> se_user x = user) (\<lambda>x. x\<lparr>se_revoked := Some t\<rparr>) (sessions d)\<rparr>"

text \<open>The transaction of \<open>ChangePassword\<close>: both updates or none, at the time of its start.\<close>

lemma wp_password_tx:
  "wp (tx (bnd (exec (sql_set_password hash org user)) (\<lambda>_. exec (sql_revoke_sessions org user))))
     (\<lambda>_ w'. \<exists>t. db w' = password_changed org user hash t (db w))
     (\<lambda>_ w'. db w' = db w \<or> (\<exists>t. db w' = password_changed org user hash t (db w))) w"
proof (rule wp_tx)
  let ?w = "w\<lparr>ticks := Suc (ticks w), txnow := Some (clock w (ticks w))\<rparr>"
  define Q where "Q = (\<lambda>d. \<exists>t. d = password_changed org user hash t (db w))"
  have "wp (bnd (exec (sql_set_password hash org user)) (\<lambda>_. exec (sql_revoke_sessions org user))) (\<lambda>_ t. Q (db t)) (\<lambda>_ _. True) ?w"
    unfolding wp_bnd sql_set_password_def
  proof (rule wp_exec; (intro conjI allI TrueI)?)
    fix x d assume "upd (\<lambda>now gen d. ((), d\<lparr>users := update_where (\<lambda>u. us_org u = org \<and> us_id u = user)
       (\<lambda>u. u\<lparr>us_password := hash, us_updated := now\<rparr>) (users d)\<rparr>)) (now_of ?w) (fresh ?w (ticks ?w)) (db ?w) = Inr (x, d)"
    then have d: "d = (db w)\<lparr>users := update_where (\<lambda>u. us_org u = org \<and> us_id u = user)
       (\<lambda>u. u\<lparr>us_password := hash, us_updated := clock w (ticks w)\<rparr>) (users (db w))\<rparr>"
      by (simp add: upd_def now_of_def)
    show "wp (exec (sql_revoke_sessions org user)) (\<lambda>_ t. Q (db t)) (\<lambda>_ _. True) (?w\<lparr>ticks := Suc (ticks ?w), db := d\<rparr>)"
      by (rule wp_exec) (auto simp: Q_def sql_revoke_sessions_def upd_def now_of_def password_changed_def d)
  qed
  then show "wp (bnd (exec (sql_set_password hash org user)) (\<lambda>_. exec (sql_revoke_sessions org user)))
      (\<lambda>x t. (\<exists>u. db (t\<lparr>ticks := Suc (ticks t), txnow := None\<rparr>) = password_changed org user hash u (db w)) \<and>
        (\<forall>e. db (t\<lparr>ticks := Suc (ticks t), txnow := None\<rparr>) = db w \<or>
           (\<exists>u. db (t\<lparr>ticks := Suc (ticks t), txnow := None\<rparr>) = password_changed org user hash u (db w)))) (\<lambda>_ _. True) ?w"
    by (rule wp_mono) (auto simp: Q_def)
qed simp

lemma revoked_not_live:
  assumes "SessionByToken tok v = (Inr session, v')" and "db v = password_changed org user hash t d"
  shows "\<not> (SessionOrg session = org \<and> SessionUser session = user)"
proof -
  from SessionByToken_result(2) [OF assms(1), of session] obtain x u where
    live: "live_session (now_of v) (db v) x u" and session: "session = session_of (db v) x u" by auto
  from live have none: "se_revoked x = None"
    and x: "x \<in> set (update_where (\<lambda>x. se_org x = org \<and> se_user x = user) (\<lambda>x. x\<lparr>se_revoked := Some t\<rparr>) (sessions d))"
    by (simp_all add: live_session_def assms(2) password_changed_def)
  from x show ?thesis
    by (cases rule: update_whereE) (use none in \<open>auto simp: session session_of_def\<close>)
qed

text \<open>
  C15: a changed password ends every session of its user. \<open>ChangePassword\<close> either changes nothing and reports an
  error, or: the current password was the right one, the new one is stored under a fresh salt, exactly the user's
  row and sessions change, and from then on no token whatsoever opens a session of that user.
\<close>

theorem password_change_ends_sessions:
  assumes "ChangePassword s org user current new w = (res, w')"
  shows "isl res \<and> db w' = db w \<or>
    (\<exists>u salt hash t. find_user org user (db w) = Some u \<and> VerifyPassword (IDKeyOf s) (us_password u) current \<and>
       HashPassword (IDKeyOf s) salt new = Inr hash \<and> db w' = password_changed org user hash t (db w)) \<and>
    (\<forall>tok v session v'. db v = db w' \<longrightarrow> SessionByToken tok v = (Inr session, v') \<longrightarrow>
       \<not> (SessionOrg session = org \<and> SessionUser session = user))"
proof -
  define C where "C = (\<lambda>d. \<exists>u salt hash t. find_user org user (db w) = Some u \<and> VerifyPassword (IDKeyOf s) (us_password u) current \<and>
       HashPassword (IDKeyOf s) salt new = Inr hash \<and> d = password_changed org user hash t (db w))"
  have "wp (ChangePassword s org user current new) (\<lambda>_ w'. C (db w')) (\<lambda>_ w'. db w' = db w \<or> C (db w')) w"
    unfolding ChangePassword_def wp_bnd
  proof (rule wp_query_row, goal_cases)
    case (1 h)
    then obtain u where u: "find_user org user (db w) = Some u" "us_password u = h" by auto
    show ?case
    proof (cases "VerifyPassword (IDKeyOf s) h current")
      case True
      have step: "wp (tx (bnd (exec (sql_set_password hash org user)) (\<lambda>_. exec (sql_revoke_sessions org user))))
          (\<lambda>_ w'. C (db w')) (\<lambda>_ w'. db w' = db w \<or> C (db w')) (w\<lparr>ticks := n\<rparr>)"
        if "HashPassword (IDKeyOf s) salt new = Inr hash" for salt hash n
        by (rule wp_mono [OF wp_password_tx]) (use u True that in \<open>auto simp: C_def\<close>)
      from True show ?thesis
        by (cases "HashPassword (IDKeyOf s) (randomBytes s (Suc (ticks w)) 16) new")
          (simp_all add: wp_if wp_bnd wp_random_read wp_liftE step)
    qed (simp add: wp_if wp_fail)
  qed simp
  with assms have "isl res \<and> db w' = db w \<or> C (db w')" by (auto simp: wp_def split: sum.splits)
  then show ?thesis unfolding C_def by (metis revoked_not_live)
qed

section \<open>On the sample server\<close>

definition sample_login :: http_in where
  "sample_login = sample_request ''POST'' ''/api/v1/auth/login''
     (JObj [(''email'', JStr ''ana@example.org''), (''password'', JStr ''correct horse'')])"

lemma login_fields: "EqualFold ''email'' ''Email''" "EqualFold ''password'' ''Password''" "\<not> EqualFold ''email'' ''Password''"
  "\<not> EqualFold ''email'' ''TOTP''" "\<not> EqualFold ''password'' ''Email''" "\<not> EqualFold ''password'' ''TOTP''"
  by code_simp+

lemma sample_login_body:
  "decodeJSON (32 * 1024) [''Email'', ''Password'', ''TOTP''] decode_login sample_login = Inr (''ana@example.org'', ''correct horse'', [])"
  by (simp add: decodeJSON_def sample_login_def sample_request_def known_keys_def object_fields_def decode_login_def decode_field_def
    as_string_def login_fields)

lemma sample_roles: "\<not> privilegedRoles [''VIEWER'']"
  by (simp add: privilegedRoles_def)

definition sample_logged_out :: "apidb networld" where
  "sample_logged_out = sample_apiworld\<lparr>db := sample_apidb\<lparr>sessions := []\<rparr>\<rparr>"

lemma sample_login_opens: "length (sessions (db (snd (login sample_server sample_login sample_logged_out)))) = 1"
  using sample_password unfolding login_def with_body_def sample_login_body sum.case prod.case
  by (simp add: or_reply_def Authenticate_def bnd_def attempt_def query_row_def
    exec_def find_login_def find_user_def query_rows_def role_names_def Let_def ret_def second_factor_def sample_roles open_session_def
    randomToken_def random_read_def time_now_def CreateSession_def new_uuid_def sql_insert_session_def new_session_row_def ignore_def
    Audit_def uuid_arg_def stmt_on_def sql_audit_def upd_def put_core_def empty_store_def now_of_def sample_logged_out_def sample_api_defs del: b64_encode.simps)

theorem login_needs_factors_witness:
  "\<exists>u n. u \<in> set (users (db sample_logged_out)) \<and> VerifyPassword sample_idkey (us_password u) ''correct horse'' \<and>
     opens (us_org u) (us_id u) (clock sample_logged_out n + 8 * 3600 * Second) (db sample_logged_out)
       (db (snd (login sample_server sample_login sample_logged_out)))"
proof -
  have dec: "keeps calm (Decrypt sample_server c)" for c by (simp add: sample_server_def calm.keeps_ret)
  have ids: "distinct (map us_id (users (db sample_logged_out)))" by (simp add: sample_logged_out_def sample_apidb_def)
  have same: "IDKeyOf sample_server = sample_idkey" by (simp add: sample_server_def)
  obtain res w' where run: "login sample_server sample_login sample_logged_out = (res, w')" by fastforce
  have "sessions (db w') \<noteq> sessions (db sample_logged_out)"
    using sample_login_opens run by (auto simp: sample_logged_out_def)
  from login_needs_factors [OF dec ids run this] run show ?thesis
    unfolding sample_login_body by (auto simp: same)
qed

theorem password_change_ends_sessions_witness:
  "\<exists>(u :: user_row) salt hash t. VerifyPassword sample_idkey (us_password u) ''correct horse'' \<and>
     HashPassword sample_idkey salt ''battery staple'' = Inr hash \<and>
     db (snd (ChangePassword sample_server ''org-1'' ''user-1'' ''correct horse'' ''battery staple'' sample_apiworld)) =
       password_changed ''org-1'' ''user-1'' hash t sample_apidb"
proof -
  obtain res w' where run: "ChangePassword sample_server ''org-1'' ''user-1'' ''correct horse'' ''battery staple'' sample_apiworld = (res, w')"
    by fastforce
  have "\<not> isl (fst (ChangePassword sample_server ''org-1'' ''user-1'' ''correct horse'' ''battery staple'' sample_apiworld))"
    using sample_password
    by (simp add: ChangePassword_def bnd_def query_row_def exec_def find_user_def Let_def random_read_def liftE_def HashPassword_def tx_def
      sql_set_password_def sql_revoke_sessions_def upd_def ret_def sample_api_defs)
  with run have ok: "\<not> isl res" by simp
  have same: "IDKeyOf sample_server = sample_idkey" "db sample_apiworld = sample_apidb"
    by (simp_all add: sample_server_def sample_apiworld_def)
  from password_change_ends_sessions [OF run] ok have "\<exists>u salt hash t. find_user ''org-1'' ''user-1'' sample_apidb = Some u \<and>
      VerifyPassword sample_idkey (us_password u) ''correct horse'' \<and> HashPassword sample_idkey salt ''battery staple'' = Inr hash \<and>
      db w' = password_changed ''org-1'' ''user-1'' hash t sample_apidb" unfolding same by (elim disjE conjE) simp_all
  then show ?thesis unfolding run snd_conv by (elim exE conjE) (intro exI conjI, assumption+)
qed

end
