(* ===== verification/ApiTenant.thy ===== *)
theory ApiTenant
  imports ApiServer
begin

text \<open>
  What a session can read: the answers of all reading handlers are a function of the rows of the session's own
  organization. Two databases that agree on these rows can not be told apart, whatever other tenants store.
\<close>

section \<open>Computations that cannot tell two databases apart\<close>

text \<open>
  The computation gives the same result on related databases, uses the world in the same way, and leaves related
  databases behind.
\<close>

definition confined :: "('d \<Rightarrow> 'd \<Rightarrow> bool) \<Rightarrow> ('d networld, 'a) comp \<Rightarrow> bool" where
  "confined R m \<longleftrightarrow> (\<forall>w d'. R (db w) d' \<longrightarrow>
     (\<exists>d''. m (w\<lparr>db := d'\<rparr>) = (fst (m w), (snd (m w))\<lparr>db := d''\<rparr>) \<and> R (db (snd (m w))) d''))"

lemma confinedI:
  assumes "\<And>w d'. R (db w) d' \<Longrightarrow> \<exists>d''. m (w\<lparr>db := d'\<rparr>) = (fst (m w), (snd (m w))\<lparr>db := d''\<rparr>) \<and> R (db (snd (m w))) d''"
  shows "confined R m"
  using assms unfolding confined_def by blast

lemma confinedE:
  assumes "confined R m" and "R (db w) d'"
  obtains d'' where "m (w\<lparr>db := d'\<rparr>) = (fst (m w), (snd (m w))\<lparr>db := d''\<rparr>)" "R (db (snd (m w))) d''"
  using assms unfolding confined_def by blast

lemma confined_ret: "confined R (ret x)"
  by (auto simp: confined_def ret_def)

lemma confined_fail: "confined R (fail e)"
  by (auto simp: confined_def fail_def)

lemma confined_bnd:
  fixes R :: "'d \<Rightarrow> 'd \<Rightarrow> bool"
  assumes "confined R m" and "\<And>x. confined R (k x)"
  shows "confined R (bnd m k)"
proof (rule confinedI)
  fix w :: "'d networld" and d' assume "R (db w) d'"
  with assms(1) obtain e where m: "m (w\<lparr>db := d'\<rparr>) = (fst (m w), (snd (m w))\<lparr>db := e\<rparr>)" "R (db (snd (m w))) e"
    by (rule confinedE)
  obtain res t where mw: "m w = (res, t)" by fastforce
  show "\<exists>d''. bnd m k (w\<lparr>db := d'\<rparr>) = (fst (bnd m k w), (snd (bnd m k w))\<lparr>db := d''\<rparr>) \<and> R (db (snd (bnd m k w))) d''"
  proof (cases res)
    case (Inl err)
    with m mw show ?thesis by (auto simp: bnd_def)
  next
    case (Inr x)
    from m mw have "R (db t) e" by simp
    with assms(2) [of x] obtain e' where "k x (t\<lparr>db := e\<rparr>) = (fst (k x t), (snd (k x t))\<lparr>db := e'\<rparr>)" "R (db (snd (k x t))) e'"
      by (rule confinedE)
    with m mw Inr show ?thesis by (auto simp: bnd_def)
  qed
qed

lemma confined_attempt: "confined R m \<Longrightarrow> confined R (attempt m)"
  by (rule confinedI) (auto simp: attempt_def split: prod.split elim!: confinedE)

lemma confined_if: "(b \<Longrightarrow> confined R m) \<Longrightarrow> (\<not> b \<Longrightarrow> confined R n) \<Longrightarrow> confined R (if b then m else n)"
  by simp

lemma confined_option: "confined R m \<Longrightarrow> (\<And>y. confined R (f y)) \<Longrightarrow> confined R (case_option m f x)"
  by (cases x) simp_all

lemma confined_sum: "(\<And>y. confined R (f y)) \<Longrightarrow> (\<And>y. confined R (g y)) \<Longrightarrow> confined R (case_sum f g x)"
  by (cases x) simp_all

lemma confined_prod: "(\<And>a b. confined R (f a b)) \<Longrightarrow> confined R (case_prod f x)"
  by (cases x) simp

lemma confined_or_reply: "confined R m \<Longrightarrow> (\<And>x. confined R (k x)) \<Longrightarrow> confined R (or_reply m answer k)"
  unfolding or_reply_def by (intro confined_bnd confined_attempt confined_sum confined_ret)

lemma now_of_db: "now_of (w\<lparr>db := d\<rparr>) = now_of w"
  by (simp add: now_of_def split: option.split)

lemma confined_at: "(\<And>t. confined R (f t)) \<Longrightarrow> confined R (\<lambda>w. f (now_of w) w)"
  unfolding confined_def now_of_db by blast

text \<open>A query that selects the same rows on related databases, and a statement that changes them alike.\<close>

definition sees_same :: "('d \<Rightarrow> 'd \<Rightarrow> bool) \<Rightarrow> ('d \<Rightarrow> 'a) \<Rightarrow> bool" where
  "sees_same R q \<longleftrightarrow> (\<forall>d d'. R d d' \<longrightarrow> q d' = q d)"

lemma tick_db: "w\<lparr>db := d, ticks := n\<rparr> = w\<lparr>ticks := n, db := d\<rparr>"
  by simp

lemma confined_query_rows: "sees_same R q \<Longrightarrow> confined R (query_rows q)"
  by (rule confinedI) (auto simp: sees_same_def query_rows_def Let_def tick_db split: fault.split)

lemma confined_exec:
  fixes R :: "'d \<Rightarrow> 'd \<Rightarrow> bool"
  assumes "\<And>now gen d d'. R d d' \<Longrightarrow>
    (case st now gen d of Inl e \<Rightarrow> st now gen d' = Inl e | Inr (x, e) \<Rightarrow> (\<exists>e'. st now gen d' = Inr (x, e') \<and> R e e'))"
  shows "confined R (exec st)"
proof (rule confinedI)
  fix w :: "'d networld" and d' assume R: "R (db w) d'"
  show "\<exists>d''. exec st (w\<lparr>db := d'\<rparr>) = (fst (exec st w), (snd (exec st w))\<lparr>db := d''\<rparr>) \<and> R (db (snd (exec st w))) d''"
    using assms [OF R, of "now_of w" "fresh w (ticks w)"] R
    by (cases "st (now_of w) (fresh w (ticks w)) (db w)")
      (auto simp: exec_def now_of_db Let_def tick_db split: fault.split)
qed

lemma confined_query_row: "sees_same R q \<Longrightarrow> confined R (query_row q)"
  unfolding query_row_def by (rule confined_exec) (auto simp: sees_same_def split: option.split)

lemma confined_uuid_arg: "confined R m \<Longrightarrow> confined R (uuid_arg s v m)"
  by (simp add: uuid_arg_def confined_fail)

lemma confined_rows_of: "sees_same R q \<Longrightarrow> confined R (rows_of q)"
  unfolding rows_of_def by (intro confined_bnd confined_query_rows confined_prod confined_ret)

lemma confined_all_rows: "sees_same R q \<Longrightarrow> confined R (all_rows q)"
  unfolding all_rows_def by (intro confined_bnd confined_query_rows confined_prod confined_option confined_ret confined_fail)

lemma confined_queryMaps: "sees_same R q \<Longrightarrow> confined R (queryMaps ks q)"
  unfolding queryMaps_def by (intro confined_bnd confined_all_rows confined_ret)

lemma confined_list_rows: "confined R rows \<Longrightarrow> confined R (list_rows r ks rows)"
  unfolding list_rows_def by (intro confined_or_reply confined_ret)

text \<open>A computation on a part of the database.\<close>

lemma confined_zoom:
  fixes R :: "'d \<Rightarrow> 'd \<Rightarrow> bool"
  assumes m: "confined Q m" and part: "\<And>d d'. R d d' \<Longrightarrow> Q (get d) (get d')"
    and whole: "\<And>d d' c c'. R d d' \<Longrightarrow> Q c c' \<Longrightarrow> R (put c d) (put c' d')"
  shows "confined R (zoom get put m)"
proof (rule confinedI)
  fix w :: "'d networld" and d' assume R: "R (db w) d'"
  obtain res t where mw: "m (with_db (get (db w)) w) = (res, t)" by fastforce
  have "Q (db (with_db (get (db w)) w)) (get d')" using part [OF R] by (simp add: with_db_def)
  with m obtain c where c: "m ((with_db (get (db w)) w)\<lparr>db := get d'\<rparr>) = (res, t\<lparr>db := c\<rparr>)" "Q (db t) c"
    by (rule confinedE) (simp add: mw)
  have "(with_db (get (db w)) w)\<lparr>db := get d'\<rparr> = with_db (get d') (w\<lparr>db := d'\<rparr>)" by (simp add: with_db_def)
  with c whole [OF R c(2)] mw show "\<exists>d''. zoom get put m (w\<lparr>db := d'\<rparr>) = (fst (zoom get put m w), (snd (zoom get put m w))\<lparr>db := d''\<rparr>) \<and>
      R (db (snd (zoom get put m w))) d''"
    by (intro exI [of _ "put c d'"]) (simp add: zoom_def with_db_def)
qed

lemmas confined_intros = confined_ret confined_fail confined_bnd confined_attempt confined_or_reply confined_if confined_option
  confined_sum confined_prod confined_query_rows confined_query_row confined_uuid_arg confined_rows_of confined_all_rows confined_queryMaps
  confined_list_rows

section \<open>The rows of an organization\<close>

definition same_core :: "string \<Rightarrow> store \<Rightarrow> store \<Rightarrow> bool" where
  "same_core org c c' \<longleftrightarrow>
     org_connectors org c' = org_connectors org c \<and> filter (\<lambda>k. cc_org k = org) (credentials c') = filter (\<lambda>k. cc_org k = org) (credentials c) \<and>
     org_people org c' = org_people org c \<and> org_accounts org c' = org_accounts org c \<and> org_links org c' = org_links org c \<and>
     filter (\<lambda>k. k_org k = org) (candidates c') = filter (\<lambda>k. k_org k = org) (candidates c) \<and>
     org_entitlements org c' = org_entitlements org c \<and> org_grants org c' = org_grants org c \<and>
     filter (\<lambda>y. y_org y = org) (syncs c') = filter (\<lambda>y. y_org y = org) (syncs c) \<and>
     filter (\<lambda>x. r_org x = org) (runs c') = filter (\<lambda>x. r_org x = org) (runs c) \<and>
     org_findings org c' = org_findings org c \<and> org_cases org c' = org_cases org c \<and>
     filter (\<lambda>r. la_org r = org) (actions c') = filter (\<lambda>r. la_org r = org) (actions c) \<and>
     org_events org c' = org_events org c \<and>
     filter (\<lambda>v. vs_org v = org) (snapshots c') = filter (\<lambda>v. vs_org v = org) (snapshots c) \<and>
     org_evidence org c' = org_evidence org c \<and> org_campaigns org c' = org_campaigns org c \<and> org_items org c' = org_items org c \<and>
     filter (\<lambda>x. ad_org x = org) (decisions c') = filter (\<lambda>x. ad_org x = org) (decisions c) \<and>
     filter (\<lambda>x. au_org x = org) (audit c') = filter (\<lambda>x. au_org x = org) (audit c)"

text \<open>The roles are those of the installation; everything else belongs to an organization.\<close>

definition same_rows :: "string \<Rightarrow> apidb \<Rightarrow> apidb \<Rightarrow> bool" where
  "same_rows org d d' \<longleftrightarrow> same_core org (core d) (core d') \<and> roles d' = roles d \<and>
     filter (\<lambda>g. og_id g = org) (organizations d') = filter (\<lambda>g. og_id g = org) (organizations d) \<and>
     org_users org d' = org_users org d \<and>
     filter (\<lambda>x. ur_org x = org) (user_roles d') = filter (\<lambda>x. ur_org x = org) (user_roles d) \<and>
     filter (\<lambda>x. se_org x = org) (sessions d') = filter (\<lambda>x. se_org x = org) (sessions d) \<and>
     filter (\<lambda>x. os_org x = org) (settings d') = filter (\<lambda>x. os_org x = org) (settings d) \<and>
     filter (\<lambda>p. ap_org p = org) (applications d') = filter (\<lambda>p. ap_org p = org) (applications d) \<and>
     filter (\<lambda>x. rp_org x = org) (reports d') = filter (\<lambda>x. rp_org x = org) (reports d)"

text \<open>Queries that name the organization together with another condition.\<close>

lemma find_head: "List.find P xs = (case filter P xs of [] \<Rightarrow> None | x # _ \<Rightarrow> Some x)"
  by (induction xs) auto

lemma filter_first: "filter (\<lambda>x. P x \<and> Q x) xs = filter Q (filter P xs)"
  by simp

lemma filter_second: "filter (\<lambda>x. Q x \<and> P x) xs = filter Q (filter P xs)"
  by (simp add: conj_commute)

lemmas org_filters =
  filter_first [where P = "\<lambda>r. la_org r = org" for org] filter_first [where P = "\<lambda>v. vs_org v = org" for org]
  filter_first [where P = "\<lambda>e. le_org e = org" for org] filter_first [where P = "\<lambda>c. lc_org c = org" for org]
  filter_second [where P = "\<lambda>c. c_org c = org" for org] filter_second [where P = "\<lambda>a. a_org a = org" for org]
  filter_second [where P = "\<lambda>p. p_org p = org" for org]

lemma sees_coreI: "(\<And>c c'. same_core org c c' \<Longrightarrow> q c' = q c) \<Longrightarrow> sees_same (same_rows org) (\<lambda>d. q (core d))"
  by (simp add: sees_same_def same_rows_def)

lemma sees_rowsI: "(\<And>d d'. same_rows org d d' \<Longrightarrow> q d' = q d) \<Longrightarrow> sees_same (same_rows org) q"
  by (simp add: sees_same_def)

lemma core_lists:
  assumes "same_core org c c'"
  shows "people_rows s org q status lo c' = people_rows s org q status lo c"
    and "person_accounts s org pid c' = person_accounts s org pid c"
    and "person_access s org pid c' = person_access s org pid c"
    and "person_findings org pid c' = person_findings org pid c"
    and "person_cases org pid c' = person_cases org pid c"
    and "person_evidence org pid c' = person_evidence org pid c"
    and "person_timeline org pid c' = person_timeline org pid c"
    and "connector_detail org con c' = connector_detail org con c"
    and "sync_rows org con lo c' = sync_rows org con lo c"
    and "identity_rows org con state link q lo c' = identity_rows org con state link q lo c"
    and "candidate_rows org status lo c' = candidate_rows org status lo c"
    and "entitlement_rows s org con q lo c' = entitlement_rows s org con q lo c"
    and "grant_rows org lo c' = grant_rows org lo c"
    and "run_rows org con status lo c' = run_rows org con status lo c"
    and "finding_rows org status severity lo c' = finding_rows org status severity lo c"
    and "case_rows org status verification lo c' = case_rows org status verification lo c"
    and "review_item_rows s org camp c' = review_item_rows s org camp c"
    and "audit_rows org lo c' = audit_rows org lo c"
    and "evidence_rows org lo c' = evidence_rows org lo c"
    and "case_events org cid seen c' = case_events org cid seen c"
  unfolding people_rows_def person_accounts_def person_access_def person_findings_def person_cases_def person_evidence_def
    person_timeline_def connector_detail_def sync_rows_def identity_rows_def candidate_rows_def entitlement_rows_def grant_rows_def run_rows_def
    finding_rows_def case_rows_def review_item_rows_def audit_rows_def evidence_rows_def case_events_def
  by (simp_all only: assms [unfolded same_core_def])

lemma core_dashboard:
  assumes "same_core org c c'"
  shows "dashboard_of org now c' = dashboard_of org now c"
  unfolding dashboard_of_def terminated_with_active_def
  by (simp only: assms [unfolded same_core_def])

lemma core_case:
  assumes "same_core org c c'"
  shows "find_case org cid c' = find_case org cid c"
    and "case_action_rows org cid c' = case_action_rows org cid c"
    and "latest_snapshot org cid c' = latest_snapshot org cid c"
    and "evidence_lines org cid c' = evidence_lines org cid c"
  unfolding find_case_def case_action_rows_def view_connectors_def view_accounts_def latest_snapshot_def evidence_lines_def
    find_head org_filters
  by (simp_all only: assms [unfolded same_core_def])

lemma core_lookup:
  assumes "same_core org c c'"
  shows "List.find (\<lambda>p. p_id p = x \<and> p_org p = org) (people c') = List.find (\<lambda>p. p_id p = x \<and> p_org p = org) (people c)"
    and "List.find (\<lambda>n. c_id n = x \<and> c_org n = org) (connectors c') = List.find (\<lambda>n. c_id n = x \<and> c_org n = org) (connectors c)"
    and "List.find (\<lambda>a. a_id a = x \<and> a_org a = org) (accounts c') = List.find (\<lambda>a. a_id a = x \<and> a_org a = org) (accounts c)"
  unfolding find_head org_filters
  by (simp_all only: assms [unfolded same_core_def])

lemma core_report:
  assumes "same_core org c c'"
  shows "report_row_of org cid c' = report_row_of org cid c" and "action_lines org cid c' = action_lines org cid c"
proof -
  show "report_row_of org cid c' = report_row_of org cid c"
    unfolding report_row_of_def core_case [OF assms] core_lookup [OF assms] ..
  have "action_line org c' = action_line org c"
    unfolding fun_eq_iff action_line_def core_lookup [OF assms] by simp
  moreover have "filter (\<lambda>r. la_org r = org \<and> la_case r = cid) (actions c') = filter (\<lambda>r. la_org r = org \<and> la_case r = cid) (actions c)"
    unfolding org_filters using assms unfolding same_core_def by (elim conjE, simp only:)
  ultimately show "action_lines org cid c' = action_lines org cid c" by (simp add: action_lines_def)
qed

lemma rows_lists:
  assumes "same_rows org d d'"
  shows "application_rows s org lo d' = application_rows s org lo d"
    and "review_rows org status lo d' = review_rows org status lo d"
    and "find_review org camp d' = find_review org camp d"
    and "report_rows org lo d' = report_rows org lo d"
    and "find_settings org d' = find_settings org d"
  unfolding application_rows_def review_rows_def find_review_def report_rows_def find_settings_def find_head
  using assms unfolding same_rows_def same_core_def by (elim conjE, simp only:)+

lemma concat_guard:
  "concat (map (\<lambda>x. if P x \<and> Q x then f x else []) xs) = concat (map (\<lambda>x. if Q x then f x else []) (filter P xs))"
  by (induction xs) auto

lemma rows_users:
  assumes "same_rows org d d'"
  shows "user_rows s org lo d' = user_rows s org lo d"
    and "SessionOrg session = org \<Longrightarrow> session_rows session now d' = session_rows session now d"
proof -
  have "role_names org user d' = role_names org user d" for user
    unfolding role_names_def concat_guard using assms unfolding same_rows_def by (elim conjE, simp only:)
  then show "user_rows s org lo d' = user_rows s org lo d"
    unfolding user_rows_def using assms unfolding same_rows_def by (elim conjE, simp only:)
  show "session_rows session now d' = session_rows session now d" if "SessionOrg session = org"
    unfolding session_rows_def using assms that unfolding same_rows_def by (elim conjE, simp only:)
qed

section \<open>The reading handlers\<close>

lemma sees_core:
  "sees_same (same_rows org) (\<lambda>d. people_rows s org q status lo (core d))"
  "sees_same (same_rows org) (\<lambda>d. person_accounts s org pid (core d))"
  "sees_same (same_rows org) (\<lambda>d. person_access s org pid (core d))"
  "sees_same (same_rows org) (\<lambda>d. person_findings org pid (core d))"
  "sees_same (same_rows org) (\<lambda>d. person_cases org pid (core d))"
  "sees_same (same_rows org) (\<lambda>d. person_evidence org pid (core d))"
  "sees_same (same_rows org) (\<lambda>d. person_timeline org pid (core d))"
  "sees_same (same_rows org) (\<lambda>d. connector_detail org con (core d))"
  "sees_same (same_rows org) (\<lambda>d. sync_rows org con lo (core d))"
  "sees_same (same_rows org) (\<lambda>d. identity_rows org con state link q lo (core d))"
  "sees_same (same_rows org) (\<lambda>d. candidate_rows org status lo (core d))"
  "sees_same (same_rows org) (\<lambda>d. entitlement_rows s org con q lo (core d))"
  "sees_same (same_rows org) (\<lambda>d. grant_rows org lo (core d))"
  "sees_same (same_rows org) (\<lambda>d. run_rows org con status lo (core d))"
  "sees_same (same_rows org) (\<lambda>d. finding_rows org status severity lo (core d))"
  "sees_same (same_rows org) (\<lambda>d. case_rows org status verification lo (core d))"
  "sees_same (same_rows org) (\<lambda>d. review_item_rows s org camp (core d))"
  "sees_same (same_rows org) (\<lambda>d. audit_rows org lo (core d))"
  "sees_same (same_rows org) (\<lambda>d. evidence_rows org lo (core d))"
  "sees_same (same_rows org) (\<lambda>d. case_events org cid seen (core d))"
  "sees_same (same_rows org) (\<lambda>d. report_row_of org cid (core d))"
  "sees_same (same_rows org) (\<lambda>d. action_lines org cid (core d))"
  "sees_same (same_rows org) (\<lambda>d. evidence_lines org cid (core d))"
  by (rule sees_coreI, simp only: core_lists core_report core_case)+

lemma sees_rows:
  "sees_same (same_rows org) (application_rows s org lo)"
  "sees_same (same_rows org) (review_rows org status lo)"
  "sees_same (same_rows org) (find_review org camp)"
  "sees_same (same_rows org) (report_rows org lo)"
  "sees_same (same_rows org) (find_settings org)"
  "sees_same (same_rows org) (user_rows s org lo)"
  "sees_same (same_rows (SessionOrg session)) (session_rows session now)"
  by (rule sees_rowsI, simp only: rows_lists rows_users)+

lemma sees_tables:
  "sees_same (same_rows org) (\<lambda>d. sort_key k (org_connectors org (core d)))"
  "sees_same (same_rows org) (\<lambda>d. map_option person_of (List.find P (org_people org (core d))))"
  by (simp_all add: sees_same_def same_rows_def same_core_def)

lemma confined_dashboard: "confined (same_rows org) (DashboardQuery org)"
  unfolding DashboardQuery_def by (rule confined_exec) (simp add: core_dashboard same_rows_def)

lemma confined_GetCase: "confined (same_core org) (GetCase org cid)"
  unfolding GetCase_def
  by (intro confined_intros) (simp_all add: sees_same_def core_case)

lemma confined_service:
  assumes "confined (same_core org) m"
  shows "confined (same_rows org) (service m)"
  by (rule confined_zoom [OF assms]) (simp_all add: same_rows_def put_core_def)

lemma confined_ensure_settings: "confined (same_rows org) (exec (sql_ensure_settings org))"
proof (rule confined_exec)
  fix now :: tstamp and gen :: "nat \<Rightarrow> string" and d d' assume R: "same_rows org d d'"
  then have "set (filter (\<lambda>x. os_org x = org) (settings d')) = set (filter (\<lambda>x. os_org x = org) (settings d))"
    by (simp only: same_rows_def)
  then have "(\<exists>x \<in> set (settings d'). os_org x = org) \<longleftrightarrow> (\<exists>x \<in> set (settings d). os_org x = org)"
    unfolding set_filter by blast
  with R show "case sql_ensure_settings org now gen d of Inl e \<Rightarrow> sql_ensure_settings org now gen d' = Inl e
    | Inr (x, e) \<Rightarrow> \<exists>e'. sql_ensure_settings org now gen d' = Inr (x, e') \<and> same_rows org e e'"
    by (simp add: sql_ensure_settings_def upd_def same_rows_def)
qed

lemma confined_event_round:
  "(\<And>seen' out'. confined (same_rows org) (k seen' out')) \<Longrightarrow> confined (same_rows org) (event_round s org cid seen out k)"
  unfolding event_round_def
  by (intro confined_bnd confined_attempt confined_uuid_arg confined_rows_of sees_core confined_sum confined_ret)

lemma confined_event_stream: "confined (same_rows org) (event_stream n s org cid seen out)"
  by (induction n arbitrary: seen out) (simp_all add: confined_event_round confined_ret)

lemma confined_sessions: "confined (same_rows (SessionOrg session)) (sessionsHandler session r)"
  unfolding sessionsHandler_def
  by (rule confined_list_rows, rule confined_at [where f = "\<lambda>t. rows_of (session_rows session t)"]) (intro confined_rows_of sees_rows)

lemma confined_lists:
  "confined (same_rows (SessionOrg session)) (connectorSyncs s session r)"
  "confined (same_rows (SessionOrg session)) (identities session r)"
  "confined (same_rows (SessionOrg session)) (correlationCandidates session r)"
  "confined (same_rows (SessionOrg session)) (applicationsHandler s session r)"
  "confined (same_rows (SessionOrg session)) (entitlementsHandler s session r)"
  "confined (same_rows (SessionOrg session)) (accessGrants session r)"
  "confined (same_rows (SessionOrg session)) (reconciliationRuns session r)"
  "confined (same_rows (SessionOrg session)) (findingsHandler session r)"
  "confined (same_rows (SessionOrg session)) (lifecycleCases session r)"
  "confined (same_rows (SessionOrg session)) (accessReviews session r)"
  "confined (same_rows (SessionOrg session)) (auditHandler session r)"
  "confined (same_rows (SessionOrg session)) (evidenceHandler session r)"
  "confined (same_rows (SessionOrg session)) (reportsHandler session r)"
  "confined (same_rows (SessionOrg session)) (usersHandler s session r)"
  unfolding connectorSyncs_def identities_def correlationCandidates_def applicationsHandler_def entitlementsHandler_def
    accessGrants_def reconciliationRuns_def findingsHandler_def lifecycleCases_def accessReviews_def auditHandler_def evidenceHandler_def
    reportsHandler_def usersHandler_def Let_def
  by (intro confined_list_rows confined_uuid_arg confined_rows_of sees_core sees_rows)+

lemma confined_details:
  "confined (same_rows (SessionOrg session)) (dashboard session r)"
  "confined (same_rows (SessionOrg session)) (peopleHandler s session r)"
  "confined (same_rows (SessionOrg session)) (personHandler s session r)"
  "confined (same_rows (SessionOrg session)) (connectorsHandler s session r)"
  "confined (same_rows (SessionOrg session)) (connectorDetail s session r)"
  "confined (same_rows (SessionOrg session)) (accessReviewDetail s session r)"
  "confined (same_rows (SessionOrg session)) (caseEvents s session r)"
  "confined (same_rows (SessionOrg session)) (getCase s session r)"
  "confined (same_rows (SessionOrg session)) (offboardingPDF s session r)"
  "confined (same_rows (SessionOrg session)) (settingsHandler session r)"
  unfolding dashboard_def peopleHandler_def personHandler_def connectorsHandler_def connectorDetail_def accessReviewDetail_def caseEvents_def
    getCase_def offboardingPDF_def settingsHandler_def ListPeople_def GetPerson_def personRelated_def ListConnectors_def buildOffboardingPDF_def Let_def
  by (intro confined_intros confined_dashboard confined_event_stream confined_service confined_GetCase confined_ensure_settings sees_core sees_rows sees_tables)+

text \<open>
  C6: no session reads another tenant's data. For every route that answers GET, the answer of its handler is a function
  of the rows of the session's own organization: on two databases that agree on these rows, whatever they hold for
  others, the handler gives the same answer, statement faults and interrupted result sets included, and leaves
  databases that agree again. Searches, filters, joins and counts can not be used to learn of others.
\<close>

theorem reads_stay_in_tenant:
  assumes "route_of ''GET'' path = Some rt" and "same_rows (SessionOrg session) (db w) d'"
  shows "fst (server_handler s rt session r (w\<lparr>db := d'\<rparr>)) = fst (server_handler s rt session r w) \<and>
    same_rows (SessionOrg session) (db (snd (server_handler s rt session r w))) (db (snd (server_handler s rt session r (w\<lparr>db := d'\<rparr>))))"
proof -
  from assms(1) have "(\<exists>t. (''GET'', t, rt) \<in> set api_routes)"
    unfolding route_of_def by (auto simp: find_Some_iff) (metis nth_mem)
  then have "confined (same_rows (SessionOrg session)) (server_handler s rt session r)"
    unfolding api_routes_def
    by (auto simp: server_handler_def intro: confined_sessions confined_lists confined_details confined_ret)
  then show ?thesis using assms(2) by (rule confinedE) simp
qed

text \<open>A database in which another organization has a person of its own.\<close>

definition stranger :: person_row where
  "stranger = \<lparr>p_id = ''person-9'', p_org = ''org-9'', p_source = None, p_external = ''9'', p_name = ''Zoe'', p_email = None, p_employee = None,
     p_department = None, p_status = ''ACTIVE'', p_created = 0, p_updated = 0\<rparr>"

definition crowded_apidb :: apidb where
  "crowded_apidb = sample_apidb\<lparr>core := empty_store\<lparr>people := [stranger]\<rparr>\<rparr>"

definition sample_reader :: Session where
  "sample_reader = session_of sample_apidb sample_session sample_user"

lemma sample_reader_org: "SessionOrg sample_reader = ''org-1''"
  by (simp add: sample_reader_def session_of_def sample_session_def)

lemma crowded_same: "same_rows ''org-1'' sample_apidb crowded_apidb"
  by (simp add: same_rows_def same_core_def crowded_apidb_def sample_apidb_def empty_store_def stranger_def)

theorem reads_stay_in_tenant_witness:
  "crowded_apidb \<noteq> db sample_apiworld \<and>
   fst (server_handler sample_server PeopleList sample_reader (sample_request ''GET'' ''/api/v1/people'' JNull) (sample_apiworld\<lparr>db := crowded_apidb\<rparr>)) =
   fst (server_handler sample_server PeopleList sample_reader (sample_request ''GET'' ''/api/v1/people'' JNull) sample_apiworld)"
proof -
  have route: "route_of ''GET'' ''/people'' = Some PeopleList" by (simp add: route_of_def api_routes_def)
  have same: "same_rows (SessionOrg sample_reader) (db sample_apiworld) crowded_apidb"
    using crowded_same by (simp add: sample_reader_org sample_apiworld_def)
  have "crowded_apidb \<noteq> db sample_apiworld"
    by (simp add: crowded_apidb_def sample_apiworld_def sample_apidb_def empty_store_def)
  with reads_stay_in_tenant [OF route same] show ?thesis by blast
qed

end
