(* ===== verification/Config.thy ===== *)
theory Config
  imports ApiAuth
begin

text \<open>
  \<open>backend/internal/config/config.go\<close>: the configuration that \<open>Load\<close> reads from the environment, with the parts of
  \<open>strconv\<close> and \<open>time\<close> it uses, and what holds of every configuration it accepts.
\<close>

section \<open>Values\<close>

type_synonym environment = "string \<Rightarrow> string"

definition env :: "environment \<Rightarrow> string \<Rightarrow> string \<Rightarrow> string" where
  "env getenv key fallback = (if getenv key \<noteq> [] then getenv key else fallback)"

definition envInt :: "environment \<Rightarrow> string \<Rightarrow> int \<Rightarrow> int" where
  "envInt getenv key fallback = (case Atoi (getenv key) of None \<Rightarrow> fallback | Some v \<Rightarrow> if v < 1 then fallback else v)"

text \<open>\<open>strconv.ParseBool\<close> without its error, for which the value is false.\<close>

definition ParseBool :: "string \<Rightarrow> bool" where
  "ParseBool s \<longleftrightarrow> s \<in> set [''1'', ''t'', ''T'', ''TRUE'', ''true'', ''True'']"

text \<open>
  \<open>time.ParseDuration\<close>: terms of a decimal number and a unit. The fraction of a term is computed exactly here where Go
  multiplies floating point numbers; the result is cut to whole nanoseconds.
\<close>

definition unit_of :: "string \<Rightarrow> int option" where
  "unit_of u = map_of [(''ns'', 1), (''us'', 1000), ([CHR 0xC2, CHR 0xB5, CHR ''s''], 1000), ([CHR 0xCE, CHR 0xBC, CHR ''s''], 1000),
     (''ms'', 1000000), (''s'', 1000000000), (''m'', 60000000000), (''h'', 3600000000000)] u"

definition in_number :: "char \<Rightarrow> bool" where
  "in_number c \<longleftrightarrow> c = CHR ''.'' \<or> is_digit c"

text \<open>A number and what follows it: the integer part, which must fit, and the digits after the point.\<close>

definition duration_number :: "string \<Rightarrow> (int \<times> string \<times> string) option" where
  "duration_number s =
    (let whole = takeWhile is_digit s; rest = dropWhile is_digit s;
         frac = (case rest of c # t \<Rightarrow> if c = CHR ''.'' then takeWhile is_digit t else [] | [] \<Rightarrow> []);
         after = (case rest of c # t \<Rightarrow> if c = CHR ''.'' then dropWhile is_digit t else rest | [] \<Rightarrow> []) in
     if (whole = [] \<and> frac = []) \<or> 2 ^ 63 < int (digits_value whole) then None else Some (int (digits_value whole), frac, after))"

definition fraction_ns :: "string \<Rightarrow> int \<Rightarrow> int" where
  "fraction_ns frac unit = int (digits_value frac) * unit div 10 ^ length frac"

text \<open>One term: its length and the rest of the text.\<close>

definition duration_term :: "string \<Rightarrow> (int \<times> string) option" where
  "duration_term s =
    (case duration_number s of None \<Rightarrow> None
     | Some (v, frac, rest) \<Rightarrow>
       (case unit_of (takeWhile (\<lambda>c. \<not> in_number c) rest) of None \<Rightarrow> None
        | Some unit \<Rightarrow>
          if 2 ^ 63 div unit < v \<or> 2 ^ 63 < v * unit + fraction_ns frac unit then None
          else Some (v * unit + fraction_ns frac unit, dropWhile (\<lambda>c. \<not> in_number c) rest)))"

fun duration_terms :: "nat \<Rightarrow> int \<Rightarrow> string \<Rightarrow> int option" where
  "duration_terms 0 sofar s = None"
| "duration_terms (Suc fuel) sofar s =
    (if s = [] then Some sofar
     else (case duration_term s of None \<Rightarrow> None
       | Some (n, rest) \<Rightarrow> if 2 ^ 63 < sofar + n then None else duration_terms fuel (sofar + n) rest))"

definition ParseDuration :: "string \<Rightarrow> int option" where
  "ParseDuration s0 =
    (let neg = (s0 \<noteq> [] \<and> hd s0 = CHR ''-'');
         s = (if s0 \<noteq> [] \<and> (hd s0 = CHR ''-'' \<or> hd s0 = CHR ''+'') then tl s0 else s0) in
     if s = ''0'' then Some 0
     else if s = [] then None
     else (case duration_terms (Suc (length s)) 0 s of None \<Rightarrow> None
       | Some n \<Rightarrow> if neg then Some (- n) else if 2 ^ 63 - 1 < n then None else Some n))"

section \<open>Load\<close>

record Config =
  Environment :: string
  HTTPAddr :: string
  DatabaseURL :: string
  ConfigOrigin :: string
  ConfigSecureCookies :: bool
  ConfigPrivilegedMFA :: bool
  SessionSecret :: string
  MasterKey :: string
  MaxConcurrentSyncs :: int
  MaxConcurrentActs :: int
  SyncTimeout :: int
  ConfigMaxCSVBytes :: int
  BootstrapEmail :: string
  BootstrapPassword :: string
  WebhookURL :: string
  WebhookSecret :: string
  SecretProvider :: string
  VaultAddress :: string
  VaultToken :: string
  VaultNamespace :: string
  VaultTransitMount :: string
  VaultTransitKey :: string
  ConfigJobMode :: string
  ConfigWorkerID :: string
  WorkerLease :: int
  WorkerPollInterval :: int
  TrustedProxyCIDRs :: "string list"

definition read_config :: "environment \<Rightarrow> Config" where
  "read_config e = \<lparr>
     Environment = env e ''IDENTITYMESH_ENV'' ''development'',
     HTTPAddr = env e ''IDENTITYMESH_HTTP_ADDR'' '':8080'',
     DatabaseURL = e ''IDENTITYMESH_DATABASE_URL'',
     ConfigOrigin = env e ''IDENTITYMESH_ALLOWED_ORIGIN'' ''http://localhost:5173'',
     ConfigSecureCookies = ParseBool (env e ''IDENTITYMESH_SECURE_COOKIES'' ''true''),
     ConfigPrivilegedMFA = ParseBool (env e ''IDENTITYMESH_REQUIRE_MFA_FOR_PRIVILEGED_ROLES'' ''false''),
     SessionSecret = e ''IDENTITYMESH_SESSION_SECRET'',
     MasterKey = [],
     MaxConcurrentSyncs = envInt e ''IDENTITYMESH_MAX_CONCURRENT_SYNCS'' 2,
     MaxConcurrentActs = envInt e ''IDENTITYMESH_MAX_CONCURRENT_ACTIONS'' 4,
     SyncTimeout = 0,
     ConfigMaxCSVBytes = envInt e ''IDENTITYMESH_MAX_CSV_BYTES'' (10 * 2 ^ 20),
     BootstrapEmail = e ''IDENTITYMESH_BOOTSTRAP_ADMIN_EMAIL'',
     BootstrapPassword = e ''IDENTITYMESH_BOOTSTRAP_ADMIN_PASSWORD'',
     WebhookURL = e ''IDENTITYMESH_WEBHOOK_URL'',
     WebhookSecret = e ''IDENTITYMESH_WEBHOOK_SECRET'',
     SecretProvider = env e ''IDENTITYMESH_SECRET_PROVIDER'' ''LOCAL_AES_GCM'',
     VaultAddress = e ''IDENTITYMESH_VAULT_ADDR'',
     VaultToken = e ''IDENTITYMESH_VAULT_TOKEN'',
     VaultNamespace = e ''IDENTITYMESH_VAULT_NAMESPACE'',
     VaultTransitMount = env e ''IDENTITYMESH_VAULT_TRANSIT_MOUNT'' ''transit'',
     VaultTransitKey = env e ''IDENTITYMESH_VAULT_TRANSIT_KEY'' ''identitymesh'',
     ConfigJobMode = env e ''IDENTITYMESH_JOB_MODE'' ''DISTRIBUTED'',
     ConfigWorkerID = e ''IDENTITYMESH_WORKER_ID'',
     WorkerLease = 0,
     WorkerPollInterval = 0,
     TrustedProxyCIDRs = []\<rparr>"

text \<open>A duration of at least a minimum, or the error.\<close>

definition duration_least :: "environment \<Rightarrow> string \<Rightarrow> string \<Rightarrow> int \<Rightarrow> string \<Rightarrow> error + int" where
  "duration_least e key fallback least msg = (case ParseDuration (env e key fallback) of
     None \<Rightarrow> Inl (Errorf msg) | Some v \<Rightarrow> if v < least then Inl (Errorf msg) else Inr v)"

definition proxy_items :: "string \<Rightarrow> string list" where
  "proxy_items raw = filter (\<lambda>v. v \<noteq> []) (map TrimSpace (Split raw (CHR '','')))"

definition proxy_cidrs :: "string \<Rightarrow> error + string list" where
  "proxy_cidrs raw =
    (if raw = [] then Inr []
     else if list_all (\<lambda>v. ParseCIDR v \<noteq> None) (proxy_items raw) then Inr (proxy_items raw)
     else Inl (Errorf ''IDENTITYMESH_TRUSTED_PROXY_CIDRS contains an invalid CIDR''))"

definition https_origin :: "string \<Rightarrow> bool" where
  "https_origin text = (case GoUrl.Parse text of None \<Rightarrow> False
     | Some u \<Rightarrow> u_scheme u = ''https'' \<and> u_host u \<noteq> [] \<and> u_user u = None)"

text \<open>The checks after the fields are read, in their order; the first that fails is the error.\<close>

definition config_errors :: "Config \<Rightarrow> (bool \<times> string) list" where
  "config_errors c =
    [(DatabaseURL c = [], ''IDENTITYMESH_DATABASE_URL is required''),
     (SessionSecret c = [] \<or> length (SessionSecret c) < 32, ''IDENTITYMESH_SESSION_SECRET must contain at least 32 bytes''),
     (ConfigJobMode c \<noteq> ''DISTRIBUTED'' \<and> ConfigJobMode c \<noteq> ''INLINE'', ''IDENTITYMESH_JOB_MODE must be DISTRIBUTED or INLINE''),
     (Environment c = ''production'' \<and> ConfigJobMode c \<noteq> ''DISTRIBUTED'', ''production requires IDENTITYMESH_JOB_MODE=DISTRIBUTED''),
     (Environment c = ''production'' \<and> \<not> https_origin (ConfigOrigin c), ''production requires an HTTPS IDENTITYMESH_ALLOWED_ORIGIN''),
     (Environment c = ''production'' \<and> \<not> ConfigSecureCookies c, ''production requires IDENTITYMESH_SECURE_COOKIES=true''),
     (SecretProvider c = ''VAULT_TRANSIT'' \<and> (VaultAddress c = [] \<or> VaultToken c = []), ''Vault address and token are required for VAULT_TRANSIT'')]"

definition first_error :: "(bool \<times> string) list \<Rightarrow> error + unit" where
  "first_error checks = (case List.find fst checks of None \<Rightarrow> Inr () | Some (_, msg) \<Rightarrow> Inl (Errorf msg))"

definition master_key :: "environment \<Rightarrow> Config \<Rightarrow> error + Config" where
  "master_key e c =
    (if SecretProvider c = ''VAULT_TRANSIT'' then Inr c
     else if SecretProvider c = ''LOCAL_AES_GCM'' then
       (case b64_decode std_alphabet True (e ''IDENTITYMESH_MASTER_KEY'') of
          None \<Rightarrow> Inl (Errorf ''IDENTITYMESH_MASTER_KEY must be a base64-encoded 32-byte key'')
        | Some raw \<Rightarrow> if length raw \<noteq> 32 then Inl (Errorf ''IDENTITYMESH_MASTER_KEY must be a base64-encoded 32-byte key'')
            else Inr (c\<lparr>MasterKey := raw\<rparr>))
     else Inl (Errorf ''IDENTITYMESH_SECRET_PROVIDER must be LOCAL_AES_GCM or VAULT_TRANSIT''))"

definition check_config :: "environment \<Rightarrow> Config \<Rightarrow> error + Config" where
  "check_config e c = (case first_error (config_errors c) of Inl err \<Rightarrow> Inl err | Inr _ \<Rightarrow> master_key e c)"

definition Load :: "environment \<Rightarrow> error + Config" where
  "Load e =
    (case duration_least e ''IDENTITYMESH_DEFAULT_SYNC_TIMEOUT'' ''30s'' 1 ''IDENTITYMESH_DEFAULT_SYNC_TIMEOUT must be a positive duration'' of
       Inl err \<Rightarrow> Inl err
     | Inr sync \<Rightarrow>
    (case duration_least e ''IDENTITYMESH_WORKER_LEASE'' ''2m'' (10 * Second) ''IDENTITYMESH_WORKER_LEASE must be at least 10s'' of
       Inl err \<Rightarrow> Inl err
     | Inr lease \<Rightarrow>
    (case duration_least e ''IDENTITYMESH_WORKER_POLL_INTERVAL'' ''500ms'' (50 * 1000000) ''IDENTITYMESH_WORKER_POLL_INTERVAL must be at least 50ms'' of
       Inl err \<Rightarrow> Inl err
     | Inr poll \<Rightarrow>
    (case proxy_cidrs (e ''IDENTITYMESH_TRUSTED_PROXY_CIDRS'') of
       Inl err \<Rightarrow> Inl err
     | Inr cidrs \<Rightarrow> check_config e ((read_config e)
         \<lparr>SyncTimeout := sync, WorkerLease := lease, WorkerPollInterval := poll, TrustedProxyCIDRs := cidrs\<rparr>)))))"

section \<open>What an accepted configuration is\<close>

lemma duration_leastD: "duration_least e key fallback least msg = Inr v \<Longrightarrow> least \<le> v"
  by (auto simp: duration_least_def split: option.splits if_splits)

lemma envInt_positive: "1 \<le> fallback \<Longrightarrow> 1 \<le> envInt e key fallback"
  by (simp add: envInt_def split: option.split)

lemma first_errorD: "first_error checks = Inr () \<Longrightarrow> list_all (\<lambda>x. \<not> fst x) checks"
  by (auto simp: first_error_def list_all_iff find_None_iff split: option.splits)

lemma proxy_cidrs_ok:
  assumes "proxy_cidrs raw = Inr cidrs"
  shows "list_all (\<lambda>v. ParseCIDR v \<noteq> None) cidrs" and "length (new_proxies cidrs) = length cidrs"
proof -
  from assms have ok: "list_all (\<lambda>v. ParseCIDR v \<noteq> None \<and> TrimSpace v = v) cidrs"
    by (auto simp: proxy_cidrs_def proxy_items_def list_all_iff split: if_splits)
  then show "list_all (\<lambda>v. ParseCIDR v \<noteq> None) cidrs" by (simp add: list_all_iff)
  from ok show "length (new_proxies cidrs) = length cidrs"
    by (induction cidrs) (auto simp: new_proxies_def)
qed

lemma check_configE:
  assumes "check_config e c0 = Inr c"
  obtains (local) k where "SecretProvider c0 = ''LOCAL_AES_GCM''" "length k = 32" "c = c0\<lparr>MasterKey := k\<rparr>"
      "list_all (\<lambda>x. \<not> fst x) (config_errors c0)"
  | (vault) "SecretProvider c0 = ''VAULT_TRANSIT''" "c = c0" "list_all (\<lambda>x. \<not> fst x) (config_errors c0)"
  using assms first_errorD [of "config_errors c0"]
  by (auto simp: check_config_def master_key_def split: sum.splits option.splits if_splits)

text \<open>
  A configuration that \<open>Load\<close> accepts is safe to run with. The database is named, the session secret has at
  least 32 bytes, every limit is at least one, the durations keep their minima, every trusted proxy is a network
  and none of them is lost when the server parses the list again; the local key store can be opened with the key,
  or the Vault has an address and a token; and in production jobs are distributed, cookies are secure and the
  allowed origin is an https origin without credentials.
\<close>

lemma accepted_config:
  assumes "Load e = Inr c"
  shows "DatabaseURL c \<noteq> [] \<and> 32 \<le> length (SessionSecret c) \<and>
    1 \<le> MaxConcurrentSyncs c \<and> 1 \<le> MaxConcurrentActs c \<and> 1 \<le> ConfigMaxCSVBytes c \<and>
    0 < SyncTimeout c \<and> 10 * Second \<le> WorkerLease c \<and> 50 * 1000000 \<le> WorkerPollInterval c \<and>
    list_all (\<lambda>v. ParseCIDR v \<noteq> None) (TrustedProxyCIDRs c) \<and> length (new_proxies (TrustedProxyCIDRs c)) = length (TrustedProxyCIDRs c) \<and>
    (SecretProvider c = ''LOCAL_AES_GCM'' \<and> NewAESGCMStore (MasterKey c) = Inr \<lparr>aes_key = MasterKey c\<rparr> \<or>
     SecretProvider c = ''VAULT_TRANSIT'' \<and> VaultAddress c \<noteq> [] \<and> VaultToken c \<noteq> []) \<and>
    ConfigJobMode c \<in> {''DISTRIBUTED'', ''INLINE''} \<and>
    (Environment c = ''production'' \<longrightarrow>
       ConfigJobMode c = ''DISTRIBUTED'' \<and> ConfigSecureCookies c \<and> https_origin (ConfigOrigin c))"
proof -
  from assms obtain sync lease poll cidrs where
      d: "1 \<le> sync" "10 * Second \<le> lease" "50 * 1000000 \<le> poll" "proxy_cidrs (e ''IDENTITYMESH_TRUSTED_PROXY_CIDRS'') = Inr cidrs"
    and c: "check_config e ((read_config e)\<lparr>SyncTimeout := sync, WorkerLease := lease, WorkerPollInterval := poll,
        TrustedProxyCIDRs := cidrs\<rparr>) = Inr c"
    unfolding Load_def by (fastforce split: sum.splits dest: duration_leastD)
  have n: "1 \<le> MaxConcurrentSyncs (read_config e)" "1 \<le> MaxConcurrentActs (read_config e)" "1 \<le> ConfigMaxCSVBytes (read_config e)"
    by (simp_all add: read_config_def envInt_positive)
  from c show ?thesis
  proof (cases rule: check_configE)
    case (local k)
    with d n proxy_cidrs_ok [OF d(4)] show ?thesis by (auto simp: config_errors_def NewAESGCMStore_def)
  next
    case vault
    with d n proxy_cidrs_ok [OF d(4)] show ?thesis by (auto simp: config_errors_def)
  qed
qed

end
