(* ===== verification/Process.thy ===== *)
theory Process
  imports ApiServer Config
begin

text \<open>
  The server process: the periodic tasks of \<open>backend/internal/scheduler/scheduler.go\<close> and
  \<open>backend/cmd/server/main.go\<close>, the handlers of the job queue, and the connection to the database at the start.
\<close>

section \<open>The scheduler\<close>

unbundle bit_operations_syntax

text \<open>\<open>fnv.New64a\<close>, and the key of the advisory lock, \<open>int64(h.Sum64())\<close>.\<close>

definition fnv64a :: "string \<Rightarrow> 64 word" where
  "fnv64a s = foldl (\<lambda>h c. (h XOR of_nat (of_char c)) * 1099511628211) 14695981039346656037 s"

definition lock_key :: "string \<Rightarrow> int" where
  "lock_key name = sint (fnv64a (''identitymesh:'' @ name))"

text \<open>
  One tick: a connection, the lock, the task, whose error is dropped, and the unlock. \<open>free t key\<close> tells whether no
  other instance holds the lock at the t-th call.
\<close>

definition once :: "(nat \<Rightarrow> int \<Rightarrow> bool) \<Rightarrow> string \<Rightarrow> unit api \<Rightarrow> unit api" where
  "once free name task =
    bnd (attempt (query_row (\<lambda>d. Some ()))) (\<lambda>conn. case conn of
       Inl _ \<Rightarrow> ret ()
     | Inr _ \<Rightarrow>
       bnd (attempt (\<lambda>w. query_row (\<lambda>d. Some (free (ticks w) (lock_key name))) w)) (\<lambda>locked.
       if locked \<noteq> Inr True then ret ()
       else bnd (ignore task) (\<lambda>_. ignore (query_row (\<lambda>d. Some ())))))"

definition tick_interval :: "int \<Rightarrow> int" where
  "tick_interval i = (if i \<le> 0 then Minute else i)"

text \<open>The loop of \<open>Run\<close> over the first ticks until the context ends.\<close>

fun run_ticks :: "nat \<Rightarrow> (nat \<Rightarrow> int \<Rightarrow> bool) \<Rightarrow> string \<Rightarrow> unit api \<Rightarrow> unit api" where
  "run_ticks 0 free name task = ret ()"
| "run_ticks (Suc n) free name task = bnd (once free name task) (\<lambda>_. run_ticks n free name task)"

section \<open>Tasks\<close>

definition sql_overdue :: "(store, unit) stmt" where
  "sql_overdue = upd (\<lambda>now gen d. ((), d\<lparr>campaigns := update_where
     (\<lambda>c. ac_status c = ''ACTIVE'' \<and> (case ac_due c of None \<Rightarrow> False | Some t \<Rightarrow> t < now))
     (\<lambda>c. c\<lparr>ac_status := ''OVERDUE''\<rparr>) (campaigns d)\<rparr>))"

definition review_deadlines :: "unit api" where
  "review_deadlines = exec (on_core sql_overdue)"

text \<open>The connectors that are due at an instant.\<close>

definition older :: "tstamp \<Rightarrow> int \<Rightarrow> connector_row \<Rightarrow> bool" where
  "older now age c = (case c_last_sync_at c of None \<Rightarrow> True | Some t \<Rightarrow> t < now - age)"

definition idle :: "connector_row \<Rightarrow> bool" where
  "idle c \<longleftrightarrow> c_last_sync_status c \<notin> set [''QUEUED'', ''RUNNING'']"

definition due :: "tstamp \<Rightarrow> connector_row \<Rightarrow> bool" where
  "due now c \<longleftrightarrow> c_enabled c \<and> c_read_enabled c \<and>
     c_type c \<in> set [''SCIM_2_0'', ''LDAP_DIRECTORY'', ''ENTRA_ID'', ''OKTA'', ''GOOGLE_WORKSPACE'', ''GITHUB''] \<and> idle c \<and>
     (c_sync_interval c = ''HOURLY'' \<and> older now (3600 * Second) c \<or> c_sync_interval c = ''DAILY'' \<and> older now (86400 * Second) c)"

definition due_connectors :: "tstamp \<Rightarrow> apidb \<Rightarrow> (string \<times> string) list" where
  "due_connectors now d = map (\<lambda>c. (c_org c, c_id c)) (filter (due now) (connectors (core d)))"

definition sql_claim_sync :: "string \<Rightarrow> string \<Rightarrow> (store, int) stmt" where
  "sql_claim_sync org con = upd (\<lambda>now gen d.
    (let P = (\<lambda>c. c_org c = org \<and> c_id c = con \<and> idle c) in
     (count_where P (connectors d), d\<lparr>connectors := update_where P
       (\<lambda>c. c\<lparr>c_last_sync_status := ''QUEUED'', c_updated_at := now\<rparr>) (connectors d)\<rparr>)))"

definition sql_sync_partial :: "string \<Rightarrow> string \<Rightarrow> (store, unit) stmt" where
  "sql_sync_partial org con = upd (\<lambda>now gen d. ((), d\<lparr>connectors := update_where (\<lambda>c. c_org c = org \<and> c_id c = con)
     (\<lambda>c. c\<lparr>c_last_sync_status := ''PARTIAL'', c_updated_at := now\<rparr>) (connectors d)\<rparr>))"

text \<open>\<open>t.Format("200601021504")\<close>\<close>

definition FormatMinute :: "tstamp \<Rightarrow> string" where
  "FormatMinute t = (let secs = t div Second; s = secs mod 86400 in
     case civil (secs div 86400) of (y, m, d) \<Rightarrow> padded 4 y @ padded 2 m @ padded 2 d @ padded 2 (s div 3600) @ padded 2 (s div 60 mod 60))"

text \<open>
  A due synchronization goes to the queue, or to the pool of the process. The pool runs it later; here it runs at
  once, and what becomes of it is not looked at.
\<close>

definition submit_sync :: "Server \<Rightarrow> string \<Rightarrow> string \<Rightarrow> string \<Rightarrow> unit api" where
  "submit_sync s org con request_id =
    (if JobMode s = ''DISTRIBUTED'' then
       (case DistributedQueueOf s of None \<Rightarrow> fail (Errorf ''no queue'')
        | Some q \<Rightarrow> bnd time_now (\<lambda>now. bnd (zoom job_table put_jobs (Enqueue q org ''CONNECTOR_SYNC''
            (Inr (Marshal (JObj [(''connectorId'', JStr con), (''requestId'', JStr request_id)])))
            (''scheduled-sync:'' @ con @ '':'' @ FormatMinute now) 50)) (\<lambda>_. ret ())))
     else (\<lambda>w. case poolFate s of
         Some fate \<Rightarrow> if fate (ticks w) = PoolRefused then fail (Errorf ''worker queue is full'') w
           else ignore (service (SyncConnector (Assurance s) org con request_id)) w
       | None \<Rightarrow> ignore (service (SyncConnector (Assurance s) org con request_id)) w))"

definition schedule_one :: "Server \<Rightarrow> string \<times> string \<Rightarrow> unit api" where
  "schedule_one s item = (case item of (org, con) \<Rightarrow>
    bnd (attempt (exec (on_core (sql_claim_sync org con)))) (\<lambda>claimed. case claimed of
       Inl _ \<Rightarrow> ret ()
     | Inr n \<Rightarrow>
       if n = 0 then ret ()
       else bnd new_uuid (\<lambda>request_id. bnd (attempt (submit_sync s org con request_id)) (\<lambda>submitted. case submitted of
          Inl _ \<Rightarrow> ignore (exec (on_core (sql_sync_partial org con)))
        | Inr _ \<Rightarrow> ret ()))))"

text \<open>An error that cuts the stream of due connectors is not read: the rows that arrived are scheduled.\<close>

definition scheduled_syncs :: "Server \<Rightarrow> unit api" where
  "scheduled_syncs s = bnd (\<lambda>w. query_rows (due_connectors (now_of w)) w) (\<lambda>(items, _). for_each (schedule_one s) items)"

section \<open>Job handlers\<close>

text \<open>\<open>parse\<close> gives the JSON value a payload text denotes.\<close>

definition decode_sync_job :: "(string \<times> json) list \<Rightarrow> (string \<times> string) option" where
  "decode_sync_job kv = do { c \<leftarrow> str_field ''ConnectorID'' kv; r \<leftarrow> str_field ''RequestID'' kv; Some (c, r) }"

definition decode_execute_job :: "(string \<times> json) list \<Rightarrow> (string \<times> string) option" where
  "decode_execute_job kv = do { c \<leftarrow> str_field ''CaseID'' kv; a \<leftarrow> str_field ''ActorUserID'' kv; Some (c, a) }"

definition sync_job :: "(string \<Rightarrow> json option) \<Rightarrow> Server \<Rightarrow> DistributedJob \<Rightarrow> unit api" where
  "sync_job parse s job = (case Option.bind (parse (JobPayload job)) (as_struct decode_sync_job) of
     None \<Rightarrow> fail (Errorf ''json'')
   | Some (con, request_id) \<Rightarrow>
     runBounded s (bnd (service (SyncConnector (Assurance s) (JobOrganizationID job) con request_id)) (\<lambda>_. ret ())))"

definition execute_job :: "(string \<Rightarrow> json option) \<Rightarrow> Server \<Rightarrow> DistributedJob \<Rightarrow> unit api" where
  "execute_job parse s job = (case Option.bind (parse (JobPayload job)) (as_struct decode_execute_job) of
     None \<Rightarrow> fail (Errorf ''json'')
   | Some (cid, actor) \<Rightarrow> runBounded s (bnd (service (executeAndVerify s (JobOrganizationID job) cid actor)) (\<lambda>_. ret ())))"

section \<open>The health check\<close>

text \<open>The exit code of \<open>backend/cmd/healthcheck/main.go\<close>, from what the HTTP client returned for \<open>http://127.0.0.1:8080/health\<close>.\<close>

definition healthcheck :: "error + http_response \<Rightarrow> int" where
  "healthcheck got = (case got of Inl err \<Rightarrow> 1 | Inr resp \<Rightarrow> if s_status resp \<noteq> 200 then 1 else 0)"

section \<open>The database connection\<close>

definition next_delay :: "int \<Rightarrow> int" where
  "next_delay delay = (if delay < 5 * Second then (if 2 * delay > 5 * Second then 5 * Second else 2 * delay) else delay)"

text \<open>
  The loop of \<open>openDatabase\<close> at its k-th attempt, \<open>t\<close> nanoseconds after the start: \<open>up k\<close> tells whether the k-th
  attempt connects, \<open>cost k\<close> how long it takes. The result is the attempt that connected, or the error; \<open>None\<close>
  is a loop that has not ended yet.
\<close>

fun open_loop :: "nat \<Rightarrow> (nat \<Rightarrow> bool) \<Rightarrow> (nat \<Rightarrow> int) \<Rightarrow> int \<Rightarrow> nat \<Rightarrow> int \<Rightarrow> int \<Rightarrow> (nat option) option" where
  "open_loop 0 up cost timeout k t delay = None"
| "open_loop (Suc fuel) up cost timeout k t delay =
    (if up k then Some (Some k)
     else if timeout \<le> t + cost k \<or> timeout \<le> t + cost k + delay then Some None
     else open_loop fuel up cost timeout (Suc k) (t + cost k + delay) (next_delay delay))"

definition openDatabase :: "nat \<Rightarrow> (nat \<Rightarrow> bool) \<Rightarrow> (nat \<Rightarrow> int) \<Rightarrow> (nat option) option" where
  "openDatabase fuel up cost = open_loop fuel up cost (60 * Second) 0 0 (250 * 1000000)"

text \<open>
  The loop ends as soon as the delays alone use up the time, whatever the attempts cost.
\<close>

fun waits :: "nat \<Rightarrow> int \<Rightarrow> int" where
  "waits 0 delay = 0"
| "waits (Suc n) delay = delay + waits n (next_delay delay)"

lemma open_loop_ends:
  assumes "\<And>k. 0 \<le> cost k" and "timeout \<le> t + waits (Suc n) delay"
  shows "\<exists>r. open_loop (Suc n) up cost timeout k t delay = Some r \<and>
    (case r of None \<Rightarrow> True | Some m \<Rightarrow> up m \<and> k \<le> m \<and> \<not> list_ex up [k..<m])"
  using assms(2)
proof (induction n arbitrary: k t delay)
  case 0
  then show ?case using assms(1) [of k] by auto
next
  case (Suc n)
  show ?case
  proof (cases "up k \<or> timeout \<le> t + cost k \<or> timeout \<le> t + cost k + delay")
    case False
    have "timeout \<le> (t + cost k + delay) + waits (Suc n) (next_delay delay)" using Suc.prems assms(1) [of k] by simp
    from Suc.IH [OF this, of "Suc k"] obtain r where
      "open_loop (Suc n) up cost timeout (Suc k) (t + cost k + delay) (next_delay delay) = Some r"
      "case r of None \<Rightarrow> True | Some m \<Rightarrow> up m \<and> Suc k \<le> m \<and> \<not> list_ex up [Suc k..<m]" by blast
    with False show ?thesis by (auto simp: upt_conv_Cons split: option.splits)
  qed auto
qed

text \<open>
  The process does not wait for its database forever: with the back-off from 250 milliseconds to five seconds
  and the limit of a minute the loop has ended after sixteen attempts, with the first attempt that connected or
  with the error.
\<close>

lemma open_database_ends:
  assumes "\<And>k. 0 \<le> cost k"
  shows "\<exists>r. openDatabase 16 up cost = Some r \<and> (case r of None \<Rightarrow> True | Some m \<Rightarrow> up m \<and> \<not> list_ex up [0..<m])"
proof -
  have n: "(16 :: nat) = Suc 15" by simp
  have "60 * Second \<le> 0 + waits (Suc 15) (250 * 1000000)" by (simp add: next_delay_def eval_nat_numeral)
  from open_loop_ends [where cost = cost and k = 0 and up = up, OF assms this] obtain r where
    "open_loop (Suc 15) up cost (60 * Second) 0 0 (250 * 1000000) = Some r"
    "case r of None \<Rightarrow> True | Some m \<Rightarrow> up m \<and> 0 \<le> m \<and> \<not> list_ex up [0..<m]" by blast
  then show ?thesis unfolding openDatabase_def n by (intro exI [of _ r]) (simp split: option.splits)
qed

end
