(* ===== verification/TenantService.thy ===== *)
theory TenantService
  imports EndToEnd ReconcileProps AccessReview
begin

text \<open>
  The assurance service stays within its tenant: every method that is called for an organization leaves the rows of all
  others as they are, and moves no connector or credential from one organization to another.
\<close>

section \<open>The frame\<close>

context state_frame
begin

text \<open>What is bound may be known to be a result of the first part.\<close>

lemma keeps_bnd_at:
  assumes "keeps R m" and "\<And>w x t. m w = (Inr x, t) \<Longrightarrow> keeps R (k x)"
  shows "keeps R (bnd m k)"
proof (rule keepsI)
  fix w
  obtain r t where m: "m w = (r, t)" by fastforce
  have t: "R w t" using assms(1) m by (rule keepsD)
  show "R w (snd (bnd m k w))"
  proof (cases r)
    case (Inr x)
    with m have "R t (snd (k x t))" using assms(2) by (auto simp: keeps_def)
    with t m Inr show ?thesis using frame_trans by (auto simp: bnd_def)
  qed (use t m in \<open>simp add: bnd_def\<close>)
qed

end

definition same_owners :: "store \<Rightarrow> store \<Rightarrow> bool" where
  "same_owners d d' \<longleftrightarrow> map (\<lambda>c. (c_id c, c_org c)) (connectors d') = map (\<lambda>c. (c_id c, c_org c)) (connectors d) \<and>
     map (\<lambda>c. (cc_connector c, cc_org c)) (credentials d') = map (\<lambda>c. (cc_connector c, cc_org c)) (credentials d)"

definition own_rows :: "string \<Rightarrow> store \<Rightarrow> store \<Rightarrow> bool" where
  "own_rows org d d' \<longleftrightarrow> same_elsewhere org d d' \<and> same_owners d d'"

named_theorems stmt_own \<open>statements that only change rows of their tenant\<close>

interpretation own: db_frame "own_rows org" for org
  by unfold_locales (simp_all add: own_rows_def same_elsewhere_def same_owners_def)

lemma own_unchanged: "keeps (on_db (=)) m \<Longrightarrow> keeps (on_db (own_rows org)) m"
  by (erule keeps_db_mono) (simp add: own.db_refl)

lemma own_sends: "keeps (sends P) m \<Longrightarrow> keeps (on_db (own_rows org)) m"
  by (rule own_unchanged) (rule sends_same_db)

section \<open>Statements\<close>

lemma own_lifecycle [stmt_own]:
  "stmt_keeps (own_rows org) (sql_insert_case cid org user person)" "stmt_keeps (own_rows org) (sql_insert_action org cid item)"
  "stmt_keeps (own_rows org) (sql_plan_case n org cid)" "stmt_keeps (own_rows org) (sql_insert_event org cid ty summary meta)"
  "stmt_keeps (own_rows org) (sql_approve_case org cid)" "stmt_keeps (own_rows org) (sql_approve_actions org cid user)"
  "stmt_keeps (own_rows org) (sql_cancel_case org cid)" "stmt_keeps (own_rows org) (sql_skip_actions org cid)"
  "stmt_keeps (own_rows org) (sql_audit org actor event rtype rid meta req)" "stmt_keeps (own_rows org) (sql_start_case org cid)"
  "stmt_keeps (own_rows org) (sql_start_action org aid)" "stmt_keeps (own_rows org) (sql_account_disabled org acc)"
  "stmt_keeps (own_rows org) (sql_finish_action outcome summary org aid)"
  "stmt_keeps (own_rows org) (sql_insert_evidence org cid av outcome summary)" "stmt_keeps (own_rows org) (sql_verifying org cid)"
  "stmt_keeps (own_rows org) (sql_insert_snapshot org cid v status)"
  "stmt_keeps (own_rows org) (sql_complete_case org cid final status v)"
  unfolding sql_insert_case_def sql_insert_action_def sql_plan_case_def sql_insert_event_def sql_approve_case_def sql_approve_actions_def
    sql_cancel_case_def sql_skip_actions_def sql_audit_def sql_start_case_def sql_start_action_def sql_account_disabled_def
    sql_finish_action_def sql_insert_evidence_def sql_verifying_def sql_insert_snapshot_def sql_complete_case_def
  by (auto simp: stmt_keeps_def upd_def Let_def own_rows_def same_elsewhere_def same_owners_def new_case_def new_action_def
      split: if_splits list.splits intro!: filter_update_where)

lemma own_sync [stmt_own]:
  "stmt_keeps (own_rows org) (sql_mark_missing org con key seen)" "stmt_keeps (own_rows org) (sql_sync_succeeded n m summary org run)"
  "stmt_keeps (own_rows org) (sql_connector_synced org con)" "stmt_keeps (own_rows org) (sql_run_succeeded n m found summary org run)"
  "stmt_keeps (own_rows org) (sql_sync_failed code msg org run)" "stmt_keeps (own_rows org) (sql_connector_failed org con)"
  "stmt_keeps (own_rows org) (sql_run_failed code org run)" "stmt_keeps (own_rows org) (sql_item_decided org item)"
  "stmt_keeps (own_rows org) (sql_propose_revocation org item campaign)" "stmt_keeps (own_rows org) (sql_complete_campaign org campaign)"
  unfolding sql_mark_missing_def sql_sync_succeeded_def sql_connector_synced_def sql_run_succeeded_def sql_sync_failed_def
    sql_connector_failed_def sql_run_failed_def sql_item_decided_def sql_propose_revocation_def sql_complete_campaign_def
  by (rule own.stmt_keeps_upd,
      auto simp: own_rows_def same_elsewhere_def same_owners_def intro!: filter_update_where map_update_where)+

lemma own_upserts [stmt_own]:
  "stmt_keeps (own_rows org) (sql_start_sync run org con req)" "stmt_keeps (own_rows org) (sql_start_run run org con)"
  "stmt_keeps (own_rows org) (sql_upsert_entitlement org con ext name)" "stmt_keeps (own_rows org) (sql_grant org ent src con ext)"
  "stmt_keeps (own_rows org) (sql_insert_link org person acct conf reason)"
  "stmt_keeps (own_rows org) (sql_insert_candidate org person acct conf reasons)"
  "stmt_keeps (own_rows org) (sql_insert_orphan org acct con reason)" "stmt_keeps (own_rows org) (sql_upsert_person org src row)"
  "stmt_keeps (own_rows org) (sql_insert_decision org item user decision comment)"
  unfolding sql_start_sync_def sql_start_run_def sql_upsert_entitlement_def sql_grant_def sql_insert_link_def sql_insert_candidate_def
    sql_insert_orphan_def sql_upsert_person_def sql_insert_decision_def
  by (auto simp: stmt_keeps_def own_rows_def same_elsewhere_def same_owners_def is_entitlement_key_def is_grant_key_def is_person_key_def
      split: option.splits if_splits intro!: filter_update_where)

lemma own_accounts [stmt_own]:
  "stmt_keeps (own_rows org) (sql_scim_account org con u)" "stmt_keeps (own_rows org) (sql_ldap_account org con x)"
  "stmt_keeps (own_rows org) (sql_native_account org con ty v)"
  unfolding sql_scim_account_def sql_ldap_account_def sql_native_account_def Let_def sql_upsert_account_def
  by (auto simp: stmt_keeps_def own_rows_def same_elsewhere_def same_owners_def is_account_key_def
      split: option.splits if_splits intro!: filter_update_where)

lemma insert_duplicates_elsewhere:
  "filter (\<lambda>f. f_org f \<noteq> org) (insert_duplicates now org gen i gs fs) = filter (\<lambda>f. f_org f \<noteq> org) fs"
  by (induction gs arbitrary: i fs) (simp_all add: duplicate_finding_def)

lemma own_duplicates [stmt_own]: "stmt_keeps (own_rows org) (sql_insert_duplicates org)"
  unfolding sql_insert_duplicates_def
  by (rule own.stmt_keeps_upd) (simp add: own_rows_def same_elsewhere_def same_owners_def insert_duplicates_elsewhere)

lemmas own_rules = own.world.keeps_combinators own.keeps_database own.keeps_exec stmt_own

section \<open>Methods\<close>

lemma own_lifecycle_methods:
  "keeps (on_db (own_rows org)) (CreateCase org person user)" "keeps (on_db (own_rows org)) (PlanCase org cid user)"
  "keeps (on_db (own_rows org)) (ApproveCase org cid user)" "keeps (on_db (own_rows org)) (cancelCase org cid user req)"
  "keeps (on_db (own_rows org)) (DecideReview org item user decision comment)"
  "keeps (on_db (own_rows org)) (ImportPeople org src rows)" "keeps (on_db (own_rows org)) (GetCase org cid)"
  unfolding CreateCase_def PlanCase_def plan_body_def ApproveCase_def approve_body_def cancelCase_def DecideReview_def decide_body_def
    ImportPeople_def import_body_def GetCase_def
  by (intro own_rules)+

interpretation own_run: case_frame "own_rows org" org cid for org cid
  by unfold_locales (intro stmt_own)+

text \<open>What the service relies on: secrets are read without a trace in the database, notifications are stored for their own tenant.\<close>

definition stays_home :: "Service \<Rightarrow> string \<Rightarrow> bool" where
  "stays_home s org \<longleftrightarrow> secrets_keep (on_db (=)) s \<and> notifier_keeps (on_db (own_rows org)) org (NotifierOf s)"

lemma own_ExecuteAndVerify:
  assumes "stays_home s org"
  shows "keeps (on_db (own_rows org)) (ExecuteAndVerify (executeRemoteAction s) (NotifierOf s) org cid user)"
proof -
  have "remote_keeps (on_db (own_rows org)) org (executeRemoteAction s)"
    using assms unfolding remote_keeps_def stays_home_def by (blast intro: own_unchanged unchanged_remote)
  then show ?thesis using assms unfolding ExecuteAndVerify_def stays_home_def
    by (intro own_rules own_run.keeps_run_case) auto
qed

lemma own_match_people: "keeps (on_db (own_rows org)) (match_people org counts a ps candidate)"
proof (induction ps arbitrary: candidate)
  case Nil
  show ?case by (simp add: own.world.keeps_ret)
next
  case (Cons p ps)
  show ?case unfolding match_people.simps by (intro own_rules Cons.IH)
qed

lemma own_correlate: "keeps (on_db (own_rows org)) (correlate org con)"
  unfolding correlate_def correlate_account_def by (intro own_rules own_match_people)

lemma own_bodies:
  "keeps (on_db (own_rows org)) (scim_body org con name run users groups)"
  "keeps (on_db (own_rows org)) (ldap_body org con name run entries entries')"
  "keeps (on_db (own_rows org)) (native_body org con name ty run pusers pgroups)"
  unfolding scim_body_def ldap_body_def native_body_def Let_def by (intro own_rules own_correlate)+

lemma own_open_run: "keeps (on_db (own_rows org)) (open_run org con req c)"
  unfolding open_run_def by (intro own_rules)

lemma own_failSync:
  assumes "stays_home s org"
  shows "keeps (on_db (own_rows org)) (failSync s org con run code e)"
  using assms unfolding failSync_def stays_home_def by (intro own_rules own_run.keeps_send_event) auto

lemma own_or_failSync:
  assumes "stays_home s org" and "keeps (on_db (own_rows org)) m"
    and "\<And>w x t. m w = (Inr x, t) \<Longrightarrow> keeps (on_db (own_rows org)) (k x)"
  shows "keeps (on_db (own_rows org)) (or_failSync s org con run code m k)"
  unfolding or_failSync_def
  by (rule own.world.keeps_bnd_at [OF own.world.keeps_attempt [OF assms(2)]])
    (auto simp: attempt_def intro: own_failSync [OF assms(1)] assms(3) split: prod.splits sum.split)

lemma own_scan_string: "keeps (on_db (own_rows org)) (scan_string x)"
  by (cases x) (simp_all add: scan_string_def own.world.keeps_ret own.world.keeps_fail)

text \<open>The clients read remote systems and leave the database alone.\<close>

lemma own_clients:
  assumes "stays_home s org"
  shows "keeps (on_db (own_rows org)) (connectorToken s org con)" "keeps (on_db (own_rows org)) (ldapConfiguration s org con)"
    "keeps (on_db (own_rows org)) (nativeClient s org con)"
  using assms unfolding stays_home_def
  by (auto intro: own_unchanged keeps_connectorToken keeps_ldapConfiguration keeps_nativeClient)

lemma own_remote_reads:
  "keeps (on_db (own_rows org)) (Scim.ListUsers sc n :: (store networld, Scim.User list) comp)"
  "keeps (on_db (own_rows org)) (Scim.ListGroups sc n :: (store networld, Scim.Group list) comp)"
  "keeps (on_db (own_rows org)) (Ldap.SearchUsers lc :: (store networld, Entry list) comp)"
  "keeps (on_db (own_rows org)) (Ldap.SearchGroups lc :: (store networld, Entry list) comp)"
  by (rule own_sends [OF scim_reads(2)] own_sends [OF scim_reads(3)] own_unchanged [OF keeps_ldap_client(1)]
      own_unchanged [OF keeps_ldap_client(2)])+

lemma native_made:
  assumes "stays_home s org" and "nativeClient s org con w = (Inr cl, t)"
  obtains ty b credential configuration where "new_native ty b credential configuration (AllowHTTP s) = Inr cl"
  using assms wp_InrD [OF nativeClient_row assms(2)] unfolding stays_home_def by metis

lemma own_SyncConnector:
  assumes "stays_home s org"
  shows "keeps (on_db (own_rows org)) (SyncConnector s org con req)"
proof -
  have native: "keeps (on_db (own_rows org)) (Client.ListUsers cl)" "keeps (on_db (own_rows org)) (Client.ListGroups cl)"
    if "nativeClient s org con w = (Inr cl, t)" for cl w t
    using native_made [OF assms that] keeps_native_lists(1,2) own_unchanged by metis+
  show ?thesis
    unfolding SyncConnector_def connector_type_def SyncSCIM_def SyncLDAP_def SyncNative_def
    by (intro own_rules own_scan_string own_open_run own_or_failSync assms own_clients own_bodies own_remote_reads native, assumption+)
qed

lemma own_TestConnection:
  assumes "stays_home s org"
  shows "keeps (on_db (own_rows org)) (Sync.TestConnection s org con)"
proof -
  have native: "keeps (on_db (own_rows org)) (bnd (nativeClient s org con) (\<lambda>cl. Client.TestConnection cl))"
  proof (rule own.world.keeps_bnd_at [OF own_clients(3) [OF assms]])
    fix w cl t assume "nativeClient s org con w = (Inr cl, t)"
    then obtain http where "native_client http cl" using native_made [OF assms] new_native_contract by metis
    then show "keeps (on_db (own_rows org)) (Client.TestConnection cl)" using native_client.reads_TestConnection own_sends by blast
  qed
  have ldap: "keeps (on_db (own_rows org)) (Ldap.TestConnection cl :: (store networld, unit) comp)" for cl
    unfolding Ldap.TestConnection_def dial_def ldap_ok_def by (rule own_unchanged) (intro ldap_rules)
  show ?thesis
    unfolding Sync.TestConnection_def connector_type_def TestSCIMConnection_def
    by (intro native own_rules own_scan_string own_clients assms ldap own_sends [OF scim_reads(1)])
qed

section \<open>The server's service\<close>

lemma home_InApp: "ne_org e = org \<Longrightarrow> keeps (on_db (own_rows org)) (InApp e)"
  unfolding InApp_def sql_insert_notification_def
  by (intro own.keeps_exec own.stmt_keeps_upd) (simp add: own_rows_def same_elsewhere_def same_owners_def)

lemma home_webhook: "keeps (on_db (own_rows org)) (webhook_notify n e)"
  unfolding webhook_notify_def
  by (intro own_rules own_sends [OF sends_round_trip]) (rule TrueI)

lemma server_stays_home:
  assumes "server_service s unseal vault wh"
  shows "stays_home s org"
proof -
  have "notifier_keeps (on_db (own_rows org)) org (NotifierOf s)"
    using assms by (auto simp: server_service_def notifier_keeps_def server_notifier_def Fanout_def fanout_each_def
        split: option.splits intro!: own_rules home_InApp home_webhook)
  then show ?thesis using same_db_secrets [OF server_service_sends [OF assms]] by (simp add: stays_home_def)
qed

end
