(* ===== verification/Startup.thy ===== *)
theory Startup
  imports Pool Process TenantService
begin

text \<open>
  The start of the process in \<open>backend/cmd/server/main.go\<close> up to the point where it serves: the configuration, the
  database with its migrations and the first owner, the secret store, the notifiers, the service, the job queue with its
  handlers and the API server. Every step that fails ends the process before a request is served.
\<close>

section \<open>The parts\<close>

datatype secret_store = VaultStore VaultTransitStore | AesStore AESGCMStore

definition secret_decrypt :: "(string \<Rightarrow> string \<Rightarrow> string \<Rightarrow> string option) \<Rightarrow> secret_store \<Rightarrow> string \<Rightarrow> ('d networld, string) comp" where
  "secret_decrypt unseal ss c = (case ss of VaultStore v \<Rightarrow> vault_Decrypt v c | AesStore st \<Rightarrow> liftE (aes_Decrypt unseal st c))"

definition secret_encrypt :: "Server \<Rightarrow> (string \<Rightarrow> string \<Rightarrow> string \<Rightarrow> string) \<Rightarrow> secret_store \<Rightarrow> string \<Rightarrow> string api" where
  "secret_encrypt base seal ss x = (case ss of VaultStore v \<Rightarrow> vault_Encrypt v x
     | AesStore st \<Rightarrow> bnd (random_read base nonce_size) (\<lambda>n. liftE (aes_Encrypt seal st n x)))"

definition secret_health :: "secret_store \<Rightarrow> unit api option" where
  "secret_health ss = (case ss of VaultStore v \<Rightarrow> Some (vault_Health v) | AesStore st \<Rightarrow> None)"

definition secretProviderName :: "secret_store \<Rightarrow> string" where
  "secretProviderName ss = (case ss of VaultStore v \<Rightarrow> ''VAULT_TRANSIT'' | AesStore st \<Rightarrow> ''LOCAL_AES_GCM'')"

definition main_secrets :: "Config \<Rightarrow> error + secret_store" where
  "main_secrets cfg =
    (if SecretProvider cfg = ''VAULT_TRANSIT'' then
       map_sum id VaultStore (NewVaultTransitStore (VaultAddress cfg) (VaultToken cfg) (VaultNamespace cfg) (VaultTransitMount cfg)
         (VaultTransitKey cfg) (Environment cfg \<noteq> ''production''))
     else map_sum id AesStore (NewAESGCMStore (MasterKey cfg)))"

definition main_webhook :: "Config \<Rightarrow> error + Webhook option" where
  "main_webhook cfg =
    (if WebhookURL cfg = [] then Inr None
     else map_sum id Some (NewWebhook (WebhookURL cfg) (WebhookSecret cfg) (Environment cfg \<noteq> ''production'')))"

text \<open>
  What the process runs on: the third-party functions (those in the fields of \<open>base\<close> that the start does not set, the seals of
  \<open>crypto/cipher\<close>, the value of a JSON text), the effect of an SQL script, the migration directories, the times at which the
  database can be reached, and the environment variables.
\<close>

record host =
  base :: Server
  parse :: "string \<Rightarrow> json option"
  seal :: "string \<Rightarrow> string \<Rightarrow> string \<Rightarrow> string"
  unseal :: "string \<Rightarrow> string \<Rightarrow> string \<Rightarrow> string option"
  script :: "string \<Rightarrow> (apidb, unit) stmt"
  listing :: "string \<Rightarrow> dir_entry list option"
  reachable :: "nat \<Rightarrow> bool"
  cost :: "nat \<Rightarrow> int"
  getenv :: environment

definition main_service :: "host \<Rightarrow> Config \<Rightarrow> secret_store \<Rightarrow> Webhook option \<Rightarrow> Service" where
  "main_service h cfg ss wh = \<lparr>Secrets = Some (secret_decrypt (unseal h) ss), AllowHTTP = (Environment cfg \<noteq> ''production''),
     NotifierOf = server_notifier wh\<rparr>"

text \<open>The errors of \<open>Register\<close> are dropped.\<close>

definition register_or_keep ::
  "string \<Rightarrow> (DistributedJob \<Rightarrow> unit api) \<Rightarrow> (apidb networld) DistributedQueue \<Rightarrow> (apidb networld) DistributedQueue" where
  "register_or_keep kind f q = (case Register q kind (Some f) of Inl _ \<Rightarrow> q | Inr q' \<Rightarrow> q')"

definition main_queue :: "host \<Rightarrow> Server \<Rightarrow> (apidb networld) DistributedQueue \<Rightarrow> (apidb networld) DistributedQueue" where
  "main_queue h s q = register_or_keep ''LIFECYCLE_EXECUTE'' (execute_job (parse h) s)
     (register_or_keep ''CONNECTOR_SYNC'' (sync_job (parse h) s) q)"

definition NewServer :: "host \<Rightarrow> Config \<Rightarrow> Service \<Rightarrow> secret_store \<Rightarrow> (apidb networld) DistributedQueue \<Rightarrow> Server" where
  "NewServer h cfg svc ss q = (base h)\<lparr>Assurance := svc, Encrypt := secret_encrypt (base h) (seal h) ss,
     Decrypt := secret_decrypt (unseal h) ss, Health := secret_health ss, providerName := secretProviderName ss,
     AllowedOrigin := ConfigOrigin cfg, SecureCookies := ConfigSecureCookies cfg, RequirePrivilegedMFA := ConfigPrivilegedMFA cfg,
     MaxCSVBytes := ConfigMaxCSVBytes cfg, DistributedQueueOf := Some q, JobMode := ConfigJobMode cfg, RateLimiter := True,
     trustedProxies := new_proxies (TrustedProxyCIDRs cfg)\<rparr>"

definition main_server :: "host \<Rightarrow> Config \<Rightarrow> secret_store \<Rightarrow> Webhook option \<Rightarrow> (apidb networld) DistributedQueue \<Rightarrow> Server" where
  "main_server h cfg ss wh q =
    (let svc = main_service h cfg ss wh in NewServer h cfg svc ss (main_queue h ((base h)\<lparr>Assurance := svc\<rparr>) q))"

section \<open>The start\<close>

text \<open>Sixteen attempts are all that fit into the minute that \<open>openDatabase\<close> has.\<close>

definition startup :: "host \<Rightarrow> Server api" where
  "startup h =
    bnd (liftE (Load (getenv h))) (\<lambda>cfg.
    bnd (case openDatabase 16 (reachable h) (cost h) of Some (Some _) \<Rightarrow> ret () | _ \<Rightarrow> fail (Errorf ''database unavailable'')) (\<lambda>_.
    bnd (Migrate (script h) (listing h (env (getenv h) ''IDENTITYMESH_MIGRATIONS_DIR'' ''migrations''))) (\<lambda>_.
    bnd (Bootstrap (base h) (BootstrapEmail cfg) (BootstrapPassword cfg)) (\<lambda>_.
    bnd (liftE (main_secrets cfg)) (\<lambda>ss.
    bnd (liftE (main_webhook cfg)) (\<lambda>wh.
    bnd (NewDistributedQueue False (ConfigWorkerID cfg) (WorkerLease cfg) (WorkerPollInterval cfg)) (\<lambda>q.
    ret (main_server h cfg ss wh q))))))))"

text \<open>The periodic tasks with their names and intervals, the pools and the workers of the queue.\<close>

definition main_tasks :: "Server \<Rightarrow> (string \<times> int \<times> unit api) list" where
  "main_tasks s = [(''access-review-deadlines'', Minute, review_deadlines), (''connector-synchronization'', Minute, scheduled_syncs s),
     (''rate-limit-cleanup'', 5 * Minute, zoom limit_table put_limits Cleanup)]"

definition main_pools :: "Config \<Rightarrow> 'j Pool \<times> 'j Pool" where
  "main_pools cfg = (Pool.New (MaxConcurrentSyncs cfg) (MaxConcurrentSyncs cfg * 4), Pool.New (MaxConcurrentActs cfg) (MaxConcurrentActs cfg * 4))"

definition main_workers :: "Config \<Rightarrow> int" where
  "main_workers cfg = (if ConfigJobMode cfg = ''DISTRIBUTED'' then MaxConcurrentSyncs cfg + MaxConcurrentActs cfg else 0)"

lemma new_queue:
  "NewDistributedQueue False worker lease poll w = (Inr q, t) \<Longrightarrow>
    10 * Second \<le> Lease q \<and> 50 * Millisecond \<le> PollInterval q \<and> handlers q = (\<lambda>_. None)"
  by (auto simp: NewDistributedQueue_def ret_def elim!: bnd_InrE)

lemma liftE_Inr: "liftE x w = (Inr y, t) \<longleftrightarrow> x = Inr y \<and> t = w"
  by (auto simp: liftE_def split: sum.splits)

lemma startup_steps:
  assumes "startup h w = (Inr s, w')"
  obtains cfg ss wh q where "Load (getenv h) = Inr cfg" "main_secrets cfg = Inr ss" "main_webhook cfg = Inr wh"
    "10 * Second \<le> Lease q" "50 * Millisecond \<le> PollInterval q" "handlers q = (\<lambda>_. None)" "s = main_server h cfg ss wh q"
proof -
  from assms obtain cfg ss wh q and t t' :: "apidb networld" where step: "Load (getenv h) = Inr cfg" "main_secrets cfg = Inr ss"
      "main_webhook cfg = Inr wh" "NewDistributedQueue False (ConfigWorkerID cfg) (WorkerLease cfg) (WorkerPollInterval cfg) t = (Inr q, t')"
      "s = main_server h cfg ss wh q"
    unfolding startup_def by (elim bnd_InrE) (auto simp: liftE_Inr ret_def)
  with step new_queue [OF step(4)] that show thesis by blast
qed

section \<open>What is started\<close>

definition server_crypto ::
  "Server \<Rightarrow> (string \<Rightarrow> string \<Rightarrow> string \<Rightarrow> string) \<Rightarrow> (string \<Rightarrow> string \<Rightarrow> string \<Rightarrow> string option) \<Rightarrow> VaultTransitStore option \<Rightarrow> bool" where
  "server_crypto s sealf unsealf vault \<longleftrightarrow> (case vault of
     Some v \<Rightarrow> Encrypt s = vault_Encrypt v \<and> Decrypt s = vault_Decrypt v \<and> Health s = Some (vault_Health v)
   | None \<Rightarrow> Health s = None \<and> (\<exists>st. Encrypt s = (\<lambda>x. bnd (random_read s nonce_size) (\<lambda>n. liftE (aes_Encrypt sealf st n x))) \<and>
       Decrypt s = (\<lambda>c. liftE (aes_Decrypt unsealf st c)) \<and> length (aes_key st) = 32))"

definition vault_of :: "secret_store \<Rightarrow> VaultTransitStore option" where
  "vault_of ss = (case ss of VaultStore v \<Rightarrow> Some v | AesStore st \<Rightarrow> None)"

lemma main_secrets_cases:
  assumes "main_secrets cfg = Inr ss"
  obtains (vault) v where "ss = VaultStore v" "SecretProvider cfg = ''VAULT_TRANSIT''"
      "Environment cfg = ''production'' \<Longrightarrow> u_scheme (v_origin v) = ''https''"
  | (aes) st where "ss = AesStore st" "SecretProvider cfg \<noteq> ''VAULT_TRANSIT''" "length (aes_key st) = 32"
  using assms
  by (auto simp: main_secrets_def map_sum_def NewVaultTransitStore_def NewAESGCMStore_def Let_def split: if_splits sum.splits option.splits)

lemma main_webhook_https:
  "main_webhook cfg = Inr (Some n) \<Longrightarrow> Environment cfg = ''production'' \<Longrightarrow> u_scheme (wh_endpoint n) = ''https''"
  by (auto simp: main_webhook_def map_sum_def NewWebhook_def split: if_splits sum.splits option.splits)

lemma main_server_parts:
  assumes "main_secrets cfg = Inr ss"
  shows "server_service (Assurance (main_server h cfg ss wh q)) (unseal h) (vault_of ss) wh"
    "server_crypto (main_server h cfg ss wh q) (seal h) (unseal h) (vault_of ss)"
proof -
  have rand: "random_read (main_server h cfg ss wh q) = random_read (base h)"
    by (simp add: fun_eq_iff random_read_def main_server_def NewServer_def Let_def)
  show "server_service (Assurance (main_server h cfg ss wh q)) (unseal h) (vault_of ss) wh"
    by (auto simp: server_service_def main_server_def NewServer_def main_service_def Let_def vault_of_def secret_decrypt_def fun_eq_iff
        split: secret_store.split)
  show "server_crypto (main_server h cfg ss wh q) (seal h) (unseal h) (vault_of ss)"
    unfolding server_crypto_def rand using assms
    by (rule main_secrets_cases)
      (auto simp: main_server_def NewServer_def Let_def vault_of_def secret_decrypt_def secret_encrypt_def secret_health_def fun_eq_iff)
qed

lemma main_queue_handlers:
  assumes "handlers q = (\<lambda>_. None)"
  shows "handlers (main_queue h s q) = [''CONNECTOR_SYNC'' \<mapsto> sync_job (parse h) s, ''LIFECYCLE_EXECUTE'' \<mapsto> execute_job (parse h) s]"
    "Lease (main_queue h s q) = Lease q" "PollInterval (main_queue h s q) = PollInterval q"
  using assms by (simp_all add: main_queue_def register_or_keep_def Register_def)


definition vault_environment :: environment where
  "vault_environment key = (case map_of
     [(''IDENTITYMESH_ENV'', ''production''), (''IDENTITYMESH_DATABASE_URL'', ''postgres://db/identitymesh''),
      (''IDENTITYMESH_SESSION_SECRET'', replicate 32 (CHR ''x'')), (''IDENTITYMESH_ALLOWED_ORIGIN'', ''https://id.example''),
      (''IDENTITYMESH_SECRET_PROVIDER'', ''VAULT_TRANSIT''), (''IDENTITYMESH_VAULT_ADDR'', ''https://vault.example''),
      (''IDENTITYMESH_VAULT_TOKEN'', ''t''), (''IDENTITYMESH_TRUSTED_PROXY_CIDRS'', '' ::1/128, '')] key of
     None \<Rightarrow> [] | Some v \<Rightarrow> v)"

definition vault_host :: host where
  "vault_host = \<lparr>base = sample_server, parse = (\<lambda>_. None), seal = (\<lambda>_ _ x. x), unseal = (\<lambda>_ _ x. Some x), script = (\<lambda>_. advisory_lock),
     listing = (\<lambda>_. Some []), reachable = (\<lambda>_. True), cost = (\<lambda>_. 0), getenv = vault_environment\<rparr>"

lemma vault_config:
  obtains c v where "Load vault_environment = Inr c" "Environment c = ''production''" "main_secrets c = Inr (VaultStore v)" "WebhookURL c = []"
    "BootstrapEmail c = []"
proof -
  have "map_sum (\<lambda>_. ()) (\<lambda>c. (Environment c, WebhookURL c, BootstrapEmail c, map_sum (\<lambda>_. ()) (\<lambda>ss. vault_of ss \<noteq> None) (main_secrets c)))
      (Load vault_environment) = Inr (''production'', [], [], Inr True)"
    by code_simp
  then show thesis by (cases "Load vault_environment") (auto simp: map_sum_def vault_of_def split: sum.splits secret_store.splits intro: that)
qed

lemma vault_host_starts:
  obtains s w' c where "startup vault_host sample_apiworld = (Inr s, w')" "Load (getenv vault_host) = Inr c" "Environment c = ''production''"
proof -
  obtain c v where c: "Load vault_environment = Inr c" "Environment c = ''production''" "main_secrets c = Inr (VaultStore v)" "WebhookURL c = []"
    "BootstrapEmail c = []" by (rule vault_config)
  have up: "openDatabase 16 (\<lambda>_. True) (\<lambda>_. 0) = Some (Some 0)" by code_simp
  have "\<exists>s w'. startup vault_host sample_apiworld = (Inr s, w')"
    by (simp add: startup_def vault_host_def c up main_webhook_def Migrate_def Bootstrap_def NewDistributedQueue_def sample_apiworld_def
        exec_def advisory_lock_def upd_def bnd_def liftE_def ret_def attempt_def ignore_def new_uuid_def Let_def)
  then show thesis using c that by (auto simp: vault_host_def)
qed


end
