(* ===== verification/ApiWrites.thy ===== *)
theory ApiWrites
  imports ApiTenant ApiGate Startup
begin

text \<open>
  What a session can change: a request that carries a session of an organization leaves the rows of all other
  organizations as they are, through every route, whatever the request asks for and wherever it fails.
\<close>

section \<open>The frame\<close>

text \<open>The rows of other organizations, and the tables that belong to none. The windows of the rate limiter are keyed by
  address, path and session and are no rows of an organization.\<close>

definition api_elsewhere :: "string \<Rightarrow> apidb \<Rightarrow> apidb \<Rightarrow> bool" where
  "api_elsewhere org d d' \<longleftrightarrow> same_elsewhere org (core d) (core d') \<and>
     filter (\<lambda>j. j_org j \<noteq> org) (job_table d') = filter (\<lambda>j. j_org j \<noteq> org) (job_table d) \<and>
     filter (\<lambda>x. og_id x \<noteq> org) (organizations d') = filter (\<lambda>x. og_id x \<noteq> org) (organizations d) \<and>
     filter (\<lambda>x. us_org x \<noteq> org) (users d') = filter (\<lambda>x. us_org x \<noteq> org) (users d) \<and>
     filter (\<lambda>x. ur_org x \<noteq> org) (user_roles d') = filter (\<lambda>x. ur_org x \<noteq> org) (user_roles d) \<and>
     filter (\<lambda>x. se_org x \<noteq> org) (sessions d') = filter (\<lambda>x. se_org x \<noteq> org) (sessions d) \<and>
     filter (\<lambda>x. os_org x \<noteq> org) (settings d') = filter (\<lambda>x. os_org x \<noteq> org) (settings d) \<and>
     filter (\<lambda>x. ap_org x \<noteq> org) (applications d') = filter (\<lambda>x. ap_org x \<noteq> org) (applications d) \<and>
     filter (\<lambda>x. rp_org x \<noteq> org) (reports d') = filter (\<lambda>x. rp_org x \<noteq> org) (reports d) \<and>
     roles d' = roles d \<and> schema_migrations d' = schema_migrations d"

text \<open>
  The credential of a connector is found by the connector's id alone when it is replaced. That this is the tenant's own
  credential rests on two keys: ids of connectors are unique, and a credential belongs to the organization of its connector.
\<close>

definition owners :: "store \<Rightarrow> (string \<times> string) list" where
  "owners d = map (\<lambda>c. (c_id c, c_org c)) (connectors d)"

definition owned :: "store \<Rightarrow> bool" where
  "owned d \<longleftrightarrow> distinct (map fst (owners d)) \<and> list_all (\<lambda>k. (cc_connector k, cc_org k) \<in> set (owners d)) (credentials d)"

definition safe :: "string \<Rightarrow> string set \<Rightarrow> store \<Rightarrow> bool" where
  "safe org cons d \<longleftrightarrow> owned d \<and> (\<forall>con \<in> cons. (con, org) \<in> set (owners d))"

definition within :: "string \<Rightarrow> string set \<Rightarrow> apidb \<Rightarrow> apidb \<Rightarrow> bool" where
  "within org cons d d' \<longleftrightarrow> safe org cons (core d) \<longrightarrow> safe org cons (core d') \<and> api_elsewhere org d d'"

interpretation within: db_frame "within org cons" for org cons
  by unfold_locales (simp_all add: within_def api_elsewhere_def same_elsewhere_def)

lemma owned_alt: "owned d \<longleftrightarrow> distinct (map fst (owners d)) \<and> set (map (\<lambda>k. (cc_connector k, cc_org k)) (credentials d)) \<subseteq> set (owners d)"
  by (auto simp: owned_def list_all_iff)

lemma same_owners_safe: "same_owners d d' \<Longrightarrow> safe org cons d' = safe org cons d"
  unfolding same_owners_def safe_def owned_alt owners_def by metis

lemma own_within:
  assumes "core_part.on_part (own_rows org) d d'"
  shows "within org cons d d'"
proof -
  have own: "own_rows org (core d) (core d')" and d': "d' = d\<lparr>core := core d'\<rparr>"
    using assms by (simp_all add: core_part.on_part_def put_core_def)
  have "api_elsewhere org d (d\<lparr>core := core d'\<rparr>)" using own by (simp add: api_elsewhere_def own_rows_def)
  then show ?thesis using own d' same_owners_safe [of "core d" "core d'"] by (simp add: within_def own_rows_def)
qed

lemma jobs_within:
  assumes "jobs_part.on_part (\<lambda>a b. filter (\<lambda>j. j_org j \<noteq> org) b = filter (\<lambda>j. j_org j \<noteq> org) a) d d'"
  shows "within org cons d d'"
proof -
  have jobs: "filter (\<lambda>j. j_org j \<noteq> org) (job_table d') = filter (\<lambda>j. j_org j \<noteq> org) (job_table d)" and d': "d' = d\<lparr>job_table := job_table d'\<rparr>"
    using assms by (simp_all add: jobs_part.on_part_def put_jobs_def)
  have "within org cons d (d\<lparr>job_table := job_table d'\<rparr>)" using jobs by (simp add: within_def api_elsewhere_def same_elsewhere_refl)
  with d' show ?thesis by simp
qed

text \<open>A change of the tables outside the service's part.\<close>

lemma api_within: "api_elsewhere org d d' \<Longrightarrow> core d' = core d \<Longrightarrow> within org cons d d'"
  by (simp add: within_def)

section \<open>Statements\<close>

named_theorems stmt_within \<open>statements of the API that change rows of their organization only\<close>

lemma within_on_core: "stmt_keeps (own_rows org) st \<Longrightarrow> stmt_keeps (within org cons) (on_core st)"
  using core_part.stmt_keeps_on own_within unfolding stmt_keeps_def by metis

lemma own_api_statements [stmt_own]:
  "stmt_keeps (own_rows org) (sql_resolve_findings org acct)" "stmt_keeps (own_rows org) (sql_review_candidate decision user org cand)"
  "stmt_keeps (own_rows org) (sql_update_finding status org fid)" "stmt_keeps (own_rows org) (sql_queue_sync org con)"
  unfolding sql_resolve_findings_def sql_review_candidate_def sql_update_finding_def sql_queue_sync_def
  by (rule own.stmt_keeps_upd,
      auto simp: Let_def own_rows_def same_elsewhere_def same_owners_def intro!: filter_update_where map_update_where)+

lemma own_api_inserts [stmt_own]:
  "stmt_keeps (own_rows org) (sql_link_manually org user k)" "stmt_keeps (own_rows org) (sql_insert_campaign camp org i t user)"
  "stmt_keeps (own_rows org) (sql_update_connector org con p)"
  unfolding sql_link_manually_def sql_insert_campaign_def sql_update_connector_def
  by (auto simp: stmt_keeps_def own_rows_def same_elsewhere_def same_owners_def patched_def split: if_splits
      intro!: filter_update_where map_update_where)

lemma own_insert_items [stmt_own]: "stmt_keeps (own_rows org) (sql_insert_items org camp)"
  unfolding sql_insert_items_def
  by (auto simp: stmt_keeps_def own_rows_def same_elsewhere_def same_owners_def Let_def filter_empty_conv split: if_splits dest!: set_zip_rightD)

lemmas within_core = stmt_own [THEN within_on_core]

lemma within_accounts [stmt_within]:
  "stmt_keeps (within org cons) (sql_revoke_session org sid)" "stmt_keeps (within org cons) (sql_set_password hash org user)"
  "stmt_keeps (within org cons) (sql_revoke_sessions org user)" "stmt_keeps (within org cons) (sql_enroll_mfa cipher org user)"
  "stmt_keeps (within org cons) (sql_enable_mfa org user)" "stmt_keeps (within org cons) (sql_revoke_own_session org user sid)"
  "stmt_keeps (within org cons) (sql_ensure_settings org)" "stmt_keeps (within org cons) (sql_rename_organization name org)"
  "stmt_keeps (within org cons) (sql_upsert_settings org g)" "stmt_keeps (within org cons) (sql_insert_report org cid user hash)"
  unfolding sql_revoke_session_def sql_set_password_def sql_revoke_sessions_def sql_enroll_mfa_def sql_enable_mfa_def
    sql_revoke_own_session_def sql_ensure_settings_def sql_rename_organization_def sql_upsert_settings_def sql_insert_report_def
  by (rule within.stmt_keeps_upd, rule api_within,
      auto simp: Let_def api_elsewhere_def same_elsewhere_refl default_settings_def settings_of_def intro!: filter_update_where)+

lemma within_inserts [stmt_within]:
  "stmt_keeps (within org cons) (sql_insert_user uid org i hash)" "stmt_keeps (within org cons) (sql_grant_roles org user names)"
  "stmt_keeps (within org cons) (sql_insert_application app org a)"
  unfolding sql_insert_user_def sql_grant_roles_def sql_insert_application_def
  by (auto simp: stmt_keeps_def Let_def api_elsewhere_def same_elsewhere_refl new_user_def filter_empty_conv within.db_refl
      split: if_splits intro!: api_within)

text \<open>A connector and its credential.\<close>

lemma within_insert_connector [stmt_within]: "stmt_keeps (within org cons) (on_core (sql_insert_connector con org i))"
  unfolding sql_insert_connector_def
  by (auto simp: stmt_keeps_def stmt_on_def put_core_def within_def safe_def owned_def owners_def api_elsewhere_def same_elsewhere_def list_all_iff
      split: if_splits)

lemma within_insert_credential [stmt_within]:
  "stmt_keeps (within org {con}) (on_core (sql_insert_credential org con cipher provider))"
  unfolding sql_insert_credential_def
  by (auto simp: stmt_keeps_def stmt_on_def put_core_def within_def safe_def owned_def owners_def api_elsewhere_def same_elsewhere_def list_all_iff
      split: if_splits)

lemma own_credential: "safe org {con} d \<Longrightarrow> k \<in> set (credentials d) \<Longrightarrow> cc_connector k = con \<Longrightarrow> cc_org k = org"
  unfolding safe_def owned_def list_all_iff by (metis eq_key_imp_eq_value insertI1)

lemma within_upsert_credential [stmt_within]:
  "stmt_keeps (within org {con}) (on_core (sql_upsert_credential org con cipher provider))"
proof -
  let ?f = "\<lambda>c. c\<lparr>cc_ciphertext := cipher, cc_provider := provider, cc_key_version := cc_key_version c + 1\<rparr>"
  let ?P = "\<lambda>c. cc_connector c = con"
  have upd: "within org {con} d (d\<lparr>core := core d\<lparr>credentials := update_where ?P ?f (credentials (core d))\<rparr>\<rparr>)" for d
  proof (cases "safe org {con} (core d)")
    case True
    have "same_owners (core d) (core d\<lparr>credentials := update_where ?P ?f (credentials (core d))\<rparr>)"
      by (simp add: same_owners_def map_update_where)
    then have kept: "safe org {con} (core d\<lparr>credentials := update_where ?P ?f (credentials (core d))\<rparr>)"
      using True same_owners_safe by blast
    have "filter (\<lambda>k. cc_org k \<noteq> org) (update_where ?P ?f ks) = filter (\<lambda>k. cc_org k \<noteq> org) ks"
      if "\<forall>k \<in> set ks. ?P k \<longrightarrow> cc_org k = org" for ks
      using that by (induction ks) (auto simp: update_where_def)
    from this [of "credentials (core d)"] own_credential [OF True]
    have "filter (\<lambda>k. cc_org k \<noteq> org) (update_where ?P ?f (credentials (core d))) = filter (\<lambda>k. cc_org k \<noteq> org) (credentials (core d))" by blast
    with kept show ?thesis by (simp add: within_def api_elsewhere_def same_elsewhere_def)
  qed (simp add: within_def)
  have ins: "within org {con} d (d\<lparr>core := core d\<lparr>credentials := credentials (core d) @
      [\<lparr>cc_org = org, cc_connector = con, cc_ciphertext = cipher, cc_provider = provider, cc_key_version = 1\<rparr>]\<rparr>\<rparr>)" for d
    by (auto simp: within_def safe_def owned_def owners_def api_elsewhere_def same_elsewhere_def)
  show ?thesis using upd ins
    by (auto simp: stmt_keeps_def stmt_on_def sql_upsert_credential_def upd_def put_core_def)
qed

section \<open>Computations\<close>

lemma within_service: "keeps (on_db (own_rows org)) m \<Longrightarrow> keeps (on_db (within org cons)) (service m)"
  by (rule keeps_db_mono [OF core_part.keeps_zoom own_within])

lemma within_unchanged: "keeps (on_db (=)) m \<Longrightarrow> keeps (on_db (within org cons)) m"
  by (erule keeps_db_mono) (simp add: within.db_refl)

lemma within_uuid_arg: "keeps (on_db (within org cons)) m \<Longrightarrow> keeps (on_db (within org cons)) (uuid_arg s v m)"
  by (simp add: uuid_arg_def within.world.keeps_fail)

lemma within_or_reply:
  "keeps (on_db (within org cons)) m \<Longrightarrow> (\<And>x. keeps (on_db (within org cons)) (k x)) \<Longrightarrow> keeps (on_db (within org cons)) (or_reply m answer k)"
  unfolding or_reply_def by (intro within.world.keeps_combinators)

lemma within_random_read: "keeps (on_db (within org cons)) (random_read s n)"
  by (simp add: keeps_def random_read_def on_db_def within.db_refl)

lemma within_randomToken: "keeps (on_db (within org cons)) (randomToken s n)"
  unfolding randomToken_def by (intro within.world.keeps_combinators within_random_read)

lemma within_runBounded:
  assumes "keeps (on_db (within org cons)) m"
  shows "keeps (on_db (within org cons)) (runBounded s m)"
proof (rule keepsI)
  fix w
  have "keeps (on_db (within org cons)) (bnd (attempt m) (\<lambda>_. fail CtxErr))" using assms by (intro within.world.keeps_combinators)
  with assms show "on_db (within org cons) w (snd (runBounded s m w))"
    by (auto simp: runBounded_def keeps_def fail_def within.world.frame_refl split: option.split pool_fate.split)
qed

lemma within_with_body:
  "(\<And>x. keeps (on_db (within org cons)) (k x)) \<Longrightarrow> keeps (on_db (within org cons)) (with_body limit names dec r k)"
  unfolding with_body_def by (intro within.world.keeps_combinators)

lemma within_with_form:
  "(\<And>x y. keeps (on_db (within org cons)) (k x y)) \<Longrightarrow> keeps (on_db (within org cons)) (with_form s r k)"
  unfolding with_form_def by (intro within.world.keeps_combinators)

interpretation tenant_jobs: db_frame "\<lambda>a b. filter (\<lambda>j. j_org j \<noteq> org) b = filter (\<lambda>j. j_org j \<noteq> org) a" for org
  by unfold_locales simp_all

lemma within_Enqueue: "keeps (on_db (within org cons)) (zoom job_table put_jobs (Enqueue q org kind payload key priority))"
proof -
  let ?R = "\<lambda>a b. filter (\<lambda>j. j_org j \<noteq> org) b = filter (\<lambda>j. j_org j \<noteq> org) a"
  have "stmt_keeps ?R (enqueue_stmt jid org kind raw key priority)" for jid raw
    by (auto simp: stmt_keeps_def enqueue_stmt_def new_job_def split: if_splits option.splits)
  then have "keeps (on_db ?R) (Enqueue q org kind payload key priority :: (jobs networld, string \<times> bool) comp)"
    unfolding Enqueue_def by (intro tenant_jobs.world.keeps_combinators tenant_jobs.keeps_database tenant_jobs.keeps_exec)
  then show ?thesis by (rule keeps_db_mono [OF jobs_part.keeps_zoom jobs_within])
qed

lemma within_rows: "keeps (on_db (within org cons)) (rows_of q)" "keeps (on_db (within org cons)) (all_rows q')"
    "keeps (on_db (within org cons)) (queryMaps ks q'')"
  unfolding rows_of_def queryMaps_def all_rows_def by (intro within.world.keeps_combinators within.keeps_database)+

lemma within_list_rows: "keeps (on_db (within org cons)) m \<Longrightarrow> keeps (on_db (within org cons)) (list_rows r ks m)"
  unfolding list_rows_def by (intro within_or_reply within.world.keeps_combinators)

lemmas within_rules = within.world.keeps_combinators within.keeps_database within.keeps_exec within_core stmt_within
  within_uuid_arg within_or_reply within_random_read within_randomToken within_runBounded within_with_body within_with_form within_Enqueue within_rows within_list_rows

section \<open>Handlers\<close>

text \<open>What a handler relies on: the service stays home, and the secret store leaves the database alone.\<close>

definition server_stays :: "Server \<Rightarrow> string \<Rightarrow> bool" where
  "server_stays s org \<longleftrightarrow> stays_home (Assurance s) org \<and> (\<forall>x. keeps (on_db (=)) (Encrypt s x)) \<and> (\<forall>x. keeps (on_db (=)) (Decrypt s x)) \<and>
     (\<forall>m. Health s = Some m \<longrightarrow> keeps (on_db (=)) m)"

lemma within_Audit: "keeps (on_db (within org cons)) (Audit s org user event rtype rid meta req)"
  unfolding Audit_def by (intro within_rules)

lemma within_secrets:
  assumes "server_stays s org"
  shows "keeps (on_db (within org cons)) (Encrypt s x)" "keeps (on_db (within org cons)) (Decrypt s x)"
  using assms by (simp_all add: server_stays_def within_unchanged)

lemma within_own_account:
  assumes "server_stays s (SessionOrg session)"
  shows "keeps (on_db (within (SessionOrg session) cons)) (logout s session r)"
    "keeps (on_db (within (SessionOrg session) cons)) (changePassword s session r)"
    "keeps (on_db (within (SessionOrg session) cons)) (mfaEnroll s session r)"
    "keeps (on_db (within (SessionOrg session) cons)) (mfaConfirm s session r)"
    "keeps (on_db (within (SessionOrg session) cons)) (revokeSession s session r)"
  unfolding logout_def changePassword_def ChangePassword_def mfaEnroll_def mfaConfirm_def revokeSession_def RevokeSession_def Let_def
  by (intro within_rules within_Audit within_secrets assms)+

lemma within_product:
  "keeps (on_db (within (SessionOrg session) cons)) (acceptCandidate s session r)"
  "keeps (on_db (within (SessionOrg session) cons)) (rejectCandidate s session r)"
  "keeps (on_db (within (SessionOrg session) cons)) (createApplication s session r)"
  "keeps (on_db (within (SessionOrg session) cons)) (updateFinding s session r)"
  "keeps (on_db (within (SessionOrg session) cons)) (createAccessReview s session r)"
  "keeps (on_db (within (SessionOrg session) cons)) (createUser s session r)"
  "keeps (on_db (within (SessionOrg session) cons)) (updateSettings session r)"
  "keeps (on_db (within (SessionOrg session) cons)) (settingsHandler session r)"
  "keeps (on_db (within (SessionOrg session) cons)) (generateOffboardingReport s session r)"
  "keeps (on_db (within (SessionOrg session) cons)) (offboardingPDF s session r)"
  unfolding acceptCandidate_def rejectCandidate_def acceptOrRejectCandidate_def review_body_def createApplication_def updateFinding_def
    createAccessReview_def create_review_body_def createUser_def create_user_body_def updateSettings_def update_settings_body_def
    settingsHandler_def generateOffboardingReport_def offboardingPDF_def buildOffboardingPDF_def Let_def
  by (intro within_rules within_Audit)+

lemma within_lifecycle:
  assumes "server_stays s (SessionOrg session)"
  shows "keeps (on_db (within (SessionOrg session) cons)) (testConnector s session r)"
    "keeps (on_db (within (SessionOrg session) cons)) (syncConnector s session r)"
    "keeps (on_db (within (SessionOrg session) cons)) (csvPreview s r)"
    "keeps (on_db (within (SessionOrg session) cons)) (csvApply s session r)"
    "keeps (on_db (within (SessionOrg session) cons)) (createCase s session r)"
    "keeps (on_db (within (SessionOrg session) cons)) (getCase s session r)"
    "keeps (on_db (within (SessionOrg session) cons)) (planCase s session r)"
    "keeps (on_db (within (SessionOrg session) cons)) (approveCase s session r)"
    "keeps (on_db (within (SessionOrg session) cons)) (executeCase s session r)"
    "keeps (on_db (within (SessionOrg session) cons)) (cancelCaseHandler s session r)"
    "keeps (on_db (within (SessionOrg session) cons)) (reviewDecision s session r)"
proof -
  have home: "stays_home (Assurance s) (SessionOrg session)" using assms by (simp add: server_stays_def)
  note methods = within_service own_lifecycle_methods own_ExecuteAndVerify [OF home] own_SyncConnector [OF home] own_TestConnection [OF home]
  show "keeps (on_db (within (SessionOrg session) cons)) (testConnector s session r)"
    "keeps (on_db (within (SessionOrg session) cons)) (syncConnector s session r)"
    "keeps (on_db (within (SessionOrg session) cons)) (csvPreview s r)"
    "keeps (on_db (within (SessionOrg session) cons)) (csvApply s session r)"
    "keeps (on_db (within (SessionOrg session) cons)) (createCase s session r)"
    "keeps (on_db (within (SessionOrg session) cons)) (getCase s session r)"
    "keeps (on_db (within (SessionOrg session) cons)) (planCase s session r)"
    "keeps (on_db (within (SessionOrg session) cons)) (approveCase s session r)"
    "keeps (on_db (within (SessionOrg session) cons)) (executeCase s session r)"
    "keeps (on_db (within (SessionOrg session) cons)) (cancelCaseHandler s session r)"
    "keeps (on_db (within (SessionOrg session) cons)) (reviewDecision s session r)"
    unfolding testConnector_def syncConnector_def csvPreview_def csvApply_def createCase_def getCase_def planCase_def approveCase_def
      executeCase_def executeAndVerify_def cancelCaseHandler_def reviewDecision_def Let_def
    by (intro within_rules within_Audit methods)+
qed

lemma within_event_round:
  "(\<And>seen' out'. keeps (on_db (within org cons)) (k seen' out')) \<Longrightarrow> keeps (on_db (within org cons)) (event_round s org' cid seen out k)"
  unfolding event_round_def by (intro within_rules)

lemma within_event_stream: "keeps (on_db (within org cons)) (event_stream n s org' cid seen out)"
  by (induction n arbitrary: seen out) (simp_all add: within_event_round within.world.keeps_ret)

lemma within_at: "(\<And>t. keeps (on_db (within org cons)) (f t)) \<Longrightarrow> keeps (on_db (within org cons)) (\<lambda>w. f (now_of w) w)"
  by (simp add: keeps_def)

lemma within_lists:
  "keeps (on_db (within org cons)) (dashboard session r)" "keeps (on_db (within org cons)) (peopleHandler s session r)"
  "keeps (on_db (within org cons)) (personHandler s session r)" "keeps (on_db (within org cons)) (connectorsHandler s session r)"
  "keeps (on_db (within org cons)) (connectorSyncs s session r)" "keeps (on_db (within org cons)) (connectorDetail s session r)"
  "keeps (on_db (within org cons)) (identities session r)" "keeps (on_db (within org cons)) (correlationCandidates session r)"
  "keeps (on_db (within org cons)) (applicationsHandler s session r)" "keeps (on_db (within org cons)) (entitlementsHandler s session r)"
  "keeps (on_db (within org cons)) (accessGrants session r)" "keeps (on_db (within org cons)) (reconciliationRuns session r)"
  "keeps (on_db (within org cons)) (findingsHandler session r)" "keeps (on_db (within org cons)) (lifecycleCases session r)"
  "keeps (on_db (within org cons)) (caseEvents s session r)" "keeps (on_db (within org cons)) (accessReviews session r)"
  "keeps (on_db (within org cons)) (accessReviewDetail s session r)" "keeps (on_db (within org cons)) (auditHandler session r)"
  "keeps (on_db (within org cons)) (evidenceHandler session r)" "keeps (on_db (within org cons)) (reportsHandler session r)"
  "keeps (on_db (within org cons)) (usersHandler s session r)"
proof -
  have "stmt_keeps (within org cons) (\<lambda>now gen d. Inr (dashboard_of (SessionOrg session) now (core d), d))"
    by (simp add: stmt_keeps_def within.db_refl)
  then show "keeps (on_db (within org cons)) (dashboard session r)"
    unfolding dashboard_def DashboardQuery_def by (intro within_rules)
qed (unfold peopleHandler_def ListPeople_def personHandler_def GetPerson_def personRelated_def connectorsHandler_def ListConnectors_def
    connectorSyncs_def connectorDetail_def identities_def correlationCandidates_def applicationsHandler_def entitlementsHandler_def
    accessGrants_def reconciliationRuns_def findingsHandler_def lifecycleCases_def caseEvents_def accessReviews_def accessReviewDetail_def
    auditHandler_def evidenceHandler_def reportsHandler_def usersHandler_def Let_def, (intro within_rules within_event_stream)+)

lemma within_sessions: "keeps (on_db (within org cons)) (sessionsHandler session r)"
  unfolding sessionsHandler_def
  by (rule within_list_rows, rule within_at [where f = "\<lambda>t. rows_of (session_rows session t)"]) (rule within_rows)

text \<open>The two handlers that store a credential: from the point where the connector is known to be the organization's.\<close>

lemma within_bnd_known:
  assumes m: "keeps (on_db (within org {})) m"
    and k: "\<And>w x t. m w = (Inr x, t) \<Longrightarrow> safe org {} (core (db w)) \<Longrightarrow>
      keeps (on_db (within org {})) (k x) \<or> (con, org) \<in> set (owners (core (db t))) \<and> keeps (on_db (within org {con})) (k x)"
  shows "keeps (on_db (within org {})) (bnd m k)"
proof (rule keepsI)
  fix w
  obtain r t where mw: "m w = (r, t)" by fastforce
  have t: "on_db (within org {}) w t" using m mw by (rule keepsD)
  show "on_db (within org {}) w (snd (bnd m k w))"
  proof (cases r)
    case (Inr x)
    show ?thesis
    proof (cases "safe org {} (core (db w))")
      case True
      with t have "safe org {} (core (db t))" by (simp add: on_db_def within_def)
      then have "on_db (within org {}) t (snd (k x t))"
        using k [of w x t] mw Inr True by (auto simp: keeps_def on_db_def within_def safe_def)
      from within.world.frame_trans [OF t this] mw Inr show ?thesis by (simp add: bnd_def)
    qed (simp add: on_db_def within_def)
  qed (use t mw in \<open>simp add: bnd_def\<close>)
qed

lemma within_createConnector:
  assumes "server_stays s (SessionOrg session)"
  shows "keeps (on_db (within (SessionOrg session) {})) (createConnector s session r)"
proof -
  let ?org = "SessionOrg session"
  have "keeps (on_db (within ?org {})) (create_connector_body s con ?org i)" for con i
    unfolding create_connector_body_def
  proof (rule within_bnd_known [where con = con])
    show "keeps (on_db (within ?org {})) (exec (on_core (sql_insert_connector con ?org i)))" by (intro within_rules)
    fix w :: "apidb networld" and x t assume run: "exec (on_core (sql_insert_connector con ?org i)) w = (Inr x, t)"
    let ?store = "if ci_cred i = [] then ret () else bnd (Encrypt s (ci_cred i)) (\<lambda>encrypted.
         exec (on_core (sql_insert_credential ?org con encrypted (providerName s))))"
    have "(con, ?org) \<in> set (owners (core (db t)))"
      by (rule exec_cases [of "on_core (sql_insert_connector con ?org i)" w])
        (use run in \<open>auto simp: stmt_on_def sql_insert_connector_def put_core_def owners_def split: if_splits\<close>)
    moreover have "keeps (on_db (within ?org {con})) ?store" by (intro within_rules within_secrets assms)
    ultimately show "keeps (on_db (within ?org {})) ?store \<or> (con, ?org) \<in> set (owners (core (db t))) \<and> keeps (on_db (within ?org {con})) ?store"
      by blast
  qed
  then show ?thesis unfolding createConnector_def by (intro within_rules within_Audit)
qed

lemma find_connector_owner: "find_connector org con P d = Some c \<Longrightarrow> (con, org) \<in> set (owners d)"
  by (force simp: find_connector_def owners_def dest!: find_SomeD)

lemma within_updateConnector:
  assumes "server_stays s (SessionOrg session)"
  shows "keeps (on_db (within (SessionOrg session) {})) (updateConnector s session r)"
proof -
  let ?org = "SessionOrg session" and ?con = "TrimPrefix (r_path r) ''/api/v1/connectors/''"
  let ?find = "uuid_arg s ?con (query_row (\<lambda>d. find_connector (SessionOrg session) ?con (\<lambda>_. True) (core d)))"
  have find: "keeps (on_db (within ?org {})) (attempt ?find)" by (intro within_rules)
  have known: "(?con, ?org) \<in> set (owners (core (db t)))" if "attempt ?find w = (Inr (Inr c), t)" for w t c
    by (rule query_row_cases [of "\<lambda>d. find_connector (SessionOrg session) ?con (\<lambda>_. True) (core d)" w])
      (use that find_connector_owner in \<open>auto simp: attempt_def uuid_arg_def fail_def split: if_splits\<close>)
  have "keeps (on_db (within ?org {?con})) (update_connector_body s ?con ?org i)" for i
    unfolding update_connector_body_def by (intro within_rules within_secrets assms)
  then have rest: "keeps (on_db (within ?org {?con})) (case update_problem s r c i of
       Some answer \<Rightarrow> ret answer
     | None \<Rightarrow>
       or_reply (tx (update_connector_body s ?con ?org i)) (\<lambda>_. internal r) (\<lambda>_.
       bnd (ignore (Audit s ?org (SessionUser session) ''connector.updated'' ''connector'' ?con
         (JObj [(''credentialChanged'', JBool (cp_cred i \<noteq> []))]) (r_reqid r))) (\<lambda>_.
       ret (writeJSON 200 (JObj [(''id'', JStr ?con), (''status'', JStr ''UPDATED'')])))))" for c i
    by (intro within_rules within_Audit)
  show ?thesis unfolding updateConnector_def Let_def or_reply_def [of ?find]
    by (rule within_with_body, rule within_bnd_known [where con = ?con, OF find])
      (use rest known in \<open>auto split: sum.split simp: within.world.keeps_ret\<close>)
qed

section \<open>The whole server\<close>

lemma within_server_handler:
  assumes "server_stays s (SessionOrg session)"
  shows "keeps (on_db (within (SessionOrg session) {})) (server_handler s rt session r)"
  unfolding server_handler_def
  by (cases rt) (simp_all add: within_own_account [OF assms] within_product within_lifecycle [OF assms] within_lists within_sessions
      within_createConnector [OF assms] within_updateConnector [OF assms] within.world.keeps_ret)

lemma within_rate:
  assumes "keeps (on_db (within org {})) m"
  shows "keeps (on_db (within org {})) (rate s limit window sess m r)"
proof -
  have "keeps (on_db (limits_part.on_part (\<lambda>_ _. True))) (zoom limit_table put_limits (Allow False key limit window))" for key
    by (rule limits_part.keeps_zoom) (simp add: keeps_def on_db_def)
  moreover have "within org {} d d'" if "limits_part.on_part (\<lambda>_ _. True) d d'" for d d'
  proof -
    from that have "d' = d\<lparr>limit_table := limit_table d'\<rparr>" by (simp add: limits_part.on_part_def put_limits_def)
    moreover have "within org {} d (d\<lparr>limit_table := limit_table d'\<rparr>)" by (simp add: within_def api_elsewhere_def same_elsewhere_refl)
    ultimately show ?thesis by simp
  qed
  ultimately have "keeps (on_db (within org {})) (zoom limit_table put_limits (Allow False key limit window))" for key
    by (rule keeps_db_mono)
  then show ?thesis unfolding rate_def using assms by (intro within_rules)
qed

lemma within_api:
  assumes "server_stays s (SessionOrg session)"
  shows "keeps (on_db (within (SessionOrg session) {})) (csrf s (api s (server_handler s) r) r session)"
  unfolding csrf_def api_def limited_def require_def
  by (intro within_rules within_rate within_server_handler [OF assms])

text \<open>The organization of a request: that of the session its cookie names.\<close>

definition request_org :: "string \<Rightarrow> http_in \<Rightarrow> apidb \<Rightarrow> bool" where
  "request_org org r d \<longleftrightarrow> (case map_of (r_cookie r) ''identitymesh_session'' of None \<Rightarrow> True
     | Some tok \<Rightarrow> list_all (\<lambda>x. se_token x = Sum256 tok \<longrightarrow> se_org x = org) (sessions d))"

lemma within_authenticated:
  assumes "server_stays s org" and "request_org org r (db w)"
  shows "on_db (within org {}) w (snd (authenticated (csrf s (api s (server_handler s) r) r) r w))"
proof (cases "map_of (r_cookie r) ''identitymesh_session''")
  case None
  then show ?thesis by (simp add: authenticated_def ret_def within.world.frame_refl)
next
  case (Some tok)
  obtain res t where q: "SessionByToken tok w = (res, t)" by fastforce
  note found = SessionByToken_result [OF q]
  have t: "on_db (within org {}) w t" using found(1) by (simp add: on_db_def within.db_refl)
  show ?thesis
  proof (cases res)
    case (Inl e)
    with Some q t show ?thesis by (simp add: authenticated_def or_reply_def bnd_def attempt_def ret_def)
  next
    case (Inr session)
    then have org: "SessionOrg session = org"
      using found(2) [of session] assms(2) Some by (auto simp: request_org_def list_all_iff live_session_def session_of_def)
    with within_api assms(1) have "on_db (within org {}) t (snd (csrf s (api s (server_handler s) r) r session t))"
      unfolding keeps_def by blast
    from within.world.frame_trans [OF t this] Some q Inr show ?thesis
      by (simp add: authenticated_def or_reply_def bnd_def attempt_def)
  qed
qed

lemma within_mux:
  assumes stays: "server_stays s org" and "request_org org r (db w)" and "mux_target (r_method r) escaped \<noteq> Login"
  shows "on_db (within org {}) w (snd (mux s (server_handler s) escaped r w))"
proof -
  have "case Health s of None \<Rightarrow> True | Some check \<Rightarrow> keeps (on_db (=)) check"
    using stays by (simp add: server_stays_def split: option.split)
  then have "keeps (on_db (within org {})) (ready s r)" by (intro within_unchanged ready_still)
  then show ?thesis using within_authenticated [OF stays assms(2)] assms(3)
    unfolding mux_def by (cases "mux_target (r_method r) escaped") (auto simp: ret_def keeps_def within.world.frame_refl)
qed

section \<open>The server's parts\<close>

lemma keeps_v_call: "keeps (sends (\<lambda>_. True)) (v_call v q n err)"
proof (induction n arbitrary: err)
  case 0
  show ?case by (simp add: sends.keeps_fail)
next
  case (Suc n)
  show ?case unfolding v_call.simps Let_def
    by (intro sends.keeps_combinators sends_http_do Suc.IH) (simp_all add: redirect_stable_def)
qed

lemma vault_silent:
  "keeps (sends (\<lambda>_. True)) (vault_Encrypt v x)" "keeps (sends (\<lambda>_. True)) (vault_Decrypt v x)" "keeps (sends (\<lambda>_. True)) (vault_Health v)"
  unfolding vault_Encrypt_def vault_Decrypt_def vault_Health_def
  by (intro sends.keeps_combinators keeps_v_call sends_http_do; simp add: redirect_stable_def)+

lemma server_parts_stay:
  assumes "server_service (Assurance s) unsealf vault wh" and "server_crypto s sealf unsealf vault"
  shows "server_stays s org"
proof -
  have nonce: "keeps (on_db (=)) (random_read s n)" for n by (simp add: keeps_def random_read_def on_db_def)
  have "keeps (on_db (=)) (Encrypt s x)" "keeps (on_db (=)) (Decrypt s x)" "Health s = Some m \<Longrightarrow> keeps (on_db (=)) m" for x m
    using assms(2)
    by (auto simp: server_crypto_def split: option.splits intro!: still.world.keeps_combinators nonce vault_silent [THEN sends_same_db])
  then show ?thesis using server_stays_home [OF assms(1)] by (simp add: server_stays_def)
qed

lemma within_jobs:
  assumes "stays_home (Assurance s) (JobOrganizationID job)"
  shows "keeps (on_db (within (JobOrganizationID job) {})) (sync_job p s job)"
    "keeps (on_db (within (JobOrganizationID job) {})) (execute_job p s job)"
  unfolding sync_job_def execute_job_def executeAndVerify_def
  by (intro within_rules within_service own_SyncConnector own_ExecuteAndVerify assms)+

text \<open>
  The two ways in which the process acts for an organization: it answers a request with the cookie of a session of the
  organization (the login apart, which does not look at the cookie), or it runs a job of the organization.
\<close>

inductive acts_for :: "Server \<Rightarrow> string \<Rightarrow> apidb networld \<Rightarrow> apidb networld \<Rightarrow> bool" for s org where
  answer: "acts_for s org w w'" if "request_org org r (db w)" "mux_target (r_method r) escaped \<noteq> Login"
    "serve s (server_handler s) escaped r w = (a, w')"
| work: "acts_for s org w w'" if "DistributedQueueOf s = Some q" "handlers q kind = Some f" "JobOrganizationID job = org" "f job w = (x, w')"

lemma within_serve:
  assumes "server_stays s org" and "request_org org r (db w)" and "mux_target (r_method r) escaped \<noteq> Login"
    and "serve s (server_handler s) escaped r w = (a, w')"
  shows "within org {} (db w) (db w')"
proof -
  obtain reqID w1 where id: "(if uuidParse s (header_get ''X-Request-ID'' (r_header r))
      then ret (header_get ''X-Request-ID'' (r_header r)) else new_uuid) w = (Inr reqID, w1)" and w1: "db w1 = db w"
    by (cases "uuidParse s (header_get ''X-Request-ID'' (r_header r))") (auto simp: ret_def new_uuid_def)
  let ?r = "r\<lparr>r_reqid := reqID\<rparr>"
  let ?m = "if r_method r = ''OPTIONS'' then ret (noContent 204) else mux s (server_handler s) escaped ?r"
  have "on_db (within org {}) w1 (snd (mux s (server_handler s) escaped ?r w1))"
    using within_mux [OF assms(1), of ?r w1 escaped] assms(2,3) w1 by (simp add: request_org_def)
  then have m: "within org {} (db w) (db (snd (?m w1)))" using w1 by (simp add: on_db_def ret_def within.db_refl)
  have "w' = snd (bnd ?m (\<lambda>a. ret (a\<lparr>a_header := security_headers s r reqID @ a_header a\<rparr>)) w1)"
    using assms(4) id unfolding serve_def Let_def by (simp add: bnd_def)
  then have "db w' = db (snd (?m w1))" by (simp add: bnd_def ret_def split: prod.split sum.split)
  with m show ?thesis by simp
qed

lemma within_acts:
  assumes "startup h w0 = (Inr s, w1)" and "acts_for s org w w'"
  shows "within org {} (db w) (db w')"
proof -
  from assms(1) obtain cfg ss wh q where run: "main_secrets cfg = Inr ss" "handlers q = (\<lambda>_. None)" "s = main_server h cfg ss wh q"
    by (rule startup_steps)
  have stays: "server_stays s org" using server_parts_stay main_server_parts [OF run(1)] run(3) by blast
  show ?thesis using assms(2)
  proof cases
    case (work q' kind f job x)
    let ?s0 = "(base h)\<lparr>Assurance := main_service h cfg ss wh\<rparr>"
    have "Assurance ?s0 = Assurance s" by (simp add: run(3) main_server_def NewServer_def Let_def)
    then have home: "stays_home (Assurance ?s0) (JobOrganizationID job)" using stays work(3) by (simp add: server_stays_def)
    have "q' = main_queue h ?s0 q" using work(1) by (simp add: run(3) main_server_def NewServer_def Let_def)
    then have "f = sync_job (parse h) ?s0 \<or> f = execute_job (parse h) ?s0"
      using work(2) main_queue_handlers(1) [OF run(2)] by (simp split: if_splits)
    then have "keeps (on_db (within org {})) (f job)" using within_jobs [OF home] work(3) by auto
    then show ?thesis using keepsD work(4) by (force simp: on_db_def)
  qed (rule within_serve [OF stays])
qed

text \<open>
  C7: no tenant changes another tenant's data. Whatever the started server does for an organization, in any number of
  requests with sessions of the organization, to any path with any method and body, and in jobs of the organization, it
  leaves every row of every other organization in all tables as it is: connectors and their credentials, people, accounts,
  cases, reviews, the audit trail, users, sessions, settings and queued jobs. It holds whichever statements, remote calls and
  notifications fail and whether the client is still there. Connectors keep unique ids and credentials stay with the
  organization of their connector, which is what the replacement of a credential, the one statement that does not name the
  organization, relies on.
\<close>

theorem writes_stay_in_tenant:
  assumes "startup h w0 = (Inr s, w1)" and "(acts_for s org)\<^sup>*\<^sup>* w w'" and "owned (core (db w))"
  shows "api_elsewhere org (db w) (db w') \<and> owned (core (db w'))"
proof -
  have "within org {} (db w) (db w')" using assms(2)
  proof (induction rule: rtranclp_induct)
    case base
    show ?case by (rule within.db_refl)
  next
    case (step y z)
    from within.db_trans [OF step.IH within_acts [OF assms(1) step.hyps(2)]] show ?case .
  qed
  with assms(3) show ?thesis by (simp add: within_def safe_def)
qed

theorem writes_stay_in_tenant_witness:
  "\<exists>s w' u. startup vault_host sample_apiworld = (Inr s, w') \<and> acts_for s ''org-1'' (sample_apiworld\<lparr>db := crowded_apidb\<rparr>) u \<and>
     filter (\<lambda>p. p_org p \<noteq> ''org-1'') (people (core (db u))) = [stranger]"
proof -
  let ?r = "sample_request ''POST'' ''/api/v1/auth/logout'' JNull" and ?w = "sample_apiworld\<lparr>db := crowded_apidb\<rparr>"
  obtain s w' c where run: "startup vault_host sample_apiworld = (Inr s, w')" by (rule vault_host_starts)
  obtain a u where served: "serve s (server_handler s) ''/api/v1/auth/logout'' ?r ?w = (a, u)" by fastforce
  have org: "request_org ''org-1'' ?r (db ?w)"
    by (simp add: request_org_def sample_request_def crowded_apidb_def sample_apidb_def sample_session_def)
  have target: "mux_target (r_method ?r) ''/api/v1/auth/logout'' \<noteq> Login"
    by (simp add: mux_target_def is_clean_def clean_segments_def segments_def sample_request_def Let_def)
  have owned: "owned (core (db ?w))" by (simp add: owned_def owners_def crowded_apidb_def sample_apidb_def empty_store_def)
  have act: "acts_for s ''org-1'' ?w u" by (rule answer [OF org target served])
  have "filter (\<lambda>p. p_org p \<noteq> ''org-1'') (people (core (db u))) = filter (\<lambda>p. p_org p \<noteq> ''org-1'') (people (core (db ?w)))"
    using writes_stay_in_tenant [OF run r_into_rtranclp [of "acts_for s ''org-1''", OF act] owned]
    by (simp only: api_elsewhere_def same_elsewhere_def)
  also have "\<dots> = [stranger]" by (simp add: crowded_apidb_def sample_apidb_def stranger_def)
  finally show ?thesis using run act by blast
qed

end
