(* ===== verification/Spec2Isabelle.thy ===== *)
theory Spec2Isabelle
  imports Correlation CsvSource QueueProgress Pool EndToEnd ReconcileProps ApiLogin ApiWrites
begin

text \<open>
  \<^bold>\<open>IdentityMesh\<close> keeps an inventory of the accounts of an organization's people in SCIM, LDAP, Entra,
  Okta, Google Workspace and GitHub, and runs offboardings: a case per person is created, planned,
  approved, executed against the providers and verified. This library models the Go backend (the paths
  below are relative to \<open>src/backend/internal/\<close>) as executable definitions and proves what makes it correct.

  \<^bold>\<open>How the parts interact.\<close> A synchronization (\<open>assurance/service.go\<close>, \<open>SyncConnector\<close>) reads users and
  groups of one connector through its client (\<open>connectors/*\<close>), writes them to the database in one
  transaction and correlates accounts with people (\<open>correlate\<close>, \<open>correlation/correlation.go\<close>); the people
  come from a CSV file (\<open>csvsource/import.go\<close>, \<open>ImportPeople\<close>). An offboarding case is created, planned and
  approved by statements on the database; its execution (\<open>ExecuteAndVerify\<close>) calls \<open>executeRemoteAction\<close>
  per planned account, which disables the account through the connector's client and reads it back, stores
  the outcome with evidence, and computes the verdict (\<open>domain/domain.go\<close>). Executions and synchronizations
  run as jobs of the queue (\<open>workers/distributed.go\<close>) in the bounded pools (\<open>workers/pool.go\<close>); notifications
  go out through \<open>notifier/notifier.go\<close>, and connector credentials come from \<open>secure/secretstore.go\<close>. All this
  is reached through the HTTP API (\<open>httpapi/server.go\<close>, \<open>httpapi/product.go\<close>): a request passes the middleware, the
  rate limit (\<open>ratelimit/postgres.go\<close>), the session (\<open>database/database.go\<close>), the permission of its route
  (\<open>rbac/rbac.go\<close>) and the CSRF check before its handler runs; a login asks for the password and the one-time
  password of \<open>auth\<close>. The process (\<open>cmd/server/main.go\<close>) reads \<open>config/config.go\<close>, opens and migrates the database,
  and runs the queue and the periodic tasks of \<open>scheduler/scheduler.go\<close>.

  \<^bold>\<open>Effects.\<close> A method is a computation \<open>('w, 'a) comp = 'w \<Rightarrow> (error + 'a) \<times> 'w\<close> (theory \<open>Prelude\<close>: \<open>ret\<close>,
  \<open>fail\<close>, \<open>bnd\<close>, loops over lists, \<open>keeps R\<close> for "every run relates its start and end by R"). Theory
  \<open>Database\<close> gives the world: the database state, the clock, the source of generated ids and a stream
  of faults that decides for each statement whether it works, fails without effect, or works while its
  answer is lost; \<open>transaction\<close> rolls back on error and its commit can lose its answer too. Rows are read
  through a cursor that may stop early, as \<open>rows.Next()\<close> does. Theory \<open>Net\<close> adds the HTTP and LDAP exchanges:
  the network is a function of the world that answers each request, and all requests are recorded in a
  trace. Every error path of the source is an \<open>Inl\<close> result of the model.

  \<^bold>\<open>Theories and code.\<close>
  \<^item> \<open>Prelude\<close>, \<open>GoStrings\<close>, \<open>GoUrl\<close>, \<open>GoTime\<close>, \<open>Json\<close>, \<open>Sha256\<close>, \<open>Net\<close>, \<open>Database\<close>: the Go
    standard library and PostgreSQL as the program uses them. Strings are lists of bytes as characters;
    case folding and white space are those of ASCII.
  \<^item> \<open>Domain\<close>, \<open>Correlation\<close>, \<open>CsvSource\<close>, \<open>Rbac\<close>: the pure rules of the packages of the same names. The
    CSV row loop has fuel, because it does not end on a failing reader; enough fuel is proved for every input
    that ends.
  \<^item> \<open>RateLimit\<close>, \<open>Queue\<close>, \<open>QueueProgress\<close>, \<open>Pool\<close>: the shared tables with all interleavings of their
    users as step relations (\<open>qstep\<close>, \<open>pstep\<close>), and the loop of one worker.
  \<^item> \<open>Store\<close>: the tables of \<open>migrations/*.sql\<close> that the service uses and one definition per SQL statement.
    \<open>Lifecycle\<close>: \<open>CreateCase\<close>, \<open>PlanCase\<close>, \<open>ApproveCase\<close>, \<open>ExecuteAndVerify\<close> and \<open>cancelCase\<close>.
    \<open>Reconcile\<close>, \<open>Sync\<close>: \<open>correlate\<close>, \<open>ImportPeople\<close>, \<open>SyncConnector\<close> with \<open>SyncSCIM\<close>, \<open>SyncLDAP\<close>,
    \<open>SyncNative\<close>, \<open>failSync\<close>, and \<open>executeRemoteAction\<close>. \<open>AccessReview\<close>: \<open>DecideReview\<close>.
  \<^item> \<open>NativeHttp\<close>, \<open>Provider\<close>, \<open>Okta\<close>, \<open>Entra\<close>, \<open>GoogleWorkspace\<close>, \<open>GitHub\<close>, \<open>Scim\<close>, \<open>Ldap\<close>: the
    connector clients with their URL checks, dialers, redirects, retries, pagination and JSON decoding.
    Pagination has the bounds of the source (100 pages), attempts too (three), so these loops recurse on a
    number that the code itself counts.
  \<^item> \<open>Notifier\<close>, \<open>SecretStore\<close>: the in-app and webhook notifiers and both secret stores.
  \<^item> \<open>Auth\<close>: \<open>auth/password.go\<close> (the text form of a password hash) and \<open>auth/totp.go\<close> (base32, SHA-1, HMAC and the
    dynamic truncation), \<open>Report\<close>: \<open>reports/pdf.go\<close> byte by byte, \<open>Config\<close>: \<open>Load\<close> with the parts of \<open>strconv\<close>,
    \<open>time\<close>, \<open>net\<close> and \<open>net/url\<close> it uses.
  \<^item> \<open>ApiBase\<close>: the record \<open>apidb\<close> of the whole database (the tables of \<open>Store\<close>, \<open>Queue\<close> and \<open>RateLimit\<close> as parts of
    it), requests, answers and \<open>decodeJSON\<close>. \<open>Sessions\<close>: the users and sessions of \<open>database/database.go\<close>, \<open>Bootstrap\<close>
    and \<open>Migrate\<close>. \<open>ApiAuth\<close>: the middleware, \<open>rate\<close>, \<open>auth\<close>, \<open>csrf\<close>, \<open>allow\<close>, \<open>login\<close> and the handlers of the own
    account. \<open>ApiRouter\<close>: the mux and the switch of the function \<open>api\<close> in its order. \<open>ApiLifecycle\<close>, \<open>ApiAdmin\<close>,
    \<open>ApiProduct\<close>, \<open>ApiReports\<close>: the handlers that change the database, each with its validation and every error it
    answers. \<open>ApiReads\<close>: the handlers that list, search and show rows, with their joins, filters, orders and pages, the
    dashboard and the stream of a case's events. \<open>ApiServer\<close>: the server as one function from a request to its answer,
    with a handler for each of the 51 routes.
  \<^item> \<open>Process\<close>: the scheduler tick with its advisory lock, the periodic tasks, the handlers of the jobs,
    \<open>openDatabase\<close> and the health check. \<open>Startup\<close>: the function \<open>main\<close> of \<open>cmd/server/main.go\<close> up to the point where it
    serves, with each step that can end it, and \<open>httpapi.New\<close>.

  \<^bold>\<open>What the lemmas show.\<close>
  \<^item> \<open>LifecycleProps\<close>, \<open>PlanProps\<close>, \<open>CaseProps\<close>, \<open>Frames\<close>, \<open>EndToEnd\<close>: a VERIFIED verdict means that all linked
    accounts are disabled and nothing is open; accounts are marked disabled only after the provider was read
    back; nothing runs without approval or twice; plans and approvals are atomic; statuses follow the state
    machine; every outcome has evidence.
  \<^item> \<open>Inventory\<close>, \<open>SyncProps\<close>, \<open>ReconcileProps\<close>: a synchronization refines one complete discovery on the
    abstract inventory or leaves it alone; an import refines the update of a roster; correlation adds only
    justified links.
  \<^item> \<open>Traffic\<close>: which requests leave the service, to which host, and that a remote action is confirmed.
  \<^item> \<open>ApiTypes\<close>, \<open>ApiGate\<close>, \<open>ApiLogin\<close>: every request is answered, with one of the documented codes and the security headers; a handler is
    reached, and the database changed other than by a login, only with a live session, the permission of the route
    and, for methods that are not safe, the CSRF token; a session is opened only after both
    factors; a changed password ends all sessions of the user.
  \<^item> \<open>ApiTenant\<close>, \<open>TenantService\<close>, \<open>ApiWrites\<close>: tenants are isolated, in both directions. The answers to reading requests are a
    function of the rows of the session's organization (two runs on databases that agree there can not be told apart,
    \<open>confined\<close>); and no sequence of requests and jobs of an organization changes a row of another one (the frames
    \<open>own_rows\<close> of the service and \<open>within\<close> of the whole database).
  \<^item> \<open>Startup\<close>: what is started is configured safely, and its parts are those that the other theorems ask for.
  \<^item> The theories of the single components hold their own invariants, bounds, termination and round trips.
  The contracts between components are locales with interpretations on the definitions of the model:
  \<open>state_frame\<close>, \<open>db_frame\<close> and \<open>case_frame\<close> (relations that combinators, statements, transactions and the
  run of a case keep), \<open>step_invariant\<close> (invariants of transition systems), \<open>native_client\<close> (what the
  service expects of a provider client), \<open>dial_loop\<close> (the address loops of the three dialers) and \<open>db_part\<close> (a
  component's tables inside the whole database).

  \<^bold>\<open>Bounds and fuel.\<close> Loops that the source counts recurse on its counter: three attempts, 100 pages, the 16 attempts
  of \<open>openDatabase\<close>, whose pauses end at its deadline. The event stream recurses on the number of seconds the client
  stays. Fuel stands where the source has none: the CSV rows (\<open>ParsePreview\<close>; more than the number of rows is proved
  enough where the input ends) and the terms of \<open>time.ParseDuration\<close> (the length of the text, of which each term uses at
  least one byte).

  \<^bold>\<open>Parameters.\<close> AES-GCM, Argon2id, the entropy of nonces, salts and tokens, the Vault service, the directory
  server, the DNS resolver, the HTTP peers, the files of the migrations and their effect, the environment, the collation of
  the database, and the parsers of packages outside of the repository (\<open>uuid.Parse\<close>, \<open>mail.ParseAddress\<close>) are arguments. Only the round trip of credentials
  assumes a law of one of them (opening a sealed message gives it back); all other theorems hold for every behaviour of
  these systems.

  \<^bold>\<open>Not modelled.\<close> The signals, listeners, server timeouts and the shutdown of the process. Statements of different
  requests do not interleave, except in the queue, the pool and the rate limiter, whose step relations have all
  interleavings. Log output has no effect on the state and is left out, as are timeouts of contexts, which appear as
  faults of the statement or exchange they interrupt. Data types of \<open>domain/domain.go\<close> that no code constructs are left
  out. The TypeScript frontend and the container files are outside of the Go program.
\<close>

end
